(* ===== verification/Prelude.thy ===== *)
theory Prelude
  imports Complex_Main "HOL-Library.AList" "HOL-Library.List_Lexorder" "HOL-Library.Char_ord"
begin

text \<open>
  What the components share: the Python string, slice, integer and dictionary operations the
  services use, written over HOL's \<open>string\<close> (a list of bytes; the code's identifiers, paths,
  headers and topics are ASCII), decimal rendering with its inverse, and the interfaces
  (locales) several components rely on: admission against a limit, keyed stores and
  tenant-scoped services. Floating point values of the source (time stamps, scores, back-off factors) are
  rationals here: the code only compares, adds and scales them.
\<close>

named_theorems py_str "characteristic equations of the Python string operations"
named_theorems frame "state components an operation leaves alone"

section \<open>Results\<close>

text \<open>A fallible operation returns \<open>Inl e\<close> where the source raises \<open>e\<close>.\<close>

type_synonym ('e, 'a) res = "'e + 'a"

definition res_bind :: "('e, 'a) res \<Rightarrow> ('a \<Rightarrow> ('e, 'b) res) \<Rightarrow> ('e, 'b) res" where
  "res_bind r f = (case r of Inl e \<Rightarrow> Inl e | Inr x \<Rightarrow> f x)"

lemma res_bind_simps [simp]:
  "res_bind (Inl e) f = Inl e"
  "res_bind (Inr x) f = f x"
  by (simp_all add: res_bind_def)

lemma res_bind_Inr_iff:
  "res_bind r f = Inr y \<longleftrightarrow> (\<exists>x. r = Inr x \<and> f x = Inr y)"
  by (cases r) auto

lemma res_bind_Inl_iff:
  "res_bind r f = Inl e \<longleftrightarrow> r = Inl e \<or> (\<exists>x. r = Inr x \<and> f x = Inl e)"
  by (cases r) auto

definition is_ok :: "('e, 'a) res \<Rightarrow> bool" where
  "is_ok r = (case r of Inl _ \<Rightarrow> False | Inr _ \<Rightarrow> True)"

lemma is_ok_simps [simp]: "\<not> is_ok (Inl e)" "is_ok (Inr x)"
  by (simp_all add: is_ok_def)

section \<open>Python strings\<close>

definition startswith :: "string \<Rightarrow> string \<Rightarrow> bool" where
  "startswith s p \<longleftrightarrow> take (length p) s = p"

definition endswith :: "string \<Rightarrow> string \<Rightarrow> bool" where
  "endswith s p \<longleftrightarrow> length p \<le> length s \<and> drop (length s - length p) s = p"

lemma startswith_append [simp]: "startswith (p @ s) p"
  by (simp add: startswith_def)

lemma startswith_Nil [simp]: "startswith s []"
  by (simp add: startswith_def)

lemma startswith_iff: "startswith s p \<longleftrightarrow> (\<exists>r. s = p @ r)"
  unfolding startswith_def by (metis append_eq_conv_conj append_take_drop_id)

lemma endswith_append [simp]: "endswith (s @ p) p"
  by (simp add: endswith_def)

lemma endswith_iff: "endswith s p \<longleftrightarrow> (\<exists>r. s = r @ p)"
  unfolding endswith_def
  by (metis append_take_drop_id append_eq_conv_conj diff_add_inverse2 le_add2 length_append)

definition lower_char :: "char \<Rightarrow> char" where
  "lower_char c = (if 65 \<le> (of_char c :: nat) \<and> (of_char c :: nat) \<le> 90 then char_of (of_char c + 32 :: nat) else c)"

definition lower :: "string \<Rightarrow> string" where
  "lower s = map lower_char s"

lemma length_lower [simp]: "length (lower s) = length s"
  by (simp add: lower_def)

text \<open>\<open>str.isspace\<close> on ASCII: tab, newline, vertical tab, form feed, carriage return,
  the four separators 28-31 and the blank. \<open>str.strip\<close> removes these at both ends.\<close>

definition is_space :: "char \<Rightarrow> bool" where
  "is_space c \<longleftrightarrow> (let n = of_char c :: nat in (9 \<le> n \<and> n \<le> 13) \<or> (28 \<le> n \<and> n \<le> 32))"

definition lstrip :: "string \<Rightarrow> string" where
  "lstrip s = dropWhile is_space s"

definition rstrip :: "string \<Rightarrow> string" where
  "rstrip s = rev (dropWhile is_space (rev s))"

definition strip :: "string \<Rightarrow> string" where
  "strip s = rstrip (lstrip s)"

definition rstrip_char :: "char \<Rightarrow> string \<Rightarrow> string" where
  "rstrip_char c s = rev (dropWhile (\<lambda>x. x = c) (rev s))"

text \<open>\<open>s.split(c)\<close> with a one-character separator.\<close>

fun split_on :: "char \<Rightarrow> string \<Rightarrow> string list" where
  "split_on c [] = [[]]"
| "split_on c (x # xs) =
     (if x = c then [] # split_on c xs
      else (case split_on c xs of [] \<Rightarrow> [[x]] | y # ys \<Rightarrow> (x # y) # ys))"

text \<open>\<open>s.split(c, 1)\<close>: at most one cut, at the first separator.\<close>

definition split_once :: "char \<Rightarrow> string \<Rightarrow> string list" where
  "split_once c s =
     (let a = takeWhile (\<lambda>x. x \<noteq> c) s
      in if a = s then [s] else [a, drop (Suc (length a)) s])"

fun join :: "string \<Rightarrow> string list \<Rightarrow> string" where
  "join sep [] = []"
| "join sep [x] = x"
| "join sep (x # y # ys) = x @ sep @ join sep (y # ys)"

lemma split_on_neq_Nil [simp]: "split_on c s \<noteq> []"
  by (induction s) (auto split: list.split)

lemma join_cons_cons:
  "ys \<noteq> [] \<Longrightarrow> join sep (x # ys) = x @ sep @ join sep ys"
  by (cases ys) auto

lemma join_split_on: "join [c] (split_on c s) = s"
proof (induction s)
  case (Cons x xs)
  obtain y ys where s: "split_on c xs = y # ys"
    by (cases "split_on c xs") auto
  with Cons show ?case
    by (cases ys) (auto simp: join_cons_cons)
qed simp

lemma split_on_no_sep: "y \<in> set (split_on c s) \<Longrightarrow> c \<notin> set y"
  by (induction s arbitrary: y) (auto split: list.splits if_splits)

lemma split_on_append_sep:
  "c \<notin> set a \<Longrightarrow> split_on c (a @ c # b) = a # split_on c b"
  by (induction a) auto

lemma split_on_single: "c \<notin> set a \<Longrightarrow> split_on c a = [a]"
  by (induction a) auto

lemma split_on_join:
  "xs \<noteq> [] \<Longrightarrow> \<forall>x \<in> set xs. c \<notin> set x \<Longrightarrow> split_on c (join [c] xs) = xs"
  by (induction xs rule: induct_list012) (auto simp: split_on_append_sep split_on_single)

section \<open>Python slices and indexing\<close>

text \<open>\<open>xs[i:j]\<close> with the clamping of Python: negative bounds count from the end.\<close>

definition clamp_index :: "nat \<Rightarrow> int \<Rightarrow> nat" where
  "clamp_index n i = (if i < 0 then nat (max 0 (int n + i)) else min n (nat i))"

definition py_slice :: "'a list \<Rightarrow> int \<Rightarrow> int \<Rightarrow> 'a list" where
  "py_slice xs i j =
     (let a = clamp_index (length xs) i; b = clamp_index (length xs) j
      in take (b - a) (drop a xs))"

lemma py_slice_nat:
  assumes "0 \<le> i" and "i \<le> j" and "j \<le> int (length xs)"
  shows "py_slice xs i j = take (nat j - nat i) (drop (nat i) xs)"
  using assms by (auto simp: py_slice_def clamp_index_def min_def nat_le_iff Let_def)

lemma length_py_slice_le: "length (py_slice xs i j) \<le> length xs"
  by (simp add: py_slice_def Let_def)

section \<open>Decimal numbers\<close>

definition digit_char :: "nat \<Rightarrow> char" where
  "digit_char d = char_of (48 + d)"

definition is_digit :: "char \<Rightarrow> bool" where
  "is_digit c \<longleftrightarrow> 48 \<le> (of_char c :: nat) \<and> (of_char c :: nat) \<le> 57"

definition digit_val :: "char \<Rightarrow> nat" where
  "digit_val c = of_char c - 48"

fun show_nat :: "nat \<Rightarrow> string" where
  "show_nat n = (if n < 10 then [digit_char n] else show_nat (n div 10) @ [digit_char (n mod 10)])"

declare show_nat.simps [simp del]

definition show_int :: "int \<Rightarrow> string" where
  "show_int i = (if i < 0 then ''-'' @ show_nat (nat (- i)) else show_nat (nat i))"

definition read_digits :: "string \<Rightarrow> nat" where
  "read_digits s = foldl (\<lambda>n c. 10 * n + digit_val c) 0 s"

lemma of_char_digit_char: "d < 10 \<Longrightarrow> of_char (digit_char d) = 48 + d"
  by (simp add: digit_char_def)

lemma is_digit_digit_char [simp]: "d < 10 \<Longrightarrow> is_digit (digit_char d)"
  by (simp add: is_digit_def of_char_digit_char)

lemma digit_val_digit_char [simp]: "d < 10 \<Longrightarrow> digit_val (digit_char d) = d"
  by (simp add: digit_val_def of_char_digit_char)

lemma show_nat_digits: "c \<in> set (show_nat n) \<Longrightarrow> is_digit c"
proof (induction n rule: show_nat.induct)
  case (1 n)
  then show ?case
    by (cases "n < 10") (auto simp: show_nat.simps [of n])
qed

lemma show_nat_neq_Nil [simp]: "show_nat n \<noteq> []"
  by (simp add: show_nat.simps [of n])

lemma read_digits_show_nat [simp]: "read_digits (show_nat n) = n"
proof (induction n rule: show_nat.induct)
  case (1 n)
  then show ?case
    by (cases "n < 10") (simp_all add: show_nat.simps [of n] read_digits_def)
qed

lemma show_nat_inj [simp]: "show_nat m = show_nat n \<longleftrightarrow> m = n"
  by (metis read_digits_show_nat)

lemma digit_neq_colon: "is_digit c \<Longrightarrow> c \<noteq> CHR '':''"
  by (auto simp: is_digit_def)

lemma colon_notin_show_nat [simp]: "CHR '':'' \<notin> set (show_nat n)"
  using show_nat_digits digit_neq_colon by blast

text \<open>Two strings cut at their last separator agree when the parts after it are free of it.\<close>

lemma append_sep_inj:
  assumes "a @ c # x = b @ c # y" and "c \<notin> set x" and "c \<notin> set y"
  shows "a = b \<and> x = y"
  using assms
  by (auto simp: append_eq_append_conv2 append_eq_Cons_conv Cons_eq_append_conv)

text \<open>
  Python's \<open>int(s)\<close> on ASCII strings: surrounding white space, one optional sign, then decimal
  digits that single underscores may separate; anything else raises \<open>ValueError\<close>.
\<close>

fun digits_ok :: "string \<Rightarrow> bool" where
  "digits_ok [] = False"
| "digits_ok [c] = is_digit c"
| "digits_ok (c # d # cs) =
     (is_digit c \<and> (if d = CHR ''_'' then digits_ok cs else digits_ok (d # cs)))"

definition py_int :: "string \<Rightarrow> int option" where
  "py_int s =
     (let t = strip s;
          (neg, u) = (case t of
              [] \<Rightarrow> (False, [])
            | c # cs \<Rightarrow> if c = CHR ''-'' then (True, cs)
                        else if c = CHR ''+'' then (False, cs) else (False, t))
      in if digits_ok u
         then Some ((if neg then - 1 else 1) * int (read_digits (filter (\<lambda>c. c \<noteq> CHR ''_'') u)))
         else None)"

lemma digits_ok_all_digits: "s \<noteq> [] \<Longrightarrow> \<forall>c \<in> set s. is_digit c \<Longrightarrow> digits_ok s"
  by (induction s rule: digits_ok.induct) (auto simp: is_digit_def)

lemma digit_not_space: "is_digit c \<Longrightarrow> \<not> is_space c"
  by (auto simp: is_digit_def is_space_def Let_def)

lemma strip_id: "s \<noteq> [] \<Longrightarrow> \<not> is_space (hd s) \<Longrightarrow> \<not> is_space (last s) \<Longrightarrow> strip s = s"
proof -
  assume s: "s \<noteq> []" "\<not> is_space (hd s)" "\<not> is_space (last s)"
  then have "dropWhile is_space s = s" by (cases s) auto
  moreover from s have "dropWhile is_space (rev s) = rev s"
    by (cases "rev s") (auto simp: last_rev hd_rev [symmetric])
  ultimately show ?thesis by (simp add: strip_def lstrip_def rstrip_def)
qed

lemma py_int_show_nat [simp]: "py_int (show_nat n) = Some (int n)"
proof -
  have d: "\<forall>c \<in> set (show_nat n). is_digit c" using show_nat_digits by blast
  have st: "strip (show_nat n) = show_nat n"
    using d digit_not_space hd_in_set last_in_set show_nat_neq_Nil
    by (intro strip_id) blast+
  obtain c cs where cc: "show_nat n = c # cs" by (cases "show_nat n") auto
  then have cd: "c \<noteq> CHR ''-''" "c \<noteq> CHR ''+''" using d by (auto simp: is_digit_def)
  have f: "filter (\<lambda>c. c \<noteq> CHR ''_'') (show_nat n) = show_nat n"
    using d by (auto simp: filter_id_conv is_digit_def)
  have "digits_ok (show_nat n)" using d by (intro digits_ok_all_digits) auto
  with cc cd st f show ?thesis
    by (simp add: py_int_def) (metis f cc read_digits_show_nat)
qed

lemma py_int_show_int [simp]: "py_int (show_int i) = Some i"
proof (cases "i < 0")
  case True
  let ?s = "show_nat (nat (- i))"
  have d: "\<forall>c \<in> set ?s. is_digit c" using show_nat_digits by blast
  have l: "last (CHR ''-'' # ?s) \<in> set ?s" by simp
  have st: "strip (CHR ''-'' # ?s) = CHR ''-'' # ?s"
    using d l digit_not_space by (intro strip_id) (auto simp: is_space_def)
  have f: "filter (\<lambda>c. c \<noteq> CHR ''_'') ?s = ?s"
    using d by (auto simp: filter_id_conv is_digit_def)
  have "digits_ok ?s" using d by (intro digits_ok_all_digits) auto
  with st f True show ?thesis by (simp add: py_int_def show_int_def)
qed (simp add: show_int_def)

section \<open>Python dictionaries\<close>

text \<open>
  A dictionary keeps its insertion order: an association list with distinct keys, where
  \<open>AList.update\<close> overwrites in place or appends, as \<open>d[k] = v\<close> does.
\<close>

type_synonym 'v dict = "(string \<times> 'v) list"

abbreviation dict_get :: "'v dict \<Rightarrow> string \<Rightarrow> 'v option" where
  "dict_get d k \<equiv> map_of d k"

abbreviation dict_set :: "string \<Rightarrow> 'v \<Rightarrow> 'v dict \<Rightarrow> 'v dict" where
  "dict_set k v d \<equiv> AList.update k v d"

definition get_or :: "'v dict \<Rightarrow> string \<Rightarrow> 'v \<Rightarrow> 'v" where
  "get_or d k v = (case map_of d k of None \<Rightarrow> v | Some x \<Rightarrow> x)"

lemma dict_get_set [simp]: "map_of (AList.update k v d) k' = (if k' = k then Some v else map_of d k')"
  by (simp add: update_conv')

lemma get_or_set [simp]: "get_or (AList.update k v d) k' w = (if k' = k then v else get_or d k' w)"
  by (simp add: get_or_def)

section \<open>External services\<close>

text \<open>
  Redis, Kafka, PostgreSQL, Milvus and the Kubernetes API are not part of the repository. A call
  to one is a parameter \<open>api\<close> of the definitions that make it: it takes the command the code
  issues and the service's state, and either raises (\<open>Inl\<close>) or returns a reply, with the
  service's next state. What the code relies on is a hypothesis: \<open>implements api view spec\<close> says
  that a call that returns behaves as the service's documentation \<open>spec\<close> prescribes on the
  abstract state \<open>view s\<close> (nothing is said of a call that raises), and \<open>available api\<close> that
  no call raises.
\<close>

type_synonym ('c, 'e, 'r, 's) api = "'c \<Rightarrow> 's \<Rightarrow> ('e + 'r) \<times> 's"

definition implements ::
  "('c, 'e, 'r, 's) api \<Rightarrow> ('s \<Rightarrow> 'a) \<Rightarrow> ('c \<Rightarrow> 'a \<Rightarrow> 'r \<times> 'a) \<Rightarrow> bool" where
  "implements api view spec \<longleftrightarrow>
     (\<forall>c s r s'. api c s = (Inr r, s') \<longrightarrow> spec c (view s) = (r, view s'))"

definition available :: "('c, 'e, 'r, 's) api \<Rightarrow> bool" where
  "available api \<longleftrightarrow> (\<forall>c s. is_ok (fst (api c s)))"

text \<open>The service that behaves exactly as documented and is never down.\<close>

definition ideal :: "('c \<Rightarrow> 'a \<Rightarrow> 'r \<times> 'a) \<Rightarrow> ('c, 'e, 'r, 'a) api" where
  "ideal spec c s = (case spec c s of (r, s') \<Rightarrow> (Inr r, s'))"

lemma implements_ideal [simp]: "implements (ideal spec) (\<lambda>s. s) spec"
  by (auto simp: implements_def ideal_def split: prod.splits)

lemma available_ideal [simp]: "available (ideal spec)"
  by (simp add: available_def ideal_def split: prod.split)

lemma implementsD:
  "implements api view spec \<Longrightarrow> api c s = (Inr r, s') \<Longrightarrow> spec c (view s) = (r, view s')"
  by (simp add: implements_def)

lemma available_cases:
  assumes "available api"
  obtains r s' where "api c s = (Inr r, s')"
proof -
  have "is_ok (fst (api c s))" using assms by (simp add: available_def)
  then show thesis using that by (cases "api c s"; cases "fst (api c s)") auto
qed

section \<open>Interfaces\<close>

subsection \<open>Admission against a limit\<close>

text \<open>
  A check answers a request and charges a usage counter. \<open>inv\<close> and \<open>legal\<close> delimit the states
  and requests for which it does so exactly (for the quota service: the counter has not expired
  between two checks).
\<close>

primrec run_all :: "('c \<Rightarrow> 's \<Rightarrow> 'r \<times> 's) \<Rightarrow> 'c list \<Rightarrow> 's \<Rightarrow> 'r list \<times> 's" where
  "run_all f [] s = ([], s)"
| "run_all f (c # cs) s =
     (case f c s of (r, s') \<Rightarrow> case run_all f cs s' of (rs, s'') \<Rightarrow> (r # rs, s''))"

lemma run_all_append:
  "run_all f (xs @ ys) s =
     (case run_all f xs s of (rs, s') \<Rightarrow> case run_all f ys s' of (rs', s'') \<Rightarrow> (rs @ rs', s''))"
  by (induction xs arbitrary: s) (auto split: prod.splits)

lemma length_run_all: "run_all f cs s = (rs, s') \<Longrightarrow> length rs = length cs"
  by (induction cs arbitrary: s rs) (auto split: prod.splits)

locale admission =
  fixes check :: "'c \<Rightarrow> 's \<Rightarrow> bool \<times> 's"
    and amount :: "'c \<Rightarrow> int"
    and legal :: "'c \<Rightarrow> bool"
    and inv :: "'s \<Rightarrow> bool"
    and usage :: "'s \<Rightarrow> int"
    and limit :: int
  assumes check_inv: "inv s \<Longrightarrow> legal c \<Longrightarrow> check c s = (ok, s') \<Longrightarrow> inv s'"
    and check_admits: "inv s \<Longrightarrow> legal c \<Longrightarrow> check c s = (ok, s') \<Longrightarrow> ok \<longleftrightarrow> usage s + amount c \<le> limit"
    and check_charges: "inv s \<Longrightarrow> legal c \<Longrightarrow> check c s = (ok, s') \<Longrightarrow>
          usage s' = usage s + (if ok then amount c else 0)"
begin

lemma run_step:
  assumes "inv s" and "list_all legal (c # cs)" and "run_all check (c # cs) s = (oks, s')"
  obtains ok oks' s1 where "oks = ok # oks'" and "run_all check cs s1 = (oks', s')"
    and "inv s1" and "ok \<longleftrightarrow> usage s + amount c \<le> limit"
    and "usage s1 = usage s + (if ok then amount c else 0)"
proof -
  obtain ok s1 where c: "check c s = (ok, s1)" by fastforce
  obtain oks' where r: "run_all check cs s1 = (oks', s')" "oks = ok # oks'"
    using assms(3) c by (auto split: prod.splits)
  from assms(2) have "legal c" by simp
  then show thesis
    using that r check_inv [OF assms(1) _ c] check_admits [OF assms(1) _ c] check_charges [OF assms(1) _ c]
    by blast
qed

lemma run_charges:
  "inv s \<Longrightarrow> list_all legal cs \<Longrightarrow> run_all check cs s = (oks, s') \<Longrightarrow>
     inv s' \<and> usage s' = usage s + (\<Sum>(c, ok) \<leftarrow> zip cs oks. if ok then amount c else 0)"
proof (induction cs arbitrary: s oks)
  case (Cons c cs)
  obtain ok oks' s1 where "oks = ok # oks'" "run_all check cs s1 = (oks', s')"
    "inv s1" "usage s1 = usage s + (if ok then amount c else 0)"
    using run_step [OF Cons.prems] by blast
  then show ?case using Cons.IH [of s1 oks'] Cons.prems(2) by auto
qed auto

lemma run_within_limit:
  "inv s \<Longrightarrow> list_all legal cs \<Longrightarrow> run_all check cs s = (oks, s') \<Longrightarrow> usage s \<le> limit \<Longrightarrow> usage s' \<le> limit"
proof (induction cs arbitrary: s oks)
  case (Cons c cs)
  obtain ok oks' s1 where "oks = ok # oks'" "run_all check cs s1 = (oks', s')" "inv s1"
    "ok \<longleftrightarrow> usage s + amount c \<le> limit" "usage s1 = usage s + (if ok then amount c else 0)"
    using run_step [OF Cons.prems(1-3)] by blast
  then show ?case using Cons.IH [of s1 oks'] Cons.prems(2,4) by (auto split: if_splits)
qed auto

lemma run_exhausted:
  "inv s \<Longrightarrow> list_all legal cs \<Longrightarrow> list_all (\<lambda>c. 0 < amount c) cs \<Longrightarrow> limit \<le> usage s \<Longrightarrow>
     run_all check cs s = (oks, s') \<Longrightarrow> True \<notin> set oks"
proof (induction cs arbitrary: s oks)
  case (Cons c cs)
  obtain ok oks' s1 where s1: "oks = ok # oks'" "run_all check cs s1 = (oks', s')" "inv s1"
    "ok \<longleftrightarrow> usage s + amount c \<le> limit" "usage s1 = usage s + (if ok then amount c else 0)"
    using run_step [OF Cons.prems(1,2,5)] by blast
  then have "\<not> ok" using Cons.prems(3,4) by auto
  with s1 Cons show ?case by auto
qed auto

end

subsection \<open>Keyed stores\<close>

text \<open>
  A store whose write replaces what its key holds: the rows of a vector collection under their
  chunk ids, the status rows of source files, the cluster's objects under their names.
\<close>

locale keyed_store =
  fixes put :: "'k \<Rightarrow> 'v \<Rightarrow> 's \<Rightarrow> 's" and lookup :: "'s \<Rightarrow> 'k \<Rightarrow> 'v option"
  assumes lookup_put: "lookup (put k v s) k' = (if k' = k then Some v else lookup s k')"
begin

lemma lookup_put_same [simp]: "lookup (put k v s) k = Some v"
  by (simp add: lookup_put)

lemma lookup_put_other: "k' \<noteq> k \<Longrightarrow> lookup (put k v s) k' = lookup s k'"
  by (simp add: lookup_put)

text \<open>Writing a list of entries: the last one of a key stays.\<close>

lemma lookup_puts:
  "lookup (fold (\<lambda>(k, v). put k v) kvs s) k' =
     (case map_of (rev kvs) k' of None \<Rightarrow> lookup s k' | Some v \<Rightarrow> Some v)"
  by (induction kvs arbitrary: s) (auto simp: lookup_put map_add_def split: option.split prod.split)

lemma lookup_puts_other:
  assumes "k' \<notin> fst ` set kvs"
  shows "lookup (fold (\<lambda>(k, v). put k v) kvs s) k' = lookup s k'"
proof -
  have "map_of (rev kvs) k' = None" using assms by (simp add: map_of_eq_None_iff)
  then show ?thesis by (simp add: lookup_puts)
qed

lemma puts_idempotent:
  "lookup (fold (\<lambda>(k, v). put k v) kvs (fold (\<lambda>(k, v). put k v) kvs s)) k' =
   lookup (fold (\<lambda>(k, v). put k v) kvs s) k'"
  by (simp add: lookup_puts split: option.split)

end

subsection \<open>Tenant-scoped services\<close>

text \<open>
  A service that many tenants share: what one tenant sees of the state changes only by that
  tenant's requests.
\<close>

locale tenant_scoped =
  fixes serve :: "'r \<Rightarrow> 's \<Rightarrow> 's" and tenant_of :: "'r \<Rightarrow> 't" and view :: "'t \<Rightarrow> 's \<Rightarrow> 'v" and inv :: "'s \<Rightarrow> bool"
  assumes serve_inv: "inv s \<Longrightarrow> inv (serve r s)"
    and serve_other: "inv s \<Longrightarrow> tenant_of r \<noteq> t \<Longrightarrow> view t (serve r s) = view t s"
begin

lemma serve_all_inv: "inv s \<Longrightarrow> inv (fold serve rs s)"
  by (induction rs arbitrary: s) (simp_all add: serve_inv)

lemma serve_others: "inv s \<Longrightarrow> t \<notin> tenant_of ` set rs \<Longrightarrow> view t (fold serve rs s) = view t s"
  by (induction rs arbitrary: s) (auto simp: serve_other serve_inv)

text \<open>A request that changes what a tenant sees is one of the tenant's own.\<close>

lemma changed_by_own: "inv s \<Longrightarrow> view t (fold serve rs s) \<noteq> view t s \<Longrightarrow> \<exists>r \<in> set rs. tenant_of r = t"
  using serve_others [of s t rs] by auto

end

text \<open>Unfolding equations that evaluate the string operations on literals.\<close>

lemmas str_eval = py_int_def strip_def lstrip_def rstrip_def is_space_def is_digit_def digit_val_def
  read_digits_def lower_def lower_char_def startswith_def endswith_def Let_def

end
