(* ===== verification/Redis.thy ===== *)
theory Redis
  imports Prelude
begin

text \<open>
  The Redis commands the quota service issues, and what the Redis documentation says they do:
  a key holds an integer and an optional deadline (in seconds); a key past its deadline does not
  exist; INCRBY/DECRBY start a missing key at 0 without a deadline and keep the deadline of a
  live one; EXPIRE sets the deadline of a live key; SETEX stores a value with a deadline. A
  pipeline (\<open>pipe.execute()\<close>) is a list of commands run as one transaction. This is the
  specification a deployed server is assumed to implement, not code of the repository.
\<close>

datatype rcmd =
    IncrBy string int
  | DecrBy string int
  | Expire string nat
  | SetEx string nat int
  | Exists string
  | Get string

datatype reply = Nil_Reply | Int_Reply int

record rentry =
  re_val :: int
  re_deadline :: "nat option"

record rstate =
  rs_now :: nat
  rs_db :: "string \<rightharpoonup> rentry"

type_synonym 's redis_api = "(rcmd list, string, reply list, 's) api"

definition live :: "rstate \<Rightarrow> string \<Rightarrow> rentry option" where
  "live r k = (case rs_db r k of
       None \<Rightarrow> None
     | Some e \<Rightarrow> (case re_deadline e of
           None \<Rightarrow> Some e
         | Some t \<Rightarrow> if rs_now r < t then Some e else None))"

definition counter :: "rstate \<Rightarrow> string \<Rightarrow> int" where
  "counter r k = (case live r k of None \<Rightarrow> 0 | Some e \<Rightarrow> re_val e)"

definition add_counter :: "string \<Rightarrow> int \<Rightarrow> rstate \<Rightarrow> rstate" where
  "add_counter k n r = r\<lparr>rs_db := (rs_db r)(k \<mapsto>
     (case live r k of
        None \<Rightarrow> \<lparr>re_val = n, re_deadline = None\<rparr>
      | Some e \<Rightarrow> e\<lparr>re_val := re_val e + n\<rparr>))\<rparr>"

definition set_deadline :: "string \<Rightarrow> nat \<Rightarrow> rstate \<Rightarrow> rstate" where
  "set_deadline k t r = (case live r k of
       None \<Rightarrow> r
     | Some e \<Rightarrow> r\<lparr>rs_db := (rs_db r)(k \<mapsto> e\<lparr>re_deadline := Some (rs_now r + t)\<rparr>)\<rparr>)"

fun redis_cmd :: "rcmd \<Rightarrow> rstate \<Rightarrow> reply \<times> rstate" where
  "redis_cmd (IncrBy k n) r = (Int_Reply (counter r k + n), add_counter k n r)"
| "redis_cmd (DecrBy k n) r = (Int_Reply (counter r k - n), add_counter k (- n) r)"
| "redis_cmd (Expire k t) r =
     (Int_Reply (if live r k = None then 0 else 1), set_deadline k t r)"
| "redis_cmd (SetEx k t v) r =
     (Int_Reply 1, r\<lparr>rs_db := (rs_db r)(k \<mapsto> \<lparr>re_val = v, re_deadline = Some (rs_now r + t)\<rparr>)\<rparr>)"
| "redis_cmd (Exists k) r = (Int_Reply (if live r k = None then 0 else 1), r)"
| "redis_cmd (Get k) r = (case live r k of None \<Rightarrow> Nil_Reply | Some e \<Rightarrow> Int_Reply (re_val e), r)"

fun redis_run :: "rcmd list \<Rightarrow> rstate \<Rightarrow> reply list \<times> rstate" where
  "redis_run [] r = ([], r)"
| "redis_run (c # cs) r =
     (case redis_cmd c r of (x, r') \<Rightarrow> case redis_run cs r' of (xs, r'') \<Rightarrow> (x # xs, r''))"

definition redis_tick :: "nat \<Rightarrow> rstate \<Rightarrow> rstate" where
  "redis_tick d r = r\<lparr>rs_now := rs_now r + d\<rparr>"

definition redis_empty :: rstate where
  "redis_empty = \<lparr>rs_now = 0, rs_db = Map.empty\<rparr>"

lemma live_add_counter [simp]:
  "live (add_counter k n r) k' =
     (if k' = k
      then Some (case live r k of None \<Rightarrow> \<lparr>re_val = n, re_deadline = None\<rparr>
                 | Some e \<Rightarrow> e\<lparr>re_val := re_val e + n\<rparr>)
      else live r k')"
  by (auto simp: live_def add_counter_def split: option.splits)

lemma counter_add_counter [simp]:
  "counter (add_counter k n r) k' = counter r k' + (if k' = k then n else 0)"
  by (simp add: counter_def split: option.split)

lemma rs_now_add_counter [simp, frame]: "rs_now (add_counter k n r) = rs_now r"
  by (simp add: add_counter_def)

lemma live_set_deadline [simp]:
  "0 < t \<Longrightarrow> live (set_deadline k t r) k' =
     (if k' = k then map_option (\<lambda>e. e\<lparr>re_deadline := Some (rs_now r + t)\<rparr>) (live r k)
      else live r k')"
  by (auto simp: live_def set_deadline_def split: option.splits)

lemma rs_now_set_deadline [simp, frame]: "rs_now (set_deadline k t r) = rs_now r"
  by (simp add: set_deadline_def split: option.split)

lemma counter_set_deadline [simp]:
  "0 < t \<Longrightarrow> counter (set_deadline k t r) k' = counter r k'"
  by (simp add: counter_def split: option.split)

text \<open>The transaction of a check: increment, then renew the deadline.\<close>

lemma redis_incr_expire:
  "redis_run [IncrBy k n, Expire k t] r =
     ([Int_Reply (counter r k + n), Int_Reply 1], set_deadline k t (add_counter k n r))"
  by simp

lemma live_incr_expire:
  "0 < t \<Longrightarrow> live (set_deadline k t (add_counter k n r)) k =
     Some \<lparr>re_val = counter r k + n, re_deadline = Some (rs_now r + t)\<rparr>"
  by (simp add: counter_def split: option.split)

lemma redis_decr:
  "redis_run [DecrBy k n] r = ([Int_Reply (counter r k - n)], add_counter k (- n) r)"
  by simp

lemma redis_get:
  "redis_run [Get k] r = ([case live r k of None \<Rightarrow> Nil_Reply | Some e \<Rightarrow> Int_Reply (re_val e)], r)"
  by simp

lemma live_empty [simp]: "live redis_empty k = None"
  by (simp add: live_def redis_empty_def)

lemma counter_empty [simp]: "counter redis_empty k = 0"
  by (simp add: counter_def)

lemma counter_store_other:
  "k' \<noteq> k \<Longrightarrow> counter (r\<lparr>rs_db := (rs_db r)(k \<mapsto> x)\<rparr>) k' = counter r k'"
  by (simp add: counter_def live_def split: option.split)

end
