(* ===== verification/Quota_Service.thy ===== *)
theory Quota_Service
  imports Redis
begin

text \<open>
  \<open>services/quota-service/src/quota_service.py\<close>: the quota check (increment and roll back, or
  read only), the recording of usage with an idempotency key, and the usage query. Redis is the
  parameter \<open>api\<close>, the limit resolver of the constructor the parameter \<open>get_limit\<close>. The
  Prometheus objects the constructor accepts, or \<open>None\<close>, are optional parts of the state; logging
  and tracing are left out.
\<close>

section \<open>Results and metrics\<close>

datatype quota_status = UNSPECIFIED | ALLOWED | DENIED | UNLIMITED

primrec status_value :: "quota_status \<Rightarrow> int" where
  "status_value UNSPECIFIED = 0"
| "status_value ALLOWED = 1"
| "status_value DENIED = 2"
| "status_value UNLIMITED = 3"

primrec status_name :: "quota_status \<Rightarrow> string" where
  "status_name UNSPECIFIED = ''UNSPECIFIED''"
| "status_name ALLOWED = ''ALLOWED''"
| "status_name DENIED = ''DENIED''"
| "status_name UNLIMITED = ''UNLIMITED''"

text \<open>An \<open>IntEnum\<close> is ordered by its values.\<close>

instantiation quota_status :: linorder
begin

definition less_eq_quota_status :: "quota_status \<Rightarrow> quota_status \<Rightarrow> bool" where
  "less_eq_quota_status a b \<longleftrightarrow> status_value a \<le> status_value b"

definition less_quota_status :: "quota_status \<Rightarrow> quota_status \<Rightarrow> bool" where
  "less_quota_status a b \<longleftrightarrow> status_value a < status_value b"

instance
proof
  fix a b c :: quota_status
  show "a < b \<longleftrightarrow> a \<le> b \<and> \<not> b \<le> a"
    by (auto simp: less_eq_quota_status_def less_quota_status_def)
  show "a \<le> a" by (simp add: less_eq_quota_status_def)
  show "a \<le> b \<Longrightarrow> b \<le> c \<Longrightarrow> a \<le> c" by (simp add: less_eq_quota_status_def)
  show "a \<le> b \<Longrightarrow> b \<le> a \<Longrightarrow> a = b"
    by (cases a; cases b) (auto simp: less_eq_quota_status_def)
  show "a \<le> b \<or> b \<le> a" by (auto simp: less_eq_quota_status_def)
qed

end

record check_result =
  cr_status :: quota_status
  cr_current_usage :: int
  cr_limit :: int
  cr_deny_reason :: string

record record_result =
  rr_new_total :: int
  rr_deduped :: bool

record qmetrics =
  qm_skip :: "nat option"
  qm_checks :: "((string \<times> string \<times> string) \<Rightarrow> nat) option"
  qm_exceeded :: "((string \<times> string) \<Rightarrow> nat) option"
  qm_ratio :: "((string \<times> string) \<rightharpoonup> rat) option"

record 's qstate =
  q_redis :: 's
  q_metrics :: qmetrics

definition metric_ttl :: "nat dict" where
  "metric_ttl =
     [(''API_CALLS_PER_DAY'', 86400),
      (''API_CALLS_PER_MINUTE'', 60),
      (''BYTES_PER_MONTH'', 86400 * 31),
      (''GPU_SECONDS_PER_MONTH'', 86400 * 31),
      (''VECTORS_STORED'', 86400 * 365),
      (''CONCURRENT_WORKERS'', 86400),
      (''CONNECTOR_COUNT'', 86400),
      (''USERS_PER_TENANT'', 86400)]"

definition default_ttl :: nat where
  "default_ttl = 86400"

definition ttl :: "string \<Rightarrow> nat" where
  "ttl metric = get_or metric_ttl metric default_ttl"

definition quota_key :: "string \<Rightarrow> string \<Rightarrow> string" where
  "quota_key tenant metric = ''quota:'' @ tenant @ '':'' @ metric"

definition dedup_key :: "string \<Rightarrow> string" where
  "dedup_key event_id = ''dedup:'' @ event_id"

definition count_check :: "string \<Rightarrow> string \<Rightarrow> string \<Rightarrow> qmetrics \<Rightarrow> qmetrics" where
  "count_check tenant metric status m =
     m\<lparr>qm_checks := map_option (\<lambda>f. f((tenant, metric, status) := Suc (f (tenant, metric, status)))) (qm_checks m)\<rparr>"

definition record_check_metrics :: "string \<Rightarrow> string \<Rightarrow> check_result \<Rightarrow> qmetrics \<Rightarrow> qmetrics" where
  "record_check_metrics tenant metric res m =
     (let m1 = count_check tenant metric (status_name (cr_status res)) m;
          m2 = (if cr_status res = DENIED
                then m1\<lparr>qm_exceeded := map_option (\<lambda>f. f((tenant, metric) := Suc (f (tenant, metric)))) (qm_exceeded m1)\<rparr>
                else m1)
      in if 0 < cr_limit res
         then m2\<lparr>qm_ratio := map_option (\<lambda>f. f((tenant, metric) \<mapsto> of_int (cr_current_usage res) / of_int (cr_limit res))) (qm_ratio m2)\<rparr>
         else m2)"

definition count_skip :: "qmetrics \<Rightarrow> qmetrics" where
  "count_skip m = m\<lparr>qm_skip := map_option Suc (qm_skip m)\<rparr>"

section \<open>check_quota\<close>

text \<open>The increment transaction: two commands, of whose replies the first is the new usage.\<close>

definition reserve :: "'s redis_api \<Rightarrow> string \<Rightarrow> string \<Rightarrow> int \<Rightarrow> 's \<Rightarrow> (string + int) \<times> 's" where
  "reserve api key metric amount s =
     (case api [IncrBy key amount, Expire key (ttl metric)] s of
        (Inr [Int_Reply current, _], s') \<Rightarrow> (Inr current, s')
      | (Inr _, s') \<Rightarrow> (Inl ''ValueError'', s')
      | (Inl e, s') \<Rightarrow> (Inl e, s'))"

text \<open>The decision on the returned usage, with the rollback of a denied reservation.\<close>

definition settle ::
  "'s redis_api \<Rightarrow> string \<Rightarrow> string \<Rightarrow> int \<Rightarrow> int \<Rightarrow> int \<Rightarrow> 's \<Rightarrow> (string + check_result) \<times> 's" where
  "settle api key metric amount limit current s =
     (if current > limit
      then (case api [DecrBy key amount] s of
              (Inl e, s') \<Rightarrow> (Inl e, s')
            | (Inr _, s') \<Rightarrow>
                (Inr \<lparr>cr_status = DENIED, cr_current_usage = current - amount, cr_limit = limit,
                      cr_deny_reason = ''Quota exceeded for metric '' @ metric\<rparr>, s'))
      else (Inr \<lparr>cr_status = ALLOWED, cr_current_usage = current, cr_limit = limit,
                 cr_deny_reason = ''''\<rparr>, s))"

definition read_check ::
  "'s redis_api \<Rightarrow> string \<Rightarrow> int \<Rightarrow> int \<Rightarrow> 's \<Rightarrow> (string + check_result) \<times> 's" where
  "read_check api key amount limit s =
     (case api [Get key] s of
        (Inl e, s') \<Rightarrow> (Inl e, s')
      | (Inr rs, s') \<Rightarrow>
          (let current = (case rs of [Int_Reply v] \<Rightarrow> v | _ \<Rightarrow> 0)
           in (Inr \<lparr>cr_status = (if current + amount > limit then DENIED else ALLOWED),
                    cr_current_usage = current, cr_limit = limit, cr_deny_reason = ''''\<rparr>, s')))"

definition check_body ::
  "'s redis_api \<Rightarrow> string \<Rightarrow> string \<Rightarrow> int \<Rightarrow> bool \<Rightarrow> int \<Rightarrow> 's \<Rightarrow> (string + check_result) \<times> 's" where
  "check_body api tenant metric amount increment_on_allow limit s =
     (let key = quota_key tenant metric in
      if increment_on_allow
      then (case reserve api key metric amount s of
              (Inl e, s1) \<Rightarrow> (Inl e, s1)
            | (Inr current, s1) \<Rightarrow> settle api key metric amount limit current s1)
      else read_check api key amount limit s)"

definition check_quota ::
  "'s redis_api \<Rightarrow> (string \<Rightarrow> string \<Rightarrow> int option) \<Rightarrow> string \<Rightarrow> string \<Rightarrow> int \<Rightarrow> bool \<Rightarrow> 's qstate
     \<Rightarrow> check_result \<times> 's qstate" where
  "check_quota api get_limit tenant metric amount increment_on_allow q =
     (case get_limit tenant metric of
        None \<Rightarrow>
          (\<lparr>cr_status = UNLIMITED, cr_current_usage = 0, cr_limit = 0, cr_deny_reason = ''''\<rparr>,
           q\<lparr>q_metrics := count_check tenant metric ''UNLIMITED'' (q_metrics q)\<rparr>)
      | Some limit \<Rightarrow>
          (case check_body api tenant metric amount increment_on_allow limit (q_redis q) of
             (Inr res, s') \<Rightarrow>
               (res, \<lparr>q_redis = s', q_metrics = record_check_metrics tenant metric res (q_metrics q)\<rparr>)
           | (Inl _, s') \<Rightarrow>
               (\<lparr>cr_status = ALLOWED, cr_current_usage = 0, cr_limit = limit, cr_deny_reason = ''''\<rparr>,
                \<lparr>q_redis = s', q_metrics = count_skip (q_metrics q)\<rparr>)))"

section \<open>record_usage and get_usage\<close>

definition record_usage ::
  "'s redis_api \<Rightarrow> string \<Rightarrow> string \<Rightarrow> int \<Rightarrow> string \<Rightarrow> 's \<Rightarrow> (string + record_result) \<times> 's" where
  "record_usage api tenant metric amount event_id s =
     (case api [Exists (dedup_key event_id)] s of
        (Inl e, s1) \<Rightarrow> (Inl e, s1)
      | (Inr rs, s1) \<Rightarrow>
          if rs \<noteq> [Int_Reply 0] then (Inr \<lparr>rr_new_total = 0, rr_deduped = True\<rparr>, s1)
          else
            (case api [SetEx (dedup_key event_id) 86400 1] s1 of
               (Inl e, s2) \<Rightarrow> (Inl e, s2)
             | (Inr _, s2) \<Rightarrow>
                 (case api [IncrBy (quota_key tenant metric) amount] s2 of
                    (Inr [Int_Reply new_total], s3) \<Rightarrow>
                      (Inr \<lparr>rr_new_total = new_total, rr_deduped = False\<rparr>, s3)
                  | (Inr _, s3) \<Rightarrow> (Inl ''TypeError'', s3)
                  | (Inl e, s3) \<Rightarrow> (Inl e, s3))))"

record usage =
  us_tenant_id :: string
  us_metric :: string
  us_current :: int
  us_limit :: int
  us_unlimited :: bool

definition get_usage ::
  "'s redis_api \<Rightarrow> (string \<Rightarrow> string \<Rightarrow> int option) \<Rightarrow> string \<Rightarrow> string \<Rightarrow> 's \<Rightarrow> (string + usage) \<times> 's" where
  "get_usage api get_limit tenant metric s =
     (case api [Get (quota_key tenant metric)] s of
        (Inl e, s') \<Rightarrow> (Inl e, s')
      | (Inr rs, s') \<Rightarrow>
          (Inr \<lparr>us_tenant_id = tenant, us_metric = metric,
                us_current = (case rs of [Int_Reply v] \<Rightarrow> v | _ \<Rightarrow> 0),
                us_limit = (case get_limit tenant metric of None \<Rightarrow> 0 | Some l \<Rightarrow> l),
                us_unlimited = (get_limit tenant metric = None)\<rparr>, s'))"

section \<open>What one check does\<close>

lemma ttl_pos [simp]: "0 < ttl metric"
  by (simp add: ttl_def metric_ttl_def get_or_def default_ttl_def)

lemma dedup_neq_quota [simp]: "dedup_key e \<noteq> quota_key t m" "quota_key t m \<noteq> dedup_key e"
  by (simp_all add: dedup_key_def quota_key_def)

text \<open>The keys of two tenants or two metrics never collide: a metric name has no colon.\<close>

lemma quota_key_inj:
  assumes "CHR '':'' \<notin> set m" and "CHR '':'' \<notin> set m'" and "quota_key t m = quota_key t' m'"
  shows "t = t' \<and> m = m'"
  using append_sep_inj [of t "CHR '':''" m t' m'] assms by (simp add: quota_key_def)

lemma reserve_ok:
  assumes "implements api view redis_run" and "available api"
  obtains s' where "reserve api key metric a s = (Inr (counter (view s) key + a), s')"
    and "view s' = set_deadline key (ttl metric) (add_counter key a (view s))"
proof -
  obtain rs s' where api: "api [IncrBy key a, Expire key (ttl metric)] s = (Inr rs, s')"
    using assms(2) by (rule available_cases)
  have "([Int_Reply (counter (view s) key + a), Int_Reply 1],
         set_deadline key (ttl metric) (add_counter key a (view s))) = (rs, view s')"
    using implementsD [OF assms(1) api] by (simp only: redis_incr_expire)
  then show thesis using that [of s'] api by (auto simp: reserve_def)
qed

lemma decr_ok:
  assumes "implements api view redis_run" and "available api"
  obtains rs s' where "api [DecrBy key a] s = (Inr rs, s')" and "view s' = add_counter key (- a) (view s)"
proof -
  obtain rs s' where api: "api [DecrBy key a] s = (Inr rs, s')"
    using assms(2) by (rule available_cases)
  show thesis using that [OF api] implementsD [OF assms(1) api] by simp
qed

text \<open>The contract of an increment check on a counter: the answer, the usage it reports, and the
  usage it leaves.\<close>

definition check_spec :: "int \<Rightarrow> int \<Rightarrow> int \<Rightarrow> quota_status \<times> int \<times> int" where
  "check_spec limit u a =
     (if u + a \<le> limit then (ALLOWED, u + a, u + a) else (DENIED, u, u))"

definition rolled_back :: "string \<Rightarrow> nat \<Rightarrow> int \<Rightarrow> bool \<Rightarrow> rstate \<Rightarrow> rstate" where
  "rolled_back key t a denied r =
     (let r' = set_deadline key t (add_counter key a r)
      in if denied then add_counter key (- a) r' else r')"

lemma check_incr_view:
  assumes "implements api view redis_run" and "available api" and "get_limit t m = Some L"
    and "check_quota api get_limit t m a True q = (res, q')"
  shows "view (q_redis q') =
      rolled_back (quota_key t m) (ttl m) a (\<not> counter (view (q_redis q)) (quota_key t m) + a \<le> L) (view (q_redis q))"
    and "cr_status res = fst (check_spec L (counter (view (q_redis q)) (quota_key t m)) a)"
    and "cr_current_usage res = fst (snd (check_spec L (counter (view (q_redis q)) (quota_key t m)) a))"
    and "cr_limit res = L"
proof -
  let ?k = "quota_key t m" and ?u = "counter (view (q_redis q)) (quota_key t m)"
  obtain s1 where r: "reserve api ?k m a (q_redis q) = (Inr (?u + a), s1)"
    and v1: "view s1 = set_deadline ?k (ttl m) (add_counter ?k a (view (q_redis q)))"
    using reserve_ok [OF assms(1,2)] by blast
  obtain rs s2 where d: "api [DecrBy ?k a] s1 = (Inr rs, s2)" and v2: "view s2 = add_counter ?k (- a) (view s1)"
    using decr_ok [OF assms(1,2)] by blast
  note body = assms(3,4) r v1 d v2
  show "view (q_redis q') = rolled_back ?k (ttl m) a (\<not> ?u + a \<le> L) (view (q_redis q))"
    using body by (auto simp: check_quota_def check_body_def settle_def rolled_back_def Let_def split: if_splits)
  show "cr_status res = fst (check_spec L ?u a)" "cr_current_usage res = fst (snd (check_spec L ?u a))"
    "cr_limit res = L"
    using body by (auto simp: check_quota_def check_body_def settle_def check_spec_def Let_def split: if_splits)
qed

lemma counter_rolled_back [simp]:
  "0 < t \<Longrightarrow> counter (rolled_back k t a d r) k' = counter r k' + (if k' = k \<and> \<not> d then a else 0)"
  by (simp add: rolled_back_def Let_def)

lemma live_rolled_back:
  "0 < t \<Longrightarrow> live (rolled_back k t a d r) k' =
     (if k' = k then Some \<lparr>re_val = counter r k + (if d then 0 else a), re_deadline = Some (rs_now r + t)\<rparr>
      else live r k')"
  by (auto simp: rolled_back_def Let_def counter_def split: option.split)

lemma rs_now_rolled_back [simp, frame]: "rs_now (rolled_back k t a d r) = rs_now r"
  by (simp add: rolled_back_def Let_def)

text \<open>
  C2. An increment check on a limited metric implements its contract: it answers ALLOWED exactly
  when the recorded usage plus the amount stays within the limit, it reports and leaves the new
  usage in that case, and after a DENIED answer the usage is what it was before (the reservation
  is rolled back); no other Redis key changes.
\<close>

theorem check_quota_refines_spec:
  assumes "implements api view redis_run" and "available api"
    and "get_limit t m = Some L"
    and "check_quota api get_limit t m a True q = (res, q')"
  shows "(cr_status res, cr_current_usage res, counter (view (q_redis q')) (quota_key t m)) =
      check_spec L (counter (view (q_redis q)) (quota_key t m)) a
    \<and> (k \<noteq> quota_key t m \<longrightarrow> live (view (q_redis q')) k = live (view (q_redis q)) k)"
  using check_incr_view [OF assms]
  by (simp add: check_spec_def live_rolled_back split: if_splits)

definition no_metrics :: qmetrics where
  "no_metrics = \<lparr>qm_skip = Some 0, qm_checks = None, qm_exceeded = None, qm_ratio = None\<rparr>"

definition fresh :: "rstate qstate" where
  "fresh = \<lparr>q_redis = redis_empty, q_metrics = no_metrics\<rparr>"

theorem check_quota_refines_spec_witness:
  "\<exists>res q'. check_quota (ideal redis_run) (\<lambda>_ _. Some 10) ''acme'' ''BYTES_PER_MONTH'' 11 True fresh = (res, q')
    \<and> (cr_status res, cr_current_usage res, counter (q_redis q') (quota_key ''acme'' ''BYTES_PER_MONTH''))
        = (DENIED, 0, 0)"
proof -
  obtain res q' where c: "check_quota (ideal redis_run) (\<lambda>_ _. Some 10) ''acme'' ''BYTES_PER_MONTH'' 11 True fresh = (res, q')"
    by fastforce
  show ?thesis
    using c check_quota_refines_spec [OF implements_ideal available_ideal _ c, of 10 k]
    by (auto simp: check_spec_def fresh_def)
qed

section \<open>Redis errors\<close>

text \<open>
  The check fails open: if Redis raises on the first command, or on the rollback of a
  reservation over the limit, the answer is ALLOWED with usage 0, the skip counter is incremented
  and no check is counted; in the second case the reservation stays charged.
\<close>

theorem check_quota_fails_open:
  assumes "get_limit t m = Some L"
    and "api (if i then [IncrBy (quota_key t m) a, Expire (quota_key t m) (ttl m)]
              else [Get (quota_key t m)]) (q_redis q) = (Inl e, s')
       \<or> i \<and> reserve api (quota_key t m) m a (q_redis q) = (Inr u, s) \<and> L < u
            \<and> api [DecrBy (quota_key t m) a] s = (Inl e, s')"
  shows "check_quota api get_limit t m a i q =
    (\<lparr>cr_status = ALLOWED, cr_current_usage = 0, cr_limit = L, cr_deny_reason = ''''\<rparr>,
     \<lparr>q_redis = s', q_metrics = count_skip (q_metrics q)\<rparr>)"
  using assms(2)
proof
  assume "api (if i then [IncrBy (quota_key t m) a, Expire (quota_key t m) (ttl m)]
               else [Get (quota_key t m)]) (q_redis q) = (Inl e, s')"
  then show ?thesis
    using assms(1)
    by (cases i) (auto simp: check_quota_def check_body_def reserve_def read_check_def Let_def)
next
  assume "i \<and> reserve api (quota_key t m) m a (q_redis q) = (Inr u, s) \<and> L < u
            \<and> api [DecrBy (quota_key t m) a] s = (Inl e, s')"
  then show ?thesis
    using assms(1) by (auto simp: check_quota_def check_body_def settle_def Let_def)
qed

definition redis_down :: "rstate redis_api" where
  "redis_down cs s = (Inl ''ConnectionError'', s)"

theorem check_quota_fails_open_witness:
  "fst (check_quota redis_down (\<lambda>_ _. Some 0) ''acme'' ''API_CALLS_PER_DAY'' 7 True fresh)
     = \<lparr>cr_status = ALLOWED, cr_current_usage = 0, cr_limit = 0, cr_deny_reason = ''''\<rparr>"
  using check_quota_fails_open
    [of "\<lambda>_ _. Some 0" "''acme''" "''API_CALLS_PER_DAY''" 0 redis_down True 7 fresh
      "''ConnectionError''" redis_empty]
  by (simp add: redis_down_def fresh_def)

section \<open>Concurrent checks\<close>

text \<open>
  Each check is two atomic Redis transactions, the reservation and (over the limit) the rollback,
  and the checks of concurrent workers interleave between them. A configuration holds the Redis
  state, the reservations not yet settled (amount and returned usage) and the amounts admitted
  so far.
\<close>

record 's checks =
  ck_redis :: 's
  ck_pending :: "(int \<times> int) list"
  ck_admitted :: int

inductive check_step ::
  "'s redis_api \<Rightarrow> string \<Rightarrow> string \<Rightarrow> int \<Rightarrow> 's checks \<Rightarrow> 's checks \<Rightarrow> bool"
  for api key metric limit where
  begin_check:
    "0 \<le> a \<Longrightarrow> reserve api key metric a (ck_redis c) = (Inr u, s') \<Longrightarrow>
     check_step api key metric limit c (c\<lparr>ck_redis := s', ck_pending := (a, u) # ck_pending c\<rparr>)"
| end_check:
    "ck_pending c = xs @ (a, u) # ys \<Longrightarrow>
     settle api key metric a limit u (ck_redis c) = (Inr res, s') \<Longrightarrow>
     check_step api key metric limit c
       (c\<lparr>ck_redis := s', ck_pending := xs @ ys,
          ck_admitted := ck_admitted c + (if cr_status res = ALLOWED then a else 0)\<rparr>)"

inductive check_reach ::
  "'s redis_api \<Rightarrow> string \<Rightarrow> string \<Rightarrow> int \<Rightarrow> 's checks \<Rightarrow> 's checks \<Rightarrow> bool"
  for api key metric limit c0 where
  reach_start: "check_reach api key metric limit c0 c0"
| reach_step: "check_reach api key metric limit c0 c \<Longrightarrow> check_step api key metric limit c c' \<Longrightarrow>
     check_reach api key metric limit c0 c'"

definition quiet :: "'s \<Rightarrow> int \<Rightarrow> 's checks" where
  "quiet s u = \<lparr>ck_redis = s, ck_pending = [], ck_admitted = u\<rparr>"

text \<open>The invariant: the counter is what was admitted plus what is pending, and the pending
  reservations that will be admitted still fit.\<close>

definition checks_inv :: "('s \<Rightarrow> rstate) \<Rightarrow> string \<Rightarrow> int \<Rightarrow> 's checks \<Rightarrow> bool" where
  "checks_inv view key limit c \<longleftrightarrow>
     (\<forall>p \<in> set (ck_pending c). 0 \<le> fst p)
   \<and> counter (view (ck_redis c)) key = ck_admitted c + sum_list (map fst (ck_pending c))
   \<and> ck_admitted c + sum_list (map fst (filter (\<lambda>p. snd p \<le> limit) (ck_pending c))) \<le> limit"

lemma filter_sum_le:
  fixes xs :: "(int \<times> int) list"
  shows "\<forall>p \<in> set xs. 0 \<le> fst p \<Longrightarrow> sum_list (map fst (filter P xs)) \<le> sum_list (map fst xs)"
  by (induction xs) auto

lemma check_step_inv:
  assumes "implements api view redis_run" and "available api"
    and "check_step api key metric limit c c'" and "checks_inv view key limit c"
  shows "checks_inv view key limit c'"
  using assms(3)
proof cases
  case (begin_check a u s')
  obtain s2 where r: "reserve api key metric a (ck_redis c) = (Inr (counter (view (ck_redis c)) key + a), s2)"
    and v: "view s2 = set_deadline key (ttl metric) (add_counter key a (view (ck_redis c)))"
    using reserve_ok [OF assms(1,2)] by blast
  have "u = counter (view (ck_redis c)) key + a" "counter (view s') key = counter (view (ck_redis c)) key + a"
    using r v begin_check(3) by auto
  then show ?thesis
    using begin_check(1,2) assms(4) filter_sum_le [of "ck_pending c" "\<lambda>p. snd p \<le> limit"]
    by (auto simp: checks_inv_def)
next
  case (end_check xs a u ys res s')
  obtain rs s2 where d: "api [DecrBy key a] (ck_redis c) = (Inr rs, s2)"
    "view s2 = add_counter key (- a) (view (ck_redis c))"
    using decr_ok [OF assms(1,2)] by blast
  have st: "cr_status res = (if u \<le> limit then ALLOWED else DENIED)"
    "counter (view s') key = counter (view (ck_redis c)) key - (if u \<le> limit then 0 else a)"
    using end_check(3) d by (auto simp: settle_def split: if_splits)
  then show ?thesis
    using end_check(1,2) assms(4) by (auto simp: checks_inv_def)
qed

lemma check_reach_inv:
  assumes "implements api view redis_run" and "available api"
    and "check_reach api key metric limit c0 c" and "checks_inv view key limit c0"
  shows "checks_inv view key limit c"
  using assms(3,4) by induction (blast intro: check_step_inv [OF assms(1,2)])+

text \<open>
  C14. Whatever the interleaving of concurrent checks (of non-negative amounts, inside one
  window), the amounts admitted never exceed the limit, and when no check is in flight the
  counter is exactly the amount admitted: no rollback is lost and none is done twice.
\<close>

theorem concurrent_checks_never_overadmit:
  assumes "implements api view redis_run" and "available api"
    and "counter (view s) key \<le> limit"
    and "check_reach api key metric limit (quiet s (counter (view s) key)) c"
  shows "ck_admitted c \<le> limit
    \<and> (ck_pending c = [] \<longrightarrow> counter (view (ck_redis c)) key = ck_admitted c)"
proof -
  have "checks_inv view key limit (quiet s (counter (view s) key))"
    using assms(3) by (simp add: checks_inv_def quiet_def)
  then have inv: "checks_inv view key limit c"
    using check_reach_inv [OF assms(1,2,4)] by blast
  have "0 \<le> sum_list (map fst (filter (\<lambda>p. snd p \<le> limit) (ck_pending c)))"
    using inv by (intro sum_list_nonneg) (auto simp: checks_inv_def)
  with inv show ?thesis by (auto simp: checks_inv_def)
qed

theorem concurrent_checks_never_overadmit_witness:
  "\<exists>c. check_reach (ideal redis_run) ''k'' ''API_CALLS_PER_DAY'' 10 (quiet redis_empty 0) c
     \<and> length (ck_pending c) = 1 \<and> ck_admitted c \<le> 10"
proof -
  obtain s' where "reserve (ideal redis_run) ''k'' ''API_CALLS_PER_DAY'' 7 redis_empty
      = (Inr (counter redis_empty ''k'' + 7), s')"
    using reserve_ok [OF implements_ideal available_ideal] by blast
  then have "check_step (ideal redis_run) ''k'' ''API_CALLS_PER_DAY'' 10 (quiet redis_empty 0)
      ((quiet redis_empty 0)\<lparr>ck_redis := s', ck_pending := [(7, 7)]\<rparr>)"
    using check_step.begin_check [of 7 "ideal redis_run" "''k''" "''API_CALLS_PER_DAY''" "quiet redis_empty 0"]
    by (simp add: quiet_def)
  then have "check_reach (ideal redis_run) ''k'' ''API_CALLS_PER_DAY'' 10 (quiet redis_empty 0)
      ((quiet redis_empty 0)\<lparr>ck_redis := s', ck_pending := [(7, 7)]\<rparr>)"
    by (rule check_reach.reach_step [OF check_reach.reach_start])
  then show ?thesis
    using concurrent_checks_never_overadmit [OF implements_ideal available_ideal, of redis_empty "''k''" 10
        "''API_CALLS_PER_DAY''" "(quiet redis_empty 0)\<lparr>ck_redis := s', ck_pending := [(7, 7)]\<rparr>"]
    by (auto simp: quiet_def)
qed

section \<open>The window of a counter\<close>

text \<open>A check that comes some seconds after the previous one, on the documented Redis.\<close>

definition spaced_check ::
  "string \<Rightarrow> string \<Rightarrow> int \<Rightarrow> nat \<times> int \<Rightarrow> rstate qstate \<Rightarrow> bool \<times> rstate qstate" where
  "spaced_check t m L c q =
     (case check_quota (ideal redis_run) (\<lambda>_ _. Some L) t m (snd c) True
             (q\<lparr>q_redis := redis_tick (fst c) (q_redis q)\<rparr>) of
        (res, q') \<Rightarrow> (cr_status res = ALLOWED, q'))"

text \<open>The counter is live and its deadline is a full TTL away, as every check leaves it.\<close>

definition window_open :: "string \<Rightarrow> string \<Rightarrow> rstate qstate \<Rightarrow> bool" where
  "window_open t m q \<longleftrightarrow>
     map_option re_deadline (live (q_redis q) (quota_key t m)) = Some (Some (rs_now (q_redis q) + ttl m))"

definition quota_usage :: "string \<Rightarrow> string \<Rightarrow> rstate qstate \<Rightarrow> int" where
  "quota_usage t m q = counter (q_redis q) (quota_key t m)"

lemma counter_tick_window:
  assumes "window_open t m q" and "d < ttl m"
  shows "counter (redis_tick d (q_redis q)) (quota_key t m) = quota_usage t m q"
proof -
  from assms(1) obtain e where e: "live (q_redis q) (quota_key t m) = Some e"
    "re_deadline e = Some (rs_now (q_redis q) + ttl m)"
    by (auto simp: window_open_def)
  then have "rs_db (q_redis q) (quota_key t m) = Some e"
    by (auto simp: live_def split: option.splits if_splits)
  with e assms(2) have "live (redis_tick d (q_redis q)) (quota_key t m) = Some e"
    by (simp add: live_def redis_tick_def)
  with e show ?thesis by (simp add: counter_def quota_usage_def)
qed

lemma spaced_check_step:
  assumes "spaced_check t m L c q = (ok, q')"
  shows "window_open t m q'"
    and "ok \<longleftrightarrow> counter (redis_tick (fst c) (q_redis q)) (quota_key t m) + snd c \<le> L"
    and "quota_usage t m q' = counter (redis_tick (fst c) (q_redis q)) (quota_key t m) + (if ok then snd c else 0)"
proof -
  let ?q = "q\<lparr>q_redis := redis_tick (fst c) (q_redis q)\<rparr>"
  obtain res where r: "check_quota (ideal redis_run) (\<lambda>_ _. Some L) t m (snd c) True ?q = (res, q')"
    and ok: "ok = (cr_status res = ALLOWED)"
    using assms by (auto simp: spaced_check_def split: prod.splits)
  note v = check_incr_view [OF implements_ideal available_ideal _ r, of L]
  show "window_open t m q'" using v(1) by (simp add: window_open_def live_rolled_back)
  show "ok \<longleftrightarrow> counter (redis_tick (fst c) (q_redis q)) (quota_key t m) + snd c \<le> L"
    using v(2) ok by (simp add: check_spec_def split: if_splits)
  then show "quota_usage t m q' = counter (redis_tick (fst c) (q_redis q)) (quota_key t m) + (if ok then snd c else 0)"
    using v(1) by (simp add: quota_usage_def)
qed

interpretation window: admission "spaced_check t m L" snd "\<lambda>c. fst c < ttl m" "window_open t m" "quota_usage t m" L
  for t m L
  by unfold_locales (auto dest: spaced_check_step simp: counter_tick_window)

text \<open>
  Usage never resets while checks keep coming: after any check, in any run of further checks
  each less than the metric's TTL after the previous one, the counter accumulates exactly the
  admitted amounts, however long the run lasts. The EXPIRE of every check, denied ones included,
  renews the deadline.
\<close>

theorem usage_accumulates_beyond_window:
  assumes "spaced_check t m L c q = (ok, q0)"
    and "list_all (\<lambda>c. fst c < ttl m) cs"
    and "run_all (spaced_check t m L) cs q0 = (oks, q')"
  shows "quota_usage t m q' = quota_usage t m q0 + (\<Sum>(c, ok) \<leftarrow> zip cs oks. if ok then snd c else 0)"
  using window.run_charges [OF spaced_check_step(1) [OF assms(1)] assms(2,3)] by blast

lemma spaced_check_empty:
  "spaced_check t m 1 (0, 1) fresh = (True, snd (spaced_check t m 1 (0, 1) fresh))"
  "quota_usage t m (snd (spaced_check t m 1 (0, 1) fresh)) = 1"
proof -
  obtain ok q' where s: "spaced_check t m 1 (0, 1) fresh = (ok, q')" by fastforce
  have e: "counter (redis_tick 0 (q_redis fresh)) (quota_key t m) = 0"
    by (simp add: fresh_def redis_tick_def)
  show "spaced_check t m 1 (0, 1) fresh = (True, snd (spaced_check t m 1 (0, 1) fresh))"
    "quota_usage t m (snd (spaced_check t m 1 (0, 1) fresh)) = 1"
    using s spaced_check_step(2,3) [OF s] e by auto
qed

theorem usage_accumulates_beyond_window_witness:
  "\<exists>oks q'. run_all (spaced_check ''acme'' ''API_CALLS_PER_MINUTE'' 1) [(59, 0 :: int), (59 :: nat, 0), (59, 0)]
       (snd (spaced_check ''acme'' ''API_CALLS_PER_MINUTE'' 1 (0, 1) fresh)) = (oks, q')
     \<and> quota_usage ''acme'' ''API_CALLS_PER_MINUTE'' q'
         = 1 + (\<Sum>(c, ok) \<leftarrow> zip [(59 :: nat, 0 :: int), (59, 0), (59, 0)] oks. if ok then snd c else 0)"
proof -
  obtain oks q' where r: "run_all (spaced_check ''acme'' ''API_CALLS_PER_MINUTE'' 1) [(59, 0 :: int), (59 :: nat, 0), (59, 0)]
       (snd (spaced_check ''acme'' ''API_CALLS_PER_MINUTE'' 1 (0, 1) fresh)) = (oks, q')" by fastforce
  have "ttl ''API_CALLS_PER_MINUTE'' = 60" by (simp add: ttl_def metric_ttl_def get_or_def)
  then show ?thesis
    using r usage_accumulates_beyond_window [OF spaced_check_empty(1) _ r] spaced_check_empty(2) by simp
qed

text \<open>
  Once a tenant's usage has reached the limit it is denied for ever, as long as it retries
  within the TTL each time: a daily or per-minute quota does not come back at the end of the day
  or minute the protocol definition promises.
\<close>

theorem exhausted_quota_never_recovers:
  assumes "spaced_check t m L c q = (ok, q0)" and "L \<le> quota_usage t m q0"
    and "list_all (\<lambda>c. fst c < ttl m \<and> 0 < snd c) cs"
    and "run_all (spaced_check t m L) cs q0 = (oks, q')"
  shows "True \<notin> set oks"
  using window.run_exhausted [OF spaced_check_step(1) [OF assms(1)] _ _ assms(2,4)] assms(3)
  by (simp add: list_all_iff)

theorem exhausted_quota_never_recovers_witness:
  "True \<notin> set (fst (run_all (spaced_check ''acme'' ''API_CALLS_PER_MINUTE'' 1) (replicate 10000 (59, 1))
       (snd (spaced_check ''acme'' ''API_CALLS_PER_MINUTE'' 1 (0, 1) fresh))))"
proof -
  have "ttl ''API_CALLS_PER_MINUTE'' = 60" by (simp add: ttl_def metric_ttl_def get_or_def)
  then have l: "list_all (\<lambda>c. fst c < ttl ''API_CALLS_PER_MINUTE'' \<and> (0::int) < snd c) (replicate 10000 (59, 1))"
    by (simp add: list_all_iff)
  show ?thesis
    using spaced_check_empty(2) by (intro exhausted_quota_never_recovers [OF spaced_check_empty(1) _ l]) (auto simp: prod_eq_iff)
qed

section \<open>Idempotent recording\<close>

lemma record_usage_new:
  assumes "implements api view redis_run" and "available api"
    and "live (view s) (dedup_key ev) = None"
  obtains s' where "record_usage api t m a ev s =
      (Inr \<lparr>rr_new_total = counter (view s) (quota_key t m) + a, rr_deduped = False\<rparr>, s')"
    and "view s' = add_counter (quota_key t m) a
        ((view s)\<lparr>rs_db := (rs_db (view s))(dedup_key ev \<mapsto> \<lparr>re_val = 1, re_deadline = Some (rs_now (view s) + 86400)\<rparr>)\<rparr>)"
proof -
  obtain r1 s1 where a1: "api [Exists (dedup_key ev)] s = (Inr r1, s1)" using assms(2) by (rule available_cases)
  obtain r2 s2 where a2: "api [SetEx (dedup_key ev) 86400 1] s1 = (Inr r2, s2)" using assms(2) by (rule available_cases)
  obtain r3 s3 where a3: "api [IncrBy (quota_key t m) a] s2 = (Inr r3, s3)" using assms(2) by (rule available_cases)
  have v: "r1 = [Int_Reply 0]" "view s1 = view s"
    using implementsD [OF assms(1) a1] assms(3) by auto
  have v2: "view s2 = (view s)\<lparr>rs_db := (rs_db (view s))(dedup_key ev \<mapsto>
      \<lparr>re_val = 1, re_deadline = Some (rs_now (view s) + 86400)\<rparr>)\<rparr>"
    using implementsD [OF assms(1) a2] v(2) by simp
  have v3: "r3 = [Int_Reply (counter (view s2) (quota_key t m) + a)]"
      "view s3 = add_counter (quota_key t m) a (view s2)"
    using implementsD [OF assms(1) a3] by auto
  have c: "counter ((view s)\<lparr>rs_db := (rs_db (view s))(dedup_key ev \<mapsto> x)\<rparr>) (quota_key t m)
      = counter (view s) (quota_key t m)" for x
    by (simp add: counter_store_other)
  show thesis
    using that [of s3] a1 a2 a3 v v2 v3 c by (simp add: record_usage_def)
qed

lemma record_usage_dup:
  assumes "implements api view redis_run" and "available api"
    and "live (view s) (dedup_key ev) \<noteq> None"
  obtains s' where "record_usage api t m a ev s = (Inr \<lparr>rr_new_total = 0, rr_deduped = True\<rparr>, s')"
    and "view s' = view s"
proof -
  obtain r1 s1 where a1: "api [Exists (dedup_key ev)] s = (Inr r1, s1)" using assms(2) by (rule available_cases)
  show thesis
    using that [of s1] a1 implementsD [OF assms(1) a1] assms(3) by (auto simp: record_usage_def)
qed

text \<open>
  C28. Recording is idempotent for 24 hours: the first delivery of an event adds its amount once;
  a second delivery, any time less than 86400 seconds later, is reported as deduplicated and
  leaves Redis as it is.
\<close>

theorem record_usage_idempotent:
  assumes "implements api view redis_run" and "available api"
    and "live (view s) (dedup_key ev) = None"
    and "record_usage api t m a ev s = (r1, s1)"
    and "view s2 = redis_tick d (view s1)" and "d < 86400"
    and "record_usage api t m a ev s2 = (r2, s3)"
  shows "r1 = Inr \<lparr>rr_new_total = counter (view s) (quota_key t m) + a, rr_deduped = False\<rparr>
    \<and> counter (view s1) (quota_key t m) = counter (view s) (quota_key t m) + a
    \<and> r2 = Inr \<lparr>rr_new_total = 0, rr_deduped = True\<rparr> \<and> view s3 = view s2"
proof -
  obtain s1' where f: "record_usage api t m a ev s =
      (Inr \<lparr>rr_new_total = counter (view s) (quota_key t m) + a, rr_deduped = False\<rparr>, s1')"
    "view s1' = add_counter (quota_key t m) a
        ((view s)\<lparr>rs_db := (rs_db (view s))(dedup_key ev \<mapsto> \<lparr>re_val = 1, re_deadline = Some (rs_now (view s) + 86400)\<rparr>)\<rparr>)"
    using record_usage_new [OF assms(1-3)] by blast
  have l: "live (view s2) (dedup_key ev) \<noteq> None"
    using f assms(4-6) by (simp add: live_def redis_tick_def add_counter_def)
  obtain s3' where "record_usage api t m a ev s2 = (Inr \<lparr>rr_new_total = 0, rr_deduped = True\<rparr>, s3')"
    "view s3' = view s2"
    using record_usage_dup [OF assms(1,2) l] by blast
  moreover have "counter ((view s)\<lparr>rs_db := (rs_db (view s))(dedup_key ev \<mapsto> x)\<rparr>) (quota_key t m)
      = counter (view s) (quota_key t m)" for x
    by (simp add: counter_store_other)
  ultimately show ?thesis using f assms(4,7) by auto
qed

theorem record_usage_idempotent_witness:
  "\<exists>s1 r2. record_usage (ideal redis_run) ''acme'' ''VECTORS_STORED'' 5 ''ev1'' redis_empty
      = (Inr \<lparr>rr_new_total = 5, rr_deduped = False\<rparr>, s1)
    \<and> fst (record_usage (ideal redis_run) ''acme'' ''VECTORS_STORED'' 5 ''ev1'' (redis_tick 3600 s1))
      = Inr \<lparr>rr_new_total = 0, rr_deduped = True\<rparr>"
proof -
  obtain r1 s1 where 1: "record_usage (ideal redis_run) ''acme'' ''VECTORS_STORED'' 5 ''ev1'' redis_empty = (r1, s1)"
    by fastforce
  obtain r2 s3 where 2: "record_usage (ideal redis_run) ''acme'' ''VECTORS_STORED'' 5 ''ev1'' (redis_tick 3600 s1) = (r2, s3)"
    by fastforce
  show ?thesis
    using record_usage_idempotent [OF implements_ideal available_ideal _ 1 refl _ 2] 1 2
    by simp
qed

text \<open>A Redis that refuses increments for a moment: it raises on a lone INCRBY while its first
  component is \<open>True\<close>, and otherwise behaves as documented.\<close>

definition flaky :: "(bool \<times> rstate) redis_api" where
  "flaky cs s =
     (case cs of
        [IncrBy k n] \<Rightarrow>
          if fst s then (Inl ''ConnectionError'', (False, snd s))
          else (case redis_run cs (snd s) of (rs, r) \<Rightarrow> (Inr rs, (False, r)))
      | _ \<Rightarrow> (case redis_run cs (snd s) of (rs, r) \<Rightarrow> (Inr rs, (fst s, r))))"

text \<open>
  Recording is at most once, not exactly once: the event is marked as seen before its amount
  is added, so when the increment raises, the retry of the same event is deduplicated and the
  usage is never counted, on a Redis that implements its documentation throughout.
\<close>

theorem record_usage_lost_on_retry:
  "implements flaky snd redis_run \<and>
   (\<exists>e s1 s2. record_usage flaky t m a ev (True, redis_empty) = (Inl e, s1)
     \<and> record_usage flaky t m a ev s1 = (Inr \<lparr>rr_new_total = 0, rr_deduped = True\<rparr>, s2)
     \<and> counter (snd s2) (quota_key t m) = 0)"
proof
  show "implements flaky snd redis_run"
    by (auto simp: implements_def flaky_def split: list.splits rcmd.splits prod.splits if_splits)
  have l: "live redis_empty k = None" for k by (simp add: live_def redis_empty_def)
  let ?s = "redis_empty\<lparr>rs_db := [dedup_key ev \<mapsto> \<lparr>re_val = 1, re_deadline = Some 86400\<rparr>]\<rparr>"
  have 1: "record_usage flaky t m a ev (True, redis_empty) = (Inl ''ConnectionError'', (False, ?s))"
    using l by (simp add: record_usage_def flaky_def redis_empty_def)
  have "live ?s (dedup_key ev) \<noteq> None" by (simp add: live_def redis_empty_def)
  then have 2: "record_usage flaky t m a ev (False, ?s)
      = (Inr \<lparr>rr_new_total = 0, rr_deduped = True\<rparr>, (False, ?s))"
    by (auto simp: record_usage_def flaky_def)
  show "\<exists>e s1 s2. record_usage flaky t m a ev (True, redis_empty) = (Inl e, s1)
     \<and> record_usage flaky t m a ev s1 = (Inr \<lparr>rr_new_total = 0, rr_deduped = True\<rparr>, s2)
     \<and> counter (snd s2) (quota_key t m) = 0"
    using 1 2 by (auto simp: counter_def live_def redis_empty_def)
qed

end
