(* ===== verification/Quota_Limits.thy ===== *)
theory Quota_Limits
  imports Quota_Service
begin

text \<open>
  The limits of the quota service: the tier, licence and override tables of
  \<open>db/alembic/versions/0001_initial_schema.py\<close> with the seed rows of
  \<open>0002_seed_license_tiers.py\<close>, the SQL of \<open>services/quota-service/src/db_queries.py\<close> over them,
  the static limits of \<open>config.py\<close> and the resolver \<open>get_limit_fn\<close> that \<open>server.py\<close> builds.
  A NULL column is \<open>None\<close>, which the service reads as unlimited.
\<close>

section \<open>Tables\<close>

record tier =
  lt_tier_id :: string
  lt_bytes_per_month :: "int option"
  lt_vectors_max :: "int option"
  lt_queries_per_day :: "int option"
  lt_queries_per_min :: "int option"
  lt_gpu_enabled :: bool
  lt_workers_max :: "int option"
  lt_users_max :: "int option"

record license =
  tl_tenant_id :: string
  tl_tier_id :: "string option"
  tl_expires_at :: "nat option"
  tl_is_active :: bool

record quota_override =
  qo_tenant_id :: string
  qo_metric :: string
  qo_value :: "int option"

record quota_db =
  license_tiers :: "tier list"
  tenant_licenses :: "license list"
  quota_overrides :: "quota_override list"

text \<open>The primary keys of the three tables.\<close>

definition quota_db_wf :: "quota_db \<Rightarrow> bool" where
  "quota_db_wf db \<longleftrightarrow>
     distinct (map lt_tier_id (license_tiers db))
   \<and> distinct (map tl_tenant_id (tenant_licenses db))
   \<and> distinct (map (\<lambda>ov. (qo_tenant_id ov, qo_metric ov)) (quota_overrides db))"

definition gb :: int where
  "gb = 1024 * 1024 * 1024"

definition seed_tiers :: "tier list" where
  "seed_tiers =
     [\<lparr>lt_tier_id = ''free'', lt_bytes_per_month = Some (1 * gb), lt_vectors_max = Some 100000,
       lt_queries_per_day = Some 100, lt_queries_per_min = Some 5, lt_gpu_enabled = False,
       lt_workers_max = Some 1, lt_users_max = Some 3\<rparr>,
      \<lparr>lt_tier_id = ''pro'', lt_bytes_per_month = Some (100 * gb), lt_vectors_max = Some 10000000,
       lt_queries_per_day = Some 10000, lt_queries_per_min = Some 100, lt_gpu_enabled = True,
       lt_workers_max = Some 4, lt_users_max = Some 25\<rparr>,
      \<lparr>lt_tier_id = ''enterprise'', lt_bytes_per_month = None, lt_vectors_max = None,
       lt_queries_per_day = None, lt_queries_per_min = None, lt_gpu_enabled = True,
       lt_workers_max = Some 16, lt_users_max = None\<rparr>]"

section \<open>db_queries.py\<close>

definition metric_to_column :: "string dict" where
  "metric_to_column =
     [(''BYTES_PER_MONTH'', ''bytes_per_month''),
      (''VECTORS_STORED'', ''vectors_max''),
      (''API_CALLS_PER_DAY'', ''queries_per_day''),
      (''API_CALLS_PER_MINUTE'', ''queries_per_min''),
      (''CONCURRENT_WORKERS'', ''workers_max''),
      (''USERS_PER_TENANT'', ''users_max'')]"

text \<open>\<open>SELECT lt.{col}\<close> for the columns of the mapping.\<close>

definition tier_column :: "string \<Rightarrow> tier \<Rightarrow> int option" where
  "tier_column col t =
     (if col = ''bytes_per_month'' then lt_bytes_per_month t
      else if col = ''vectors_max'' then lt_vectors_max t
      else if col = ''queries_per_day'' then lt_queries_per_day t
      else if col = ''queries_per_min'' then lt_queries_per_min t
      else if col = ''workers_max'' then lt_workers_max t
      else if col = ''users_max'' then lt_users_max t
      else None)"

definition select_override :: "quota_db \<Rightarrow> string \<Rightarrow> string \<Rightarrow> int option list" where
  "select_override db tenant metric =
     map qo_value (filter (\<lambda>ov. qo_tenant_id ov = tenant \<and> qo_metric ov = metric) (quota_overrides db))"

text \<open>The join of the active licences of a tenant with their tiers.\<close>

definition select_tier_limit :: "quota_db \<Rightarrow> string \<Rightarrow> string \<Rightarrow> int option list" where
  "select_tier_limit db col tenant =
     map (tier_column col)
       (concat (map (\<lambda>tl. filter (\<lambda>lt. tl_tier_id tl = Some (lt_tier_id lt)) (license_tiers db))
          (filter (\<lambda>tl. tl_tenant_id tl = tenant \<and> tl_is_active tl) (tenant_licenses db))))"

fun fetchone :: "'a list \<Rightarrow> 'a option" where
  "fetchone [] = None"
| "fetchone (r # _) = Some r"

definition get_effective_limit :: "quota_db \<Rightarrow> string \<Rightarrow> string \<Rightarrow> int option" where
  "get_effective_limit db tenant metric =
     (case fetchone (select_override db tenant metric) of
        Some v \<Rightarrow> v
      | None \<Rightarrow>
          (case dict_get metric_to_column metric of
             None \<Rightarrow> None
           | Some col \<Rightarrow>
               (case fetchone (take 1 (select_tier_limit db col tenant)) of
                  None \<Rightarrow> None
                | Some v \<Rightarrow> v)))"

section \<open>The resolver of server.py\<close>

text \<open>\<open>Config.static_limits\<close>: later variables of the environment overwrite earlier ones.\<close>

definition static_prefix :: string where
  "static_prefix = ''QUOTA_STATIC_LIMIT_''"

fun static_limits_from :: "int dict \<Rightarrow> string dict \<Rightarrow> int dict" where
  "static_limits_from result [] = result"
| "static_limits_from result ((key, val) # env) =
     (if startswith key static_prefix
      then (case py_int val of
              Some i \<Rightarrow> static_limits_from (dict_set (drop (length static_prefix) key) i result) env
            | None \<Rightarrow> static_limits_from result env)
      else static_limits_from result env)"

definition static_limits :: "string dict \<Rightarrow> int dict" where
  "static_limits environ = static_limits_from [] environ"

text \<open>\<open>raw_db_fn\<close> opens a session, which raises when the database is down.\<close>

definition raw_db_fn :: "(string + quota_db) \<Rightarrow> string \<Rightarrow> string \<Rightarrow> (string, int option) res" where
  "raw_db_fn session tenant metric =
     res_bind session (\<lambda>db. Inr (get_effective_limit db tenant metric))"

definition get_limit_fn :: "int dict \<Rightarrow> (string + quota_db) \<Rightarrow> string \<Rightarrow> string \<Rightarrow> int option" where
  "get_limit_fn static session tenant metric =
     (case dict_get static metric of
        Some v \<Rightarrow> Some v
      | None \<Rightarrow> (case raw_db_fn session tenant metric of Inl _ \<Rightarrow> None | Inr l \<Rightarrow> l))"

section \<open>Lemmas\<close>

lemma fetchone_take [simp]: "fetchone (take (Suc 0) xs) = fetchone xs"
  by (cases xs) auto

lemma fetchone_map [simp]: "fetchone (map f xs) = map_option f (fetchone xs)"
  by (cases xs) auto

lemma fetchone_filter_unique:
  assumes "distinct (map key xs)" and "r \<in> set xs" and "\<And>x. P x \<Longrightarrow> key x = key r" and "P r"
  shows "filter P xs = [r]"
  using assms
proof (induction xs)
  case (Cons x xs)
  have d: "key x \<notin> key ` set xs" "distinct (map key xs)" using Cons.prems(1) by auto
  show ?case
  proof (cases "x = r")
    case True
    have "\<not> P y" if "y \<in> set xs" for y
      using Cons.prems(3) [of y] d(1) that True by (metis image_eqI)
    then have "filter P xs = []" by (simp add: filter_empty_conv)
    with True Cons.prems(4) show ?thesis by simp
  next
    case False
    then have r: "r \<in> set xs" using Cons.prems(2) by simp
    then have "\<not> P x" using Cons.prems(3) [of x] d(1) by (metis image_eqI)
    then show ?thesis using Cons.IH [OF d(2) r Cons.prems(3,4)] by simp
  qed
qed simp

lemma select_override_row:
  assumes "quota_db_wf db" and "ov \<in> set (quota_overrides db)"
  shows "select_override db (qo_tenant_id ov) (qo_metric ov) = [qo_value ov]"
proof -
  have "filter (\<lambda>x. qo_tenant_id x = qo_tenant_id ov \<and> qo_metric x = qo_metric ov) (quota_overrides db) = [ov]"
    using assms
    by (intro fetchone_filter_unique [where key = "\<lambda>ov. (qo_tenant_id ov, qo_metric ov)"]) (auto simp: quota_db_wf_def)
  then show ?thesis by (simp add: select_override_def)
qed

lemma select_tier_limit_row:
  assumes "quota_db_wf db" and "l \<in> set (tenant_licenses db)" and "tl_is_active l"
    and "t \<in> set (license_tiers db)" and "tl_tier_id l = Some (lt_tier_id t)"
  shows "select_tier_limit db col (tl_tenant_id l) = [tier_column col t]"
proof -
  have "filter (\<lambda>x. tl_tenant_id x = tl_tenant_id l \<and> tl_is_active x) (tenant_licenses db) = [l]"
    using assms by (intro fetchone_filter_unique [where key = tl_tenant_id]) (auto simp: quota_db_wf_def)
  moreover have "filter (\<lambda>lt. tl_tier_id l = Some (lt_tier_id lt)) (license_tiers db) = [t]"
    using assms by (intro fetchone_filter_unique [where key = lt_tier_id]) (auto simp: quota_db_wf_def)
  ultimately show ?thesis by (simp add: select_tier_limit_def)
qed

lemma select_override_none:
  assumes "\<forall>ov \<in> set (quota_overrides db). \<not> (qo_tenant_id ov = t \<and> qo_metric ov = m)"
  shows "select_override db t m = []"
  using assms by (auto simp: select_override_def filter_empty_conv)

text \<open>
  Precedence of the limits of a licensed tenant, on tables that satisfy their primary keys: a
  static limit wins over the database; then an override row wins, also when it is NULL
  (unlimited); then the column of the tier of the tenant's active licence decides, for the six
  metrics that have a column.
\<close>

theorem limit_precedence:
  assumes "quota_db_wf db"
    and "l \<in> set (tenant_licenses db)" and "tl_is_active l"
    and "t \<in> set (license_tiers db)" and "tl_tier_id l = Some (lt_tier_id t)"
    and "ov \<in> set (quota_overrides db)"
    and "\<forall>ov \<in> set (quota_overrides db). \<not> (qo_tenant_id ov = tl_tenant_id l \<and> qo_metric ov = m)"
    and "dict_get metric_to_column m = Some col"
  shows "get_limit_fn ((m', v) # static) session tenant m' = Some v
    \<and> get_limit_fn [] (Inr db) (qo_tenant_id ov) (qo_metric ov) = qo_value ov
    \<and> get_limit_fn [] (Inr db) (tl_tenant_id l) m = tier_column col t"
  using select_override_row [OF assms(1,6)] select_override_none [OF assms(7)]
    select_tier_limit_row [OF assms(1-5), of col] assms(8)
  by (simp add: get_limit_fn_def raw_db_fn_def get_effective_limit_def)

definition demo_db :: quota_db where
  "demo_db = \<lparr>license_tiers = seed_tiers,
     tenant_licenses = [\<lparr>tl_tenant_id = ''acme'', tl_tier_id = Some ''free'', tl_expires_at = Some 0, tl_is_active = True\<rparr>],
     quota_overrides = [\<lparr>qo_tenant_id = ''acme'', qo_metric = ''VECTORS_STORED'', qo_value = None\<rparr>]\<rparr>"

theorem limit_precedence_witness:
  "get_limit_fn [(''CONNECTOR_COUNT'', 3)] (Inl ''down'') ''acme'' ''CONNECTOR_COUNT'' = Some 3
   \<and> get_limit_fn [] (Inr demo_db) ''acme'' ''VECTORS_STORED'' = None
   \<and> get_limit_fn [] (Inr demo_db) ''acme'' ''API_CALLS_PER_DAY'' = Some 100"
  using limit_precedence [of demo_db "hd (tenant_licenses demo_db)" "hd seed_tiers" "hd (quota_overrides demo_db)"
      "''API_CALLS_PER_DAY''" "''queries_per_day''" "''CONNECTOR_COUNT''" 3 "[]" "Inl ''down''" "''acme''"]
  by (simp add: demo_db_def seed_tiers_def quota_db_wf_def metric_to_column_def tier_column_def)

lemma no_limit_for_uncolumned:
  assumes "m \<in> {''CONNECTOR_COUNT'', ''GPU_SECONDS_PER_MONTH''}"
    and "dict_get static m = None"
    and "\<forall>db. session = Inr db \<longrightarrow>
           (\<forall>ov \<in> set (quota_overrides db). \<not> (qo_tenant_id ov = tenant \<and> qo_metric ov = m))"
  shows "get_limit_fn static session tenant m = None"
proof (cases session)
  case (Inr db)
  then have "select_override db tenant m = []" using assms(3) by (intro select_override_none) simp
  with Inr assms(1,2) show ?thesis
    by (auto simp: get_limit_fn_def raw_db_fn_def get_effective_limit_def metric_to_column_def)
qed (simp add: get_limit_fn_def raw_db_fn_def assms(2))

text \<open>
  A connector count is never limited by a licence: for every tenant without an override row
  for it and without a static limit, whatever its tier (the free tier's two connectors included)
  and whether or not the database answers, the check of CONNECTOR_COUNT answers UNLIMITED and
  touches no counter. The same holds for GPU seconds. Nor does an expiry date limit anything.
\<close>

theorem connector_count_unlimited:
  assumes "m \<in> {''CONNECTOR_COUNT'', ''GPU_SECONDS_PER_MONTH''}"
    and "dict_get static m = None"
    and "\<forall>db. session = Inr db \<longrightarrow>
           (\<forall>ov \<in> set (quota_overrides db). \<not> (qo_tenant_id ov = tenant \<and> qo_metric ov = m))"
  shows "cr_status (fst (check_quota api (get_limit_fn static session) tenant m a i q)) = UNLIMITED
    \<and> q_redis (snd (check_quota api (get_limit_fn static session) tenant m a i q)) = q_redis q
    \<and> get_effective_limit (db\<lparr>tenant_licenses := map (tl_expires_at_update f) (tenant_licenses db)\<rparr>) t' m'
        = get_effective_limit db t' m'"
proof -
  have "get_limit_fn static session tenant m = None" by (rule no_limit_for_uncolumned [OF assms])
  moreover have "get_effective_limit (db\<lparr>tenant_licenses := map (tl_expires_at_update f) (tenant_licenses db)\<rparr>) t' m'
        = get_effective_limit db t' m'"
    by (simp add: get_effective_limit_def select_override_def select_tier_limit_def filter_map comp_def
          cong: option.case_cong)
  ultimately show ?thesis by (simp add: check_quota_def)
qed

theorem connector_count_unlimited_witness:
  "cr_status (fst (check_quota (ideal redis_run) (get_limit_fn [] (Inr demo_db)) ''acme'' ''CONNECTOR_COUNT'' 1 True fresh))
     = UNLIMITED"
  using connector_count_unlimited [of "''CONNECTOR_COUNT''" "[]" "Inr demo_db" "''acme''" "ideal redis_run" 1 True fresh]
  by (simp add: demo_db_def)

section \<open>Usage history\<close>

text \<open>
  The table \<open>usage_history\<close> and \<open>flush_usage_to_history\<close>, which appends a row stamped with the
  database's clock; nothing in the service calls it.
\<close>

record usage_record =
  uh_tenant_id :: string
  uh_metric :: string
  uh_value :: int
  uh_recorded_at :: nat

definition flush_usage_to_history :: "nat \<Rightarrow> string \<Rightarrow> string \<Rightarrow> int \<Rightarrow> usage_record list \<Rightarrow> usage_record list" where
  "flush_usage_to_history now tenant_id metric amount history =
     history @ [\<lparr>uh_tenant_id = tenant_id, uh_metric = metric, uh_value = amount, uh_recorded_at = now\<rparr>]"

end
