(* ===== verification/Json.thy ===== *)
theory Json
  imports Prelude
begin

text \<open>
  JSON values as Python holds them after \<open>json.loads\<close> (dictionaries keep their key order, numbers
  are \<open>int\<close> or \<open>float\<close>, the latter a rational), the conversions the services apply to them
  (\<open>str\<close>, \<open>int\<close>, truth value), \<open>json.dumps\<close> with the default separators on values without
  floats, and the contract of the event codecs.
\<close>

datatype json =
    JNull
  | JBool bool
  | JInt int
  | JFloat rat
  | JStr string
  | JList "json list"
  | JObj "(string \<times> json) list"

section \<open>Access and conversion\<close>

text \<open>\<open>d.get(k, default)\<close> on a dictionary.\<close>

definition obj_get :: "(string \<times> json) list \<Rightarrow> string \<Rightarrow> json \<Rightarrow> json" where
  "obj_get d k v = get_or d k v"

fun truthy :: "json \<Rightarrow> bool" where
  "truthy JNull = False"
| "truthy (JBool b) = b"
| "truthy (JInt i) = (i \<noteq> 0)"
| "truthy (JFloat q) = (q \<noteq> 0)"
| "truthy (JStr s) = (s \<noteq> [])"
| "truthy (JList xs) = (xs \<noteq> [])"
| "truthy (JObj d) = (d \<noteq> [])"

text \<open>\<open>int(x)\<close>: \<open>None\<close> where it raises \<open>TypeError\<close> or \<open>ValueError\<close>; a float is truncated.\<close>

fun json_int :: "json \<Rightarrow> int option" where
  "json_int (JBool b) = Some (if b then 1 else 0)"
| "json_int (JInt i) = Some i"
| "json_int (JFloat q) = Some (if 0 \<le> q then \<lfloor>q\<rfloor> else \<lceil>q\<rceil>)"
| "json_int (JStr s) = py_int s"
| "json_int _ = None"

fun json_str :: "json \<Rightarrow> string option" where
  "json_str (JStr s) = Some s"
| "json_str _ = None"

section \<open>json.dumps\<close>

text \<open>
  A string literal with \<open>ensure_ascii\<close>: quote, backslash and the control characters are escaped,
  DEL and the printable characters stand for themselves. (Bytes above 127 belong to non-ASCII
  characters, which the services' keys and identifiers do not use; they are passed through.)
\<close>

definition hex_digit :: "nat \<Rightarrow> char" where
  "hex_digit d = (if d < 10 then char_of (48 + d) else char_of (87 + d))"

definition esc_char :: "char \<Rightarrow> string" where
  "esc_char c =
     (let n = of_char c :: nat in
      if n = 34 then [CHR 0x5C, c]
      else if n = 92 then [CHR 0x5C, c]
      else if n = 10 then [CHR 0x5C, CHR ''n'']
      else if n = 13 then [CHR 0x5C, CHR ''r'']
      else if n = 9 then [CHR 0x5C, CHR ''t'']
      else if n = 8 then [CHR 0x5C, CHR ''b'']
      else if n = 12 then [CHR 0x5C, CHR ''f'']
      else if n < 32 then [CHR 0x5C, CHR ''u'', CHR ''0'', CHR ''0'', hex_digit (n div 16), hex_digit (n mod 16)]
      else [c])"

definition esc :: "string \<Rightarrow> string" where
  "esc s = concat (map esc_char s)"

definition quote :: "string \<Rightarrow> string" where
  "quote s = [CHR 0x22] @ esc s @ [CHR 0x22]"

text \<open>
  The inverse on one character: reading an escaped string back. \<open>unesc\<close> returns the string up to
  the closing quote and what follows it.
\<close>

definition hex_val :: "char \<Rightarrow> nat" where
  "hex_val c = (let n = of_char c :: nat in if n < 58 then n - 48 else n - 87)"

fun unesc :: "string \<Rightarrow> (string \<times> string) option" where
  "unesc [] = None"
| "unesc (c # cs) =
     (if c = CHR 0x22 then Some ([], cs)
      else if c = CHR 0x5C then
        (case cs of
           [] \<Rightarrow> None
         | e # ds \<Rightarrow>
             if e = CHR ''u'' then
               (case ds of
                  _ # _ # h # l # ds' \<Rightarrow>
                    map_option (\<lambda>(s, r). (char_of (16 * hex_val h + hex_val l) # s, r)) (unesc ds')
                | _ \<Rightarrow> None)
             else map_option (\<lambda>(s, r).
                    ((if e = CHR ''n'' then CHR 0x0A else if e = CHR ''r'' then CHR 0x0D
                      else if e = CHR ''t'' then CHR 0x09 else if e = CHR ''b'' then CHR 0x08
                      else if e = CHR ''f'' then CHR 0x0C else e) # s, r)) (unesc ds))
      else map_option (\<lambda>(s, r). (c # s, r)) (unesc cs))"

lemma hex_val_hex_digit: "d < 16 \<Longrightarrow> hex_val (hex_digit d) = d"
  by (simp add: hex_val_def hex_digit_def Let_def)

lemma unesc_esc_char:
  "unesc (esc_char c @ rest) = map_option (\<lambda>(s, r). (c # s, r)) (unesc rest)"
proof -
  define n :: nat where "n = of_char c"
  have c: "c = char_of n" and n: "n < 256" by (simp_all add: n_def)
  have "(c = d) = (n = of_char d)" for d
    by (simp add: n_def)
  from this [of "CHR 0x22"] this [of "CHR 0x5C"] this [of "CHR 0x0A"] this [of "CHR 0x0D"]
    this [of "CHR 0x09"] this [of "CHR 0x08"] this [of "CHR 0x0C"]
  have q: "c = CHR 0x22 \<longleftrightarrow> n = 34" "c = CHR 0x5C \<longleftrightarrow> n = 92" "c = CHR 0x0A \<longleftrightarrow> n = 10"
    "c = CHR 0x0D \<longleftrightarrow> n = 13" "c = CHR 0x09 \<longleftrightarrow> n = 9" "c = CHR 0x08 \<longleftrightarrow> n = 8"
    "c = CHR 0x0C \<longleftrightarrow> n = 12" by simp_all
  consider "n = 34" | "n = 92" | "n = 10" | "n = 13" | "n = 9" | "n = 8" | "n = 12"
    | "n \<notin> {34, 92, 10, 13, 9, 8, 12}" "n < 32" | "n \<notin> {34, 92, 10, 13, 9, 8, 12}" "32 \<le> n"
    by fastforce
  then show ?thesis
  proof cases
    case 1
    then have "c = CHR 0x22" by (simp only: q)
    then show ?thesis by (simp add: esc_char_def)
  next
    case 2
    then have "c = CHR 0x5C" by (simp only: q)
    then show ?thesis by (simp add: esc_char_def)
  next
    case 3
    then have "c = CHR 0x0A" by (simp only: q)
    then show ?thesis by (simp add: esc_char_def)
  next
    case 4
    then have "c = CHR 0x0D" by (simp only: q)
    then show ?thesis by (simp add: esc_char_def)
  next
    case 5
    then have "c = CHR 0x09" by (simp only: q)
    then show ?thesis by (simp add: esc_char_def)
  next
    case 6
    then have "c = CHR 0x08" by (simp only: q)
    then show ?thesis by (simp add: esc_char_def)
  next
    case 7
    then have "c = CHR 0x0C" by (simp only: q)
    then show ?thesis by (simp add: esc_char_def)
  next
    case 8
    have "16 * (n div 16) + n mod 16 = n" by simp
    with 8 n show ?thesis
      by (simp add: esc_char_def n_def [symmetric] Let_def hex_val_hex_digit c)
  next
    case 9
    then show ?thesis by (simp add: esc_char_def n_def [symmetric] Let_def q)
  qed
qed

text \<open>A quoted string is read back, with whatever follows it.\<close>

lemma unesc_esc [simp]: "unesc (esc s @ CHR 0x22 # rest) = Some (s, rest)"
  by (induction s) (auto simp: esc_def unesc_esc_char)

lemma quote_append_inj: "quote s @ r = quote s' @ r' \<longleftrightarrow> s = s' \<and> r = r'"
proof
  assume "quote s @ r = quote s' @ r'"
  then have "unesc (esc s @ CHR 0x22 # r) = unesc (esc s' @ CHR 0x22 # r')"
    by (simp add: quote_def)
  then show "s = s' \<and> r = r'" by simp
qed simp

fun dumps :: "(rat \<Rightarrow> string) \<Rightarrow> json \<Rightarrow> string" where
  "dumps fr JNull = ''null''"
| "dumps fr (JBool b) = (if b then ''true'' else ''false'')"
| "dumps fr (JInt i) = show_int i"
| "dumps fr (JFloat q) = fr q"
| "dumps fr (JStr s) = quote s"
| "dumps fr (JList xs) = ''['' @ join '', '' (map (dumps fr) xs) @ '']''"
| "dumps fr (JObj d) = ''{'' @ join '', '' (map (\<lambda>(k, v). quote k @ '': '' @ dumps fr v) d) @ ''}''"

lemma show_nat_no_char: "\<not> is_digit c \<Longrightarrow> c \<notin> set (show_nat n)"
  using show_nat_digits by blast

lemma show_int_no_comma: "CHR '','' \<notin> set (show_int i)"
  by (simp add: show_int_def show_nat_no_char is_digit_def)

lemma show_int_inj: "show_int i = show_int j \<longleftrightarrow> i = j"
proof
  have hd: "hd (show_nat n) \<noteq> CHR ''-''" for n
    using show_nat_digits [of "hd (show_nat n)" n] by (auto simp: is_digit_def)
  assume "show_int i = show_int j"
  moreover have "show_nat n \<noteq> CHR ''-'' # show_nat m" for m n
    using hd [of n] by auto
  ultimately show "i = j"
    by (auto simp: show_int_def split: if_splits dest: sym)
qed simp

lemma show_int_append_inj:
  assumes "show_int i @ CHR '','' # r = show_int j @ CHR '','' # r'"
  shows "i = j \<and> r = r'"
proof -
  have "takeWhile (\<lambda>c. c \<noteq> CHR '','') (show_int k @ CHR '','' # r) = show_int k" for k r
    using show_int_no_comma [of k] by (subst takeWhile_append2) auto
  with assms have "show_int i = show_int j" by metis
  with assms show ?thesis by (simp add: show_int_inj)
qed

section \<open>Event codecs\<close>

text \<open>
  An event class is serialised field by field (\<open>asdict\<close>) and rebuilt by keyword arguments. The
  contract of a codec: what one service encodes, the next decodes to the same event.
\<close>

datatype codec_error = Missing_Field string | Unexpected_Field string | Ill_Typed string

definition field :: "(string \<times> json) list \<Rightarrow> string \<Rightarrow> (codec_error, json) res" where
  "field d k = (case map_of d k of None \<Rightarrow> Inl (Missing_Field k) | Some v \<Rightarrow> Inr v)"

definition only_fields :: "string list \<Rightarrow> (string \<times> json) list \<Rightarrow> (codec_error, unit) res" where
  "only_fields ks d = (case filter (\<lambda>k. k \<notin> set ks) (map fst d) of
       [] \<Rightarrow> Inr ()
     | k # _ \<Rightarrow> Inl (Unexpected_Field k))"

locale codec =
  fixes encode :: "'a \<Rightarrow> 'w" and decode :: "'w \<Rightarrow> ('e, 'a) res"
  assumes decode_encode: "decode (encode x) = Inr x"
begin

lemma encode_inj: "encode x = encode y \<longleftrightarrow> x = y"
  by (metis decode_encode Inr_inject)

lemma decode_stream: "map decode (map encode xs) = map Inr xs"
  by (simp add: decode_encode)

end

end
