(* ===== verification/Quota_Server.thy ===== *)
theory Quota_Server
  imports Quota_Limits Json
begin

text \<open>
  \<open>services/quota-service/src/server.py\<close>: the HTTP handler the Kong plugin and the BFF call, and
  the gRPC servicer. The JSON decoder is the parameter \<open>loads\<close>. Of the generated protobuf classes
  the model uses the field access of a request record, the names of \<open>enum Metric\<close> in
  \<open>docs/api/quota-service.proto\<close> and \<open>HasField\<close>, a parameter. Spans and timing are left out.
\<close>

section \<open>HTTP\<close>

record http_request =
  hr_path :: string
  hr_content_length :: "string option"
  hr_body :: string

datatype http_body = No_Body | Json_Body json

datatype http_outcome =
    Response nat http_body
  | Handler_Error string

definition check_response :: "check_result \<Rightarrow> json" where
  "check_response r = JObj
     [(''status'', JStr (status_name (cr_status r))),
      (''current_usage'', JInt (cr_current_usage r)),
      (''limit'', JInt (cr_limit r)),
      (''deny_reason'', JStr (cr_deny_reason r))]"

text \<open>
  The arguments of the check in a decoded body: a missing \<open>tenant_id\<close> is a KeyError, a body that is
  no object a TypeError, an amount that \<open>int\<close> rejects a TypeError or ValueError. A tenant or metric
  that is not a string is not modelled (the code would format it into the key); it counts as an
  error here.
\<close>

definition check_args :: "json \<Rightarrow> (string, string \<times> string \<times> int) res" where
  "check_args body =
     (case body of
        JObj d \<Rightarrow>
          (case map_of d ''tenant_id'' of
             None \<Rightarrow> Inl ''KeyError''
           | Some t \<Rightarrow>
               (case (json_str t, json_str (obj_get d ''metric'' (JStr ''API_CALLS_PER_DAY'')),
                      json_int (obj_get d ''amount'' (JInt 1))) of
                  (Some tenant, Some metric, Some amount) \<Rightarrow> Inr (tenant, metric, amount)
                | _ \<Rightarrow> Inl ''TypeError''))
      | _ \<Rightarrow> Inl ''TypeError'')"

definition do_POST ::
  "(string \<Rightarrow> json option) \<Rightarrow> 's redis_api \<Rightarrow> (string \<Rightarrow> string \<Rightarrow> int option) \<Rightarrow> http_request \<Rightarrow> 's qstate
     \<Rightarrow> http_outcome \<times> 's qstate" where
  "do_POST loads api get_limit rq q =
     (if hr_path rq = ''/v1/check-quota''
      then (case py_int (case hr_content_length rq of None \<Rightarrow> ''0'' | Some s \<Rightarrow> s) of
              None \<Rightarrow> (Handler_Error ''ValueError'', q)
            | Some len \<Rightarrow>
                (case loads (if len < 0 then hr_body rq else take (nat len) (hr_body rq)) of
                   None \<Rightarrow> (Response 500 No_Body, q)
                 | Some body \<Rightarrow>
                     (case check_args body of
                        Inl _ \<Rightarrow> (Response 500 No_Body, q)
                      | Inr (tenant, metric, amount) \<Rightarrow>
                          (case check_quota api get_limit tenant metric amount True q of
                             (res, q') \<Rightarrow> (Response 200 (Json_Body (check_response res)), q')))))
      else (Response 404 No_Body, q))"

definition do_GET :: "http_request \<Rightarrow> http_outcome" where
  "do_GET rq =
     (if hr_path rq = ''/healthz'' then Response 200 (Json_Body (JObj [(''status'', JStr ''ok'')]))
      else Response 404 No_Body)"

text \<open>\<open>BaseHTTPRequestHandler\<close> dispatches on the method and answers 501 where the class has no
  \<open>do_\<close> method for it.\<close>

definition quota_http ::
  "(string \<Rightarrow> json option) \<Rightarrow> 's redis_api \<Rightarrow> (string \<Rightarrow> string \<Rightarrow> int option) \<Rightarrow> string \<Rightarrow> http_request \<Rightarrow> 's qstate
     \<Rightarrow> http_outcome \<times> 's qstate" where
  "quota_http loads api get_limit verb rq q =
     (if verb = ''POST'' then do_POST loads api get_limit rq q
      else if verb = ''GET'' then (do_GET rq, q)
      else (Response 501 No_Body, q))"

section \<open>gRPC\<close>

datatype pb_status = QUOTA_STATUS_UNSPECIFIED | PB_ALLOWED | PB_DENIED | PB_UNLIMITED

definition pb_metric_names :: "(int \<times> string) list" where
  "pb_metric_names =
     [(0, ''METRIC_UNSPECIFIED''), (1, ''BYTES_PER_MONTH''), (2, ''VECTORS_STORED''),
      (3, ''API_CALLS_PER_DAY''), (4, ''API_CALLS_PER_MINUTE''), (5, ''GPU_SECONDS_PER_MONTH''),
      (6, ''CONCURRENT_WORKERS''), (7, ''CONNECTOR_COUNT''), (8, ''USERS_PER_TENANT'')]"

definition metric_Name :: "int \<Rightarrow> (string, string) res" where
  "metric_Name i = (case map_of pb_metric_names i of None \<Rightarrow> Inl ''ValueError'' | Some n \<Rightarrow> Inr n)"

record check_quota_request =
  cq_tenant_id :: string
  cq_metric :: int
  cq_amount :: int
  cq_increment_on_allow :: bool

record check_quota_response =
  cp_status :: pb_status
  cp_current_usage :: int
  cp_limit :: int
  cp_deny_reason :: string

definition pb_of_status :: "quota_status \<Rightarrow> pb_status" where
  "pb_of_status s =
     (case s of ALLOWED \<Rightarrow> PB_ALLOWED | DENIED \<Rightarrow> PB_DENIED | UNLIMITED \<Rightarrow> PB_UNLIMITED
      | UNSPECIFIED \<Rightarrow> QUOTA_STATUS_UNSPECIFIED)"

definition CheckQuota ::
  "(check_quota_request \<Rightarrow> string \<Rightarrow> (string, bool) res) \<Rightarrow> 's redis_api \<Rightarrow> (string \<Rightarrow> string \<Rightarrow> int option)
     \<Rightarrow> check_quota_request \<Rightarrow> 's qstate \<Rightarrow> (string, check_quota_response) res \<times> 's qstate" where
  "CheckQuota has_field api get_limit rq q =
     (case metric_Name (cq_metric rq) of
        Inl e \<Rightarrow> (Inl e, q)
      | Inr metric_name \<Rightarrow>
          (case has_field rq ''increment_on_allow'' of
             Inl e \<Rightarrow> (Inl e, q)
           | Inr present \<Rightarrow>
               (case check_quota api get_limit (cq_tenant_id rq) metric_name
                       (if 0 < cq_amount rq then cq_amount rq else 1)
                       (if present then cq_increment_on_allow rq else True) q of
                  (res, q') \<Rightarrow>
                    (Inr \<lparr>cp_status = pb_of_status (cr_status res), cp_current_usage = cr_current_usage res,
                          cp_limit = cr_limit res, cp_deny_reason = cr_deny_reason res\<rparr>, q'))))"

record record_usage_request =
  ru_tenant_id :: string
  ru_metric :: int
  ru_amount :: int
  ru_event_id :: string

definition RecordUsage ::
  "'s redis_api \<Rightarrow> record_usage_request \<Rightarrow> 's \<Rightarrow> (string, record_result) res \<times> 's" where
  "RecordUsage api rq s =
     (case metric_Name (ru_metric rq) of
        Inl e \<Rightarrow> (Inl e, s)
      | Inr metric_name \<Rightarrow> record_usage api (ru_tenant_id rq) metric_name (ru_amount rq) (ru_event_id rq) s)"

record get_usage_response =
  gu_tenant_id :: string
  gu_metric :: int
  gu_current :: int
  gu_limit :: int
  gu_usage_ratio :: rat

definition GetUsage ::
  "'s redis_api \<Rightarrow> (string \<Rightarrow> string \<Rightarrow> int option) \<Rightarrow> string \<Rightarrow> int \<Rightarrow> 's
     \<Rightarrow> (string, get_usage_response) res \<times> 's" where
  "GetUsage api get_limit tenant metric s =
     (case metric_Name metric of
        Inl e \<Rightarrow> (Inl e, s)
      | Inr metric_name \<Rightarrow>
          (case get_usage api get_limit tenant metric_name s of
             (Inl e, s') \<Rightarrow> (Inl e, s')
           | (Inr d, s') \<Rightarrow>
               (Inr \<lparr>gu_tenant_id = us_tenant_id d, gu_metric = metric, gu_current = us_current d,
                     gu_limit = us_limit d,
                     gu_usage_ratio = (if 0 < us_limit d then of_int (us_current d) / of_int (us_limit d) else 0)\<rparr>,
                s')))"

section \<open>Properties\<close>

lemma check_args_object:
  assumes "map_of d ''tenant_id'' = Some (JStr t)"
    and "obj_get d ''metric'' (JStr ''API_CALLS_PER_DAY'') = JStr m"
    and "json_int (obj_get d ''amount'' (JInt 1)) = Some a"
  shows "check_args (JObj d) = Inr (t, m, a)"
  using assms by (simp add: check_args_def)

text \<open>
  The HTTP check always increments: a well-formed request of any shape is answered from the
  incrementing check of its tenant, metric and amount, whatever its \<open>increment_on_allow\<close> field
  says (the BFF sends \<open>false\<close> when it only reads usage); and every other path and verb changes
  nothing: GET answers 404 but for the health check, verbs other than GET and POST 501.
\<close>

theorem http_check_always_increments:
  assumes "loads (take (nat len) (hr_body rq)) = Some (JObj d)"
    and "hr_content_length rq = Some cl" and "py_int cl = Some len" and "0 \<le> len"
    and "map_of d ''tenant_id'' = Some (JStr t)"
    and "obj_get d ''metric'' (JStr ''API_CALLS_PER_DAY'') = JStr m"
    and "json_int (obj_get d ''amount'' (JInt 1)) = Some a"
    and "check_quota api get_limit t m a True q = (res, q')"
  shows "quota_http loads api get_limit ''POST'' (rq\<lparr>hr_path := ''/v1/check-quota''\<rparr>) q
      = (Response 200 (Json_Body (check_response res)), q')
    \<and> (path \<noteq> ''/healthz'' \<longrightarrow> quota_http loads api get_limit ''GET'' (rq\<lparr>hr_path := path\<rparr>) q = (Response 404 No_Body, q))
    \<and> quota_http loads api get_limit ''PUT'' (rq\<lparr>hr_path := path\<rparr>) q = (Response 501 No_Body, q)"
  using assms check_args_object [OF assms(5-7)]
  by (simp add: quota_http_def do_POST_def do_GET_def)

theorem http_check_always_increments_witness:
  "quota_http (\<lambda>_. Some (JObj [(''tenant_id'', JStr ''acme''), (''amount'', JInt 2), (''increment_on_allow'', JBool False)]))
      (ideal redis_run) (\<lambda>_ _. None) ''POST''
      \<lparr>hr_path = ''/v1/check-quota'', hr_content_length = Some ''2'', hr_body = ''{}''\<rparr> fresh
    = (Response 200 (Json_Body (check_response
         \<lparr>cr_status = UNLIMITED, cr_current_usage = 0, cr_limit = 0, cr_deny_reason = ''''\<rparr>)), fresh)"
proof -
  let ?d = "[(''tenant_id'', JStr ''acme''), (''amount'', JInt 2), (''increment_on_allow'', JBool False)]"
  let ?rq = "\<lparr>hr_path = ''/v1/check-quota'', hr_content_length = Some ''2'', hr_body = ''{}''\<rparr>"
  have i: "py_int ''2'' = Some 2" by (simp add: str_eval)
  have c: "check_quota (ideal redis_run) (\<lambda>_ _. None) ''acme'' ''API_CALLS_PER_DAY'' 2 True fresh
      = (\<lparr>cr_status = UNLIMITED, cr_current_usage = 0, cr_limit = 0, cr_deny_reason = ''''\<rparr>, fresh)"
    by (simp add: check_quota_def count_check_def fresh_def no_metrics_def)
  show ?thesis
    using http_check_always_increments [of "\<lambda>_. Some (JObj ?d)" 2 ?rq ?d "''2''" "''acme''" "''API_CALLS_PER_DAY''" 2
        "ideal redis_run" "\<lambda>_ _. None" fresh, OF _ _ i _ _ _ _ c]
    by (simp add: obj_get_def get_or_def)
qed

text \<open>
  The gRPC check never answers: \<open>increment_on_allow\<close> is declared in the proto3 file without
  \<open>optional\<close>, so it has no presence and \<open>HasField\<close> raises on it, as the protobuf documentation
  says; every call of CheckQuota then raises before any quota is consulted, and Redis and the
  metrics stay as they are.
\<close>

theorem grpc_check_quota_always_raises:
  assumes "\<And>rq. \<exists>e. has_field rq ''increment_on_allow'' = Inl e"
  shows "\<exists>e. CheckQuota has_field api get_limit rq q = (Inl e, q)"
proof -
  obtain e where "has_field rq ''increment_on_allow'' = Inl e" using assms by blast
  then show ?thesis
    by (cases "metric_Name (cq_metric rq)") (simp_all add: CheckQuota_def)
qed

theorem grpc_check_quota_always_raises_witness:
  "\<exists>e. CheckQuota (\<lambda>_ f. if f = ''increment_on_allow'' then Inl ''ValueError'' else Inr True)
      (ideal redis_run) (\<lambda>_ _. None)
      \<lparr>cq_tenant_id = ''acme'', cq_metric = 3, cq_amount = 1, cq_increment_on_allow = True\<rparr> fresh = (Inl e, fresh)"
  by (rule grpc_check_quota_always_raises) simp

end
