(* ===== verification/Circuit_Breaker.thy ===== *)
theory Circuit_Breaker
  imports Prelude
begin

text \<open>
  \<open>services/rag-api/src/circuit_breaker.py\<close>: the breaker around the vector search. The clock
  (\<open>time.monotonic()\<close>) is an argument: \<open>now\<close> when the state is read, \<open>later\<close> when a failure is
  recorded. The guarded function acts on a state of its own, so that a call that is refused is seen
  not to run it.
\<close>

datatype cb_state = CLOSED | OPEN | HALF_OPEN

record breaker =
  failure_threshold :: int
  recovery_timeout :: rat
  failure_count :: int
  opened_at :: rat
  cb_state_of :: cb_state

datatype 'e call_error = Breaker_Open | Call_Raised 'e

definition new_breaker :: "int \<Rightarrow> rat \<Rightarrow> breaker" where
  "new_breaker threshold timeout =
     \<lparr>failure_threshold = threshold, recovery_timeout = timeout, failure_count = 0, opened_at = 0,
      cb_state_of = CLOSED\<rparr>"

text \<open>The \<open>state\<close> property, which moves an open breaker to half-open once the time-out has passed.\<close>

definition refresh :: "rat \<Rightarrow> breaker \<Rightarrow> breaker" where
  "refresh now b =
     (if cb_state_of b = OPEN \<and> recovery_timeout b \<le> now - opened_at b
      then b\<lparr>cb_state_of := HALF_OPEN\<rparr> else b)"

definition on_failure :: "rat \<Rightarrow> breaker \<Rightarrow> breaker" where
  "on_failure later b =
     (let b1 = b\<lparr>failure_count := failure_count b + 1, opened_at := later\<rparr>
      in if failure_threshold b1 \<le> failure_count b1 then b1\<lparr>cb_state_of := OPEN\<rparr> else b1)"

definition reset :: "breaker \<Rightarrow> breaker" where
  "reset b = b\<lparr>failure_count := 0, opened_at := 0, cb_state_of := CLOSED\<rparr>"

text \<open>\<open>call(func)\<close>; \<open>func\<close> itself may raise \<open>CircuitBreakerOpen\<close>, which is passed on uncounted.\<close>

definition call ::
  "rat \<Rightarrow> rat \<Rightarrow> ('s \<Rightarrow> ('e call_error + 'a) \<times> 's) \<Rightarrow> breaker \<times> 's \<Rightarrow> ('e call_error + 'a) \<times> (breaker \<times> 's)" where
  "call now later func bs =
     (let b = refresh now (fst bs) in
      if cb_state_of b = OPEN then (Inl Breaker_Open, (b, snd bs))
      else
        (case func (snd bs) of
           (Inr x, s') \<Rightarrow> (Inr x, (if cb_state_of b = HALF_OPEN then reset b else b, s'))
         | (Inl Breaker_Open, s') \<Rightarrow> (Inl Breaker_Open, (b, s'))
         | (Inl (Call_Raised e), s') \<Rightarrow> (Inl (Call_Raised e), (on_failure later b, s'))))"

section \<open>Invariant\<close>

text \<open>A breaker that is not closed has reached its threshold, a closed one has not.\<close>

definition breaker_inv :: "breaker \<Rightarrow> bool" where
  "breaker_inv b \<longleftrightarrow>
     0 < failure_threshold b \<and> 0 \<le> failure_count b
   \<and> (cb_state_of b = CLOSED \<longleftrightarrow> failure_count b < failure_threshold b)"

lemma refresh_frame [simp, frame]:
  "failure_threshold (refresh now b) = failure_threshold b"
  "recovery_timeout (refresh now b) = recovery_timeout b"
  "failure_count (refresh now b) = failure_count b"
  "opened_at (refresh now b) = opened_at b"
  "cb_state_of (refresh now b) = CLOSED \<longleftrightarrow> cb_state_of b = CLOSED"
  by (auto simp: refresh_def)

lemma breaker_inv_new: "0 < n \<Longrightarrow> breaker_inv (new_breaker n t)"
  by (simp add: breaker_inv_def new_breaker_def)

lemma breaker_inv_refresh: "breaker_inv b \<Longrightarrow> breaker_inv (refresh now b)"
  by (simp add: breaker_inv_def)

lemma breaker_inv_on_failure: "breaker_inv b \<Longrightarrow> breaker_inv (on_failure later b)"
  by (auto simp: breaker_inv_def on_failure_def Let_def)

lemma breaker_inv_reset: "breaker_inv b \<Longrightarrow> breaker_inv (reset b)"
  by (simp add: breaker_inv_def reset_def)

lemmas breaker_inv_intros = breaker_inv_refresh breaker_inv_on_failure breaker_inv_reset

lemma call_cases:
  assumes "call now later func (b, s) = (r, (b', s'))"
  obtains (refused) "cb_state_of (refresh now b) = OPEN" "r = Inl Breaker_Open" "b' = refresh now b" "s' = s"
  | (returned) x where "cb_state_of (refresh now b) \<noteq> OPEN" "func s = (Inr x, s')" "r = Inr x"
      "b' = (if cb_state_of (refresh now b) = HALF_OPEN then reset (refresh now b) else refresh now b)"
  | (passed) "cb_state_of (refresh now b) \<noteq> OPEN" "func s = (Inl Breaker_Open, s')" "r = Inl Breaker_Open"
      "b' = refresh now b"
  | (failed) e where "cb_state_of (refresh now b) \<noteq> OPEN" "func s = (Inl (Call_Raised e), s')"
      "r = Inl (Call_Raised e)" "b' = on_failure later (refresh now b)"
proof (cases "cb_state_of (refresh now b) = OPEN")
  case True
  with assms show thesis by (intro refused) (auto simp: call_def Let_def)
next
  case False
  obtain fr fs where f: "func s = (fr, fs)" by fastforce
  show thesis
  proof (cases fr)
    case (Inl e)
    with False f assms show thesis
      by (cases e) (auto simp: call_def Let_def intro: passed failed)
  next
    case (Inr x)
    with False f assms show thesis by (intro returned [of x]) (auto simp: call_def Let_def)
  qed
qed

text \<open>
  C17. The breaker is a sound guard. Every call keeps the invariant (closed exactly while the
  failure count is below the threshold); while the breaker is open and the recovery time-out has
  not passed, a call raises CircuitBreakerOpen and does not run the function; after the time-out
  the function runs once as a probe, whose success closes the breaker with a zero count and whose
  failure opens it again from that moment.
\<close>

theorem breaker_guards:
  assumes "breaker_inv b" and "call now later func (b, s) = (r, (b', s'))"
  shows "breaker_inv b'
    \<and> (cb_state_of b = OPEN \<and> now - opened_at b < recovery_timeout b \<longrightarrow>
         r = Inl Breaker_Open \<and> b' = b \<and> s' = s)
    \<and> (cb_state_of b = OPEN \<and> recovery_timeout b \<le> now - opened_at b \<longrightarrow>
         (case fst (func s) of
            Inr x \<Rightarrow> r = Inr x \<and> cb_state_of b' = CLOSED \<and> failure_count b' = 0
          | Inl Breaker_Open \<Rightarrow> cb_state_of b' = HALF_OPEN
          | Inl (Call_Raised e) \<Rightarrow> r = Inl (Call_Raised e) \<and> cb_state_of b' = OPEN \<and> opened_at b' = later))"
  using assms(2)
proof (cases rule: call_cases)
  case refused
  with assms(1) show ?thesis by (auto simp: refresh_def intro: breaker_inv_intros split: if_splits)
next
  case (returned x)
  with assms(1) show ?thesis by (auto simp: refresh_def reset_def breaker_inv_def split: if_splits)
next
  case passed
  with assms(1) show ?thesis by (auto simp: refresh_def breaker_inv_def split: if_splits)
next
  case (failed e)
  with assms(1) show ?thesis
    by (auto simp: refresh_def on_failure_def breaker_inv_def Let_def split: if_splits)
qed

theorem breaker_guards_witness:
  "\<exists>r b' s'. call 10 11 (\<lambda>n. (Inr n, Suc n)) ((new_breaker 1 30)\<lparr>cb_state_of := OPEN, failure_count := 1\<rparr>, 5)
      = (r, (b', s')) \<and> r = (Inl Breaker_Open :: string call_error + nat) \<and> s' = 5"
proof -
  let ?b = "(new_breaker 1 30)\<lparr>cb_state_of := OPEN, failure_count := 1\<rparr>"
  obtain r b' s' where c: "call 10 11 (\<lambda>n. (Inr n, Suc n)) (?b, 5 :: nat) = (r :: string call_error + nat, (b', s'))"
    by (metis prod_cases3)
  have i: "breaker_inv ?b" by (simp add: breaker_inv_def new_breaker_def)
  show ?thesis
    using c breaker_guards [OF i c] by (simp add: new_breaker_def)
qed

section \<open>Which failures open it\<close>

text \<open>A closed breaker driven by a sequence of outcomes: \<open>True\<close> for a call that returned,
  \<open>False\<close> for one that raised, each with its time.\<close>

definition outcome :: "bool \<Rightarrow> nat \<Rightarrow> (string call_error + nat) \<times> nat" where
  "outcome ok n = (if ok then (Inr n, Suc n) else (Inl (Call_Raised ''error''), Suc n))"

primrec drive :: "(rat \<times> bool) list \<Rightarrow> breaker \<times> nat \<Rightarrow> breaker \<times> nat" where
  "drive [] bs = bs"
| "drive (o1 # os) bs = drive os (snd (call (fst o1) (fst o1) (outcome (snd o1)) bs))"

definition failures :: "(rat \<times> bool) list \<Rightarrow> int" where
  "failures os = int (length (filter (\<lambda>x. \<not> snd x) os))"

lemma failures_simps [simp]:
  "failures [] = 0"
  "failures (x # xs) = failures xs + (if snd x then 0 else 1)"
  by (simp_all add: failures_def)

lemma failures_nonneg: "0 \<le> failures os"
  by (simp add: failures_def)

lemma drive_closed:
  "cb_state_of b = CLOSED \<Longrightarrow> failure_count b + failures os < failure_threshold b \<Longrightarrow>
     \<exists>t. fst (drive os (b, n)) = b\<lparr>failure_count := failure_count b + failures os, opened_at := t\<rparr>"
proof (induction os arbitrary: b n)
  case Nil
  have "b = b\<lparr>failure_count := failure_count b + 0, opened_at := opened_at b\<rparr>" by simp
  then show ?case by (auto intro: exI [of _ "opened_at b"])
next
  case (Cons x os)
  have lt: "failure_count b + 1 < failure_threshold b" if "\<not> snd x"
    using that Cons.prems(2) failures_nonneg [of os] by simp
  let ?b = "if snd x then b else b\<lparr>failure_count := failure_count b + 1, opened_at := fst x\<rparr>"
  have "snd (call (fst x) (fst x) (outcome (snd x)) (b, n)) = (?b, Suc n)"
    using Cons.prems(1) lt by (auto simp: call_def refresh_def outcome_def on_failure_def Let_def)
  moreover have "cb_state_of ?b = CLOSED" "failure_count ?b + failures os < failure_threshold ?b"
    using Cons.prems by auto
  ultimately obtain t where "fst (drive (x # os) (b, n)) = ?b\<lparr>failure_count := failure_count ?b + failures os, opened_at := t\<rparr>"
    using Cons.IH [of ?b "Suc n"] by auto
  then show ?case
    by (intro exI [of _ t]) (cases "snd x"; simp add: algebra_simps)
qed

lemma drive_append: "drive (xs @ ys) bs = drive ys (drive xs bs)"
  by (induction xs arbitrary: bs) simp_all

text \<open>
  What opens a closed breaker is the number of failures since it was last closed, not the
  number of consecutive failures: any sequence with threshold many failures, however many
  successful calls lie between them, leaves it open at its last failure. (The log message and the
  error-handling document speak of consecutive failures.)
\<close>

theorem nonconsecutive_failures_open:
  assumes "breaker_inv b" and "cb_state_of b = CLOSED" and "failure_count b = 0"
    and "failures os = failure_threshold b - 1"
  shows "cb_state_of (fst (drive (os @ [(t, False)]) (b, n))) = OPEN
    \<and> cb_state_of (fst (drive os (b, n))) = CLOSED"
proof -
  obtain t' n' where d: "drive os (b, n) = (b\<lparr>failure_count := failures os, opened_at := t'\<rparr>, n')"
    using drive_closed [of b os n] assms(2-4) by (cases "drive os (b, n)") auto
  then show ?thesis
    using assms(2,4) by (simp add: drive_append call_def refresh_def outcome_def on_failure_def Let_def)
qed

theorem nonconsecutive_failures_open_witness:
  "cb_state_of (fst (drive ([(1, False), (2, True), (3, True)] @ [(4, False)]) (new_breaker 2 30, 0))) = OPEN"
  using nonconsecutive_failures_open [OF breaker_inv_new [of 2 30], of "[(1, False), (2, True), (3, True)]" 4 0]
  by (simp add: new_breaker_def)

end
