(* ===== verification/Effects.thy ===== *)
theory Effects
  imports Prelude
begin

text \<open>
  Services that talk to several outside systems. Such a service is a program over a world \<open>'w\<close>:
  it issues commands, the world answers each with a reply or an exception, and the code raises,
  catches and returns. The world is a parameter (an \<open>api\<close> of the Prelude), so every theorem holds
  for every behaviour of the outside systems that its hypotheses allow. \<open>wp\<close> is the weakest
  precondition of such a program for a normal and an exceptional postcondition; \<open>logged\<close> records
  the commands in the order they are issued.
\<close>

lemma triple_cases:
  fixes p :: "'a \<times> 'b \<times> 'c"
  obtains a b c where "p = (a, (b, c))"
  by (cases p) auto

section \<open>Exceptions\<close>

text \<open>An exception is the qualified name of its class and its message.\<close>

datatype exc = Exc (exc_class: string) (exc_msg: string)

text \<open>What \<open>except ConnectionError\<close> catches: the built-in class and its built-in subclasses (the
  exceptions of the Redis client derive from \<open>redis.exceptions.RedisError\<close> instead).\<close>

definition is_connection_error :: "exc \<Rightarrow> bool" where
  "is_connection_error e \<longleftrightarrow> exc_class e \<in>
     {''ConnectionError'', ''ConnectionRefusedError'', ''ConnectionResetError'',
      ''ConnectionAbortedError'', ''BrokenPipeError''}"

section \<open>Programs\<close>

type_synonym ('w, 'a) prog = "'w \<Rightarrow> (exc + 'a) \<times> 'w"

definition ret :: "'a \<Rightarrow> ('w, 'a) prog" where
  "ret x w = (Inr x, w)"

definition raise :: "exc \<Rightarrow> ('w, 'a) prog" where
  "raise e w = (Inl e, w)"

definition bindE :: "('w, 'a) prog \<Rightarrow> ('a \<Rightarrow> ('w, 'b) prog) \<Rightarrow> ('w, 'b) prog" where
  "bindE p f w = (case p w of (Inl e, w') \<Rightarrow> (Inl e, w') | (Inr x, w') \<Rightarrow> f x w')"

definition seqE :: "('w, 'a) prog \<Rightarrow> ('w, 'b) prog \<Rightarrow> ('w, 'b) prog" where
  "seqE p q = bindE p (\<lambda>_. q)"

definition catchE :: "('w, 'a) prog \<Rightarrow> (exc \<Rightarrow> ('w, 'a) prog) \<Rightarrow> ('w, 'a) prog" where
  "catchE p h w = (case p w of (Inl e, w') \<Rightarrow> h e w' | (Inr x, w') \<Rightarrow> (Inr x, w'))"

text \<open>\<open>try: p / except Exception: log\<close>.\<close>

definition ignoring :: "('w, 'a) prog \<Rightarrow> ('w, unit) prog" where
  "ignoring p = catchE (bindE p (\<lambda>_. ret ())) (\<lambda>_. ret ())"

definition lift_res :: "exc + 'a \<Rightarrow> ('w, 'a) prog" where
  "lift_res r w = (r, w)"

text \<open>A program of the world, run by a service that has a state of its own.\<close>

definition with_state :: "('w, 'a) prog \<Rightarrow> ('s \<times> 'w, 'a) prog" where
  "with_state p sw = (case p (snd sw) of (r, w') \<Rightarrow> (r, (fst sw, w')))"

text \<open>A command whose reply is not used.\<close>

definition do_cmd :: "('c, exc, 'r, 'w) api \<Rightarrow> 'c \<Rightarrow> ('w, unit) prog" where
  "do_cmd api c = seqE (api c) (ret ())"

definition whenE :: "bool \<Rightarrow> ('w, unit) prog \<Rightarrow> ('w, unit) prog" where
  "whenE b p = (if b then p else ret ())"

fun eachE :: "('a \<Rightarrow> ('w, unit) prog) \<Rightarrow> 'a list \<Rightarrow> ('w, unit) prog" where
  "eachE f [] = ret ()"
| "eachE f (x # xs) = seqE (f x) (eachE f xs)"

lemmas prog_defs = ret_def raise_def bindE_def seqE_def catchE_def ignoring_def lift_res_def whenE_def do_cmd_def

lemma run_ret [simp]: "ret x w = (Inr x, w)" "raise e w = (Inl e, w)" "lift_res r w = (r, w)"
  by (simp_all add: prog_defs)

lemma run_bindE:
  "p w = (Inl e, w') \<Longrightarrow> bindE p f w = (Inl e, w')"
  "p w = (Inr x, w') \<Longrightarrow> bindE p f w = f x w'"
  by (simp_all add: bindE_def)

lemma run_seqE:
  "p w = (Inl e, w') \<Longrightarrow> seqE p q w = (Inl e, w')"
  "p w = (Inr x, w') \<Longrightarrow> seqE p q w = q w'"
  by (simp_all add: seqE_def bindE_def)

lemma run_catchE:
  "p w = (Inl e, w') \<Longrightarrow> catchE p h w = h e w'"
  "p w = (Inr x, w') \<Longrightarrow> catchE p h w = (Inr x, w')"
  by (simp_all add: catchE_def)

lemma run_ignoring: "p w = (r, w') \<Longrightarrow> ignoring p w = (Inr (), w')"
  by (cases r) (simp_all add: prog_defs)

lemma ignoring_snd [simp]: "ignoring p w = (Inr (), snd (p w))"
  by (cases "p w") (simp add: run_ignoring)

lemma do_cmd_run: "do_cmd api c w = (r, w') \<Longrightarrow> \<exists>r'. api c w = (r', w') \<and> is_ok r' = is_ok r"
  by (cases "api c w"; cases "fst (api c w)") (auto simp: prog_defs)

lemma do_cmd_ok: "do_cmd api c w = (Inr u, w') \<Longrightarrow> \<exists>x. api c w = (Inr x, w')"
  by (cases "api c w"; cases "fst (api c w)") (auto simp: prog_defs)

lemma bindE_lift_Inr: "bindE (lift_res (Inr x)) q = q x"
  by (simp add: bindE_def lift_res_def fun_eq_iff)

lemma bindE_lift_Inl: "bindE (lift_res (Inl e)) q = raise e"
  by (simp add: bindE_def lift_res_def raise_def fun_eq_iff)

lemmas run_prog = run_bindE run_seqE run_catchE run_ignoring

section \<open>Weakest preconditions\<close>

definition wp :: "('w, 'a) prog \<Rightarrow> ('a \<Rightarrow> 'w \<Rightarrow> bool) \<Rightarrow> (exc \<Rightarrow> 'w \<Rightarrow> bool) \<Rightarrow> 'w \<Rightarrow> bool" where
  "wp p Q E w = (case p w of (Inl e, w') \<Rightarrow> E e w' | (Inr x, w') \<Rightarrow> Q x w')"

named_theorems wp_simps "weakest preconditions of the program combinators"

lemma wp_ret [wp_simps]: "wp (ret x) Q E = Q x"
  by (simp add: wp_def fun_eq_iff)

lemma wp_raise [wp_simps]: "wp (raise e) Q E = E e"
  by (simp add: wp_def fun_eq_iff)

lemma wp_lift_res [wp_simps]: "wp (lift_res r) Q E w = (case r of Inl e \<Rightarrow> E e w | Inr x \<Rightarrow> Q x w)"
  by (simp add: wp_def)

lemma wp_bindE [wp_simps]: "wp (bindE p f) Q E = wp p (\<lambda>x. wp (f x) Q E) E"
  by (auto simp: wp_def bindE_def fun_eq_iff split: prod.split sum.split)

lemma wp_seqE [wp_simps]: "wp (seqE p q) Q E = wp p (\<lambda>_. wp q Q E) E"
  by (simp add: seqE_def wp_bindE)

lemma wp_catchE [wp_simps]: "wp (catchE p h) Q E = wp p Q (\<lambda>e. wp (h e) Q E)"
  by (auto simp: wp_def catchE_def fun_eq_iff split: prod.split sum.split)

lemma wp_ignoring [wp_simps]: "wp (ignoring p) Q E = wp p (\<lambda>_. Q ()) (\<lambda>_. Q ())"
  by (simp add: ignoring_def wp_simps)

lemma wp_whenE [wp_simps]: "wp (whenE b p) Q E w = (if b then wp p Q E w else Q () w)"
  by (simp add: whenE_def wp_ret)

lemma wp_do_cmd [wp_simps]: "wp (do_cmd api c) Q E = wp (api c) (\<lambda>_. Q ()) E"
  by (simp add: do_cmd_def wp_seqE wp_ret)

lemma wp_mono:
  "wp p Q E w \<Longrightarrow> (\<And>x w'. Q x w' \<Longrightarrow> Q' x w') \<Longrightarrow> (\<And>e w'. E e w' \<Longrightarrow> E' e w') \<Longrightarrow> wp p Q' E' w"
  by (auto simp: wp_def split: prod.splits sum.splits)

lemma wp_runD:
  "wp p Q E w \<Longrightarrow> p w = (Inr x, w') \<Longrightarrow> Q x w'"
  "wp p Q E w \<Longrightarrow> p w = (Inl e, w') \<Longrightarrow> E e w'"
  by (auto simp: wp_def)

lemma wp_eachE:
  assumes "I w" and "\<And>x w. x \<in> set xs \<Longrightarrow> I w \<Longrightarrow> wp (f x) (\<lambda>_. I) (\<lambda>_. I) w"
  shows "wp (eachE f xs) (\<lambda>_. I) (\<lambda>_. I) w"
  using assms
proof (induction xs arbitrary: w)
  case (Cons x xs)
  have f: "wp (f x) (\<lambda>_. I) (\<lambda>_. I) w" using Cons.prems by simp
  have r: "wp (eachE f xs) (\<lambda>_. I) (\<lambda>_. I) w'" if "I w'" for w'
    using Cons.IH [OF that] Cons.prems(2) by simp
  show ?case by (simp add: wp_simps) (rule wp_mono [OF f], auto intro: r)
qed (simp add: wp_simps)

section \<open>Recorded commands\<close>

definition logged :: "('c, exc, 'r, 'w) api \<Rightarrow> ('c, exc, 'r, 'w \<times> 'c list) api" where
  "logged api c wl = (case api c (fst wl) of (r, w') \<Rightarrow> (r, (w', snd wl @ [c])))"

lemma wp_logged:
  assumes "\<And>x w'. Q x (w', snd wl @ [c])" and "\<And>e w'. E e (w', snd wl @ [c])"
  shows "wp (logged api c) Q E wl"
  using assms by (auto simp: wp_def logged_def split: prod.split sum.split)

lemma logged_run:
  "api c w = (r, w') \<Longrightarrow> logged api c (w, l) = (r, (w', l @ [c]))"
  by (simp add: logged_def)

section \<open>Bounded retries\<close>

text \<open>
  Several services repeat a fallible operation: attempts \<open>0 .. n - 1\<close>, a sleep after each failed
  attempt but the last. The answer is whether one attempt succeeded.
\<close>

fun retrying :: "(nat \<Rightarrow> ('w, unit) prog) \<Rightarrow> (nat \<Rightarrow> ('w, unit) prog) \<Rightarrow> nat \<Rightarrow> nat \<Rightarrow> ('w, bool) prog" where
  "retrying attempt sleep k 0 = ret False"
| "retrying attempt sleep k (Suc n) =
     catchE (bindE (attempt k) (\<lambda>_. ret True))
       (\<lambda>_. if n = 0 then ret False else bindE (sleep k) (\<lambda>_. retrying attempt sleep (Suc k) n))"

section \<open>Lists of fallible conversions\<close>

fun traverse :: "('a \<Rightarrow> 'e + 'b) \<Rightarrow> 'a list \<Rightarrow> 'e + 'b list" where
  "traverse f [] = Inr []"
| "traverse f (x # xs) =
     (case f x of Inl e \<Rightarrow> Inl e
      | Inr y \<Rightarrow> (case traverse f xs of Inl e \<Rightarrow> Inl e | Inr ys \<Rightarrow> Inr (y # ys)))"

lemma traverse_Inr_iff: "traverse f xs = Inr ys \<longleftrightarrow> list_all2 (\<lambda>x y. f x = Inr y) xs ys"
proof (induction xs arbitrary: ys)
  case (Cons x xs)
  show ?case
    by (cases "f x"; cases "traverse f xs"; cases ys) (auto simp flip: Cons.IH)
qed auto

lemma traverse_map_inverse: "(\<And>y. y \<in> set ys \<Longrightarrow> f (g y) = Inr y) \<Longrightarrow> traverse f (map g ys) = Inr ys"
  by (induction ys) simp_all

section \<open>Invariants of programs\<close>

text \<open>\<open>keeps I p\<close>: whatever \<open>p\<close> answers, it leads from \<open>I\<close> to \<open>I\<close>.\<close>

definition keeps :: "('w \<Rightarrow> bool) \<Rightarrow> ('w, 'a) prog \<Rightarrow> bool" where
  "keeps I p \<longleftrightarrow> (\<forall>w. I w \<longrightarrow> wp p (\<lambda>_. I) (\<lambda>_. I) w)"

named_theorems keeps_intros "programs that keep an invariant"

lemma keepsD: "keeps I p \<Longrightarrow> I w \<Longrightarrow> p w = (r, w') \<Longrightarrow> I w'"
  by (cases r) (auto simp: keeps_def wp_def)

lemma keepsI: "(\<And>w r w'. I w \<Longrightarrow> p w = (r, w') \<Longrightarrow> I w') \<Longrightarrow> keeps I p"
  by (auto simp: keeps_def wp_def split: prod.split sum.split)

lemma keeps_ret [keeps_intros]: "keeps I (ret x)" "keeps I (raise e)" "keeps I (lift_res r)" "keeps I (Pair y)"
  by (auto intro!: keepsI)

lemma keeps_bindE [keeps_intros]: "keeps I p \<Longrightarrow> (\<And>x. keeps I (f x)) \<Longrightarrow> keeps I (bindE p f)"
  by (rule keepsI) (auto simp: bindE_def dest: keepsD split: prod.splits sum.splits)

lemma keeps_seqE [keeps_intros]: "keeps I p \<Longrightarrow> keeps I q \<Longrightarrow> keeps I (seqE p q)"
  by (simp add: seqE_def keeps_intros)

lemma keeps_with_state [keeps_intros]:
  "keeps I p \<Longrightarrow> keeps (\<lambda>sw. I (snd sw)) (with_state p)"
  by (rule keepsI) (auto simp: with_state_def dest: keepsD split: prod.splits)

lemma keeps_do_cmd [keeps_intros]: "keeps I (api c) \<Longrightarrow> keeps I (do_cmd api c)"
  by (simp add: do_cmd_def keeps_seqE keeps_ret)

lemma keeps_catchE [keeps_intros]: "keeps I p \<Longrightarrow> (\<And>e. keeps I (h e)) \<Longrightarrow> keeps I (catchE p h)"
  by (rule keepsI) (auto simp: catchE_def dest: keepsD split: prod.splits sum.splits)

lemma keeps_ignoring [keeps_intros]: "keeps I p \<Longrightarrow> keeps I (ignoring p)"
  by (simp add: ignoring_def keeps_intros)

lemma keeps_whenE [keeps_intros]: "(b \<Longrightarrow> keeps I p) \<Longrightarrow> keeps I (whenE b p)"
  by (simp add: whenE_def keeps_intros)

lemma keeps_if [keeps_intros]: "(b \<Longrightarrow> keeps I p) \<Longrightarrow> (\<not> b \<Longrightarrow> keeps I q) \<Longrightarrow> keeps I (if b then p else q)"
  by simp

lemma keeps_eachE [keeps_intros]: "(\<And>x. x \<in> set xs \<Longrightarrow> keeps I (f x)) \<Longrightarrow> keeps I (eachE f xs)"
  by (induction xs) (auto intro: keeps_intros)

lemma keeps_retrying [keeps_intros]:
  "(\<And>k. keeps I (attempt k)) \<Longrightarrow> (\<And>k. keeps I (sleep k)) \<Longrightarrow> keeps I (retrying attempt sleep k n)"
  by (induction attempt sleep k n rule: retrying.induct) (auto intro!: keeps_intros)

lemma keeps_wp:
  assumes "keeps I p" and "I w" and "\<And>x w'. I w' \<Longrightarrow> Q x w'"
  shows "wp p Q (\<lambda>_ _. True) w"
proof -
  have "wp p (\<lambda>_. I) (\<lambda>_. I) w" using assms(1,2) by (simp add: keeps_def)
  then show ?thesis by (rule wp_mono) (auto intro: assms(3))
qed

lemma wp_of_keeps:
  assumes "keeps I p" and "I w" and "\<And>x w'. I w' \<Longrightarrow> Q x w'" and "\<And>e w'. I w' \<Longrightarrow> E e w'"
  shows "wp p Q E w"
  using keepsD [OF assms(1,2)] assms(3,4) by (auto simp: wp_def split: prod.split sum.split)

lemma wp_lift_state: "wp p (\<lambda>x w'. Q x (s, w')) (\<lambda>e w'. E e (s, w')) w \<Longrightarrow> wp (with_state p) Q E (s, w)"
  by (auto simp: wp_def with_state_def split: prod.splits sum.splits)

text \<open>The commands recorded since a point satisfy a predicate.\<close>

definition only_issued :: "('c \<Rightarrow> bool) \<Rightarrow> 'c list \<Rightarrow> 'w \<times> 'c list \<Rightarrow> bool" where
  "only_issued P l wl \<longleftrightarrow> (\<exists>cs. snd wl = l @ cs \<and> list_all P cs)"

lemma keeps_logged [keeps_intros]: "P c \<Longrightarrow> keeps (only_issued P l) (logged api c)"
  by (rule keepsI) (fastforce simp: only_issued_def logged_def split: prod.splits)

lemma only_issued_start [simp]: "only_issued P l (w, l)"
  by (simp add: only_issued_def)

lemma traverse_Inl: "traverse f xs = Inl e \<Longrightarrow> \<exists>x \<in> set xs. f x = Inl e"
  by (induction xs) (auto split: sum.splits)

text \<open>Retries of an operation that adds at most one copy of \<open>x\<close> to an observation: at most as many
  copies as attempts, and at least one when the answer is true.\<close>

lemma retrying_copies:
  assumes p: "\<And>k w r w'. attempt k w = (r, w') \<Longrightarrow> \<exists>j \<le> 1. h w' = h w @ replicate j x \<and> (is_ok r \<longrightarrow> j = (1 :: nat))"
    and s: "\<And>k w r w'. sleep k w = (r, w') \<Longrightarrow> h w' = h w"
  shows "retrying attempt sleep k n w = (Inr ok, w') \<Longrightarrow>
    \<exists>j \<le> n. h w' = h w @ replicate j x \<and> (ok \<longrightarrow> 1 \<le> j)"
proof (induction n arbitrary: k w)
  case (Suc n)
  obtain r w1 where a: "attempt k w = (r, w1)" by fastforce
  obtain r2 w2 where sl: "sleep k w1 = (r2, w2)" by fastforce
  obtain j where j: "j \<le> 1" "h w1 = h w @ replicate j x" "is_ok r \<longrightarrow> j = 1" using p [OF a] by blast
  show ?case
  proof (cases "is_ok r \<or> n = 0")
    case True
    then show ?thesis using a j Suc.prems
      by (cases r) (auto simp: prog_defs intro!: exI [of _ j])
  next
    case False
    then have "retrying attempt sleep (Suc k) n w2 = (Inr ok, w')"
      using a sl Suc.prems by (cases r; cases r2) (auto simp: prog_defs)
    from Suc.IH [OF this] obtain i where "i \<le> n" "h w' = h w2 @ replicate i x" "ok \<longrightarrow> 1 \<le> i" by blast
    then show ?thesis using j s [OF sl]
      by (intro exI [of _ "j + i"]) (auto simp: replicate_add)
  qed
qed simp

end
