(* ===== verification/Kafka.thy ===== *)
theory Kafka
  imports Effects
begin

text \<open>
  Kafka messages, and what the confluent-kafka documentation says of a producer: \<open>produce\<close>
  appends the message to the producer's local queue and returns at once (or raises, for instance
  when that queue is full); \<open>flush(t)\<close> waits at most \<open>t\<close> seconds for deliveries and returns the
  number of messages still queued, without raising when that is not zero.
\<close>

record kmsg =
  km_topic :: string
  km_key :: string
  km_value :: string
  km_headers :: "(string \<times> string) list"

abbreviation plain_msg :: "string \<Rightarrow> string \<Rightarrow> string \<Rightarrow> kmsg" where
  "plain_msg topic key val \<equiv> \<lparr>km_topic = topic, km_key = key, km_value = val, km_headers = []\<rparr>"

text \<open>What is known of a consumed message besides its value.\<close>

record kmeta =
  kt_topic :: "string option"
  kt_partition :: "int option"
  kt_offset :: "int option"
  kt_timestamp_ms :: "int option"

text \<open>
  \<open>p\<close> and \<open>f\<close> are the produce and flush commands of one producer whose local queue and whose
  delivered messages the two views read.
\<close>

definition producer_spec ::
  "(kmsg \<Rightarrow> 'w \<Rightarrow> (exc + 'r) \<times> 'w) \<Rightarrow> ('w \<Rightarrow> (exc + nat) \<times> 'w) \<Rightarrow> ('w \<Rightarrow> kmsg list) \<Rightarrow> ('w \<Rightarrow> kmsg list) \<Rightarrow> bool" where
  "producer_spec p f queue delivered \<longleftrightarrow>
     (\<forall>m w r w'. p m w = (Inr r, w') \<longrightarrow> queue w' = queue w @ [m] \<and> delivered w' = delivered w)
   \<and> (\<forall>w n w'. f w = (Inr n, w') \<longrightarrow>
        (\<exists>done. queue w = done @ queue w' \<and> delivered w' = delivered w @ done \<and> n = length (queue w')))"

end
