(* ===== verification/Rag_Api.thy ===== *)
theory Rag_Api
  imports Circuit_Breaker Kafka Json
begin

text \<open>
  \<open>services/rag-api/src\<close>: the query service. \<open>models.py\<close> and \<open>milvus_searcher.py\<close> give the data and
  the vector search, \<open>app.py\<close> the query itself (cache, embedding, guarded search, score filter, cache
  fill, usage and lineage events), \<open>events.py\<close> and \<open>metadata_event.py\<close> the events. Redis, the
  embedding model, Milvus and the two Kafka producers are reached through the commands below.
\<close>

section \<open>Data\<close>

record query_request =
  rq_query :: string
  rq_top_k :: int
  rq_source_filter :: "string option"
  rq_collection :: "string option"
  rq_min_score :: rat

record query_result =
  qr_chunk_id :: string
  qr_text :: string
  qr_score :: rat
  qr_source_type :: string
  qr_doc_id :: string
  qr_metadata :: "json dict"

record query_response =
  qp_results :: "query_result list"
  qp_cached :: bool
  qp_request_id :: string

record search_result =
  sr_chunk_id :: json
  sr_text :: json
  sr_score :: rat
  sr_source_type :: json
  sr_doc_id :: json
  sr_metadata :: json

text \<open>A hit of the Milvus client: its distance and the returned entity.\<close>

record raw_hit =
  rh_distance :: rat
  rh_entity :: "json dict"

datatype rag_cmd =
    Cache_Get string
  | Cache_Setex string int string
  | Embed string
  | Has_Collection string
  | Load_Collection string
  | Milvus_Search string "rat list" int "string option"
  | Usage_Produce kmsg
  | Meta_Produce kmsg
  | Meta_Flush rat

datatype rag_reply =
    R_Done
  | R_Text "string option"
  | R_Bool bool
  | R_Vector "rat list"
  | R_Hits "raw_hit list"

type_synonym 'w rag_api = "(rag_cmd, exc, rag_reply, 'w) api"

text \<open>The service: its circuit breaker and the outside world.\<close>

type_synonym 'w rag = "breaker \<times> 'w"

definition bad_reply :: exc where
  "bad_reply = Exc ''TypeError'' ''unexpected reply''"

definition want_text :: "rag_reply \<Rightarrow> ('w, string option) prog" where
  "want_text r = (case r of R_Text t \<Rightarrow> ret t | _ \<Rightarrow> raise bad_reply)"

definition want_bool :: "rag_reply \<Rightarrow> ('w, bool) prog" where
  "want_bool r = (case r of R_Bool b \<Rightarrow> ret b | _ \<Rightarrow> raise bad_reply)"

definition want_vector :: "rag_reply \<Rightarrow> ('w, rat list) prog" where
  "want_vector r = (case r of R_Vector v \<Rightarrow> ret v | _ \<Rightarrow> raise bad_reply)"

definition want_hits :: "rag_reply \<Rightarrow> ('w, raw_hit list) prog" where
  "want_hits r = (case r of R_Hits hs \<Rightarrow> ret hs | _ \<Rightarrow> raise bad_reply)"

section \<open>Configuration and the facts of one call\<close>

text \<open>
  \<open>sha256(x).hexdigest()\<close>, the decimal rendering of a float and \<open>json.loads\<close> come from the
  libraries; the topics say which publishers the service was given.
\<close>

record rag_env =
  re_sha :: "string \<Rightarrow> string"
  re_repr :: "rat \<Rightarrow> string"
  re_loads :: "string \<Rightarrow> json option"
  re_ttl :: int
  re_usage_topic :: "string option"
  re_meta_topic :: "string option"
  re_model_name :: string

text \<open>The fresh identifiers and the clock readings of one call.\<close>

record call_facts =
  cf_request_id :: string
  cf_usage_id :: string
  cf_usage_time :: string
  cf_meta_id :: string
  cf_meta_time :: string
  cf_elapsed_ms :: rat
  cf_now :: rat
  cf_later :: rat

section \<open>Cache key\<close>

definition opt_json :: "string option \<Rightarrow> json" where
  "opt_json x = (case x of None \<Rightarrow> JNull | Some s \<Rightarrow> JStr s)"

definition cache_key_raw :: "(rat \<Rightarrow> string) \<Rightarrow> string \<Rightarrow> int \<Rightarrow> string option \<Rightarrow> string \<Rightarrow> string" where
  "cache_key_raw fr q k sf col =
     dumps fr (JObj [(''col'', JStr col), (''k'', JInt k), (''q'', JStr q), (''sf'', opt_json sf)])"

definition make_cache_key :: "rag_env \<Rightarrow> string \<Rightarrow> int \<Rightarrow> string option \<Rightarrow> string \<Rightarrow> string" where
  "make_cache_key env q k sf col = ''rag:'' @ re_sha env (cache_key_raw (re_repr env) q k sf col)"

section \<open>Vector search\<close>

definition filter_expr :: "string option \<Rightarrow> string option" where
  "filter_expr sf = (case sf of
       None \<Rightarrow> None
     | Some s \<Rightarrow> if s = [] then None else Some (''source_type == '' @ [CHR 0x22] @ s @ [CHR 0x22]))"

definition search_result_of :: "raw_hit \<Rightarrow> search_result" where
  "search_result_of h =
     (let e = rh_entity h; md = obj_get e ''metadata'' JNull
      in \<lparr>sr_chunk_id = obj_get e ''chunk_id'' (JStr []), sr_text = obj_get e ''text'' (JStr []),
          sr_score = rh_distance h, sr_source_type = obj_get e ''source_type'' (JStr []),
          sr_doc_id = obj_get e ''doc_id'' (JStr []),
          sr_metadata = (if truthy md then md else JObj [])\<rparr>)"

definition search ::
  "'w rag_api \<Rightarrow> string \<Rightarrow> rat list \<Rightarrow> int \<Rightarrow> string option \<Rightarrow> ('w, search_result list) prog" where
  "search api collection vector top_k source_filter =
     bindE (bindE (api (Has_Collection collection)) want_bool) (\<lambda>found.
       if \<not> found then ret []
       else seqE (api (Load_Collection collection))
              (bindE (bindE (api (Milvus_Search collection vector top_k (filter_expr source_filter))) want_hits)
                 (\<lambda>hits. ret (map search_result_of hits))))"

section \<open>Results\<close>

definition validation_error :: exc where
  "validation_error = Exc ''pydantic.ValidationError'' ''''"

text \<open>Building a \<open>QueryResult\<close> validates its fields.\<close>

definition query_result_of :: "search_result \<Rightarrow> exc + query_result" where
  "query_result_of h =
     (case (sr_chunk_id h, sr_text h, sr_source_type h, sr_doc_id h, sr_metadata h) of
        (JStr c, JStr t, JStr st, JStr d, JObj md) \<Rightarrow>
          Inr \<lparr>qr_chunk_id = c, qr_text = t, qr_score = sr_score h, qr_source_type = st, qr_doc_id = d,
               qr_metadata = md\<rparr>
      | _ \<Rightarrow> Inl validation_error)"

definition result_json :: "query_result \<Rightarrow> json" where
  "result_json r = JObj [(''chunk_id'', JStr (qr_chunk_id r)), (''text'', JStr (qr_text r)),
     (''score'', JFloat (qr_score r)), (''source_type'', JStr (qr_source_type r)),
     (''doc_id'', JStr (qr_doc_id r)), (''metadata'', JObj (qr_metadata r))]"

text \<open>A cached entry is validated again when the response is built; an integer score is widened.\<close>

definition result_of_json :: "json \<Rightarrow> exc + query_result" where
  "result_of_json j =
     (case j of
        JObj d \<Rightarrow>
          (let score = (case map_of d ''score'' of Some (JFloat q) \<Rightarrow> Some q | Some (JInt i) \<Rightarrow> Some (of_int i) | _ \<Rightarrow> None)
           in (case (map_of d ''chunk_id'', map_of d ''text'', score, map_of d ''source_type'',
                     map_of d ''doc_id'', obj_get d ''metadata'' (JObj [])) of
                 (Some (JStr c), Some (JStr t), Some q, Some (JStr st), Some (JStr di), JObj md) \<Rightarrow>
                   Inr \<lparr>qr_chunk_id = c, qr_text = t, qr_score = q, qr_source_type = st, qr_doc_id = di,
                        qr_metadata = md\<rparr>
               | _ \<Rightarrow> Inl validation_error))
      | _ \<Rightarrow> Inl validation_error)"

definition response_of_cache :: "json \<Rightarrow> string \<Rightarrow> exc + query_response" where
  "response_of_cache j rid =
     (case j of
        JList xs \<Rightarrow> (case traverse result_of_json xs of
            Inl e \<Rightarrow> Inl e
          | Inr rs \<Rightarrow> Inr \<lparr>qp_results = rs, qp_cached = True, qp_request_id = rid\<rparr>)
      | _ \<Rightarrow> Inl validation_error)"

lemma result_of_json_result_json [simp]: "result_of_json (result_json r) = Inr r"
  by (simp add: result_of_json_def result_json_def obj_get_def get_or_def)

section \<open>Events\<close>

text \<open>\<open>round(x, 3)\<close>: to the nearest thousandth, ties to the even one.\<close>

definition round_even :: "rat \<Rightarrow> int" where
  "round_even x = (let f = \<lfloor>x\<rfloor>; d = x - of_int f
     in if d < 1 / 2 then f else if 1 / 2 < d then f + 1 else if even f then f else f + 1)"

definition round3 :: "rat \<Rightarrow> rat" where
  "round3 x = of_int (round_even (1000 * x)) / 1000"

definition usage_query_event :: "string \<Rightarrow> rat \<Rightarrow> int \<Rightarrow> bool \<Rightarrow> string \<Rightarrow> string \<Rightarrow> json" where
  "usage_query_event tenant duration_ms result_count cached eid time =
     JObj [(''specversion'', JStr ''1.0''), (''type'', JStr ''pipeline.rag.query''),
       (''source'', JStr ''rag-api''), (''id'', JStr eid), (''time'', JStr time),
       (''datacontenttype'', JStr ''application/json''), (''subject'', JStr tenant),
       (''data'', JObj [(''tenant_id'', JStr tenant), (''duration_ms'', JFloat (round3 duration_ms)),
          (''result_count'', JInt result_count), (''cached'', JBool cached)])]"

text \<open>\<open>UsagePublisher.publish_rag_query\<close>: nothing is flushed.\<close>

definition publish_usage_query ::
  "'w rag_api \<Rightarrow> rag_env \<Rightarrow> string \<Rightarrow> string \<Rightarrow> rat \<Rightarrow> int \<Rightarrow> bool \<Rightarrow> string \<Rightarrow> string \<Rightarrow> ('w, unit) prog" where
  "publish_usage_query api env topic tenant duration_ms result_count cached eid time =
     ignoring (api (Usage_Produce
       \<lparr>km_topic = topic, km_key = tenant,
        km_value = dumps (re_repr env) (usage_query_event tenant duration_ms result_count cached eid time),
        km_headers = [(''content-type'', ''application/cloudevents+json'')]\<rparr>))"

definition build_cloudevent :: "string \<Rightarrow> string \<Rightarrow> string \<Rightarrow> json \<Rightarrow> string \<Rightarrow> string \<Rightarrow> json" where
  "build_cloudevent event_type source subject data eid time =
     JObj [(''specversion'', JStr ''1.0''), (''type'', JStr event_type), (''source'', JStr source),
       (''subject'', JStr subject), (''id'', JStr eid), (''time'', JStr time),
       (''datacontenttype'', JStr ''application/json''), (''data'', data)]"

definition safe_publish :: "'w rag_api \<Rightarrow> rag_env \<Rightarrow> string \<Rightarrow> string \<Rightarrow> json \<Rightarrow> ('w, unit) prog" where
  "safe_publish api env topic eid event =
     ignoring (seqE (api (Meta_Produce (plain_msg topic eid (dumps (re_repr env) event)))) (api (Meta_Flush 5)))"

definition publish_meta_query ::
  "'w rag_api \<Rightarrow> rag_env \<Rightarrow> string \<Rightarrow> string \<Rightarrow> query_request \<Rightarrow> string \<Rightarrow> bool \<Rightarrow> json \<Rightarrow> call_facts \<Rightarrow> ('w, unit) prog" where
  "publish_meta_query api env topic tenant rq collection cached chunks cf =
     safe_publish api env topic (cf_meta_id cf)
       (build_cloudevent ''metadata.entity.created'' ''rag-api'' (''RAGQuery/'' @ cf_request_id cf)
          (JObj [(''entity_type'', JStr ''RAGQuery''), (''entity_key'', JStr (cf_request_id cf)),
             (''tenant_id'', JStr tenant),
             (''attributes'', JObj [
                (''query_text_hash'', JStr (''sha256:'' @ re_sha env (rq_query rq))),
                (''top_k'', JInt (rq_top_k rq)), (''source_filter'', opt_json (rq_source_filter rq)),
                (''collection'', JStr collection), (''latency_ms'', JFloat (round3 (cf_elapsed_ms cf))),
                (''cached'', JBool cached), (''model_used'', JStr (re_model_name env))]),
             (''retrieved_chunks'', chunks)])
          (cf_meta_id cf) (cf_meta_time cf))"

text \<open>The chunk list of an event: rank and score by position. From the cached JSON the fields are
  subscripted, which raises on anything but a list (or an empty container) of objects with them.\<close>

definition ranked :: "(json \<times> json) list \<Rightarrow> json" where
  "ranked cs = JList (map (\<lambda>(i, (k, s)). JObj [(''entity_key'', k), (''rank'', JInt (int i + 1)), (''score'', s)])
     (enumerate 0 cs))"

definition subscript_chunk :: "json \<Rightarrow> exc + (json \<times> json)" where
  "subscript_chunk j = (case j of
       JObj d \<Rightarrow> (case (map_of d ''chunk_id'', map_of d ''score'') of
           (Some k, Some s) \<Rightarrow> Inr (k, s)
         | _ \<Rightarrow> Inl (Exc ''KeyError'' ''''))
     | _ \<Rightarrow> Inl (Exc ''TypeError'' ''''))"

fun py_len :: "json \<Rightarrow> exc + int" where
  "py_len (JList xs) = Inr (int (length xs))"
| "py_len (JObj d) = Inr (int (length d))"
| "py_len (JStr s) = Inr (int (length s))"
| "py_len _ = Inl (Exc ''TypeError'' ''object has no len()'')"

definition cached_chunks :: "json \<Rightarrow> exc + json" where
  "cached_chunks j = (case j of
       JList xs \<Rightarrow> (case traverse subscript_chunk xs of Inl e \<Rightarrow> Inl e | Inr cs \<Rightarrow> Inr (ranked cs))
     | JObj [] \<Rightarrow> Inr (ranked [])
     | JStr [] \<Rightarrow> Inr (ranked [])
     | _ \<Rightarrow> Inl (Exc ''TypeError'' ''''))"

section \<open>The query\<close>

definition publish_usage_if ::
  "'w rag_api \<Rightarrow> rag_env \<Rightarrow> string \<Rightarrow> (exc + int) \<Rightarrow> bool \<Rightarrow> call_facts \<Rightarrow> ('w, unit) prog" where
  "publish_usage_if api env tenant count cached cf =
     (case re_usage_topic env of
        None \<Rightarrow> ret ()
      | Some topic \<Rightarrow> ignoring (bindE (lift_res count) (\<lambda>n.
          publish_usage_query api env topic tenant (cf_elapsed_ms cf) n cached (cf_usage_id cf) (cf_usage_time cf))))"

definition publish_meta_if ::
  "'w rag_api \<Rightarrow> rag_env \<Rightarrow> string \<Rightarrow> query_request \<Rightarrow> string \<Rightarrow> bool \<Rightarrow> (exc + json) \<Rightarrow> call_facts \<Rightarrow> ('w, unit) prog" where
  "publish_meta_if api env tenant rq collection cached chunks cf =
     (case re_meta_topic env of
        None \<Rightarrow> ret ()
      | Some topic \<Rightarrow> ignoring (bindE (lift_res chunks) (\<lambda>cs.
          publish_meta_query api env topic tenant rq collection cached cs cf)))"

definition answer_from_cache ::
  "'w rag_api \<Rightarrow> rag_env \<Rightarrow> query_request \<Rightarrow> string \<Rightarrow> string \<Rightarrow> call_facts \<Rightarrow> string \<Rightarrow> ('w, query_response) prog" where
  "answer_from_cache api env rq tenant collection cf raw =
     (case re_loads env raw of
        None \<Rightarrow> raise (Exc ''json.JSONDecodeError'' '''')
      | Some j \<Rightarrow>
          seqE (publish_usage_if api env tenant (py_len j) True cf)
            (seqE (publish_meta_if api env tenant rq collection True (cached_chunks j) cf)
              (lift_res (response_of_cache j (cf_request_id cf)))))"

definition cache_lookup ::
  "'w rag_api \<Rightarrow> rag_env \<Rightarrow> query_request \<Rightarrow> string \<Rightarrow> string \<Rightarrow> string \<Rightarrow> call_facts \<Rightarrow> ('w, query_response option) prog" where
  "cache_lookup api env rq tenant collection key cf =
     bindE (bindE (api (Cache_Get key)) want_text) (\<lambda>raw.
       case raw of
         None \<Rightarrow> ret None
       | Some r \<Rightarrow> bindE (answer_from_cache api env rq tenant collection cf r) (\<lambda>resp. ret (Some resp)))"

definition unavailable :: "string \<Rightarrow> exc" where
  "unavailable msg = Exc ''ServiceUnavailableError'' msg"

definition guarded_search ::
  "'w rag_api \<Rightarrow> string \<Rightarrow> rat list \<Rightarrow> query_request \<Rightarrow> call_facts \<Rightarrow> ('w rag, search_result list) prog" where
  "guarded_search api collection vector rq cf bw =
     (case call (cf_now cf) (cf_later cf)
             (\<lambda>w. case search api collection vector (rq_top_k rq) (rq_source_filter rq) w of
                    (Inl e, w') \<Rightarrow> (Inl (Call_Raised e), w') | (Inr hs, w') \<Rightarrow> (Inr hs, w')) bw of
        (Inl Breaker_Open, bw') \<Rightarrow> (Inl (unavailable ''Milvus circuit breaker is open''), bw')
      | (Inl (Call_Raised e), bw') \<Rightarrow> (Inl (unavailable (''Milvus search failed: '' @ exc_msg e)), bw')
      | (Inr hs, bw') \<Rightarrow> (Inr hs, bw'))"

text \<open>At most \<open>top_k\<close> hits (a Python slice), those that reach the minimal score.\<close>

definition select_results :: "query_request \<Rightarrow> search_result list \<Rightarrow> exc + query_result list" where
  "select_results rq hits =
     traverse query_result_of (filter (\<lambda>h. rq_min_score rq \<le> sr_score h) (py_slice hits 0 (rq_top_k rq)))"

definition store_cache :: "'w rag_api \<Rightarrow> rag_env \<Rightarrow> string \<Rightarrow> query_result list \<Rightarrow> ('w, unit) prog" where
  "store_cache api env key results =
     catchE (seqE (api (Cache_Setex key (re_ttl env) (dumps (re_repr env) (JList (map result_json results))))) (ret ()))
       (\<lambda>e. if is_connection_error e then ret () else raise e)"

definition result_chunks :: "query_result list \<Rightarrow> json" where
  "result_chunks rs = ranked (map (\<lambda>r. (JStr (qr_chunk_id r), JFloat (qr_score r))) rs)"

definition uncached_query ::
  "'w rag_api \<Rightarrow> rag_env \<Rightarrow> query_request \<Rightarrow> string \<Rightarrow> string \<Rightarrow> string \<Rightarrow> bool \<Rightarrow> call_facts \<Rightarrow> ('w rag, query_response) prog" where
  "uncached_query api env rq tenant collection key cache_available cf =
     bindE (with_state (bindE (api (Embed (rq_query rq))) want_vector)) (\<lambda>vector.
     bindE (guarded_search api collection vector rq cf) (\<lambda>hits.
     bindE (lift_res (select_results rq hits)) (\<lambda>results.
     seqE (whenE cache_available (with_state (store_cache api env key results)))
       (seqE (with_state (publish_usage_if api env tenant (Inr (int (length results))) False cf))
         (seqE (with_state (publish_meta_if api env tenant rq collection False (Inr (result_chunks results)) cf))
           (ret \<lparr>qp_results = results, qp_cached = False, qp_request_id = cf_request_id cf\<rparr>))))))"

definition query ::
  "'w rag_api \<Rightarrow> rag_env \<Rightarrow> query_request \<Rightarrow> string \<Rightarrow> call_facts \<Rightarrow> ('w rag, query_response) prog" where
  "query api env rq tenant cf =
     (let collection = tenant @ ''_docs'';
          key = make_cache_key env (rq_query rq) (rq_top_k rq) (rq_source_filter rq) collection
      in bindE (catchE
           (bindE (with_state (cache_lookup api env rq tenant collection key cf)) (\<lambda>r. ret (True, r)))
           (\<lambda>e. if is_connection_error e then ret (False, None) else raise e))
         (\<lambda>(cache_available, answer).
           case answer of
             Some resp \<Rightarrow> ret resp
           | None \<Rightarrow> uncached_query api env rq tenant collection key cache_available cf))"

section \<open>HTTP handlers\<close>

datatype http_answer =
    Answered query_response
  | Http_Exception int json
  | Unhandled exc

text \<open>The tenant comes from the header \<open>X-Tenant-ID\<close>; without it the tenant is \<open>default\<close>.\<close>

definition query_endpoint ::
  "'w rag_api \<Rightarrow> rag_env \<Rightarrow> query_request \<Rightarrow> string option \<Rightarrow> call_facts \<Rightarrow> 'w rag \<Rightarrow> http_answer \<times> 'w rag" where
  "query_endpoint api env rq header cf s =
     (case query api env rq (case header of None \<Rightarrow> ''default'' | Some t \<Rightarrow> t) cf s of
        (Inr resp, s') \<Rightarrow> (Answered resp, s')
      | (Inl e, s') \<Rightarrow>
          (if exc_class e = ''ServiceUnavailableError''
           then (Http_Exception 503 (JObj [(''error'', JStr ''MILVUS_UNAVAILABLE''), (''message'', JStr (exc_msg e))]), s')
           else (Unhandled e, s')))"

text \<open>The health check reads the breaker's state, and so moves an expired open breaker.\<close>

definition state_name :: "cb_state \<Rightarrow> string" where
  "state_name s = (case s of CLOSED \<Rightarrow> ''closed'' | OPEN \<Rightarrow> ''open'' | HALF_OPEN \<Rightarrow> ''half_open'')"

definition health_endpoint :: "rat \<Rightarrow> 'w rag \<Rightarrow> json \<times> 'w rag" where
  "health_endpoint now bw =
     (let b = refresh now (fst bw)
      in (JObj [(''status'', JStr ''ok''), (''milvus_circuit_breaker'', JStr (state_name (cb_state_of b)))], (b, snd bw)))"

definition collections_endpoint :: "json" where
  "collections_endpoint = JObj [(''collections'', JList [])]"

text \<open>The logging context of a request: tenant, trace and span from its headers.\<close>

definition request_context :: "string dict \<Rightarrow> string \<times> string \<times> string" where
  "request_context headers =
     (let tenant = get_or headers ''X-Tenant-ID'' []; tp = get_or headers ''traceparent'' [];
          parts = (if tp = [] then [] else split_on (CHR ''-'') tp)
      in if length parts = 4 then (tenant, parts ! 1, parts ! 2) else (tenant, [], []))"

section \<open>Invariants of the query\<close>

text \<open>Two tenants, two queries, two filters or two result counts never share a cache key.\<close>

lemma cache_key_raw_inj:
  "cache_key_raw fr q k sf col = cache_key_raw fr q' k' sf' col' \<longleftrightarrow> q = q' \<and> k = k' \<and> sf = sf' \<and> col = col'"
proof
  assume eq: "cache_key_raw fr q k sf col = cache_key_raw fr q' k' sf' col'"
  define t where "t = (\<lambda>sf. dumps fr (opt_json sf) @ ''}'')"
  define r where "r = (\<lambda>q sf. '' '' @ quote ''q'' @ '': '' @ quote q @ '', '' @ quote ''sf'' @ '': '' @ t sf)"
  have raw: "cache_key_raw fr q k sf col =
      ''{'' @ quote ''col'' @ '': '' @ (quote col @ ('', '' @ quote ''k'' @ '': '' @ (show_int k @ CHR '','' # r q sf)))"
    for q k sf col
    by (simp add: cache_key_raw_def t_def r_def)
  from eq have c: "col = col'" and "show_int k @ CHR '','' # r q sf = show_int k' @ CHR '','' # r q' sf'"
    unfolding raw by (simp_all add: quote_append_inj)
  then have k: "k = k'" and "r q sf = r q' sf'"
    using show_int_append_inj by blast+
  then have q: "q = q'" and "t sf = t sf'"
    unfolding r_def by (simp_all add: quote_append_inj)
  then have "sf = sf'"
    using quote_append_inj [of _ "''}''" _ "''}''"]
    by (cases sf; cases sf') (auto simp: t_def opt_json_def quote_def)
  with c k q show "q = q' \<and> k = k' \<and> sf = sf' \<and> col = col'" by simp
qed simp

lemma make_cache_key_inj:
  assumes "inj (re_sha env)"
  shows "make_cache_key env q k sf col = make_cache_key env q' k' sf' col' \<longleftrightarrow>
    q = q' \<and> k = k' \<and> sf = sf' \<and> col = col'"
  using assms by (simp add: make_cache_key_def inj_eq cache_key_raw_inj)

lemma keeps_want [keeps_intros]:
  "keeps I (want_text r)" "keeps I (want_bool r)" "keeps I (want_vector r)" "keeps I (want_hits r)"
  by (simp_all add: want_text_def want_bool_def want_vector_def want_hits_def keeps_intros split: rag_reply.split)

lemma keeps_search:
  assumes "keeps I (api (Has_Collection c))" and "keeps I (api (Load_Collection c))"
    and "\<And>v k e. keeps I (api (Milvus_Search c v k e))"
  shows "keeps I (search api c v k sf)"
  unfolding search_def by (intro keeps_intros assms)

lemma keeps_guarded_search:
  assumes "keeps I (search api c v (rq_top_k rq) (rq_source_filter rq))"
  shows "keeps (\<lambda>bw. I (snd bw)) (guarded_search api c v rq cf)"
proof (rule keepsI)
  fix bw r bw' assume I: "I (snd bw)" and g: "guarded_search api c v rq cf bw = (r, bw')"
  obtain b w where bw: "bw = (b, w)" by fastforce
  let ?f = "\<lambda>w. case search api c v (rq_top_k rq) (rq_source_filter rq) w of
                    (Inl e, w') \<Rightarrow> (Inl (Call_Raised e), w') | (Inr hs, w') \<Rightarrow> (Inr hs, w')"
  obtain cr b' w' where c: "call (cf_now cf) (cf_later cf) ?f (b, w) = (cr, (b', w'))"
    by (rule triple_cases)
  have bw': "bw' = (b', w')"
    using g c bw by (auto simp: guarded_search_def split: sum.splits call_error.splits)
  have s: "I w2" if "?f w = (x, w2)" for x w2
    using that I bw keepsD [OF assms] by (auto split: prod.splits sum.splits)
  show "I (snd bw')"
    using c s I bw bw' by (cases rule: call_cases) auto
qed

lemma keeps_publish_usage_if:
  assumes "\<And>m. keeps I (api (Usage_Produce m))"
  shows "keeps I (publish_usage_if api env t n cached cf)"
  unfolding publish_usage_if_def publish_usage_query_def
  by (cases "re_usage_topic env") (auto intro!: keeps_intros assms)

lemma keeps_publish_meta_if:
  assumes "\<And>m. keeps I (api (Meta_Produce m))" and "\<And>q. keeps I (api (Meta_Flush q))"
  shows "keeps I (publish_meta_if api env t rq col cached cs cf)"
  unfolding publish_meta_if_def publish_meta_query_def safe_publish_def
  by (cases "re_meta_topic env") (auto intro!: keeps_intros assms)

text \<open>An invariant of the outside world is kept by the query when the commands of this tenant keep it.\<close>

definition tenant_commands :: "rag_env \<Rightarrow> query_request \<Rightarrow> string \<Rightarrow> rag_cmd \<Rightarrow> bool" where
  "tenant_commands env rq tenant c =
     (let collection = tenant @ ''_docs'';
          key = make_cache_key env (rq_query rq) (rq_top_k rq) (rq_source_filter rq) collection
      in case c of
        Cache_Get k \<Rightarrow> k = key
      | Cache_Setex k _ _ \<Rightarrow> k = key
      | Embed q \<Rightarrow> q = rq_query rq
      | Has_Collection col \<Rightarrow> col = collection
      | Load_Collection col \<Rightarrow> col = collection
      | Milvus_Search col _ k _ \<Rightarrow> col = collection \<and> k = rq_top_k rq
      | Usage_Produce m \<Rightarrow> km_key m = tenant
      | Meta_Produce _ \<Rightarrow> True
      | Meta_Flush _ \<Rightarrow> True)"

lemma keeps_query:
  assumes "\<And>c. tenant_commands env rq tenant c \<Longrightarrow> keeps I (api c)"
  shows "keeps (\<lambda>bw. I (snd bw)) (query api env rq tenant cf)"
proof -
  let ?col = "tenant @ ''_docs''"
  let ?key = "make_cache_key env (rq_query rq) (rq_top_k rq) (rq_source_filter rq) ?col"
  note k = assms [simplified tenant_commands_def Let_def]
  have u: "keeps I (publish_usage_if api env tenant n c cf)" for n c
    unfolding publish_usage_if_def publish_usage_query_def
    by (cases "re_usage_topic env") (auto intro!: keeps_intros k)
  have m: "keeps I (publish_meta_if api env tenant rq ?col c cs cf)" for c cs
    by (intro keeps_publish_meta_if) (auto intro!: k)
  have a: "keeps I (answer_from_cache api env rq tenant ?col cf raw)" for raw
    unfolding answer_from_cache_def by (cases "re_loads env raw") (auto intro!: keeps_intros u m)
  have l: "keeps I (cache_lookup api env rq tenant ?col ?key cf)"
    unfolding cache_lookup_def by (intro keeps_intros k) (auto intro!: keeps_intros a split: option.split)
  have g: "keeps (\<lambda>bw. I (snd bw)) (guarded_search api ?col v rq cf)" for v
    by (intro keeps_guarded_search) (unfold search_def, auto intro!: keeps_intros k)
  have s: "keeps I (store_cache api env ?key rs)" for rs
    unfolding store_cache_def by (auto intro!: keeps_intros k)
  have e: "keeps I (bindE (api (Embed (rq_query rq))) want_vector)"
    by (intro keeps_intros k) simp
  show ?thesis
    unfolding query_def uncached_query_def Let_def
    by (intro keeps_intros) (auto intro!: keeps_intros l g s u m e split: option.split)
qed

section \<open>Properties\<close>

text \<open>A command concerns a tenant: it reads or writes one of the tenant's cache entries, or works on
  the tenant's collection.\<close>

definition concerns :: "rag_env \<Rightarrow> string \<Rightarrow> rag_cmd \<Rightarrow> bool" where
  "concerns env tenant c =
     (case c of
        Cache_Get k \<Rightarrow> \<exists>q n sf. k = make_cache_key env q n sf (tenant @ ''_docs'')
      | Cache_Setex k _ _ \<Rightarrow> \<exists>q n sf. k = make_cache_key env q n sf (tenant @ ''_docs'')
      | Has_Collection col \<Rightarrow> col = tenant @ ''_docs''
      | Load_Collection col \<Rightarrow> col = tenant @ ''_docs''
      | Milvus_Search col _ _ _ \<Rightarrow> col = tenant @ ''_docs''
      | Usage_Produce m \<Rightarrow> km_key m = tenant
      | _ \<Rightarrow> False)"

text \<open>
  C7. Tenant isolation of the query service. With a collision-free hash, no query of one tenant,
  whatever its body (the collection field of the body is ignored), issues a command on another
  tenant's collection, cache entries or usage record.
\<close>

theorem rag_tenant_isolation:
  assumes "inj (re_sha env)" and "other \<noteq> tenant"
    and "query (logged api) env rq tenant cf (b, (w, l)) = (r, (b', (w', l')))"
  shows "\<exists>cs. l' = l @ cs \<and> list_all (\<lambda>c. \<not> concerns env other c) cs"
proof -
  let ?I = "only_issued (\<lambda>c. \<not> concerns env other c) l"
  have "\<not> concerns env other c" if "tenant_commands env rq tenant c" for c
    using that assms(1,2)
    by (cases c) (auto simp: tenant_commands_def concerns_def make_cache_key_inj Let_def)
  then have "keeps (\<lambda>bw. ?I (snd bw)) (query (logged api) env rq tenant cf)"
    by (intro keeps_query keeps_logged)
  from keepsD [OF this _ assms(3)] show ?thesis by (simp add: only_issued_def)
qed

definition sample_env :: rag_env where
  "sample_env = \<lparr>re_sha = \<lambda>s. s, re_repr = \<lambda>_. ''0.5'', re_loads = \<lambda>_. Some (JList []), re_ttl = 300,
     re_usage_topic = Some ''usage-events'', re_meta_topic = None, re_model_name = ''model''\<rparr>"

definition sample_request :: query_request where
  "sample_request = \<lparr>rq_query = ''hello'', rq_top_k = 2, rq_source_filter = None,
     rq_collection = Some ''other_docs'', rq_min_score = 1\<rparr>"

definition sample_facts :: call_facts where
  "sample_facts = \<lparr>cf_request_id = ''r1'', cf_usage_id = ''u1'', cf_usage_time = ''t'', cf_meta_id = ''m1'',
     cf_meta_time = ''t'', cf_elapsed_ms = 12, cf_now = 100, cf_later = 101\<rparr>"

text \<open>A world for the examples: a cache and a Milvus without collections.\<close>

fun sample_api :: "(string \<rightharpoonup> string) rag_api" where
  "sample_api (Cache_Get k) w = (Inr (R_Text (w k)), w)"
| "sample_api (Cache_Setex k t v) w = (Inr R_Done, w(k \<mapsto> v))"
| "sample_api (Embed q) w = (Inr (R_Vector [1]), w)"
| "sample_api (Has_Collection c) w = (Inr (R_Bool False), w)"
| "sample_api c w = (Inr R_Done, w)"

theorem rag_tenant_isolation_witness:
  "\<exists>r b' w' cs. query (logged sample_api) sample_env sample_request ''acme'' sample_facts
        (new_breaker 5 30, (Map.empty, [])) = (r, (b', (w', cs)))
     \<and> list_all (\<lambda>c. \<not> concerns sample_env ''other'' c) cs"
proof -
  let ?q = "query (logged sample_api) sample_env sample_request ''acme'' sample_facts (new_breaker 5 30, (Map.empty, []))"
  obtain r b' wl where q1: "?q = (r, (b', wl))" by (rule triple_cases)
  obtain w' l' where q: "?q = (r, (b', (w', l')))" using q1 by (cases wl) simp
  have i: "inj (re_sha sample_env)" by (simp add: sample_env_def)
  show ?thesis using q rag_tenant_isolation [OF i, of "''other''" "''acme''", OF _ q] by auto
qed

subsection \<open>Caching\<close>

text \<open>What a working cache promises: a read returns the live entry, a write replaces it, and nothing
  else changes the entries.\<close>

definition cache_spec :: "'w rag_api \<Rightarrow> ('w \<Rightarrow> string \<Rightarrow> string option) \<Rightarrow> bool" where
  "cache_spec api entry \<longleftrightarrow>
     (\<forall>k w. \<exists>w'. api (Cache_Get k) w = (Inr (R_Text (entry w k)), w') \<and> entry w' = entry w)
   \<and> (\<forall>k t v w. \<exists>r w'. api (Cache_Setex k t v) w = (Inr r, w') \<and> entry w' = (entry w)(k \<mapsto> v))
   \<and> (\<forall>c w r w'. (\<forall>k t v. c \<noteq> Cache_Get k \<and> c \<noteq> Cache_Setex k t v) \<longrightarrow> api c w = (r, w') \<longrightarrow> entry w' = entry w)"

lemma store_cache_run:
  assumes "cache_spec api entry"
  obtains w' where "store_cache api env key rs w = (Inr (), w')"
    and "entry w' = (entry w)(key \<mapsto> dumps (re_repr env) (JList (map result_json rs)))"
proof -
  obtain r w' where "api (Cache_Setex key (re_ttl env) (dumps (re_repr env) (JList (map result_json rs)))) w = (Inr r, w')"
    and "entry w' = (entry w)(key \<mapsto> dumps (re_repr env) (JList (map result_json rs)))"
    using assms unfolding cache_spec_def by meson
  then show thesis using that by (simp add: store_cache_def prog_defs)
qed

lemma keeps_entry:
  assumes "cache_spec api entry"
  shows "keeps (\<lambda>w. entry w = d) (publish_usage_if api env t n c cf)"
    and "keeps (\<lambda>w. entry w = d) (publish_meta_if api env t rq col c cs cf)"
proof -
  have k: "keeps (\<lambda>w. entry w = d) (api cmd)" if "\<forall>k t v. cmd \<noteq> Cache_Get k \<and> cmd \<noteq> Cache_Setex k t v" for cmd
    using assms that unfolding cache_spec_def by (intro keepsI) metis
  show "keeps (\<lambda>w. entry w = d) (publish_usage_if api env t n c cf)"
    by (intro keeps_publish_usage_if k) simp
  show "keeps (\<lambda>w. entry w = d) (publish_meta_if api env t rq col c cs cf)"
    by (intro keeps_publish_meta_if k) simp_all
qed

lemma uncached_query_stores:
  assumes c: "cache_spec api entry"
    and q: "uncached_query api env rq t col key True cf bw = (Inr resp, (b', w'))"
  shows "\<not> qp_cached resp \<and> entry w' key = Some (dumps (re_repr env) (JList (map result_json (qp_results resp))))"
proof -
  let ?stored = "\<lambda>rs. Some (dumps (re_repr env) (JList (map result_json rs)))"
  obtain v bw1 hits bw2 rs where bw1: "guarded_search api col v rq cf bw1 = (Inr hits, bw2)"
    and rs: "select_results rq hits = Inr rs"
    and fin: "seqE (with_state (store_cache api env key rs))
        (seqE (with_state (publish_usage_if api env t (Inr (int (length rs))) False cf))
         (seqE (with_state (publish_meta_if api env t rq col False (Inr (result_chunks rs)) cf))
           (ret \<lparr>qp_results = rs, qp_cached = False, qp_request_id = cf_request_id cf\<rparr>))) bw2 = (Inr resp, (b', w'))"
    using q by (auto simp: uncached_query_def bindE_def whenE_def split: prod.splits sum.splits)
  obtain w3 where s: "store_cache api env key rs (snd bw2) = (Inr (), w3)" and e3: "entry w3 key = ?stored rs"
    using store_cache_run [OF c] by (metis fun_upd_same)
  obtain u w4 where u: "publish_usage_if api env t (Inr (int (length rs))) False cf w3 = (u, w4)" by fastforce
  obtain m w5 where m: "publish_meta_if api env t rq col False (Inr (result_chunks rs)) cf w4 = (m, w5)" by fastforce
  have "entry w5 = entry w3"
    using keepsD [OF keeps_entry(1) [OF c] _ u] keepsD [OF keeps_entry(2) [OF c] _ m] by metis
  then show ?thesis
    using fin s u m e3 by (auto simp: prog_defs with_state_def split: sum.splits)
qed

lemma wp_publish:
  assumes "\<And>w'. Q () w'"
  shows "wp (publish_usage_if api env t n c cf) Q E w" and "wp (publish_meta_if api env t rq col c cs cf) Q E w"
  using assms
  by (auto simp: publish_usage_if_def publish_meta_if_def wp_def split: option.split)

lemma result_of_json_Inl: "result_of_json j = Inl e \<Longrightarrow> e = validation_error"
  unfolding result_of_json_def Let_def by (auto split: json.splits option.splits prod.splits)

lemma response_of_cache_cases:
  "case response_of_cache j rid of Inl e \<Rightarrow> e = validation_error | Inr r \<Rightarrow> qp_cached r"
  by (auto simp: response_of_cache_def split: json.split sum.split dest!: traverse_Inl result_of_json_Inl)

text \<open>A lookup that finds no entry answers \<open>None\<close>; one that finds a well-formed entry answers it,
  marked as cached.\<close>

lemma cache_lookup_post:
  assumes "api (Cache_Get key) w = (Inr (R_Text raw), w1)"
  shows "wp (cache_lookup api env rq t col key cf)
    (\<lambda>x _. case x of None \<Rightarrow> raw = None | Some r \<Rightarrow> qp_cached r) (\<lambda>e _. \<not> is_connection_error e) w"
proof -
  let ?Q = "\<lambda>x _. case x of None \<Rightarrow> raw = None | Some r \<Rightarrow> qp_cached r" and ?E = "\<lambda>e _. \<not> is_connection_error e"
  have ce: "\<not> is_connection_error validation_error" "\<not> is_connection_error (Exc ''json.JSONDecodeError'' m)" for m
    by (simp_all add: is_connection_error_def validation_error_def)
  have "wp (answer_from_cache api env rq t col cf r) (\<lambda>x _. qp_cached x) ?E w1" for r
    using ce response_of_cache_cases
    by (auto simp: answer_from_cache_def wp_simps intro!: wp_publish split: option.split sum.splits)
       (metis sum.case response_of_cache_cases)+
  then have "wp (case raw of None \<Rightarrow> ret None
        | Some r \<Rightarrow> bindE (answer_from_cache api env rq t col cf r) (\<lambda>resp. ret (Some resp))) ?Q ?E w1"
    by (simp add: wp_simps split: option.split)
  then show ?thesis
    unfolding cache_lookup_def using assms by (simp add: wp_simps wp_def [of "api (Cache_Get key)"] want_text_def)
qed

text \<open>A live, readable entry of the cache is the answer; the vector search is not consulted.\<close>

lemma query_hit:
  assumes c: "cache_spec api entry"
    and e: "entry w (make_cache_key env (rq_query rq) (rq_top_k rq) (rq_source_filter rq) (t @ ''_docs'')) = Some raw"
    and l: "re_loads env raw = Some (JList (map result_json rs))"
  shows "\<exists>w'. query api env rq t cf (b, w) =
    (Inr \<lparr>qp_results = rs, qp_cached = True, qp_request_id = cf_request_id cf\<rparr>, (b, w'))"
proof -
  let ?key = "make_cache_key env (rq_query rq) (rq_top_k rq) (rq_source_filter rq) (t @ ''_docs'')"
  let ?resp = "\<lparr>qp_results = rs, qp_cached = True, qp_request_id = cf_request_id cf\<rparr>"
  obtain w1 where g: "api (Cache_Get ?key) w = (Inr (R_Text (Some raw)), w1)"
    using c e unfolding cache_spec_def by metis
  have r: "response_of_cache (JList (map result_json rs)) rid = Inr \<lparr>qp_results = rs, qp_cached = True, qp_request_id = rid\<rparr>" for rid
    by (simp add: response_of_cache_def traverse_map_inverse)
  have "wp (answer_from_cache api env rq t (t @ ''_docs'') cf raw) (\<lambda>x _. x = ?resp) (\<lambda>_ _. False) w1"
    by (simp add: answer_from_cache_def l wp_simps wp_publish r)
  then obtain w2 where "answer_from_cache api env rq t (t @ ''_docs'') cf raw w1 = (Inr ?resp, w2)"
    by (auto simp: wp_def split: prod.splits sum.splits)
  then have "cache_lookup api env rq t (t @ ''_docs'') ?key cf w = (Inr (Some ?resp), w2)"
    using g by (simp add: cache_lookup_def want_text_def prog_defs)
  then show ?thesis
    by (simp add: query_def with_state_def prog_defs Let_def)
qed

text \<open>
  C33. The score threshold is not part of the cache key: once a query has been answered and its
  results cached, every query of the tenant for the same text, result count and source filter is
  answered with those same results while the entry lives, whatever minimal score it asks for
  (results below it are returned, and results a lower threshold would admit are missing), without
  consulting the vector search and whatever the state of the circuit breaker.
\<close>

theorem cached_answer_ignores_min_score:
  assumes "cache_spec api entry"
    and "query api env rq t cf (b, w) = (Inr resp, (b', w'))" and "\<not> qp_cached resp"
    and "re_loads env (dumps (re_repr env) (JList (map result_json (qp_results resp)))) = Some (JList (map result_json (qp_results resp)))"
    and "\<And>k. entry w2 k = entry w' k"
  shows "\<exists>w3. query api env (rq\<lparr>rq_min_score := any\<rparr>) t cf' (b2, w2) =
    (Inr \<lparr>qp_results = qp_results resp, qp_cached = True, qp_request_id = cf_request_id cf'\<rparr>, (b2, w3))"
proof -
  let ?key = "make_cache_key env (rq_query rq) (rq_top_k rq) (rq_source_filter rq) (t @ ''_docs'')"
  let ?l = "cache_lookup api env rq t (t @ ''_docs'') ?key cf"
  obtain w1 where "api (Cache_Get ?key) w = (Inr (R_Text (entry w ?key)), w1)"
    using assms(1) unfolding cache_spec_def by meson
  then have "wp ?l (\<lambda>x _. case x of None \<Rightarrow> entry w ?key = None | Some r \<Rightarrow> qp_cached r)
      (\<lambda>e _. \<not> is_connection_error e) w"
    by (rule cache_lookup_post)
  note post = wp_runD [OF this]
  obtain r wl where l: "?l w = (r, wl)" by fastforce
  have "entry w' ?key = Some (dumps (re_repr env) (JList (map result_json (qp_results resp))))"
  proof (cases r)
    case (Inl e)
    with l post(2) assms(2) show ?thesis by (simp add: query_def with_state_def prog_defs Let_def)
  next
    case (Inr x)
    with l post(1) assms(2,3) have "uncached_query api env rq t (t @ ''_docs'') ?key True cf (b, wl) = (Inr resp, (b', w'))"
      by (cases x) (auto simp: query_def with_state_def prog_defs Let_def)
    from uncached_query_stores [OF assms(1) this] show ?thesis by simp
  qed
  then show ?thesis
    using query_hit [OF assms(1), of w2 env "rq\<lparr>rq_min_score := any\<rparr>" t _ "qp_results resp"] assms(4,5) by simp
qed

lemma sample_cache_spec: "cache_spec sample_api (\<lambda>w. w)"
proof -
  have "w' = w" if "\<forall>k t v. c \<noteq> Cache_Get k \<and> c \<noteq> Cache_Setex k t v" "sample_api c w = (r, w')" for c w r w'
    using that by (cases c) auto
  then show ?thesis by (simp add: cache_spec_def)
qed

lemma sample_query:
  "\<exists>w'. query sample_api sample_env sample_request ''acme'' sample_facts (new_breaker 5 30, Map.empty) =
     (Inr \<lparr>qp_results = [], qp_cached = False, qp_request_id = ''r1''\<rparr>, (new_breaker 5 30, w'))"
  by (simp add: query_def uncached_query_def cache_lookup_def want_text_def want_vector_def want_bool_def
      guarded_search_def call_def refresh_def new_breaker_def search_def with_state_def select_results_def
      py_slice_def store_cache_def publish_usage_if_def publish_usage_query_def publish_meta_if_def
      sample_env_def sample_request_def sample_facts_def prog_defs Let_def)

theorem cached_answer_ignores_min_score_witness:
  "\<exists>w w3. query sample_api sample_env (sample_request\<lparr>rq_min_score := 0\<rparr>) ''acme'' sample_facts (new_breaker 5 30, w) =
    (Inr \<lparr>qp_results = [], qp_cached = True, qp_request_id = ''r1''\<rparr>, (new_breaker 5 30, w3))"
proof -
  obtain w' where q: "query sample_api sample_env sample_request ''acme'' sample_facts (new_breaker 5 30, Map.empty) =
     (Inr \<lparr>qp_results = [], qp_cached = False, qp_request_id = ''r1''\<rparr>, (new_breaker 5 30, w'))"
    using sample_query by blast
  show ?thesis
    using cached_answer_ignores_min_score [OF sample_cache_spec q, of w' 0 sample_facts "new_breaker 5 30"]
    by (auto simp: sample_env_def sample_facts_def)
qed

subsection \<open>Result selection\<close>

text \<open>
  The results of an uncached query: at most \<open>top_k\<close>, each reaching the minimal score, in the
  order of the hits. Milvus returns L2 distances in ascending order, nearest first, and the code
  takes the distance as the score: the threshold then removes a prefix, so it is always the nearest
  neighbours that are dropped and the farthest that are kept.
\<close>

theorem select_results_spec:
  assumes "select_results rq hits = Inr rs" and "0 \<le> rq_top_k rq"
  shows "int (length rs) \<le> rq_top_k rq
    \<and> list_all (\<lambda>r. rq_min_score rq \<le> qr_score r) rs
    \<and> map qr_score rs = filter (\<lambda>q. rq_min_score rq \<le> q) (map sr_score (take (nat (rq_top_k rq)) hits))
    \<and> (sorted (map sr_score hits) \<longrightarrow>
         map qr_score rs = dropWhile (\<lambda>q. q < rq_min_score rq) (map sr_score (take (nat (rq_top_k rq)) hits)))"
proof -
  let ?h = "take (nat (rq_top_k rq)) hits"
  have s: "py_slice hits 0 (rq_top_k rq) = ?h"
    using assms(2) by (auto simp: py_slice_def clamp_index_def min_def)
  have sc: "qr_score r = sr_score h" if "query_result_of h = Inr r" for h r
    using that unfolding query_result_of_def by (auto split: prod.splits json.splits)
  have "list_all2 (\<lambda>h r. query_result_of h = Inr r) (filter (\<lambda>h. rq_min_score rq \<le> sr_score h) ?h) rs"
    using assms(1) by (simp add: select_results_def s traverse_Inr_iff)
  then have "list_all2 (\<lambda>h r. qr_score r = sr_score h) (filter (\<lambda>h. rq_min_score rq \<le> sr_score h) ?h) rs"
    using sc by (auto elim!: list_all2_mono)
  then have m: "map qr_score rs = map sr_score (filter (\<lambda>h. rq_min_score rq \<le> sr_score h) ?h)"
    by (induction rule: list_all2_induct) auto
  then have f: "map qr_score rs = filter (\<lambda>q. rq_min_score rq \<le> q) (map sr_score ?h)"
    by (simp add: filter_map o_def)
  have "length rs \<le> length ?h" using m by (metis length_filter_le length_map)
  moreover have "list_all (\<lambda>r. rq_min_score rq \<le> qr_score r) rs"
  proof -
    have "list_all (\<lambda>q. rq_min_score rq \<le> q) (map qr_score rs)"
      by (simp only: f) (simp add: list_all_iff)
    then show ?thesis by (simp add: list.pred_map o_def)
  qed
  moreover have "filter (\<lambda>q. c \<le> q) xs = dropWhile (\<lambda>q. q < c) xs" if "sorted xs" for c :: rat and xs
    using that
  proof (induction xs)
    case (Cons a xs)
    then show ?case
      by (cases "a < c") (simp, subst filter_True, auto)
  qed simp
  moreover have "sorted (map sr_score hits) \<Longrightarrow> sorted (map sr_score ?h)"
    by (simp add: take_map [symmetric] sorted_wrt_take)
  ultimately show ?thesis
    using f assms(2) by auto
qed

theorem select_results_spec_witness:
  "\<exists>rs. select_results (sample_request\<lparr>rq_min_score := 1\<rparr>)
      (map (\<lambda>q. search_result_of \<lparr>rh_distance = q, rh_entity = []\<rparr>) [1/2, 3/2, 5/2]) = Inr rs
    \<and> map qr_score rs = [3/2]"
proof -
  let ?rq = "sample_request\<lparr>rq_min_score := 1\<rparr>"
  let ?hits = "map (\<lambda>q. search_result_of \<lparr>rh_distance = q, rh_entity = []\<rparr>) [1/2, 3/2, 5/2]"
  obtain rs where r: "select_results ?rq ?hits = Inr rs"
    by (simp add: select_results_def py_slice_def clamp_index_def sample_request_def search_result_of_def
        query_result_of_def obj_get_def get_or_def numeral_2_eq_2 Let_def)
  show ?thesis
    using r select_results_spec [OF r]
    by (simp add: sample_request_def search_result_of_def Let_def numeral_2_eq_2)
qed

subsection \<open>Outages\<close>

text \<open>
  The cache degrades only on Python's built-in \<open>ConnectionError\<close>: an exception of the Redis
  client's own classes, such as \<open>redis.exceptions.ConnectionError\<close> when the server is down, is
  not caught, so the query fails unhandled before the text is embedded or the vector search tried.
\<close>

theorem redis_client_error_unhandled:
  assumes "api (Cache_Get (make_cache_key env (rq_query rq) (rq_top_k rq) (rq_source_filter rq) (t @ ''_docs''))) w = (Inl e, w')"
    and "\<not> is_connection_error e" and "exc_class e \<noteq> ''ServiceUnavailableError''"
  shows "query_endpoint api env rq (Some t) cf (b, w) = (Unhandled e, (b, w'))"
  using assms by (simp add: query_endpoint_def query_def cache_lookup_def with_state_def prog_defs Let_def)

theorem redis_client_error_unhandled_witness:
  "query_endpoint (\<lambda>c w. case c of Cache_Get k \<Rightarrow> (Inl (Exc ''redis.exceptions.ConnectionError'' ''refused''), w) | _ \<Rightarrow> (Inr R_Done, w))
      sample_env sample_request (Some ''acme'') sample_facts (new_breaker 5 30, 0 :: nat)
    = (Unhandled (Exc ''redis.exceptions.ConnectionError'' ''refused''), (new_breaker 5 30, 0))"
  by (rule redis_client_error_unhandled) (simp_all add: is_connection_error_def)

text \<open>
  Milvus outages are answered 503. After a cache miss, a failing search is answered 503 and
  counted by the breaker; while the breaker is open and its time-out has not passed, the answer is
  503 with no command sent to Milvus (the world is as the embedding left it) and the breaker as it
  was.
\<close>

theorem milvus_outage_answers_503:
  assumes "api (Cache_Get (make_cache_key env (rq_query rq) (rq_top_k rq) (rq_source_filter rq) (t @ ''_docs''))) w
      = (Inr (R_Text None), w1)"
    and "api (Embed (rq_query rq)) w1 = (Inr (R_Vector v), w2)"
  shows "(cb_state_of (refresh (cf_now cf) b) = OPEN \<longrightarrow>
       query_endpoint api env rq (Some t) cf (b, w) =
         (Http_Exception 503 (JObj [(''error'', JStr ''MILVUS_UNAVAILABLE''), (''message'', JStr ''Milvus circuit breaker is open'')]),
          (b, w2)))
    \<and> (cb_state_of (refresh (cf_now cf) b) \<noteq> OPEN \<longrightarrow>
         search api (t @ ''_docs'') v (rq_top_k rq) (rq_source_filter rq) w2 = (Inl e, w3) \<longrightarrow>
       query_endpoint api env rq (Some t) cf (b, w) =
         (Http_Exception 503 (JObj [(''error'', JStr ''MILVUS_UNAVAILABLE''), (''message'', JStr (''Milvus search failed: '' @ exc_msg e))]),
          (on_failure (cf_later cf) (refresh (cf_now cf) b), w3)))"
proof -
  have "refresh (cf_now cf) b = b" if "cb_state_of (refresh (cf_now cf) b) = OPEN"
    using that by (auto simp: refresh_def split: if_splits)
  then show ?thesis
    using assms
    by (auto simp: query_endpoint_def query_def uncached_query_def cache_lookup_def want_text_def want_vector_def
        guarded_search_def call_def unavailable_def with_state_def prog_defs Let_def)
qed

theorem milvus_outage_answers_503_witness:
  "fst (query_endpoint (\<lambda>c w. case c of Cache_Get k \<Rightarrow> (Inr (R_Text None), w) | Embed q \<Rightarrow> (Inr (R_Vector [1]), w)
        | _ \<Rightarrow> (Inl (Exc ''MilvusException'' ''down''), w)) sample_env sample_request (Some ''acme'') sample_facts (new_breaker 5 30, 0 :: nat))
    = Http_Exception 503 (JObj [(''error'', JStr ''MILVUS_UNAVAILABLE''), (''message'', JStr ''Milvus search failed: down'')])"
proof -
  let ?api = "\<lambda>c w. case c of Cache_Get k \<Rightarrow> (Inr (R_Text None), w) | Embed q \<Rightarrow> (Inr (R_Vector [1]), w)
        | _ \<Rightarrow> (Inl (Exc ''MilvusException'' ''down''), w :: nat)"
  have s: "search ?api (''acme'' @ ''_docs'') [1] (rq_top_k sample_request) (rq_source_filter sample_request) 0
      = (Inl (Exc ''MilvusException'' ''down''), 0)"
    by (simp add: search_def prog_defs)
  show ?thesis
    using milvus_outage_answers_503 [of ?api sample_env sample_request "''acme''" 0 0 "[1]" 0 sample_facts "new_breaker 5 30"] s
    by (simp add: refresh_def new_breaker_def)
qed

end
