(* ===== verification/Chunker.thy ===== *)
theory Chunker
  imports Json
begin

text \<open>
  \<open>services/doc-processor/src/chunker.py\<close>: cutting a document's token list into overlapping chunks of
  a fixed size. The tokenizer (\<open>tiktoken\<close>) is the pair of parameters \<open>enc\<close> and \<open>dec\<close>.
\<close>

record chunk =
  ch_text :: string
  ch_index :: int
  ch_doc_id :: string
  ch_chunk_id :: string
  ch_token_count :: int

definition new_chunk :: "string \<Rightarrow> int \<Rightarrow> string \<Rightarrow> int \<Rightarrow> chunk" where
  "new_chunk text index doc_id token_count =
     \<lparr>ch_text = text, ch_index = index, ch_doc_id = doc_id,
      ch_chunk_id = doc_id @ '':'' @ show_int index, ch_token_count = token_count\<rparr>"

record chunker =
  chunk_size :: int
  overlap :: int

definition step_of :: "chunker \<Rightarrow> int" where
  "step_of c = max 1 (chunk_size c - overlap c)"

lemma step_of_pos [simp]: "0 < step_of c" "1 \<le> step_of c"
  by (simp_all add: step_of_def)

text \<open>The \<open>while\<close> loop, from a start position and an index. It ends because the step is positive,
  whatever the configured sizes.\<close>

function chunk_loop ::
  "chunker \<Rightarrow> (nat list \<Rightarrow> string) \<Rightarrow> nat list \<Rightarrow> string \<Rightarrow> int \<Rightarrow> int \<Rightarrow> chunk list" where
  "chunk_loop c dec tokens doc_id start index =
     (if start < int (length tokens)
      then (let stop = min (start + chunk_size c) (int (length tokens));
                chunk_tokens = py_slice tokens start stop
            in new_chunk (dec chunk_tokens) index doc_id (int (length chunk_tokens)) #
               (if stop = int (length tokens) then []
                else chunk_loop c dec tokens doc_id (start + step_of c) (index + 1)))
      else [])"
  by pat_completeness auto
termination
  by (relation "measure (\<lambda>(c, _, tokens, _, start, _). nat (int (length tokens) - start))")
     (auto simp: step_of_def)

declare chunk_loop.simps [simp del]

definition chunk_text ::
  "chunker \<Rightarrow> (string \<Rightarrow> nat list) \<Rightarrow> (nat list \<Rightarrow> string) \<Rightarrow> string \<Rightarrow> string \<Rightarrow> chunk list" where
  "chunk_text c enc dec text doc_id =
     (let tokens = enc text in if tokens = [] then [] else chunk_loop c dec tokens doc_id 0 0)"

section \<open>Windows\<close>

text \<open>The specification: the windows of the token list, each \<open>size\<close> long but the last, each
  starting \<open>step\<close> after the one before, none after the one that reaches the end.\<close>

function windows :: "nat \<Rightarrow> nat \<Rightarrow> 'a list \<Rightarrow> 'a list list" where
  "windows sz step xs =
     (if length xs \<le> sz then [xs] else take sz xs # windows sz step (drop (max 1 step) xs))"
  by pat_completeness auto
termination
  by (relation "measure (\<lambda>(_, _, xs). length xs)") auto

declare windows.simps [simp del]

lemma windows_neq_Nil [simp]: "windows sz step xs \<noteq> []"
  by (subst windows.simps) simp

lemma windows_sizes: "w \<in> set (windows sz step xs) \<Longrightarrow> length w \<le> sz"
proof (induction sz step xs rule: windows.induct)
  case (1 sz step xs)
  then show ?case
    by (subst (asm) (2) windows.simps) (auto split: if_splits)
qed

text \<open>Dropping from each window the tokens it shares with the next gives the list back.\<close>

fun stitch :: "nat \<Rightarrow> 'a list list \<Rightarrow> 'a list" where
  "stitch step [] = []"
| "stitch step [w] = w"
| "stitch step (w # v # ws) = take step w @ stitch step (v # ws)"

lemma stitch_Cons: "ws \<noteq> [] \<Longrightarrow> stitch step (w # ws) = take step w @ stitch step ws"
  by (cases ws) auto

lemma stitch_windows:
  "0 < step \<Longrightarrow> step \<le> sz \<Longrightarrow> stitch step (windows sz step xs) = xs"
proof (induction sz step xs rule: windows.induct)
  case (1 sz step xs)
  show ?case
  proof (cases "length xs \<le> sz")
    case True
    then show ?thesis by (subst windows.simps) simp
  next
    case False
    then have "stitch step (windows sz step (drop step xs)) = drop step xs"
      using 1 by (simp add: max_def)
    then have "stitch step (windows sz step xs) = take step (take sz xs) @ drop step xs"
      using False 1(2) by (subst windows.simps) (simp add: stitch_Cons max_def)
    then show ?thesis using 1(3) by (simp add: min_def)
  qed
qed

text \<open>Two neighbouring windows share exactly the overlap.\<close>

lemma windows_overlap:
  "0 < step \<Longrightarrow> step \<le> sz \<Longrightarrow> Suc i < length (windows sz step xs) \<Longrightarrow>
     drop step (windows sz step xs ! i) = take (sz - step) (windows sz step xs ! Suc i)"
proof (induction sz step xs arbitrary: i rule: windows.induct)
  case (1 sz step xs)
  show ?case
  proof (cases "length xs \<le> sz")
    case True
    then show ?thesis using 1(4) by (subst (asm) windows.simps) simp
  next
    case False
    then have w: "windows sz step xs = take sz xs # windows sz step (drop step xs)"
      using 1(2) by (subst windows.simps) (simp add: max_def)
    show ?thesis
    proof (cases i)
      case 0
      have "take (sz - step) (hd (windows sz step ys)) = take (sz - step) ys" for ys :: "'a list"
        by (subst windows.simps) (auto simp: min_def)
      then show ?thesis
        using 0 by (simp add: w hd_conv_nth [symmetric] drop_take)
    next
      case (Suc j)
      then show ?thesis
        using 1 False by (simp add: w max_def)
    qed
  qed
qed

section \<open>The loop produces the windows\<close>

lemma chunk_loop_windows:
  assumes "0 \<le> overlap c" and "overlap c < chunk_size c"
  shows "start < length tokens \<Longrightarrow>
    chunk_loop c dec tokens doc_id (int start) index =
      map (\<lambda>(i, w). new_chunk (dec w) (index + int i) doc_id (int (length w)))
        (enumerate 0 (windows (nat (chunk_size c)) (nat (step_of c)) (drop start tokens)))"
proof (induction "length tokens - start" arbitrary: start index rule: less_induct)
  case less
  let ?n = "length tokens"
  obtain sz step where szc: "chunk_size c = int sz" and st: "step_of c = int step"
    using assms by (metis nonneg_int_cases step_of_pos(1) order.strict_implies_order order_le_less_trans)
  have pos: "0 < sz" "0 < step" "step \<le> sz"
    using assms step_of_pos(1) [of c] szc st by (auto simp: step_of_def)
  have nats: "nat (chunk_size c) = sz" "nat (step_of c) = step" using szc st by simp_all
  have "py_slice tokens (int start) (min (int start + chunk_size c) (int ?n)) =
      take (min (start + sz) ?n - start) (drop start tokens)"
    using less.prems szc by (subst py_slice_nat) (auto simp: min_def nat_int_add simp flip: of_nat_add)
  then have sl: "py_slice tokens (int start) (min (int start + chunk_size c) (int ?n)) = take sz (drop start tokens)"
    by (simp add: min_def split: if_splits)
  have "chunk_loop c dec tokens doc_id (int start) index =
      map (\<lambda>(i, w). new_chunk (dec w) (index + int i) doc_id (int (length w)))
        (enumerate 0 (windows sz step (drop start tokens)))"
  proof (cases "?n \<le> start + sz")
    case True
    then have *: "chunk_loop c dec tokens doc_id (int start) index =
        [new_chunk (dec (drop start tokens)) index doc_id (int (?n - start))]"
      using less.prems sl szc by (subst chunk_loop.simps) (simp add: Let_def min_def)
    with True have "length (drop start tokens) \<le> sz" by simp
    then show ?thesis using * by (subst windows.simps) simp
  next
    case False
    have lt: "start + step < ?n" using False pos by simp
    have IH: "chunk_loop c dec tokens doc_id (int (start + step)) (index + 1) =
      map (\<lambda>(i, w). new_chunk (dec w) (index + 1 + int i) doc_id (int (length w)))
        (enumerate 0 (windows sz step (drop (start + step) tokens)))"
      using less.hyps [OF _ lt, of "index + 1"] pos less.prems by (simp add: nats)
    have "chunk_loop c dec tokens doc_id (int start) index =
        new_chunk (dec (take sz (drop start tokens))) index doc_id (int sz) #
        chunk_loop c dec tokens doc_id (int (start + step)) (index + 1)"
      using False less.prems sl szc st by (subst chunk_loop.simps) (simp add: Let_def min_def)
    also have "\<dots> = map (\<lambda>(i, w). new_chunk (dec w) (index + int i) doc_id (int (length w)))
        (enumerate 0 (take sz (drop start tokens) # windows sz step (drop (start + step) tokens)))"
      unfolding IH using False
      by (simp add: enumerate_Suc_eq o_def split_def algebra_simps)
    also have "take sz (drop start tokens) # windows sz step (drop (start + step) tokens) =
        windows sz step (drop start tokens)"
      using False pos by (subst (2) windows.simps) (simp add: max_def add.commute)
    finally show ?thesis .
  qed
  then show ?case by (simp only: nats)
qed

lemma chunk_text_windows:
  assumes "0 \<le> overlap c" and "overlap c < chunk_size c" and "enc text \<noteq> []"
  shows "chunk_text c enc dec text doc_id =
    map (\<lambda>(i, w). new_chunk (dec w) (int i) doc_id (int (length w)))
      (enumerate 0 (windows (nat (chunk_size c)) (nat (step_of c)) (enc text)))"
  using chunk_loop_windows [OF assms(1,2), of 0 "enc text" dec doc_id 0] assms(3)
  by (simp add: chunk_text_def)

section \<open>Properties\<close>

text \<open>
  C19. A document is cut without loss. For a non-negative overlap smaller than the chunk size, the
  chunks of a non-empty token list are its decoded windows, numbered from 0: none has more tokens
  than the chunk size, neighbouring windows share exactly the overlap, dropping the shared tokens
  gives back the token list, and the reported token counts are the lengths of the windows. A text
  without tokens gives no chunk, and only that does.
\<close>

theorem chunks_cover_document:
  assumes "0 \<le> overlap c" and "overlap c < chunk_size c"
  shows "(enc text \<noteq> [] \<longrightarrow> (\<exists>ws.
        chunk_text c enc dec text d = map (\<lambda>(i, w). new_chunk (dec w) (int i) d (int (length w))) (enumerate 0 ws)
      \<and> list_all (\<lambda>w. int (length w) \<le> chunk_size c) ws
      \<and> (\<forall>i. Suc i < length ws \<longrightarrow> drop (nat (step_of c)) (ws ! i) = take (nat (overlap c)) (ws ! Suc i))
      \<and> stitch (nat (step_of c)) ws = enc text))
    \<and> (chunk_text c enc dec text d = [] \<longleftrightarrow> enc text = [])"
proof -
  let ?ws = "windows (nat (chunk_size c)) (nat (step_of c)) (enc text)"
  have st: "0 < nat (step_of c)" "nat (step_of c) \<le> nat (chunk_size c)"
    and ov: "nat (chunk_size c) - nat (step_of c) = nat (overlap c)"
    using assms by (auto simp: step_of_def)
  have "list_all (\<lambda>w. int (length w) \<le> chunk_size c) ?ws"
    using windows_sizes [of _ "nat (chunk_size c)" "nat (step_of c)" "enc text"] assms
    by (fastforce simp: list_all_iff)
  then show ?thesis
    using chunk_text_windows [OF assms, of enc "text" dec d] stitch_windows [OF st, of "enc text"]
      windows_overlap [OF st, of _ "enc text"] ov
    by (cases "enc text = []") (auto simp: chunk_text_def enumerate_eq_zip zip_eq_Nil_iff Let_def intro!: exI [of _ ?ws])
qed

theorem chunks_cover_document_witness:
  "\<exists>ws :: nat list list. stitch 2 ws = map of_char ''abcdefgh'' \<and> list_all (\<lambda>w. length w \<le> 3) ws
    \<and> length (chunk_text \<lparr>chunk_size = 3, overlap = 1\<rparr> (\<lambda>s. map of_char s) (\<lambda>w. map char_of w) ''abcdefgh'' ''d'') = length ws"
  using chunks_cover_document [of "\<lparr>chunk_size = 3, overlap = 1\<rparr>" "\<lambda>s. map of_char s" "''abcdefgh''" "\<lambda>w. map char_of w" "''d''"]
  by (auto simp: step_of_def)

text \<open>No two chunks, of one document or of two, have the same identifier.\<close>

lemma colon_notin_show_int [simp]: "CHR '':'' \<notin> set (show_int i)"
  by (simp add: show_int_def)

lemma chunk_id_inj: "d @ '':'' @ show_int i = d' @ '':'' @ show_int j \<longleftrightarrow> d = d' \<and> i = j"
  using append_sep_inj [of d "CHR '':''" "show_int i" d' "show_int j"] by (auto simp: show_int_inj)

lemma new_chunk_id_inj:
  "ch_chunk_id (new_chunk t i d n) = ch_chunk_id (new_chunk t' j d' n') \<longleftrightarrow> d = d' \<and> i = j"
  using chunk_id_inj by (simp add: new_chunk_def)

lemma chunk_loop_ids:
  "ch \<in> set (chunk_loop c dec tokens d start index) \<Longrightarrow>
     index \<le> ch_index ch \<and> ch_chunk_id ch = d @ '':'' @ show_int (ch_index ch) \<and> ch_doc_id ch = d"
proof (induction c dec tokens d start index rule: chunk_loop.induct)
  case (1 c dec tokens d start index)
  from 1(2) show ?case
    by (subst (asm) chunk_loop.simps) (auto simp: Let_def new_chunk_def dest!: 1(1) [OF _ refl refl] split: if_splits)
qed

lemma chunk_loop_distinct: "distinct (map ch_chunk_id (chunk_loop c dec tokens d start index))"
proof (induction c dec tokens d start index rule: chunk_loop.induct)
  case (1 c dec tokens d start index)
  show ?case
    by (subst chunk_loop.simps) (auto simp: Let_def new_chunk_def show_int_inj intro!: 1 dest!: chunk_loop_ids)
qed

end
