(* ===== verification/Events.thy ===== *)
theory Events
  imports Effects Json
begin

text \<open>
  The event classes that travel between the services (\<open>events.py\<close> of the connectors, the document
  processor and the embedding worker). They are Python dataclasses: nothing checks the type of a
  field, so a field holds any JSON value; \<open>from_json\<close> passes the object's entries as keyword
  arguments, which raises on a missing or an unexpected name and fills in the defaults.
\<close>

section \<open>str()\<close>

text \<open>What an f-string shows of a JSON value; \<open>rp\<close> renders floats and containers.\<close>

fun py_str :: "(json \<Rightarrow> string) \<Rightarrow> json \<Rightarrow> string" where
  "py_str rp (JStr s) = s"
| "py_str rp (JInt i) = show_int i"
| "py_str rp (JBool b) = (if b then ''True'' else ''False'')"
| "py_str rp JNull = ''None''"
| "py_str rp j = rp j"

text \<open>\<open>x.encode()\<close>, \<open>x.startswith(..)\<close> and the like raise on anything but a string.\<close>

definition need_str :: "json \<Rightarrow> exc + string" where
  "need_str j = (case j of JStr s \<Rightarrow> Inr s | _ \<Rightarrow> Inl (Exc ''AttributeError'' ''''))"

section \<open>Raw documents\<close>

record raw_event =
  rv_source_type :: json
  rv_source_id :: json
  rv_content_ref :: json
  rv_content_type :: json
  rv_tenant_id :: json
  rv_metadata :: json
  rv_event_id :: json
  rv_ingested_at :: json

definition raw_fields :: "string list" where
  "raw_fields = [''source_type'', ''source_id'', ''content_ref'', ''content_type'', ''tenant_id'',
     ''metadata'', ''event_id'', ''ingested_at'']"

definition raw_to_dict :: "raw_event \<Rightarrow> json" where
  "raw_to_dict e = JObj [(''source_type'', rv_source_type e), (''source_id'', rv_source_id e),
     (''content_ref'', rv_content_ref e), (''content_type'', rv_content_type e),
     (''tenant_id'', rv_tenant_id e), (''metadata'', rv_metadata e), (''event_id'', rv_event_id e),
     (''ingested_at'', rv_ingested_at e)]"

definition not_a_mapping :: codec_error where
  "not_a_mapping = Ill_Typed ''argument after ** must be a mapping''"

text \<open>\<open>cls(**d)\<close> with the fresh defaults \<open>eid\<close> and \<open>now\<close>.\<close>

definition raw_of_dict :: "string \<Rightarrow> rat \<Rightarrow> json \<Rightarrow> (codec_error, raw_event) res" where
  "raw_of_dict eid now j =
     (case j of
        JObj d \<Rightarrow>
          res_bind (only_fields raw_fields d) (\<lambda>_.
          res_bind (field d ''source_type'') (\<lambda>st.
          res_bind (field d ''source_id'') (\<lambda>si.
          res_bind (field d ''content_ref'') (\<lambda>cr.
          res_bind (field d ''content_type'') (\<lambda>ct.
          res_bind (field d ''tenant_id'') (\<lambda>t.
            Inr \<lparr>rv_source_type = st, rv_source_id = si, rv_content_ref = cr, rv_content_type = ct,
                 rv_tenant_id = t, rv_metadata = obj_get d ''metadata'' (JObj []),
                 rv_event_id = obj_get d ''event_id'' (JStr eid),
                 rv_ingested_at = obj_get d ''ingested_at'' (JFloat now)\<rparr>))))))
      | _ \<Rightarrow> Inl not_a_mapping)"

interpretation raw_codec: codec raw_to_dict "raw_of_dict eid now"
  by unfold_locales
     (simp add: raw_to_dict_def raw_of_dict_def only_fields_def raw_fields_def field_def obj_get_def get_or_def)

section \<open>Document chunks\<close>

record chunk_event =
  cv_doc_id :: json
  cv_chunk_id :: json
  cv_chunk_index :: json
  cv_total_chunks :: json
  cv_text :: json
  cv_source_type :: json
  cv_source_id :: json
  cv_content_type :: json
  cv_tenant_id :: json
  cv_metadata :: json
  cv_event_id :: json
  cv_created_at :: json

definition chunk_fields :: "string list" where
  "chunk_fields = [''doc_id'', ''chunk_id'', ''chunk_index'', ''total_chunks'', ''text'', ''source_type'',
     ''source_id'', ''content_type'', ''tenant_id'', ''metadata'', ''event_id'', ''created_at'']"

definition chunk_to_dict :: "chunk_event \<Rightarrow> json" where
  "chunk_to_dict e = JObj [(''doc_id'', cv_doc_id e), (''chunk_id'', cv_chunk_id e),
     (''chunk_index'', cv_chunk_index e), (''total_chunks'', cv_total_chunks e), (''text'', cv_text e),
     (''source_type'', cv_source_type e), (''source_id'', cv_source_id e),
     (''content_type'', cv_content_type e), (''tenant_id'', cv_tenant_id e),
     (''metadata'', cv_metadata e), (''event_id'', cv_event_id e), (''created_at'', cv_created_at e)]"

definition chunk_of_dict :: "string \<Rightarrow> rat \<Rightarrow> json \<Rightarrow> (codec_error, chunk_event) res" where
  "chunk_of_dict eid now j =
     (case j of
        JObj d \<Rightarrow>
          res_bind (only_fields chunk_fields d) (\<lambda>_.
          res_bind (field d ''doc_id'') (\<lambda>di.
          res_bind (field d ''chunk_id'') (\<lambda>ci.
          res_bind (field d ''chunk_index'') (\<lambda>ix.
          res_bind (field d ''total_chunks'') (\<lambda>n.
          res_bind (field d ''text'') (\<lambda>tx.
          res_bind (field d ''source_type'') (\<lambda>st.
          res_bind (field d ''source_id'') (\<lambda>si.
          res_bind (field d ''content_type'') (\<lambda>ct.
          res_bind (field d ''tenant_id'') (\<lambda>t.
            Inr \<lparr>cv_doc_id = di, cv_chunk_id = ci, cv_chunk_index = ix, cv_total_chunks = n, cv_text = tx,
                 cv_source_type = st, cv_source_id = si, cv_content_type = ct, cv_tenant_id = t,
                 cv_metadata = obj_get d ''metadata'' (JObj []),
                 cv_event_id = obj_get d ''event_id'' (JStr eid),
                 cv_created_at = obj_get d ''created_at'' (JFloat now)\<rparr>))))))))))
      | _ \<Rightarrow> Inl not_a_mapping)"

interpretation chunk_codec: codec chunk_to_dict "chunk_of_dict eid now"
  by unfold_locales
     (simp add: chunk_to_dict_def chunk_of_dict_def only_fields_def chunk_fields_def field_def obj_get_def get_or_def)

section \<open>Dead letters\<close>

record dlq_envelope =
  dl_original_topic :: json
  dl_original_partition :: json
  dl_original_offset :: json
  dl_original_timestamp :: json
  dl_failure_reason :: string
  dl_failure_detail :: string
  dl_original_payload :: json
  dl_dlq_id :: string
  dl_failure_count :: int
  dl_failed_at :: rat

definition envelope_to_dict :: "dlq_envelope \<Rightarrow> json" where
  "envelope_to_dict e = JObj [(''original_topic'', dl_original_topic e),
     (''original_partition'', dl_original_partition e), (''original_offset'', dl_original_offset e),
     (''original_timestamp'', dl_original_timestamp e), (''failure_reason'', JStr (dl_failure_reason e)),
     (''failure_detail'', JStr (dl_failure_detail e)), (''original_payload'', dl_original_payload e),
     (''dlq_id'', JStr (dl_dlq_id e)), (''failure_count'', JInt (dl_failure_count e)),
     (''failed_at'', JFloat (dl_failed_at e))]"

end
