(* ===== verification/Doc_Content.thy ===== *)
theory Doc_Content
  imports Events
begin

text \<open>
  \<open>services/doc-processor/src/fetcher.py\<close> and \<open>parsers.py\<close>: where a document's bytes come from, with
  the retries, and how they become text. The decoders of the libraries (PDF, Word, HTML, CSV,
  base64, UTF-8, JSON) are the fields of a record of functions on the content.
\<close>

section \<open>Fetching\<close>

datatype fetch_cmd =
    S3_Get string string
  | Read_File string
  | Sleep rat

text \<open>A fetch command returns the bytes; a sleep returns nothing of use.\<close>

type_synonym 'w fetch_api = "(fetch_cmd, exc, string, 'w) api"

definition fetch_error :: "string \<Rightarrow> exc" where
  "fetch_error msg = Exc ''FetchError'' msg"

definition is_fetch_error :: "exc \<Rightarrow> bool" where
  "is_fetch_error e \<longleftrightarrow> exc_class e = ''FetchError''"

definition is_os_error :: "exc \<Rightarrow> bool" where
  "is_os_error e \<longleftrightarrow> is_connection_error e \<or> exc_class e \<in>
     {''OSError'', ''FileNotFoundError'', ''PermissionError'', ''IsADirectoryError'', ''NotADirectoryError'',
      ''FileExistsError'', ''InterruptedError'', ''BlockingIOError'', ''ChildProcessError'',
      ''ProcessLookupError'', ''TimeoutError''}"

definition fetch_s3 :: "'w fetch_api \<Rightarrow> string \<Rightarrow> ('w, string) prog" where
  "fetch_s3 api content_ref =
     (case split_once (CHR ''/'') (drop (length ''s3://'') content_ref) of
        [bucket, key] \<Rightarrow>
          catchE (api (S3_Get bucket key)) (\<lambda>e. raise (fetch_error (''S3 fetch error: '' @ exc_msg e)))
      | _ \<Rightarrow> raise (fetch_error (''Invalid S3 ref: '' @ content_ref)))"

definition fetch_file :: "'w fetch_api \<Rightarrow> string \<Rightarrow> ('w, string) prog" where
  "fetch_file api path =
     catchE (api (Read_File path))
       (\<lambda>e. if is_os_error e then raise (fetch_error (''File fetch error: '' @ exc_msg e)) else raise e)"

definition fetch_content :: "(string \<Rightarrow> exc + string) \<Rightarrow> 'w fetch_api \<Rightarrow> json \<Rightarrow> ('w, string) prog" where
  "fetch_content b64decode api content_ref =
     bindE (lift_res (need_str content_ref)) (\<lambda>ref.
       if startswith ref ''inline:'' then lift_res (b64decode (drop (length ''inline:'') ref))
       else if startswith ref ''s3://'' then fetch_s3 api ref
       else fetch_file api ref)"

definition fetch_retry_delays :: "rat list" where
  "fetch_retry_delays = [1, 4, 16]"

text \<open>The loop over the delays: a fetch error is followed by its sleep, the last one too.\<close>

fun retry_loop :: "('w, string) prog \<Rightarrow> 'w fetch_api \<Rightarrow> exc \<Rightarrow> rat list \<Rightarrow> ('w, string) prog" where
  "retry_loop fetch api last_exc [] =
     raise (fetch_error (''Content fetch failed after retries: '' @ exc_msg last_exc))"
| "retry_loop fetch api last_exc (delay # delays) =
     catchE fetch
       (\<lambda>e. if is_fetch_error e then seqE (api (Sleep delay)) (retry_loop fetch api e delays) else raise e)"

definition fetch_content_with_retry :: "(string \<Rightarrow> exc + string) \<Rightarrow> 'w fetch_api \<Rightarrow> json \<Rightarrow> ('w, string) prog" where
  "fetch_content_with_retry b64decode api content_ref =
     retry_loop (fetch_content b64decode api content_ref) api (fetch_error ''no attempts made'') fetch_retry_delays"

section \<open>Parsing\<close>

record decoders =
  pdf_pages :: "string \<Rightarrow> exc + string option list"
  docx_paragraphs :: "string \<Rightarrow> exc + string list"
  html_text :: "string \<Rightarrow> exc + string"
  csv_text :: "string \<Rightarrow> exc + string"
  utf8_strict :: "string \<Rightarrow> exc + string"
  utf8_replace :: "string \<Rightarrow> string"
  json_loads :: "string \<Rightarrow> exc + json"
  json_repr :: "json \<Rightarrow> string"

definition parse_error :: "string \<Rightarrow> exc \<Rightarrow> exc + 'a" where
  "parse_error lib e = Inl (Exc ''ParseError'' (lib @ '': '' @ exc_msg e))"

definition newline :: string where
  "newline = [CHR 0x0A]"

definition parse_pdf :: "decoders \<Rightarrow> string \<Rightarrow> exc + string" where
  "parse_pdf L content =
     (case pdf_pages L content of
        Inl e \<Rightarrow> parse_error ''pdfplumber'' e
      | Inr parts \<Rightarrow> Inr (join newline (filter (\<lambda>p. p \<noteq> []) (List.map_filter id parts))))"

definition parse_docx :: "decoders \<Rightarrow> string \<Rightarrow> exc + string" where
  "parse_docx L content =
     (case docx_paragraphs L content of
        Inl e \<Rightarrow> parse_error ''python-docx'' e
      | Inr ps \<Rightarrow> Inr (join newline (filter (\<lambda>p. strip p \<noteq> []) ps)))"

definition parse_html :: "decoders \<Rightarrow> string \<Rightarrow> exc + string" where
  "parse_html L content = (case html_text L content of Inl e \<Rightarrow> parse_error ''html2text'' e | Inr t \<Rightarrow> Inr t)"

definition parse_csv :: "decoders \<Rightarrow> string \<Rightarrow> exc + string" where
  "parse_csv L content = (case csv_text L content of Inl e \<Rightarrow> parse_error ''pandas'' e | Inr t \<Rightarrow> Inr t)"

text \<open>A JSON document becomes one line per leaf, each with the path to it.\<close>

lemma enumerate_size [termination_simp]: "(i, x) \<in> set (enumerate n xs) \<Longrightarrow> size x < Suc (size_list size xs)"
  by (metis enumerate_eq_zip le_imp_less_Suc order_refl set_zip_rightD size_list_estimation')

fun flatten_json :: "(json \<Rightarrow> string) \<Rightarrow> json \<Rightarrow> string \<Rightarrow> string" where
  "flatten_json rp (JObj d) prefix =
     join newline (map (\<lambda>(k, v). flatten_json rp v (if prefix = [] then k else prefix @ ''.'' @ k)) d)"
| "flatten_json rp (JList xs) prefix =
     join newline (map (\<lambda>(i, x). flatten_json rp x (prefix @ ''['' @ show_nat i @ '']'')) (enumerate 0 xs))"
| "flatten_json rp leaf prefix = join newline [prefix @ '': '' @ py_str rp leaf]"

definition parse_json :: "decoders \<Rightarrow> string \<Rightarrow> exc + string" where
  "parse_json L content =
     (case utf8_strict L content of
        Inl e \<Rightarrow> parse_error ''json'' e
      | Inr s \<Rightarrow> (case json_loads L s of
          Inl e \<Rightarrow> parse_error ''json'' e
        | Inr j \<Rightarrow> Inr (flatten_json (json_repr L) j [])))"

definition media_type :: "string \<Rightarrow> string" where
  "media_type content_type = strip (hd (split_on (CHR '';'') (lower content_type)))"

definition parse :: "decoders \<Rightarrow> string \<Rightarrow> json \<Rightarrow> exc + string" where
  "parse L content content_type =
     (case need_str content_type of
        Inl e \<Rightarrow> Inl e
      | Inr s \<Rightarrow>
          (let ct = media_type s in
           if ct = ''application/pdf'' then parse_pdf L content
           else if ct \<in> {''application/vnd.openxmlformats-officedocument.wordprocessingml.document'', ''application/msword''}
             then parse_docx L content
           else if ct \<in> {''text/html'', ''application/xhtml+xml''} then parse_html L content
           else if ct = ''text/csv'' then parse_csv L content
           else if ct = ''application/json'' then parse_json L content
           else Inr (utf8_replace L content)))"

end
