(* ===== verification/Doc_Processor.thy ===== *)
theory Doc_Processor
  imports Chunker Doc_Content Kafka
begin

text \<open>
  \<open>services/doc-processor/src/processor.py\<close> with \<open>status.py\<close> and \<open>metadata_event.py\<close>: one consumed
  message is decoded, its content fetched and parsed, the text chunked, the chunks published with
  retries and announced, and the offset committed; failures go to the dead-letter topic. The Kafka
  clients, the status table and the content stores are reached through the commands below; a
  Prometheus increment is the command \<open>Count\<close>.
\<close>

section \<open>The outside world\<close>

datatype doc_cmd =
    Fetch_Cmd fetch_cmd
  | Produce_Chunk kmsg
  | Flush_Chunks rat
  | Retry_Sleep rat
  | Produce_Dlq kmsg
  | Flush_Dlq rat
  | Produce_Meta kmsg
  | Flush_Meta rat
  | Sql_Set_Status json string
  | Sql_Commit
  | Commit kmeta
  | Subscribe string
  | Consumer_Close
  | Count string string int

datatype doc_reply = D_Done | D_Bytes string | D_Remaining nat

type_synonym 'w doc_api = "(doc_cmd, exc, doc_reply, 'w) api"

definition fetch_via :: "'w doc_api \<Rightarrow> 'w fetch_api" where
  "fetch_via api c = bindE (api (Fetch_Cmd c)) (\<lambda>r. case r of D_Bytes b \<Rightarrow> ret b | _ \<Rightarrow> ret [])"

text \<open>The configuration, the library functions and the optional collaborators of the constructor.\<close>

record doc_env =
  de_input_topic :: string
  de_output_topic :: string
  de_dlq_topic :: string
  de_meta_topic :: "string option"
  de_timeout_s :: rat
  de_has_db :: bool
  de_chunker :: chunker
  de_enc :: "string \<Rightarrow> nat list"
  de_dec :: "nat list \<Rightarrow> string"
  de_b64 :: "string \<Rightarrow> exc + string"
  de_sha :: "string \<Rightarrow> string"
  de_float :: "rat \<Rightarrow> string"
  de_lib :: decoders

text \<open>What the handling of one message draws from \<open>uuid\<close> and the clock.\<close>

record doc_fresh =
  df_event_id :: string
  df_now :: rat
  df_chunk_event_id :: "int \<Rightarrow> string"
  df_meta_id :: "int \<Rightarrow> string"
  df_meta_time :: string
  df_dlq_id :: string

record doc_msg =
  dm_value :: "string option"
  dm_meta :: kmeta

section \<open>Decoding and identity\<close>

definition decode_message :: "doc_env \<Rightarrow> doc_fresh \<Rightarrow> doc_msg \<Rightarrow> exc + raw_event" where
  "decode_message env f msg =
     (case dm_value msg of
        None \<Rightarrow> Inl (Exc ''AttributeError'' '''')
      | Some b \<Rightarrow> (case utf8_strict (de_lib env) b of
          Inl e \<Rightarrow> Inl e
        | Inr s \<Rightarrow> (case json_loads (de_lib env) s of
            Inl e \<Rightarrow> Inl e
          | Inr j \<Rightarrow> (case raw_of_dict (df_event_id f) (df_now f) j of
              Inl _ \<Rightarrow> Inl (Exc ''TypeError'' '''')
            | Inr ev \<Rightarrow> Inr ev))))"

definition make_doc_id :: "doc_env \<Rightarrow> raw_event \<Rightarrow> string" where
  "make_doc_id env ev =
     (let str = py_str (json_repr (de_lib env))
      in take 32 (de_sha env (str (rv_source_type ev) @ '':'' @ str (rv_source_id ev) @ '':'' @ str (rv_event_id ev))))"

section \<open>Side effects\<close>

definition update_source_file_status :: "'w doc_api \<Rightarrow> doc_env \<Rightarrow> json \<Rightarrow> string \<Rightarrow> ('w, unit) prog" where
  "update_source_file_status api env source_id status =
     (if \<not> de_has_db env then ret ()
      else ignoring (seqE (api (Sql_Set_Status source_id status)) (api Sql_Commit)))"

text \<open>\<open>int(ms / 1000)\<close>.\<close>

definition to_seconds :: "int \<Rightarrow> int" where
  "to_seconds ms = (if 0 \<le> ms then ms div 1000 else - ((- ms) div 1000))"

definition dlq_envelope_of :: "doc_env \<Rightarrow> doc_fresh \<Rightarrow> kmeta \<Rightarrow> raw_event \<Rightarrow> string \<Rightarrow> string \<Rightarrow> dlq_envelope" where
  "dlq_envelope_of env f mt ev reason detail =
     \<lparr>dl_original_topic = JStr (case kt_topic mt of Some t \<Rightarrow> if t = [] then de_input_topic env else t | None \<Rightarrow> de_input_topic env),
      dl_original_partition = JInt (case kt_partition mt of Some p \<Rightarrow> p | None \<Rightarrow> 0),
      dl_original_offset = JInt (case kt_offset mt of Some p \<Rightarrow> p | None \<Rightarrow> 0),
      dl_original_timestamp = JInt (case kt_timestamp_ms mt of Some ms \<Rightarrow> to_seconds ms | None \<Rightarrow> \<lfloor>df_now f\<rfloor>),
      dl_failure_reason = reason, dl_failure_detail = detail, dl_original_payload = raw_to_dict ev,
      dl_dlq_id = df_dlq_id f, dl_failure_count = 1, dl_failed_at = df_now f\<rparr>"

definition route_to_dlq ::
  "'w doc_api \<Rightarrow> doc_env \<Rightarrow> doc_fresh \<Rightarrow> kmeta \<Rightarrow> raw_event \<Rightarrow> string \<Rightarrow> string \<Rightarrow> ('w, unit) prog" where
  "route_to_dlq api env f mt ev reason detail =
     (let envelope = dlq_envelope_of env f mt ev reason detail
      in ignoring (bindE (lift_res (need_str (rv_event_id ev))) (\<lambda>key.
           seqE (api (Produce_Dlq (plain_msg (de_dlq_topic env) key (dumps (de_float env) (envelope_to_dict envelope)))))
             (api (Flush_Dlq (de_timeout_s env))))))"

definition produce_with_retry :: "'w doc_api \<Rightarrow> kmsg \<Rightarrow> ('w, bool) prog" where
  "produce_with_retry api msg =
     retrying (\<lambda>_. do_cmd api (Produce_Chunk msg)) (\<lambda>_. do_cmd api (Retry_Sleep 1)) 0 5"

definition chunk_event_of :: "raw_event \<Rightarrow> doc_fresh \<Rightarrow> int \<Rightarrow> chunk \<Rightarrow> chunk_event" where
  "chunk_event_of ev f n_chunks ch =
     \<lparr>cv_doc_id = JStr (ch_doc_id ch), cv_chunk_id = JStr (ch_chunk_id ch), cv_chunk_index = JInt (ch_index ch),
      cv_total_chunks = JInt n_chunks, cv_text = JStr (ch_text ch), cv_source_type = rv_source_type ev,
      cv_source_id = rv_source_id ev, cv_content_type = rv_content_type ev, cv_tenant_id = rv_tenant_id ev,
      cv_metadata = rv_metadata ev, cv_event_id = JStr (df_chunk_event_id f (ch_index ch)),
      cv_created_at = JFloat (df_now f)\<rparr>"

definition chunk_msg :: "doc_env \<Rightarrow> raw_event \<Rightarrow> doc_fresh \<Rightarrow> int \<Rightarrow> chunk \<Rightarrow> kmsg" where
  "chunk_msg env ev f n_chunks ch =
     plain_msg (de_output_topic env) (ch_chunk_id ch)
       (dumps (de_float env) (chunk_to_dict (chunk_event_of ev f n_chunks ch)))"

fun publish_each :: "'w doc_api \<Rightarrow> kmsg list \<Rightarrow> ('w, bool) prog" where
  "publish_each api [] = ret True"
| "publish_each api (m # ms) =
     bindE (produce_with_retry api m) (\<lambda>ok. if ok then publish_each api ms else ret False)"

definition publish_chunks ::
  "'w doc_api \<Rightarrow> doc_env \<Rightarrow> raw_event \<Rightarrow> doc_fresh \<Rightarrow> chunk list \<Rightarrow> ('w, bool) prog" where
  "publish_chunks api env ev f chunks =
     bindE (publish_each api (map (chunk_msg env ev f (int (length chunks))) chunks)) (\<lambda>ok.
       if ok then catchE (seqE (api (Flush_Chunks (de_timeout_s env))) (ret True)) (\<lambda>_. ret False)
       else ret False)"

section \<open>Lineage events\<close>

definition min_token_count :: int where
  "min_token_count = 50"

definition check_status :: "bool \<Rightarrow> json" where
  "check_status ok = JStr (if ok then ''passed'' else ''failed'')"

definition quality_checks :: "int \<Rightarrow> json" where
  "quality_checks token_count =
     JList [JObj [(''check_name'', JStr ''not_empty''), (''status'', check_status (0 < token_count))],
            JObj [(''check_name'', JStr ''min_token_count''), (''status'', check_status (min_token_count \<le> token_count)),
                  (''value'', JInt token_count), (''threshold'', JInt min_token_count)]]"

definition chunk_entity_event :: "chunk \<Rightarrow> int \<Rightarrow> json \<Rightarrow> string \<Rightarrow> string \<Rightarrow> json" where
  "chunk_entity_event ch n_chunks tenant eid time =
     JObj [(''specversion'', JStr ''1.0''), (''type'', JStr ''metadata.entity.created''),
       (''source'', JStr ''doc-processor''), (''subject'', JStr (''DocumentChunk/'' @ ch_chunk_id ch)),
       (''id'', JStr eid), (''time'', JStr time), (''datacontenttype'', JStr ''application/json''),
       (''data'', JObj [
          (''entity_type'', JStr ''DocumentChunk''), (''entity_key'', JStr (ch_chunk_id ch)), (''tenant_id'', tenant),
          (''attributes'', JObj [(''doc_id'', JStr (ch_doc_id ch)), (''chunk_index'', JInt (ch_index ch)),
             (''total_chunks'', JInt n_chunks), (''token_count'', JInt (ch_token_count ch)),
             (''text_preview'', JStr (take 100 (ch_text ch)))]),
          (''upstream'', JList [JObj [(''entity_type'', JStr ''RawDocument''), (''entity_key'', JStr (ch_doc_id ch)),
             (''relationship'', JStr ''chunked_into'')]]),
          (''quality_checks'', quality_checks (ch_token_count ch))])]"

definition publish_document_chunk ::
  "'w doc_api \<Rightarrow> doc_env \<Rightarrow> string \<Rightarrow> json \<Rightarrow> doc_fresh \<Rightarrow> int \<Rightarrow> chunk \<Rightarrow> ('w, unit) prog" where
  "publish_document_chunk api env topic tenant f n_chunks ch =
     (let eid = df_meta_id f (ch_index ch)
      in ignoring (seqE (api (Produce_Meta (plain_msg topic eid
             (dumps (de_float env) (chunk_entity_event ch n_chunks tenant eid (df_meta_time f))))))
           (api (Flush_Meta 5))))"

section \<open>One message\<close>

definition handle_text ::
  "'w doc_api \<Rightarrow> doc_env \<Rightarrow> doc_fresh \<Rightarrow> kmeta \<Rightarrow> raw_event \<Rightarrow> string \<Rightarrow> string \<Rightarrow> ('w, unit) prog" where
  "handle_text api env f mt ev doc_id content_text =
     (let chunks = chunk_text (de_chunker env) (de_enc env) (de_dec env) content_text doc_id;
          n_chunks = int (length chunks)
      in if chunks = [] then
           seqE (api (Commit mt)) (do_cmd api (Count ''messages_processed'' ''empty'' 1))
         else
           bindE (publish_chunks api env ev f chunks) (\<lambda>published.
             if \<not> published then
               seqE (route_to_dlq api env f mt ev ''chunk_publish_failed'' ''All publish retries exhausted'')
                 (seqE (api (Count ''dlq_routed'' ''chunk_publish_failed'' 1))
                   (do_cmd api (Count ''messages_processed'' ''chunk_publish_failed'' 1)))
             else
               seqE (case de_meta_topic env of
                       None \<Rightarrow> ret ()
                     | Some topic \<Rightarrow> eachE (publish_document_chunk api env topic (rv_tenant_id ev) f n_chunks) chunks)
                 (seqE (api (Commit mt))
                   (seqE (api (Count ''messages_processed'' ''success'' 1))
                     (do_cmd api (Count ''chunks_published'' '''' n_chunks))))))"

definition process_message :: "'w doc_api \<Rightarrow> doc_env \<Rightarrow> doc_fresh \<Rightarrow> doc_msg \<Rightarrow> ('w, unit) prog" where
  "process_message api env f msg =
     (case decode_message env f msg of
        Inl e \<Rightarrow> do_cmd api (Commit (dm_meta msg))
      | Inr ev \<Rightarrow>
          bindE (catchE (bindE (fetch_content_with_retry (de_b64 env) (fetch_via api) (rv_content_ref ev)) (\<lambda>c. ret (Inr c)))
                   (\<lambda>e. ret (Inl e)))
            (\<lambda>fetched. case fetched of
               Inl e \<Rightarrow>
                 seqE (route_to_dlq api env f (dm_meta msg) ev ''fetch_error'' (exc_msg e))
                   (seqE (api (Commit (dm_meta msg)))
                     (do_cmd api (Count ''messages_processed'' ''fetch_error'' 1)))
             | Inr content \<Rightarrow>
                 (case parse (de_lib env) content (rv_content_type ev) of
                    Inl e \<Rightarrow>
                      if exc_class e = ''ParseError'' then
                        seqE (update_source_file_status api env (rv_source_id ev) ''error'')
                          (seqE (route_to_dlq api env f (dm_meta msg) ev ''parse_error'' (exc_msg e))
                            (seqE (api (Commit (dm_meta msg)))
                              (seqE (api (Count ''messages_processed'' ''parse_error'' 1))
                                (do_cmd api (Count ''dlq_routed'' ''parse_error'' 1)))))
                      else raise e
                  | Inr content_text \<Rightarrow>
                      handle_text api env f (dm_meta msg) ev (make_doc_id env ev) content_text)))"

section \<open>The consumer loop\<close>

datatype polled = No_Message | Poll_Error | Poll_Raises exc | Polled doc_fresh doc_msg

definition handle_polled :: "'w doc_api \<Rightarrow> doc_env \<Rightarrow> polled \<Rightarrow> ('w, unit) prog" where
  "handle_polled api env p =
     (case p of No_Message \<Rightarrow> ret () | Poll_Error \<Rightarrow> ret () | Poll_Raises e \<Rightarrow> raise e
      | Polled f msg \<Rightarrow> process_message api env f msg)"

text \<open>The loop over what the polls return until \<open>stop\<close> is called, with its \<open>finally\<close>.\<close>

definition run :: "'w doc_api \<Rightarrow> doc_env \<Rightarrow> polled list \<Rightarrow> ('w, unit) prog" where
  "run api env polls =
     seqE (api (Subscribe (de_input_topic env)))
       (\<lambda>w. case eachE (handle_polled api env) polls w of
              (r, w1) \<Rightarrow> (case api Consumer_Close w1 of (Inl e, w2) \<Rightarrow> (Inl e, w2) | (Inr _, w2) \<Rightarrow> (r, w2)))"

section \<open>The contract of the outside world\<close>

text \<open>
  What the theorems below use of Kafka: a chunk that \<open>produce\<close> accepts joins the producer's queue,
  one it refuses does not; a flush only moves messages from the queue to the broker, in order; a
  commit that returns records the message; no other command touches the chunk queue or the
  committed offsets.
\<close>

definition flush_reply :: "(exc + doc_reply) \<Rightarrow> exc + nat" where
  "flush_reply r = (case r of Inl e \<Rightarrow> Inl e | Inr (D_Remaining n) \<Rightarrow> Inr n | Inr _ \<Rightarrow> Inr 0)"

fun touches_chunks :: "doc_cmd \<Rightarrow> bool" where
  "touches_chunks (Produce_Chunk _) = True"
| "touches_chunks (Flush_Chunks _) = True"
| "touches_chunks _ = False"

fun is_commit :: "doc_cmd \<Rightarrow> bool" where
  "is_commit (Commit _) = True"
| "is_commit _ = False"

definition doc_world ::
  "'w doc_api \<Rightarrow> ('w \<Rightarrow> kmsg list) \<Rightarrow> ('w \<Rightarrow> kmsg list) \<Rightarrow> ('w \<Rightarrow> kmeta list) \<Rightarrow> bool" where
  "doc_world api queue delivered committed \<longleftrightarrow>
     producer_spec (\<lambda>m. api (Produce_Chunk m)) (\<lambda>w. case api (Flush_Chunks 0) w of (r, w') \<Rightarrow> (flush_reply r, w')) queue delivered
   \<and> (\<forall>m w e w'. api (Produce_Chunk m) w = (Inl e, w') \<longrightarrow> queue w' = queue w \<and> delivered w' = delivered w)
   \<and> (\<forall>t w r w'. api (Flush_Chunks t) w = (r, w') \<longrightarrow> delivered w' @ queue w' = delivered w @ queue w)
   \<and> (\<forall>m w r w'. api (Commit m) w = (r, w') \<longrightarrow> committed w' = (if is_ok r then committed w @ [m] else committed w))
   \<and> (\<forall>c w r w'. \<not> touches_chunks c \<longrightarrow> api c w = (r, w') \<longrightarrow> queue w' = queue w \<and> delivered w' = delivered w)
   \<and> (\<forall>c w r w'. \<not> is_commit c \<longrightarrow> api c w = (r, w') \<longrightarrow> committed w' = committed w)"

text \<open>The messages handed to Kafka so far, whether delivered or still queued.\<close>

abbreviation handed :: "('w \<Rightarrow> kmsg list) \<Rightarrow> ('w \<Rightarrow> kmsg list) \<Rightarrow> 'w \<Rightarrow> kmsg list" where
  "handed queue delivered w \<equiv> delivered w @ queue w"

lemma doc_worldD:
  assumes "doc_world api queue delivered committed"
  shows "api (Produce_Chunk m) w = (r, w') \<Longrightarrow>
      handed queue delivered w' = (if is_ok r then handed queue delivered w @ [m] else handed queue delivered w)"
    and "api (Flush_Chunks t) w = (r, w') \<Longrightarrow> handed queue delivered w' = handed queue delivered w"
    and "api (Commit mt) w = (r, w') \<Longrightarrow> committed w' = (if is_ok r then committed w @ [mt] else committed w)"
    and "\<not> touches_chunks c \<Longrightarrow> api c w = (r, w') \<Longrightarrow> handed queue delivered w' = handed queue delivered w"
    and "\<not> is_commit c \<Longrightarrow> api c w = (r, w') \<Longrightarrow> committed w' = committed w"
proof -
  note W = assms [unfolded doc_world_def producer_spec_def]
  show "api (Produce_Chunk m) w = (r, w') \<Longrightarrow>
      handed queue delivered w' = (if is_ok r then handed queue delivered w @ [m] else handed queue delivered w)"
    using W by (cases r) auto
  show "api (Flush_Chunks t) w = (r, w') \<Longrightarrow> handed queue delivered w' = handed queue delivered w"
    using W by blast
  show "api (Commit mt) w = (r, w') \<Longrightarrow> committed w' = (if is_ok r then committed w @ [mt] else committed w)"
    using W by blast
  show "\<not> touches_chunks c \<Longrightarrow> api c w = (r, w') \<Longrightarrow> handed queue delivered w' = handed queue delivered w"
    using W by (elim conjE) (drule spec [of _ c], auto)
  show "\<not> is_commit c \<Longrightarrow> api c w = (r, w') \<Longrightarrow> committed w' = committed w"
    using W by blast
qed

lemma api_keeps:
  assumes "doc_world api queue delivered committed"
  shows "\<not> touches_chunks c \<Longrightarrow> keeps (\<lambda>w. handed queue delivered w = x) (api c)"
    and "\<not> is_commit c \<Longrightarrow> keeps (\<lambda>w. committed w = y) (api c)"
  using doc_worldD(4,5) [OF assms] by (auto intro!: keepsI)

lemma keeps_fetch_via:
  "(\<And>c. keeps I (api (Fetch_Cmd c))) \<Longrightarrow> keeps I (fetch_via api c)"
  unfolding fetch_via_def by (auto intro!: keeps_intros split: doc_reply.split)

lemma keeps_fetch_content:
  assumes "\<And>c. keeps I (api c)"
  shows "keeps I (fetch_content b api ref)"
  unfolding fetch_content_def fetch_s3_def fetch_file_def
  by (auto intro!: keeps_intros assms split: list.split)

lemma keeps_retry_loop:
  assumes "\<And>c. keeps I (api c)" and "keeps I fetch"
  shows "keeps I (retry_loop fetch api e ds)"
  by (induction ds arbitrary: e) (auto intro!: keeps_intros assms)

lemma keeps_fetch:
  "(\<And>c. keeps I (api (Fetch_Cmd c))) \<Longrightarrow> keeps I (fetch_content_with_retry b (fetch_via api) ref)"
  unfolding fetch_content_with_retry_def
  by (intro keeps_retry_loop keeps_fetch_content keeps_fetch_via)

lemma keeps_route_to_dlq:
  "(\<And>m. keeps I (api (Produce_Dlq m))) \<Longrightarrow> (\<And>t. keeps I (api (Flush_Dlq t))) \<Longrightarrow>
     keeps I (route_to_dlq api env f mt ev r d)"
  unfolding route_to_dlq_def Let_def by (intro keeps_intros)

lemma keeps_publish_document_chunk:
  "(\<And>m. keeps I (api (Produce_Meta m))) \<Longrightarrow> (\<And>t. keeps I (api (Flush_Meta t))) \<Longrightarrow>
     keeps I (publish_document_chunk api env topic tn f n ch)"
  unfolding publish_document_chunk_def Let_def by (intro keeps_intros)

lemma keeps_update_status:
  "(\<And>s t. keeps I (api (Sql_Set_Status s t))) \<Longrightarrow> keeps I (api Sql_Commit) \<Longrightarrow>
     keeps I (update_source_file_status api env s t)"
  unfolding update_source_file_status_def by (auto intro!: keeps_intros)

section \<open>Publishing\<close>

text \<open>A produce with retries hands the message over exactly once when it answers true, and not at
  all when it answers false.\<close>

lemma retrying_handed:
  assumes p: "\<And>k w r w'. attempt k w = (r, w') \<Longrightarrow> h w' = (if is_ok r then h w @ [m] else h w)"
    and s: "\<And>k w r w'. sleep k w = (r, w') \<Longrightarrow> h w' = h w"
  shows "retrying attempt sleep k n w = (Inr ok, w') \<Longrightarrow> h w' = (if ok then h w @ [m] else h w)"
proof (induction n arbitrary: k w)
  case (Suc n)
  obtain r w1 where a: "attempt k w = (r, w1)" by fastforce
  obtain r2 w2 where sl: "sleep k w1 = (r2, w2)" by fastforce
  show ?case
  proof (cases "is_ok r \<or> n = 0")
    case True
    then show ?thesis using p [OF a] a Suc.prems by (cases r) (auto simp: prog_defs)
  next
    case False
    then have "retrying attempt sleep (Suc k) n w2 = (Inr ok, w')"
      using a sl Suc.prems by (cases r; cases r2) (auto simp: prog_defs)
    from Suc.IH [OF this] show ?thesis using False p [OF a] s [OF sl] by simp
  qed
qed simp

lemma produce_with_retry_handed:
  assumes "doc_world api queue delivered committed" and "produce_with_retry api m w = (Inr ok, w')"
  shows "handed queue delivered w' = (if ok then handed queue delivered w @ [m] else handed queue delivered w)"
proof (rule retrying_handed [where h = "handed queue delivered" and n = 5 and k = 0])
  show "retrying (\<lambda>_. do_cmd api (Produce_Chunk m)) (\<lambda>_. do_cmd api (Retry_Sleep 1)) 0 5 w = (Inr ok, w')"
    using assms(2) by (simp add: produce_with_retry_def)
next
  fix w r w' assume "do_cmd api (Produce_Chunk m) w = (r, w')"
  from do_cmd_run [OF this] obtain r' where r: "api (Produce_Chunk m) w = (r', w')" "is_ok r' = is_ok r" by blast
  from doc_worldD(1) [OF assms(1) r(1)]
  show "handed queue delivered w' = (if is_ok r then handed queue delivered w @ [m] else handed queue delivered w)"
    by (simp only: r(2))
next
  fix w r w' assume "do_cmd api (Retry_Sleep 1) w = (r, w')"
  from do_cmd_run [OF this] obtain r' where "api (Retry_Sleep 1) w = (r', w')" by blast
  from doc_worldD(4) [OF assms(1) _ this] show "handed queue delivered w' = handed queue delivered w" by simp
qed

text \<open>The chunks are handed over in order: all of them when the answer is true, else a prefix.\<close>

lemma publish_each_handed:
  assumes "doc_world api queue delivered committed"
  shows "publish_each api ms w = (Inr ok, w') \<Longrightarrow>
    \<exists>k \<le> length ms. handed queue delivered w' = handed queue delivered w @ take k ms \<and> (ok \<longrightarrow> k = length ms)"
proof (induction ms arbitrary: w)
  case (Cons m ms)
  obtain r w1 where p: "produce_with_retry api m w = (r, w1)" by fastforce
  with Cons.prems obtain ok1 where r: "r = Inr ok1" by (cases r) (auto simp: prog_defs)
  note h = produce_with_retry_handed [OF assms p [unfolded r]]
  show ?case
  proof (cases ok1)
    case True
    then have "publish_each api ms w1 = (Inr ok, w')" using Cons.prems p r by (simp add: prog_defs)
    from Cons.IH [OF this] obtain k where "k \<le> length ms"
      "handed queue delivered w' = handed queue delivered w1 @ take k ms" "ok \<longrightarrow> k = length ms" by blast
    then show ?thesis using h True by (intro exI [of _ "Suc k"]) simp
  next
    case False
    then show ?thesis using Cons.prems p r h by (intro exI [of _ 0]) (simp add: prog_defs)
  qed
qed simp

lemma publish_chunks_handed:
  assumes "doc_world api queue delivered committed" and "publish_chunks api env ev f chs w = (Inr ok, w')"
  shows "\<exists>k \<le> length chs. handed queue delivered w' =
      handed queue delivered w @ take k (map (chunk_msg env ev f (int (length chs))) chs) \<and> (ok \<longrightarrow> k = length chs)"
proof -
  let ?ms = "map (chunk_msg env ev f (int (length chs))) chs"
  obtain r w1 where p: "publish_each api ?ms w = (r, w1)" by fastforce
  with assms(2) obtain ok1 where r: "r = Inr ok1" by (cases r) (auto simp: publish_chunks_def prog_defs)
  obtain k where k: "k \<le> length ?ms" "handed queue delivered w1 = handed queue delivered w @ take k ?ms"
    "ok1 \<longrightarrow> k = length ?ms" using publish_each_handed [OF assms(1) p [unfolded r]] by blast
  obtain fr w2 where fl: "api (Flush_Chunks (de_timeout_s env)) w1 = (fr, w2)" by fastforce
  have "(ok1 \<and> w' = w2) \<or> (\<not> ok1 \<and> \<not> ok \<and> w' = w1)"
    using assms(2) p r fl by (cases fr) (auto simp: publish_chunks_def prog_defs split: if_splits)
  then show ?thesis using k doc_worldD(2) [OF assms(1) fl] by auto
qed

section \<open>Properties\<close>

text \<open>Handed-over messages and committed offsets, as one observation.\<close>

definition seen :: "('w \<Rightarrow> kmsg list) \<Rightarrow> ('w \<Rightarrow> kmsg list) \<Rightarrow> ('w \<Rightarrow> kmeta list) \<Rightarrow> kmsg list \<Rightarrow> kmeta list \<Rightarrow> 'w \<Rightarrow> bool" where
  "seen queue delivered committed h c w \<longleftrightarrow> handed queue delivered w = h \<and> committed w = c"

definition neutral :: "doc_cmd \<Rightarrow> bool" where
  "neutral c \<longleftrightarrow> \<not> touches_chunks c \<and> \<not> is_commit c"

lemma neutral_cmds [simp]:
  "neutral (Fetch_Cmd c)" "neutral (Produce_Dlq m)" "neutral (Flush_Dlq t)" "neutral (Produce_Meta m)"
  "neutral (Flush_Meta t)" "neutral (Count a b n)" "neutral (Sql_Set_Status s u)" "neutral Sql_Commit"
  by (simp_all add: neutral_def)

lemma keeps_seen:
  "doc_world api queue delivered committed \<Longrightarrow> neutral c \<Longrightarrow> keeps (seen queue delivered committed h cs) (api c)"
  by (rule keepsI) (auto simp: seen_def neutral_def dest: doc_worldD(4,5))

lemma wp_commit:
  assumes "doc_world api queue delivered committed" and "seen queue delivered committed h cs w"
  shows "wp (api (Commit mt)) (\<lambda>_. seen queue delivered committed h (cs @ [mt])) (\<lambda>_ _. True) w"
  using assms(2) doc_worldD(3) [OF assms(1)] doc_worldD(4) [OF assms(1), of "Commit mt"]
  by (auto simp: wp_def seen_def split: prod.split sum.split)

lemma keeps_handle_pieces:
  assumes "doc_world api queue delivered committed"
  shows "keeps (seen queue delivered committed h c) (do_cmd api (Count x y n))"
    and "keeps (seen queue delivered committed h c) (route_to_dlq api env f mt ev r d)"
    and "keeps (seen queue delivered committed h c) (eachE (publish_document_chunk api env topic tn f k) chs)"
    and "keeps (seen queue delivered committed h c) (update_source_file_status api env s t)"
  using keeps_seen [OF assms]
  by (auto intro!: keeps_intros keeps_route_to_dlq keeps_publish_document_chunk keeps_update_status)

lemma handle_text_seen:
  assumes W: "doc_world api queue delivered committed"
    and chs: "chs = chunk_text (de_chunker env) (de_enc env) (de_dec env) txt d" "chs \<noteq> []"
    and h: "handle_text api env f mt ev d txt w = (Inr (), w')"
  shows "committed w' = committed w @ [mt] \<and>
        handed queue delivered w' = handed queue delivered w @ map (chunk_msg env ev f (int (length chs))) chs
      \<or> committed w' = committed w \<and>
        (\<exists>k \<le> length chs. handed queue delivered w' =
          handed queue delivered w @ take k (map (chunk_msg env ev f (int (length chs))) chs))"
proof -
  let ?ms = "map (chunk_msg env ev f (int (length chs))) chs"
  let ?seen = "seen queue delivered committed"
  obtain r w2 where p: "publish_chunks api env ev f chs w = (r, w2)" by fastforce
  with h chs obtain ok where r: "r = Inr ok" by (cases r) (auto simp: handle_text_def Let_def prog_defs)
  obtain k where k: "k \<le> length chs" "handed queue delivered w2 = handed queue delivered w @ take k ?ms" "ok \<longrightarrow> k = length chs"
    using publish_chunks_handed [OF W p [unfolded r]] by auto
  have nc: "keeps (\<lambda>w. committed w = y) (api c)" if "\<not> is_commit c" for y c
    using api_keeps(2) [OF W that] .
  have "keeps (\<lambda>w. committed w = y) (publish_each api ms)" for y ms
    by (induction ms) (auto simp: produce_with_retry_def intro!: keeps_intros nc)
  then have "keeps (\<lambda>w. committed w = y) (publish_chunks api env ev f chs)" for y
    unfolding publish_chunks_def by (auto intro!: keeps_intros nc)
  from keepsD [OF this [of "committed w"] _ p] have c: "committed w2 = committed w" by simp
  note kp = keeps_handle_pieces [OF W]
  have s2: "?seen (handed queue delivered w @ take k ?ms) (committed w) w2" using k c by (simp add: seen_def)
  show ?thesis
  proof (cases ok)
    case True
    let ?I = "?seen (handed queue delivered w @ take k ?ms) (committed w)"
    let ?J = "?seen (handed queue delivered w @ take k ?ms) (committed w @ [mt])"
    let ?counts = "seqE (api (Count ''messages_processed'' ''success'' 1))
           (do_cmd api (Count ''chunks_published'' '''' (int (length chs))))"
    let ?meta = "case de_meta_topic env of None \<Rightarrow> ret ()
           | Some topic \<Rightarrow> eachE (publish_document_chunk api env topic (rv_tenant_id ev) f (int (length chs))) chs"
    have counts: "wp ?counts (\<lambda>_. ?J) (\<lambda>_ _. True) w'" if "?J w'" for w'
    proof (rule keeps_wp)
      show "keeps ?J ?counts" by (intro keeps_intros keeps_seen [OF W]) simp_all
    qed (use that in auto)
    have "wp (seqE ?meta (seqE (api (Commit mt)) ?counts)) (\<lambda>_. ?J) (\<lambda>_ _. True) w2"
      unfolding wp_seqE [of ?meta]
    proof (rule keeps_wp)
      show "keeps ?I ?meta" using kp(3) by (auto intro: keeps_intros split: option.split)
      show "?I w2" by (rule s2)
      fix w' assume "?I w'"
      from wp_commit [OF W this, of mt]
      show "wp (seqE (api (Commit mt)) ?counts) (\<lambda>_. ?J) (\<lambda>_ _. True) w'"
        unfolding wp_seqE [of "api (Commit mt)"] by (rule wp_mono) (erule counts, rule TrueI)
    qed
    from wp_runD(1) [OF this] show ?thesis
      using h p r True chs k by (auto simp: handle_text_def Let_def seen_def run_bindE)
  next
    case False
    have "keeps (?seen (handed queue delivered w @ take k ?ms) (committed w))
        (seqE (route_to_dlq api env f mt ev ''chunk_publish_failed'' ''All publish retries exhausted'')
                 (seqE (api (Count ''dlq_routed'' ''chunk_publish_failed'' 1))
                   (do_cmd api (Count ''messages_processed'' ''chunk_publish_failed'' 1))))"
      using kp(2) by (auto intro!: keeps_intros keeps_seen [OF W])
    from keepsD [OF this s2] show ?thesis
      using h p r False chs k by (auto simp: handle_text_def Let_def seen_def run_bindE)
  qed
qed

text \<open>
  C5. No document is committed before its chunks are handed to Kafka. When a message is decoded,
  fetched and parsed into chunks and its handling returns, then either its offset has been
  committed once and every chunk event has been handed to the producer exactly once, in order; or
  publishing failed, the offset has not been committed, and a prefix of the chunk events has been
  handed over (a retried message repeats them under the same chunk ids).
\<close>

theorem chunks_handed_over_before_commit:
  assumes "doc_world api queue delivered committed"
    and "decode_message env f msg = Inr ev"
    and "fetch_content_with_retry (de_b64 env) (fetch_via api) (rv_content_ref ev) w = (Inr content, w1)"
    and "parse (de_lib env) content (rv_content_type ev) = Inr txt"
    and "chs = chunk_text (de_chunker env) (de_enc env) (de_dec env) txt (make_doc_id env ev)" and "chs \<noteq> []"
    and "process_message api env f msg w = (Inr (), w')"
  shows "committed w' = committed w @ [dm_meta msg] \<and>
        handed queue delivered w' = handed queue delivered w @ map (chunk_msg env ev f (int (length chs))) chs
      \<or> committed w' = committed w \<and>
        (\<exists>k \<le> length chs. handed queue delivered w' =
          handed queue delivered w @ take k (map (chunk_msg env ev f (int (length chs))) chs))"
proof -
  have h: "handle_text api env f (dm_meta msg) ev (make_doc_id env ev) txt w1 = (Inr (), w')"
    using assms(2-4,7) by (simp add: process_message_def prog_defs)
  have "keeps (seen queue delivered committed (handed queue delivered w) (committed w))
      (fetch_content_with_retry (de_b64 env) (fetch_via api) (rv_content_ref ev))"
    by (intro keeps_fetch keeps_seen [OF assms(1)]) simp
  from keepsD [OF this _ assms(3)] have "handed queue delivered w1 = handed queue delivered w" "committed w1 = committed w"
    by (simp_all add: seen_def)
  then show ?thesis
    using handle_text_seen [OF assms(1) assms(5,6) h] by simp
qed

text \<open>A world for the examples: the chunk queue, the delivered messages and the commits; a flush
  delivers nothing in time, as its documentation allows.\<close>

type_synonym slow_world = "kmsg list \<times> kmsg list \<times> kmeta list"

fun slow_api :: "slow_world doc_api" where
  "slow_api (Fetch_Cmd c) w = (Inr (D_Bytes ''hello''), w)"
| "slow_api (Produce_Chunk m) (q, d, c) = (Inr D_Done, (q @ [m], d, c))"
| "slow_api (Flush_Chunks t) (q, d, c) = (Inr (D_Remaining (length q)), (q, d, c))"
| "slow_api (Commit m) (q, d, c) = (Inr D_Done, (q, d, c @ [m]))"
| "slow_api x w = (Inr D_Done, w)"

lemma slow_world: "doc_world slow_api fst (fst \<circ> snd) (snd \<circ> snd)"
proof -
  have t: "fst w' = fst w \<and> fst (snd w') = fst (snd w)" if "\<not> touches_chunks c" "slow_api c w = (r, w')" for c w r w'
    using that by (cases c; cases w) auto
  have k: "snd (snd w') = snd (snd w)" if "\<not> is_commit c" "slow_api c w = (r, w')" for c w r w'
    using that by (cases c; cases w) auto
  show ?thesis using t k by (auto simp: doc_world_def producer_spec_def flush_reply_def)
qed

definition sample_lib :: decoders where
  "sample_lib = \<lparr>pdf_pages = \<lambda>_. Inr [], docx_paragraphs = \<lambda>_. Inr [], html_text = Inr, csv_text = Inr,
     utf8_strict = Inr, utf8_replace = \<lambda>s. s,
     json_loads = \<lambda>_. Inr (JObj [(''source_type'', JStr ''nfs''), (''source_id'', JStr ''s1''),
        (''content_ref'', JStr ''/data/a.txt''), (''content_type'', JStr ''text/plain''), (''tenant_id'', JStr ''acme''),
        (''event_id'', JStr ''e1'')]),
     json_repr = \<lambda>_. []\<rparr>"

definition sample_doc_env :: doc_env where
  "sample_doc_env = \<lparr>de_input_topic = ''raw-documents'', de_output_topic = ''document-chunks'',
     de_dlq_topic = ''dlq-raw-documents'', de_meta_topic = None, de_timeout_s = 5, de_has_db = False,
     de_chunker = \<lparr>chunk_size = 3, overlap = 1\<rparr>, de_enc = \<lambda>_. [0, 1, 2, 3, 4], de_dec = \<lambda>_. ''x'',
     de_b64 = Inr, de_sha = \<lambda>s. s, de_float = \<lambda>_. ''0.5'', de_lib = sample_lib\<rparr>"

definition sample_fresh :: doc_fresh where
  "sample_fresh = \<lparr>df_event_id = ''e0'', df_now = 1, df_chunk_event_id = show_int, df_meta_id = show_int,
     df_meta_time = ''t'', df_dlq_id = ''d1''\<rparr>"

definition sample_meta :: kmeta where
  "sample_meta = \<lparr>kt_topic = None, kt_partition = Some 0, kt_offset = Some 7, kt_timestamp_ms = None\<rparr>"

definition sample_msg :: doc_msg where
  "sample_msg = \<lparr>dm_value = Some ''{}'', dm_meta = sample_meta\<rparr>"

definition sample_event :: raw_event where
  "sample_event = \<lparr>rv_source_type = JStr ''nfs'', rv_source_id = JStr ''s1'', rv_content_ref = JStr ''/data/a.txt'',
     rv_content_type = JStr ''text/plain'', rv_tenant_id = JStr ''acme'', rv_metadata = JObj [],
     rv_event_id = JStr ''e1'', rv_ingested_at = JFloat 1\<rparr>"

lemma sample_decode: "decode_message sample_doc_env sample_fresh sample_msg = Inr sample_event"
  by (simp add: decode_message_def sample_doc_env_def sample_lib_def sample_fresh_def sample_msg_def sample_event_def
      raw_of_dict_def only_fields_def raw_fields_def field_def obj_get_def get_or_def)

lemma sample_fetch:
  "fetch_content_with_retry (de_b64 sample_doc_env) (fetch_via slow_api) (rv_content_ref sample_event) w = (Inr ''hello'', w)"
  by (simp add: fetch_content_with_retry_def fetch_retry_delays_def fetch_content_def fetch_file_def fetch_via_def
      need_str_def sample_event_def startswith_def prog_defs)

lemma sample_parse: "parse (de_lib sample_doc_env) ''hello'' (rv_content_type sample_event) = Inr ''hello''"
  by (simp add: parse_def need_str_def sample_event_def media_type_def sample_doc_env_def sample_lib_def str_eval)

lemma sample_chunks_nonempty:
  "chunk_text (de_chunker sample_doc_env) (de_enc sample_doc_env) (de_dec sample_doc_env) ''hello'' d \<noteq> []"
  by (subst chunk_text_def, subst chunk_loop.simps) (simp add: sample_doc_env_def Let_def)

lemma sample_chunks:
  "chunk_text (de_chunker sample_doc_env) (de_enc sample_doc_env) (de_dec sample_doc_env) ''hello'' d =
     [new_chunk ''x'' 0 d 3, new_chunk ''x'' 1 d 3]"
  by (simp add: chunk_text_def chunk_loop.simps sample_doc_env_def step_of_def py_slice_def clamp_index_def
      Let_def)

abbreviation sample_chunk_msgs :: "kmsg list" where
  "sample_chunk_msgs \<equiv> map (chunk_msg sample_doc_env sample_event sample_fresh 2)
     [new_chunk ''x'' 0 (make_doc_id sample_doc_env sample_event) 3,
      new_chunk ''x'' 1 (make_doc_id sample_doc_env sample_event) 3]"

lemma sample_process:
  "process_message slow_api sample_doc_env sample_fresh sample_msg ([], [], []) =
     (Inr (), (sample_chunk_msgs, [], [sample_meta]))"
proof -
  have t: "de_meta_topic sample_doc_env = None" by (simp add: sample_doc_env_def)
  have r: "produce_with_retry slow_api m (q, d, c) = (Inr True, (q @ [m], d, c))" for m q d c
    by (simp add: produce_with_retry_def prog_defs eval_nat_numeral)
  have "handle_text slow_api sample_doc_env sample_fresh sample_meta sample_event
      (make_doc_id sample_doc_env sample_event) ''hello'' ([], [], []) =
     (Inr (), (sample_chunk_msgs, [], [sample_meta]))"
    by (simp add: handle_text_def sample_chunks publish_chunks_def t r prog_defs Let_def)
  then show ?thesis
    by (simp add: process_message_def sample_decode prog_defs sample_parse sample_fetch [unfolded prog_defs])
       (simp add: sample_msg_def)
qed

theorem chunks_handed_over_before_commit_witness:
  "\<exists>w'. process_message slow_api sample_doc_env sample_fresh sample_msg ([], [], []) = (Inr (), w')
    \<and> snd (snd w') = [sample_meta] \<and> fst w' = sample_chunk_msgs"
  using chunks_handed_over_before_commit [OF slow_world sample_decode sample_fetch sample_parse refl
      sample_chunks_nonempty sample_process] sample_process
  by (auto simp: sample_msg_def)


text \<open>
  A document that cannot be parsed is lost when the dead-letter topic cannot be written. If
  every produce to it raises, the failure is only logged and the offset is committed all the same:
  the message is neither retried nor kept anywhere.
\<close>

theorem unparsable_document_lost_without_dlq:
  assumes "doc_world api queue delivered committed"
    and "decode_message env f msg = Inr ev"
    and "fetch_content_with_retry (de_b64 env) (fetch_via api) (rv_content_ref ev) w = (Inr content, w1)"
    and "parse (de_lib env) content (rv_content_type ev) = Inl e" and "exc_class e = ''ParseError''"
    and "\<And>m v. \<exists>x. api (Produce_Dlq m) v = (Inl x, v)"
    and "process_message api env f msg w = (Inr (), w')"
  shows "committed w' = committed w @ [dm_meta msg] \<and> handed queue delivered w' = handed queue delivered w"
proof -
  let ?seen = "seen queue delivered committed (handed queue delivered w)"
  let ?counts = "seqE (api (Count ''messages_processed'' ''parse_error'' 1))
      (do_cmd api (Count ''dlq_routed'' ''parse_error'' 1))"
  let ?pre = "\<lambda>p. seqE (update_source_file_status api env (rv_source_id ev) ''error'')
      (seqE (route_to_dlq api env f (dm_meta msg) ev ''parse_error'' (exc_msg e)) p)"
  have "keeps (?seen (committed w)) (fetch_content_with_retry (de_b64 env) (fetch_via api) (rv_content_ref ev))"
    by (intro keeps_fetch keeps_seen [OF assms(1)]) simp
  from keepsD [OF this _ assms(3)] have s1: "?seen (committed w) w1" by (simp add: seen_def)
  have rest: "wp (seqE (api (Commit (dm_meta msg))) ?counts) (\<lambda>_. ?seen (committed w @ [dm_meta msg])) (\<lambda>_ _. True) v"
    if "?seen (committed w) v" for v
  proof -
    have "keeps (?seen (committed w @ [dm_meta msg])) ?counts"
      by (intro keeps_intros keeps_seen [OF assms(1)]) simp_all
    then have c: "wp ?counts (\<lambda>_. ?seen (committed w @ [dm_meta msg])) (\<lambda>_ _. True) u"
      if "?seen (committed w @ [dm_meta msg]) u" for u
      by (rule keeps_wp) (use that in auto)
    show ?thesis
      unfolding wp_seqE [of "api (Commit _)"]
      by (rule wp_mono [OF wp_commit [OF assms(1) that]]) (erule c, rule TrueI)
  qed
  note k = keeps_handle_pieces [OF assms(1), of "handed queue delivered w" "committed w"]
  have "wp (?pre (seqE (api (Commit (dm_meta msg))) ?counts)) (\<lambda>_. ?seen (committed w @ [dm_meta msg])) (\<lambda>_ _. True) w1"
    unfolding wp_seqE [of "update_source_file_status _ _ _ _"] wp_seqE [of "route_to_dlq _ _ _ _ _ _ _"]
    by (rule keeps_wp [OF k(4) s1]) (rule keeps_wp [OF k(2)], assumption, erule rest)
  from wp_runD(1) [OF this] show ?thesis
    using assms(2-5,7) by (simp add: process_message_def prog_defs seen_def)
qed

text \<open>The example world with a dead-letter topic that refuses every message.\<close>

definition deaf_api :: "slow_world doc_api" where
  "deaf_api c w = (case c of Produce_Dlq m \<Rightarrow> (Inl (Exc ''KafkaException'' ''refused''), w) | _ \<Rightarrow> slow_api c w)"

lemma deaf_world: "doc_world deaf_api fst (fst \<circ> snd) (snd \<circ> snd)"
proof -
  have t: "fst w' = fst w \<and> fst (snd w') = fst (snd w)" if "\<not> touches_chunks c" "deaf_api c w = (r, w')" for c w r w'
    using that by (cases c; cases w) (auto simp: deaf_api_def)
  have k: "snd (snd w') = snd (snd w)" if "\<not> is_commit c" "deaf_api c w = (r, w')" for c w r w'
    using that by (cases c; cases w) (auto simp: deaf_api_def)
  show ?thesis using t k by (auto simp: doc_world_def producer_spec_def flush_reply_def deaf_api_def)
qed

definition csv_event :: raw_event where
  "csv_event = sample_event\<lparr>rv_content_type := JStr ''text/csv''\<rparr>"

definition csv_env :: doc_env where
  "csv_env = sample_doc_env\<lparr>de_lib := sample_lib\<lparr>csv_text := \<lambda>_. Inl (Exc ''ParserError'' ''bad''),
     json_loads := \<lambda>_. Inr (raw_to_dict csv_event)\<rparr>\<rparr>"

lemma csv_facts:
  "decode_message csv_env sample_fresh sample_msg = Inr csv_event"
  "fetch_content_with_retry (de_b64 csv_env) (fetch_via deaf_api) (rv_content_ref csv_event) w = (Inr ''hello'', w)"
  "parse (de_lib csv_env) ''hello'' (rv_content_type csv_event) = Inl (Exc ''ParseError'' ''pandas: bad'')"
  by (simp_all add: decode_message_def csv_env_def sample_lib_def sample_msg_def raw_codec.decode_encode
      fetch_content_with_retry_def fetch_retry_delays_def fetch_content_def fetch_file_def fetch_via_def
      need_str_def csv_event_def sample_event_def startswith_def prog_defs deaf_api_def
      parse_def media_type_def str_eval parse_csv_def parse_error_def)

lemma csv_process:
  "process_message deaf_api csv_env sample_fresh sample_msg ([], [], []) = (Inr (), ([], [], [sample_meta]))"
proof -
  have u: "update_source_file_status deaf_api csv_env s t w = (Inr (), w)" for s t w
    by (simp add: update_source_file_status_def csv_env_def sample_doc_env_def prog_defs)
  have d: "route_to_dlq deaf_api csv_env f mt csv_event r x w = (Inr (), w)" for f mt r x w
    by (simp add: route_to_dlq_def need_str_def csv_event_def sample_event_def prog_defs deaf_api_def Let_def)
  show ?thesis
    by (simp add: process_message_def csv_facts(1,3) csv_facts(2) [unfolded prog_defs] prog_defs u d)
       (simp add: deaf_api_def sample_msg_def prog_defs)
qed

theorem unparsable_document_lost_without_dlq_witness:
  "\<exists>w'. process_message deaf_api csv_env sample_fresh sample_msg ([], [], []) = (Inr (), w')
    \<and> snd (snd w') = [sample_meta] \<and> fst (snd w') @ fst w' = []"
  using unparsable_document_lost_without_dlq [OF deaf_world csv_facts(1) csv_facts(2) csv_facts(3) _ _ csv_process]
    csv_process
  by (auto simp: deaf_api_def sample_msg_def)

text \<open>
  One ill-typed message stops the consumer. A raw document whose \<open>content_type\<close> is not a string
  (the event class checks no types) passes decoding and fetching, then \<open>parse\<close> raises something
  that is not a \<open>ParseError\<close>: it leaves the consumer loop, which closes the consumer without
  committing or dead-lettering the message and without handling the messages after it; after a
  restart the same message comes first again.
\<close>

theorem ill_typed_message_stops_consumer:
  assumes "decode_message env f msg = Inr ev" and "need_str (rv_content_type ev) = Inl e"
    and "fetch_content_with_retry (de_b64 env) (fetch_via api) (rv_content_ref ev) w = (Inr content, w1)"
    and "api (Subscribe (de_input_topic env)) w0 = (Inr x, w)" and "api Consumer_Close w1 = (Inr y, w2)"
  shows "run api env (Polled f msg # later) w0 = (Inl e, w2)"
proof -
  have "exc_class e \<noteq> ''ParseError''"
    using assms(2) by (auto simp: need_str_def split: json.splits)
  then have "process_message api env f msg w = (Inl e, w1)"
    using assms(1-3) by (simp add: process_message_def parse_def prog_defs)
  then show ?thesis
    using assms(4,5) by (simp add: run_def handle_polled_def prog_defs)
qed

theorem ill_typed_message_stops_consumer_witness:
  "run slow_api (sample_doc_env\<lparr>de_lib := sample_lib\<lparr>json_loads := \<lambda>_. Inr (raw_to_dict (sample_event\<lparr>rv_content_type := JNull\<rparr>))\<rparr>\<rparr>)
     [Polled sample_fresh sample_msg, Polled sample_fresh sample_msg] ([], [], [])
   = (Inl (Exc ''AttributeError'' ''''), ([], [], []))"
proof (rule ill_typed_message_stops_consumer [where ev = "sample_event\<lparr>rv_content_type := JNull\<rparr>"])
  show "decode_message (sample_doc_env\<lparr>de_lib := sample_lib\<lparr>json_loads := \<lambda>_. Inr (raw_to_dict (sample_event\<lparr>rv_content_type := JNull\<rparr>))\<rparr>\<rparr>)
      sample_fresh sample_msg = Inr (sample_event\<lparr>rv_content_type := JNull\<rparr>)"
    by (simp add: decode_message_def sample_msg_def sample_lib_def raw_codec.decode_encode)
  show "fetch_content_with_retry (de_b64 (sample_doc_env\<lparr>de_lib := sample_lib\<lparr>json_loads := \<lambda>_. Inr (raw_to_dict (sample_event\<lparr>rv_content_type := JNull\<rparr>))\<rparr>\<rparr>))
      (fetch_via slow_api) (rv_content_ref (sample_event\<lparr>rv_content_type := JNull\<rparr>)) ([], [], []) = (Inr ''hello'', ([], [], []))"
    using sample_fetch by simp
qed (simp_all add: need_str_def)

end
