(* ===== verification/Embedding_Worker.thy ===== *)
theory Embedding_Worker
  imports Events Kafka
begin

text \<open>
  \<open>services/embedding-worker/src\<close>: \<open>worker.py\<close> collects a batch of chunk events, embeds it with one
  retry, writes each tenant's rows to the tenant's Milvus collection (\<open>milvus_writer.py\<close>), publishes
  completion, usage and lineage events (\<open>metadata_event.py\<close>), updates the status table
  (\<open>status_updater.py\<close>) and commits; a failed batch goes to the dead-letter topic. The writer's cache
  of open collections is the state of the service; everything outside is reached by commands.
\<close>

section \<open>The outside world\<close>

record row =
  rw_doc_id :: json
  rw_chunk_id :: json
  rw_source_type :: json
  rw_text :: json
  rw_embedding :: "rat list"
  rw_created_at :: int
  rw_metadata :: json
  rw_tenant_id :: json

datatype ew_cmd =
    Embed_Batch "json list"
  | Back_Off rat
  | Col_Exists string
  | Col_Load string
  | Col_Create string
  | Col_Index string
  | Upsert_Rows string "row list"
  | Col_Flush string
  | Publish_Usage kmsg
  | Publish_Event kmsg
  | Flush_Events rat
  | Ew_Dlq_Produce kmsg
  | Ew_Dlq_Flush rat
  | Ew_Meta_Produce kmsg
  | Ew_Meta_Flush rat
  | Set_Indexed json string int
  | Ew_Sql_Commit
  | Ew_Commit kmeta

text \<open>The backend answers with vectors or signals a rate limit (its exception carries the time to
  wait); other failures are exceptions.\<close>

datatype ew_reply = Ew_Done | Ew_Bool bool | Ew_Vectors "rat list list" | Ew_Rate_Limited rat string

type_synonym 'w ew_api = "(ew_cmd, exc, ew_reply, 'w) api"
type_synonym 'w ew = "string list \<times> 'w"

record ew_env =
  ee_dlq_topic :: string
  ee_event_topic :: string
  ee_usage_topic :: "string option"
  ee_meta_topic :: "string option"
  ee_timeout_s :: rat
  ee_model :: string
  ee_dim :: int
  ee_backend :: string
  ee_default_collection :: string
  ee_batch_size :: nat
  ee_float :: "rat \<Rightarrow> string"
  ee_repr :: "json \<Rightarrow> string"
  ee_norm6 :: "rat list \<Rightarrow> rat"

record ew_fresh =
  ef_uuid :: "nat \<Rightarrow> string"
  ef_now :: rat
  ef_time :: string
  ef_gpu_seconds :: rat

type_synonym ew_item = "kmeta \<times> chunk_event"

section \<open>MilvusWriter\<close>

definition want_flag :: "ew_reply \<Rightarrow> ('w, bool) prog" where
  "want_flag r = (case r of Ew_Bool b \<Rightarrow> ret b | _ \<Rightarrow> raise (Exc ''TypeError'' ''''))"

definition remember :: "string \<Rightarrow> ('w ew, unit) prog" where
  "remember name cw = (Inr (), (name # fst cw, snd cw))"

definition ensure_collection_by_name :: "'w ew_api \<Rightarrow> string \<Rightarrow> ('w ew, unit) prog" where
  "ensure_collection_by_name api name cw =
     (if name \<in> set (fst cw) then (Inr (), cw)
      else bindE (with_state (bindE (api (Col_Exists name)) want_flag)) (\<lambda>found.
             if found then seqE (with_state (api (Col_Load name))) (remember name)
             else seqE (with_state (api (Col_Create name)))
                    (seqE (with_state (api (Col_Index name)))
                      (seqE (with_state (api (Col_Load name))) (remember name)))) cw)"

definition upsert :: "'w ew_api \<Rightarrow> ew_env \<Rightarrow> row list \<Rightarrow> string option \<Rightarrow> ('w ew, int) prog" where
  "upsert api env rows collection =
     (if rows = [] then ret 0
      else (let target = (case collection of Some c \<Rightarrow> if c = [] then ee_default_collection env else c
                          | None \<Rightarrow> ee_default_collection env)
            in seqE (ensure_collection_by_name api target)
                 (seqE (with_state (api (Upsert_Rows target rows)))
                   (seqE (with_state (api (Col_Flush target))) (ret (int (length rows)))))))"

section \<open>Rows\<close>

text \<open>\<open>{**metadata, "tenant_id": t}\<close> raises on anything but a mapping.\<close>

definition row_of :: "chunk_event \<times> rat list \<Rightarrow> exc + row" where
  "row_of ce =
     (case ce of (c, embedding) \<Rightarrow>
       (case json_int (cv_created_at c) of
          None \<Rightarrow> Inl (Exc ''TypeError'' '''')
        | Some created \<Rightarrow>
            (case cv_metadata c of
               JObj md \<Rightarrow> Inr \<lparr>rw_doc_id = cv_doc_id c, rw_chunk_id = cv_chunk_id c,
                  rw_source_type = cv_source_type c, rw_text = cv_text c, rw_embedding = embedding,
                  rw_created_at = created, rw_metadata = JObj (AList.update ''tenant_id'' (cv_tenant_id c) md),
                  rw_tenant_id = cv_tenant_id c\<rparr>
             | _ \<Rightarrow> Inl (Exc ''TypeError'' ''''))))"

text \<open>A dictionary key must be hashable, which a list or a dictionary is not.\<close>

definition hashable :: "json \<Rightarrow> bool" where
  "hashable j = (case j of JList _ \<Rightarrow> False | JObj _ \<Rightarrow> False | _ \<Rightarrow> True)"

text \<open>\<open>tenant_rows[row["tenant_id"]].append(row)\<close>, keys in order of first use.\<close>

definition add_to_group :: "row \<Rightarrow> (json \<times> row list) list \<Rightarrow> (json \<times> row list) list" where
  "add_to_group r groups =
     AList.update (rw_tenant_id r) (case map_of groups (rw_tenant_id r) of None \<Rightarrow> [r] | Some rs \<Rightarrow> rs @ [r]) groups"

definition group_by_tenant :: "row list \<Rightarrow> exc + (json \<times> row list) list" where
  "group_by_tenant rows =
     (if list_all (\<lambda>r. hashable (rw_tenant_id r)) rows then Inr (fold add_to_group rows [])
      else Inl (Exc ''TypeError'' ''unhashable type''))"

definition tenant_sizes :: "chunk_event list \<Rightarrow> (json \<times> nat) list" where
  "tenant_sizes chunks =
     fold (\<lambda>c counts. AList.update (cv_tenant_id c)
        (Suc (case map_of counts (cv_tenant_id c) of None \<Rightarrow> 0 | Some n \<Rightarrow> n)) counts) chunks []"

definition collection_of :: "ew_env \<Rightarrow> json \<Rightarrow> string" where
  "collection_of env tenant = py_str (ee_repr env) tenant @ ''_docs''"

section \<open>Events\<close>

definition opt_str :: "string option \<Rightarrow> json" where
  "opt_str x = (case x of None \<Rightarrow> JNull | Some s \<Rightarrow> JStr s)"

definition opt_int :: "int option \<Rightarrow> json" where
  "opt_int x = (case x of None \<Rightarrow> JNull | Some s \<Rightarrow> JInt s)"

text \<open>\<open>_send_to_dlq\<close>: the message has no key, the time stamp stays in milliseconds, and a failure to
  produce is not caught.\<close>

definition ew_dlq_msg :: "ew_env \<Rightarrow> ew_fresh \<Rightarrow> string \<Rightarrow> string \<Rightarrow> ew_item \<Rightarrow> kmsg" where
  "ew_dlq_msg env f reason detail it =
     (let envelope = \<lparr>dl_original_topic = opt_str (kt_topic (fst it)), dl_original_partition = opt_int (kt_partition (fst it)),
            dl_original_offset = opt_int (kt_offset (fst it)), dl_original_timestamp = opt_int (kt_timestamp_ms (fst it)),
            dl_failure_reason = reason, dl_failure_detail = detail, dl_original_payload = chunk_to_dict (snd it),
            dl_dlq_id = ef_uuid f 0, dl_failure_count = 1, dl_failed_at = ef_now f\<rparr>
      in plain_msg (ee_dlq_topic env) [] (dumps (ee_float env) (envelope_to_dict envelope)))"

definition send_to_dlq :: "'w ew_api \<Rightarrow> ew_env \<Rightarrow> ew_fresh \<Rightarrow> string \<Rightarrow> string \<Rightarrow> ew_item \<Rightarrow> ('w, unit) prog" where
  "send_to_dlq api env f reason detail it =
     seqE (api (Ew_Dlq_Produce (ew_dlq_msg env f reason detail it)))
       (do_cmd api (Ew_Dlq_Flush (ee_timeout_s env)))"

definition embedding_usage_event :: "ew_env \<Rightarrow> ew_fresh \<Rightarrow> json \<Rightarrow> nat \<Rightarrow> json" where
  "embedding_usage_event env f tenant n =
     JObj [(''specversion'', JStr ''1.0''), (''type'', JStr ''pipeline.embedding.batch''),
       (''source'', JStr ''embedding-worker''), (''id'', JStr (ef_uuid f 1)), (''time'', JStr (ef_time f)),
       (''datacontenttype'', JStr ''application/json''), (''subject'', tenant),
       (''data'', JObj [(''tenant_id'', tenant), (''batch_size'', JInt (int n)),
          (''gpu_seconds'', JFloat (ef_gpu_seconds f)), (''model'', JStr (ee_model env))])]"

definition publish_usage_event :: "'w ew_api \<Rightarrow> ew_env \<Rightarrow> ew_fresh \<Rightarrow> json \<times> nat \<Rightarrow> ('w, unit) prog" where
  "publish_usage_event api env f tn =
     (case ee_usage_topic env of
        None \<Rightarrow> ret ()
      | Some topic \<Rightarrow> ignoring (bindE (lift_res (need_str (fst tn))) (\<lambda>key.
          api (Publish_Usage \<lparr>km_topic = topic, km_key = key,
            km_value = dumps (ee_float env) (embedding_usage_event env f (fst tn) (snd tn)),
            km_headers = [(''content-type'', ''application/cloudevents+json'')]\<rparr>))))"

definition embedding_event :: "ew_fresh \<Rightarrow> chunk_event \<Rightarrow> int \<Rightarrow> json" where
  "embedding_event f c chunk_count =
     JObj [(''doc_id'', cv_doc_id c), (''source_id'', cv_source_id c), (''source_type'', cv_source_type c),
       (''tenant_id'', cv_tenant_id c), (''chunk_count'', JInt chunk_count), (''event_id'', JStr (ef_uuid f 2)),
       (''embedded_at'', JFloat (ef_now f))]"

definition publish_embedding_event :: "'w ew_api \<Rightarrow> ew_env \<Rightarrow> ew_fresh \<Rightarrow> chunk_event \<Rightarrow> int \<Rightarrow> ('w, unit) prog" where
  "publish_embedding_event api env f c chunk_count =
     bindE (lift_res (need_str (cv_doc_id c))) (\<lambda>key.
     bindE (lift_res (need_str (cv_tenant_id c))) (\<lambda>tenant.
       do_cmd api (Publish_Event \<lparr>km_topic = ee_event_topic env, km_key = key,
         km_value = dumps (ee_float env) (embedding_event f c chunk_count), km_headers = [(''tenant_id'', tenant)]\<rparr>)))"

definition set_source_file_status :: "'w ew_api \<Rightarrow> json \<Rightarrow> string \<Rightarrow> int \<Rightarrow> ('w, unit) prog" where
  "set_source_file_status api source_id status chunk_count =
     seqE (api (Set_Indexed source_id status chunk_count)) (do_cmd api Ew_Sql_Commit)"

definition norm_threshold :: rat where
  "norm_threshold = 1 / 2"

definition embedding_entity_event :: "ew_env \<Rightarrow> ew_fresh \<Rightarrow> chunk_event \<Rightarrow> rat list \<Rightarrow> json" where
  "embedding_entity_event env f c embedding =
     (let norm = ee_norm6 env embedding;
          chunk_id = py_str (ee_repr env) (cv_chunk_id c);
          entity_key = chunk_id @ '':'' @ ee_model env;
          collection = collection_of env (cv_tenant_id c)
      in JObj [(''specversion'', JStr ''1.0''), (''type'', JStr ''metadata.entity.created''),
           (''source'', JStr ''embedding-worker''), (''subject'', JStr (''Embedding/'' @ entity_key)),
           (''id'', JStr (ef_uuid f 3)), (''time'', JStr (ef_time f)), (''datacontenttype'', JStr ''application/json''),
           (''data'', JObj [
              (''entity_type'', JStr ''Embedding''), (''entity_key'', JStr entity_key), (''tenant_id'', cv_tenant_id c),
              (''attributes'', JObj [(''chunk_id'', cv_chunk_id c), (''model_name'', JStr (ee_model env)),
                 (''dimension'', JInt (ee_dim env)), (''backend'', JStr (ee_backend env)),
                 (''collection_name'', JStr collection), (''embedding_norm'', JFloat norm)]),
              (''upstream'', JList [
                 JObj [(''entity_type'', JStr ''DocumentChunk''), (''entity_key'', cv_chunk_id c),
                       (''relationship'', JStr ''embedded_by'')],
                 JObj [(''entity_type'', JStr ''VectorCollection''), (''entity_key'', JStr collection),
                       (''relationship'', JStr ''stored_in'')]]),
              (''quality_checks'', JList [JObj [(''check_name'', JStr ''embedding_norm''),
                 (''status'', JStr (if norm_threshold \<le> norm then ''passed'' else ''failed'')),
                 (''value'', JFloat norm), (''threshold'', JFloat norm_threshold)]])])])"

definition publish_embedding :: "'w ew_api \<Rightarrow> ew_env \<Rightarrow> ew_fresh \<Rightarrow> string \<Rightarrow> chunk_event \<times> rat list \<Rightarrow> ('w, unit) prog" where
  "publish_embedding api env f topic ce =
     ignoring (seqE (api (Ew_Meta_Produce (plain_msg topic (ef_uuid f 3)
        (dumps (ee_float env) (embedding_entity_event env f (fst ce) (snd ce))))))
       (api (Ew_Meta_Flush 5)))"

section \<open>One batch\<close>

datatype attempt = Got "rat list list" | Limited rat string | Failed string

definition embed_attempt :: "'w ew_api \<Rightarrow> json list \<Rightarrow> ('w, attempt) prog" where
  "embed_attempt api texts =
     catchE (bindE (api (Embed_Batch texts)) (\<lambda>r. case r of
         Ew_Vectors vs \<Rightarrow> ret (Got vs)
       | Ew_Rate_Limited retry_after msg \<Rightarrow> ret (Limited retry_after msg)
       | _ \<Rightarrow> ret (Failed ''TypeError'')))
       (\<lambda>e. ret (Failed (exc_msg e)))"

datatype embed_result = Vectors "rat list list" | Gave_Up string string

text \<open>The two attempts: a rate limit sleeps before the second attempt, any failure of the second
  gives up with its reason.\<close>

definition embed_with_retry :: "'w ew_api \<Rightarrow> json list \<Rightarrow> ('w, embed_result) prog" where
  "embed_with_retry api texts =
     bindE (embed_attempt api texts) (\<lambda>a. case a of
       Got vs \<Rightarrow> ret (Vectors vs)
     | _ \<Rightarrow>
         seqE (case a of Limited retry_after _ \<Rightarrow> do_cmd api (Back_Off retry_after) | _ \<Rightarrow> ret ())
           (bindE (embed_attempt api texts) (\<lambda>b. case b of
              Got vs \<Rightarrow> ret (Vectors vs)
            | Limited _ msg \<Rightarrow> ret (Gave_Up ''embedding_rate_limit'' msg)
            | Failed msg \<Rightarrow> ret (Gave_Up ''embedding_error'' msg))))"

fun upsert_groups :: "'w ew_api \<Rightarrow> ew_env \<Rightarrow> (json \<times> row list) list \<Rightarrow> ('w ew, exc option) prog" where
  "upsert_groups api env [] = ret None"
| "upsert_groups api env ((t, rs) # groups) =
     bindE (catchE (bindE (upsert api env rs (Some (collection_of env t))) (\<lambda>_. ret None)) (\<lambda>e. ret (Some e)))
       (\<lambda>failed. case failed of None \<Rightarrow> upsert_groups api env groups | Some e \<Rightarrow> ret (Some e))"

text \<open>The usage events, the completion event and status of every chunk, and the lineage events.\<close>

definition announce_batch ::
  "'w ew_api \<Rightarrow> ew_env \<Rightarrow> ew_fresh \<Rightarrow> chunk_event list \<Rightarrow> rat list list \<Rightarrow> ('w, unit) prog" where
  "announce_batch api env f chunks embeddings =
     (let n = int (length chunks) in
      seqE (eachE (publish_usage_event api env f) (tenant_sizes chunks))
        (seqE (eachE (\<lambda>c. seqE (publish_embedding_event api env f c n)
                  (ignoring (set_source_file_status api (cv_source_id c) ''indexed'' n))) chunks)
          (seqE (case ee_meta_topic env of
                   None \<Rightarrow> ret ()
                 | Some topic \<Rightarrow> eachE (publish_embedding api env f topic) (zip chunks embeddings))
            (do_cmd api (Flush_Events (ee_timeout_s env))))))"

definition finish_batch ::
  "'w ew_api \<Rightarrow> ew_env \<Rightarrow> ew_fresh \<Rightarrow> ew_item list \<Rightarrow> rat list list \<Rightarrow> ('w, unit) prog" where
  "finish_batch api env f batch embeddings =
     (if \<not> list_all (\<lambda>c. hashable (cv_tenant_id c)) (map snd batch)
      then raise (Exc ''TypeError'' ''unhashable type'')
      else seqE (announce_batch api env f (map snd batch) embeddings)
             (eachE (\<lambda>it. do_cmd api (Ew_Commit (fst it))) batch))"

definition process_batch :: "'w ew_api \<Rightarrow> ew_env \<Rightarrow> ew_fresh \<Rightarrow> ew_item list \<Rightarrow> ('w ew, unit) prog" where
  "process_batch api env f batch =
     (if batch = [] then ret ()
      else
        bindE (with_state (embed_with_retry api (map (cv_text \<circ> snd) batch))) (\<lambda>r. case r of
          Gave_Up reason detail \<Rightarrow> with_state (eachE (send_to_dlq api env f reason detail) batch)
        | Vectors embeddings \<Rightarrow>
            bindE (lift_res (traverse row_of (zip (map snd batch) embeddings))) (\<lambda>rows.
            bindE (lift_res (group_by_tenant rows)) (\<lambda>groups.
            bindE (upsert_groups api env groups) (\<lambda>failed. case failed of
              Some e \<Rightarrow> with_state (eachE (send_to_dlq api env f ''milvus_error'' (exc_msg e)) batch)
            | None \<Rightarrow> with_state (finish_batch api env f batch embeddings))))))"

section \<open>Collecting and running\<close>

text \<open>What the polls before the deadline return. An undecodable message is logged and skipped.\<close>

datatype ew_poll = Ew_Nothing | Ew_Error | Ew_Polled kmeta "exc + json"

definition decode_chunk :: "ew_fresh \<Rightarrow> exc + json \<Rightarrow> exc + chunk_event" where
  "decode_chunk f payload =
     (case payload of Inl e \<Rightarrow> Inl e
      | Inr j \<Rightarrow> (case chunk_of_dict (ef_uuid f 4) (ef_now f) j of
          Inl _ \<Rightarrow> Inl (Exc ''TypeError'' '''') | Inr c \<Rightarrow> Inr c))"

fun collect_batch :: "nat \<Rightarrow> ew_fresh \<Rightarrow> ew_item list \<Rightarrow> ew_poll list \<Rightarrow> ew_item list" where
  "collect_batch max_size f batch [] = batch"
| "collect_batch max_size f batch (p # ps) =
     (if length batch < max_size
      then collect_batch max_size f
        (case p of
           Ew_Polled mt payload \<Rightarrow> (case decode_chunk f payload of Inl _ \<Rightarrow> batch | Inr c \<Rightarrow> batch @ [(mt, c)])
         | _ \<Rightarrow> batch) ps
      else batch)"

definition run_worker :: "'w ew_api \<Rightarrow> ew_env \<Rightarrow> (ew_fresh \<times> ew_poll list) list \<Rightarrow> ('w ew, unit) prog" where
  "run_worker api env rounds =
     eachE (\<lambda>(f, polls).
        (let batch = collect_batch (ee_batch_size env) f [] polls
         in if batch = [] then ret () else process_batch api env f batch)) rounds"

section \<open>The contract of Milvus and Kafka\<close>

text \<open>A collection is a keyed store of rows under their chunk ids: an upsert that returns has
  replaced the rows of its keys in its collection and touched no other. A commit that returns is
  recorded. Nothing else changes the rows or the commits.\<close>

type_synonym row_store = "json \<rightharpoonup> row"

definition put_row :: "json \<Rightarrow> row \<Rightarrow> row_store \<Rightarrow> row_store" where
  "put_row k r s = s(k \<mapsto> r)"

definition get_row :: "row_store \<Rightarrow> json \<Rightarrow> row option" where
  "get_row s k = s k"

interpretation milvus: keyed_store put_row get_row
  by unfold_locales (simp add: put_row_def get_row_def)

definition upsert_spec :: "row list \<Rightarrow> row_store \<Rightarrow> row_store" where
  "upsert_spec rs = fold (\<lambda>(k, r). put_row k r) (map (\<lambda>r. (rw_chunk_id r, r)) rs)"

fun is_upsert :: "ew_cmd \<Rightarrow> bool" where
  "is_upsert (Upsert_Rows _ _) = True"
| "is_upsert _ = False"

fun is_ew_commit :: "ew_cmd \<Rightarrow> bool" where
  "is_ew_commit (Ew_Commit _) = True"
| "is_ew_commit _ = False"

definition milvus_world :: "'w ew_api \<Rightarrow> ('w \<Rightarrow> string \<Rightarrow> row_store) \<Rightarrow> ('w \<Rightarrow> kmeta list) \<Rightarrow> bool" where
  "milvus_world api stored committed \<longleftrightarrow>
     (\<forall>c rs w r w'. api (Upsert_Rows c rs) w = (Inr r, w') \<longrightarrow> stored w' = (stored w)(c := upsert_spec rs (stored w c)))
   \<and> (\<forall>cmd w r w'. \<not> is_upsert cmd \<longrightarrow> api cmd w = (r, w') \<longrightarrow> stored w' = stored w)
   \<and> (\<forall>mt w r w'. api (Ew_Commit mt) w = (r, w') \<longrightarrow> committed w' = (if is_ok r then committed w @ [mt] else committed w))
   \<and> (\<forall>cmd w r w'. \<not> is_ew_commit cmd \<longrightarrow> api cmd w = (r, w') \<longrightarrow> committed w' = committed w)"

lemma milvus_worldD:
  assumes "milvus_world api stored committed"
  shows "api (Upsert_Rows c rs) w = (Inr r, w') \<Longrightarrow> stored w' = (stored w)(c := upsert_spec rs (stored w c))"
    and "\<not> is_upsert cmd \<Longrightarrow> api cmd w = (r', w') \<Longrightarrow> stored w' = stored w"
    and "api (Ew_Commit mt) w = (r', w') \<Longrightarrow> committed w' = (if is_ok r' then committed w @ [mt] else committed w)"
    and "\<not> is_ew_commit cmd \<Longrightarrow> api cmd w = (r', w') \<Longrightarrow> committed w' = committed w"
  using assms unfolding milvus_world_def by blast+

lemma keeps_stored: "milvus_world api stored committed \<Longrightarrow> \<not> is_upsert cmd \<Longrightarrow> keeps (\<lambda>w. stored w = x) (api cmd)"
  by (rule keepsI) (metis milvus_worldD(2))

lemma keeps_committed: "milvus_world api stored committed \<Longrightarrow> \<not> is_ew_commit cmd \<Longrightarrow> keeps (\<lambda>w. committed w = y) (api cmd)"
  by (rule keepsI) (metis milvus_worldD(4))

section \<open>What the steps keep\<close>

lemma keeps_want_flag [keeps_intros]: "keeps I (want_flag r)"
  by (simp add: want_flag_def keeps_intros split: ew_reply.split)

lemma keeps_remember: "keeps (\<lambda>cw. I (snd cw)) (remember n)"
  by (rule keepsI) (simp add: remember_def)

lemma keeps_ensure:
  assumes "\<And>c. c \<in> {Col_Exists n, Col_Load n, Col_Create n, Col_Index n} \<Longrightarrow> keeps I (api c)"
  shows "keeps (\<lambda>cw. I (snd cw)) (ensure_collection_by_name api n)"
proof -
  let ?p = "bindE (with_state (bindE (api (Col_Exists n)) want_flag)) (\<lambda>found.
             if found then seqE (with_state (api (Col_Load n))) (remember n)
             else seqE (with_state (api (Col_Create n)))
                    (seqE (with_state (api (Col_Index n)))
                      (seqE (with_state (api (Col_Load n))) (remember n))))"
  have k: "keeps (\<lambda>cw. I (snd cw)) ?p"
    by (intro keeps_intros keeps_remember assms) simp_all
  show ?thesis
  proof (rule keepsI)
    fix cw r cw' assume "I (snd cw)" "ensure_collection_by_name api n cw = (r, cw')"
    then show "I (snd cw')"
      using keepsD [OF k] by (cases "n \<in> set (fst cw)") (auto simp: ensure_collection_by_name_def)
  qed
qed

lemma keeps_embed:
  "keeps I (api (Embed_Batch ts)) \<Longrightarrow> (\<And>t. keeps I (api (Back_Off t))) \<Longrightarrow> keeps I (embed_with_retry api ts)"
  unfolding embed_with_retry_def embed_attempt_def
  by (auto intro!: keeps_intros split: ew_reply.split attempt.split)

lemma keeps_send_to_dlq:
  "(\<And>m. keeps I (api (Ew_Dlq_Produce m))) \<Longrightarrow> (\<And>t. keeps I (api (Ew_Dlq_Flush t))) \<Longrightarrow>
     keeps I (send_to_dlq api env f reason detail it)"
  unfolding send_to_dlq_def by (intro keeps_intros)

text \<open>What the closing part of a batch does before it commits.\<close>

lemma keeps_announce:
  assumes "\<And>m. keeps I (api (Publish_Usage m))" "\<And>m. keeps I (api (Publish_Event m))"
    "\<And>s t n. keeps I (api (Set_Indexed s t n))" "keeps I (api Ew_Sql_Commit)"
    "\<And>m. keeps I (api (Ew_Meta_Produce m))" "\<And>t. keeps I (api (Ew_Meta_Flush t))"
    "\<And>t. keeps I (api (Flush_Events t))"
  shows "keeps I (announce_batch api env f chunks vs)"
proof -
  have u: "keeps I (publish_usage_event api env f x)" for x
    unfolding publish_usage_event_def by (auto intro!: keeps_intros assms split: option.split)
  have e: "keeps I (publish_embedding_event api env f c n)" for c n
    unfolding publish_embedding_event_def by (intro keeps_intros assms)
  have s: "keeps I (set_source_file_status api x y n)" for x y n
    unfolding set_source_file_status_def by (intro keeps_intros assms)
  have m: "keeps I (publish_embedding api env f t x)" for t x
    unfolding publish_embedding_def by (intro keeps_intros assms)
  have mo: "keeps I (case ee_meta_topic env of None \<Rightarrow> ret ()
      | Some topic \<Rightarrow> eachE (publish_embedding api env f topic) (zip chunks vs))"
    by (cases "ee_meta_topic env") (simp_all add: keeps_ret keeps_eachE m)
  show ?thesis
    unfolding announce_batch_def Let_def by (intro keeps_intros u e s mo assms)
qed

section \<open>Grouping\<close>

lemma map_of_group:
  "map_of (fold add_to_group rows groups) t =
     (case map_of groups t of
        None \<Rightarrow> (if filter (\<lambda>r. rw_tenant_id r = t) rows = [] then None else Some (filter (\<lambda>r. rw_tenant_id r = t) rows))
      | Some rs \<Rightarrow> Some (rs @ filter (\<lambda>r. rw_tenant_id r = t) rows))"
  by (induction rows arbitrary: groups) (auto simp: add_to_group_def update_conv' split: option.split)

lemma distinct_group: "distinct (map fst groups) \<Longrightarrow> distinct (map fst (fold add_to_group rows groups))"
  by (induction rows arbitrary: groups) (auto simp: add_to_group_def distinct_update)

lemma upsert_stored:
  assumes "milvus_world api stored committed" and "rs \<noteq> []" and "c \<noteq> []"
    and "upsert api env rs (Some c) (cs, w) = (Inr n, (cs', w'))"
  shows "stored w' = (stored w)(c := upsert_spec rs (stored w c))"
proof -
  obtain r1 cs1 w1 where e: "ensure_collection_by_name api c (cs, w) = (r1, (cs1, w1))" by (rule triple_cases)
  obtain r2 w2 where u: "api (Upsert_Rows c rs) w1 = (r2, w2)" by fastforce
  obtain r3 w3 where f: "api (Col_Flush c) w2 = (r3, w3)" by fastforce
  have ok: "is_ok r1" "is_ok r2" "w' = w3"
    using assms(2-4) e u f
    by (auto simp: upsert_def Let_def prog_defs with_state_def split: sum.splits)
  have "keeps (\<lambda>cw. stored (snd cw) = stored w) (ensure_collection_by_name api c)"
    using keeps_stored [OF assms(1)] by (intro keeps_ensure) auto
  from keepsD [OF this _ e] have "stored w1 = stored w" by simp
  moreover have "stored w2 = (stored w1)(c := upsert_spec rs (stored w1 c))"
    using ok(2) u milvus_worldD(1) [OF assms(1)] by (cases r2) auto
  moreover have "stored w3 = stored w2" using milvus_worldD(2) [OF assms(1) _ f] by simp
  ultimately show ?thesis using ok(3) by simp
qed

lemma upsert_groups_stored:
  assumes "milvus_world api stored committed"
  shows "upsert_groups api env gs (cs, w) = (Inr None, (cs', w')) \<Longrightarrow>
     distinct (map (\<lambda>g. collection_of env (fst g)) gs) \<Longrightarrow> (\<forall>g \<in> set gs. snd g \<noteq> []) \<Longrightarrow>
     stored w' col = (case map_of (map (\<lambda>g. (collection_of env (fst g), snd g)) gs) col of
        None \<Rightarrow> stored w col | Some rs \<Rightarrow> upsert_spec rs (stored w col))"
proof (induction gs arbitrary: cs w)
  case (Cons g gs)
  obtain t rs where g: "g = (t, rs)" by fastforce
  obtain r1 cs1 w1 where u: "upsert api env rs (Some (collection_of env t)) (cs, w) = (r1, (cs1, w1))" by (rule triple_cases)
  then obtain n where r1: "r1 = Inr n" and rest: "upsert_groups api env gs (cs1, w1) = (Inr None, (cs', w'))"
    using Cons.prems(1) g by (cases r1) (auto simp: prog_defs)
  have "stored w1 = (stored w)(collection_of env t := upsert_spec rs (stored w (collection_of env t)))"
    using upsert_stored [OF assms _ _ u [unfolded r1]] Cons.prems(3) g by (simp add: collection_of_def)
  moreover have "map_of (map (\<lambda>g. (collection_of env (fst g), snd g)) gs) (collection_of env t) = None"
    using Cons.prems(2) g by (force simp: map_of_eq_None_iff)
  ultimately show ?case
    using Cons.IH [OF rest] Cons.prems(2,3) g by (auto split: option.split)
qed (simp add: prog_defs)

lemma keeps_upsert_groups_committed:
  assumes "milvus_world api stored committed"
  shows "keeps (\<lambda>cw. committed (snd cw) = y) (upsert_groups api env gs)"
proof (induction gs)
  case (Cons g gs)
  obtain t rs where g: "g = (t, rs)" by fastforce
  note k = keeps_committed [OF assms]
  have "keeps (\<lambda>cw. committed (snd cw) = y) (upsert api env rs (Some c))" for c
    unfolding upsert_def Let_def
    by (intro keeps_intros keeps_ensure keeps_with_state [where I = "\<lambda>w. committed w = y"]) (auto intro!: k)
  then show ?case
    using Cons g by (auto intro!: keeps_intros split: option.split)
qed (simp add: keeps_intros)

lemma collection_of_str [simp]: "collection_of env (JStr t) = t @ ''_docs''"
  by (simp add: collection_of_def)

definition tenant_rows :: "string \<Rightarrow> row list \<Rightarrow> row list" where
  "tenant_rows t rows = filter (\<lambda>r. rw_tenant_id r = JStr t) rows"

lemma group_collections:
  assumes "\<forall>r \<in> set rows. \<exists>t. rw_tenant_id r = JStr t"
  defines "gs \<equiv> fold add_to_group rows []"
  shows "distinct (map (\<lambda>g. collection_of env (fst g)) gs)" and "\<forall>g \<in> set gs. snd g \<noteq> []"
    and "map_of (map (\<lambda>g. (collection_of env (fst g), snd g)) gs) (t @ ''_docs'') =
      (if tenant_rows t rows = [] then None else Some (tenant_rows t rows))"
proof -
  have d: "distinct (map fst gs)" unfolding gs_def by (rule distinct_group) simp
  have m: "map_of gs x = (if filter (\<lambda>r. rw_tenant_id r = x) rows = [] then None else Some (filter (\<lambda>r. rw_tenant_id r = x) rows))" for x
    unfolding gs_def by (simp add: map_of_group)
  have keys: "\<exists>t. fst g = JStr t \<and> snd g \<noteq> []" if "g \<in> set gs" for g
  proof -
    have "map_of gs (fst g) = Some (snd g)" using that d by (simp add: map_of_is_SomeI)
    then have "filter (\<lambda>r. rw_tenant_id r = fst g) rows \<noteq> []" "snd g = filter (\<lambda>r. rw_tenant_id r = fst g) rows"
      by (simp_all add: m split: if_splits)
    then obtain x where "x \<in> set rows" "rw_tenant_id x = fst g" "snd g \<noteq> []" by (auto simp: filter_empty_conv)
    then show ?thesis using assms(1) by metis
  qed
  then show "\<forall>g \<in> set gs. snd g \<noteq> []" by blast
  have inj: "inj_on (collection_of env) (fst ` set gs)"
  proof (rule inj_onI)
    fix x y assume "x \<in> fst ` set gs" "y \<in> fst ` set gs" "collection_of env x = collection_of env y"
    moreover from this obtain a b where "x = JStr a" "y = JStr b" using keys by blast
    ultimately show "x = y" by simp
  qed
  have "map (\<lambda>g. collection_of env (fst g)) gs = map (collection_of env) (map fst gs)" by simp
  then show "distinct (map (\<lambda>g. collection_of env (fst g)) gs)"
    using d inj by (simp only: distinct_map) (simp add: image_image)
  have "map_of (map (\<lambda>g. (collection_of env (fst g), snd g)) hs) (t @ ''_docs'') = map_of hs (JStr t)"
    if "\<forall>g \<in> set hs. \<exists>t. fst g = JStr t" for hs :: "(json \<times> row list) list"
    using that by (induction hs) auto
  from this [of gs] keys m [of "JStr t"]
  show "map_of (map (\<lambda>g. (collection_of env (fst g), snd g)) gs) (t @ ''_docs'') =
      (if tenant_rows t rows = [] then None else Some (tenant_rows t rows))"
    by (auto simp: tenant_rows_def)
qed

section \<open>Properties\<close>

lemma traverse_row_tenant:
  "traverse row_of ces = Inr rows \<Longrightarrow> r \<in> set rows \<Longrightarrow> \<exists>ce \<in> set ces. rw_tenant_id r = cv_tenant_id (fst ce)"
proof (induction ces arbitrary: rows)
  case (Cons ce ces)
  have "rw_tenant_id r = cv_tenant_id (fst ce)" if "row_of ce = Inr r"
    using that by (auto simp: row_of_def split: prod.splits option.splits json.splits)
  then show ?case using Cons by (auto split: sum.splits)
qed simp

lemma traverse_zip_rows:
  assumes "traverse row_of (zip chunks vs) = Inr rows" and "\<forall>c \<in> set chunks. \<exists>t. cv_tenant_id c = JStr t"
  shows "\<forall>r \<in> set rows. \<exists>t. rw_tenant_id r = JStr t"
proof
  fix r assume "r \<in> set rows"
  from traverse_row_tenant [OF assms(1) this] obtain c v where "(c, v) \<in> set (zip chunks vs)" "rw_tenant_id r = cv_tenant_id c"
    by fastforce
  then show "\<exists>t. rw_tenant_id r = JStr t" using assms(2) by (metis set_zip_leftD)
qed

text \<open>The outcome of a batch, by what embedding and storing answered.\<close>

lemma process_batch_committed:
  assumes "milvus_world api stored committed" and "batch \<noteq> []"
    and "process_batch api env f batch (cs, w) = (Inr (), (cs', w'))" and "committed w' \<noteq> committed w"
  obtains vs rows cs1 w1 cs2 w2 where
    "embed_with_retry api (map (cv_text \<circ> snd) batch) w = (Inr (Vectors vs), w1)"
    "traverse row_of (zip (map snd batch) vs) = Inr rows"
    "upsert_groups api env (fold add_to_group rows []) (cs, w1) = (Inr None, (cs2, w2))"
    "finish_batch api env f batch vs w2 = (Inr (), w')"
proof -
  note kc = keeps_committed [OF assms(1)]
  have dlq: "keeps (\<lambda>w. committed w = y) (eachE (send_to_dlq api env f reason detail) batch)" for y reason detail
    by (intro keeps_intros keeps_send_to_dlq kc) simp_all
  obtain r1 w1 where e: "embed_with_retry api (map (cv_text \<circ> snd) batch) w = (r1, w1)" by fastforce
  have "keeps (\<lambda>w. committed w = committed w0) (embed_with_retry api (map (cv_text \<circ> snd) batch))" for w0
    by (intro keeps_embed kc) simp_all
  from keepsD [OF this [of w] _ e] have c1: "committed w1 = committed w" by simp
  from assms(2,3) e obtain er where r1: "r1 = Inr er" by (cases r1) (auto simp: process_batch_def prog_defs with_state_def)
  show thesis
  proof (cases er)
    case (Gave_Up reason detail)
    then have "eachE (send_to_dlq api env f reason detail) batch w1 = (Inr (), w')"
      using assms(2,3) e r1 by (auto simp: process_batch_def prog_defs with_state_def split: prod.splits)
    from keepsD [OF dlq [of "committed w"] c1 this] assms(4) show thesis by simp
  next
    case (Vectors vs)
    let ?rows = "traverse row_of (zip (map snd batch) vs)"
    obtain rows where rows: "?rows = Inr rows" and h: "list_all (\<lambda>r. hashable (rw_tenant_id r)) rows"
      using assms(2,3) e r1 Vectors
      by (cases ?rows) (auto simp: process_batch_def group_by_tenant_def prog_defs with_state_def split: if_splits)
    let ?gs = "fold add_to_group rows []"
    obtain r2 cs2 w2 where u: "upsert_groups api env ?gs (cs, w1) = (r2, (cs2, w2))" by (rule triple_cases)
    from keepsD [OF keeps_upsert_groups_committed [OF assms(1), of "committed w"] _ u] c1
    have c2: "committed w2 = committed w" by simp
    have "r2 = Inr None"
    proof (rule ccontr)
      assume "r2 \<noteq> Inr None"
      with assms(2,3) e r1 Vectors rows h u obtain x where r2: "r2 = Inr (Some x)"
        by (cases r2) (auto simp: process_batch_def group_by_tenant_def prog_defs with_state_def)
      then have "eachE (send_to_dlq api env f ''milvus_error'' (exc_msg x)) batch w2 = (Inr (), w')"
        using assms(2,3) e r1 Vectors rows h u
        by (auto simp: process_batch_def group_by_tenant_def prog_defs with_state_def split: prod.splits)
      from keepsD [OF dlq [of "committed w"] c2 this] assms(4) show False by simp
    qed
    moreover from this have "finish_batch api env f batch vs w2 = (Inr (), w')"
      using assms(2,3) e r1 Vectors rows h u
      by (auto simp: process_batch_def group_by_tenant_def prog_defs with_state_def split: prod.splits)
    ultimately show thesis using that e r1 Vectors rows u by blast
  qed
qed

lemma commit_each:
  assumes "milvus_world api stored committed"
  shows "eachE (\<lambda>it. do_cmd api (Ew_Commit (fst it))) items w = (Inr (), w') \<Longrightarrow>
    committed w' = committed w @ map fst items"
proof (induction items arbitrary: w)
  case (Cons it items)
  obtain r w1 where c: "api (Ew_Commit (fst it)) w = (r, w1)" by fastforce
  show ?case
  proof (cases r)
    case (Inl e)
    with Cons.prems c show ?thesis by (simp add: prog_defs)
  next
    case (Inr x)
    with c have "do_cmd api (Ew_Commit (fst it)) w = (Inr (), w1)" by (simp add: prog_defs)
    with Cons.prems have "eachE (\<lambda>it. do_cmd api (Ew_Commit (fst it))) items w1 = (Inr (), w')"
      by (simp add: run_seqE)
    from Cons.IH [OF this] milvus_worldD(3) [OF assms c] Inr show ?thesis by simp
  qed
qed simp

lemma finish_batch_effect:
  assumes "milvus_world api stored committed" and "finish_batch api env f batch vs w = (Inr (), w')"
  shows "stored w' = stored w" and "committed w' = committed w @ map fst batch"
proof -
  let ?a = "announce_batch api env f (map snd batch) vs"
  let ?d = "eachE (\<lambda>it. do_cmd api (Ew_Commit (fst it))) batch"
  obtain r w1 where p: "?a w = (r, w1)" by fastforce
  have d: "?d w1 = (Inr (), w')"
    using assms(2) p by (cases r) (auto simp: finish_batch_def seqE_def bindE_def split: if_splits)
  have "keeps (\<lambda>v. stored v = stored w) ?a" by (intro keeps_announce keeps_stored [OF assms(1)]) simp_all
  from keepsD [OF this _ p] have s1: "stored w1 = stored w" by simp
  have "keeps (\<lambda>v. committed v = committed w) ?a" by (intro keeps_announce keeps_committed [OF assms(1)]) simp_all
  from keepsD [OF this _ p] have c1: "committed w1 = committed w" by simp
  have "keeps (\<lambda>v. stored v = stored w1) ?d" by (intro keeps_intros keeps_stored [OF assms(1)]) simp
  from keepsD [OF this _ d] s1 show "stored w' = stored w" by simp
  show "committed w' = committed w @ map fst batch" using commit_each [OF assms(1) d] c1 by simp
qed

lemma embed_stored:
  assumes "milvus_world api stored committed" and "embed_with_retry api ts w = (r, w')"
  shows "stored w' = stored w"
proof -
  have "keeps (\<lambda>v. stored v = stored w) (embed_with_retry api ts)"
    by (intro keeps_embed keeps_stored [OF assms(1)]) simp_all
  from keepsD [OF this _ assms(2)] show ?thesis by simp
qed

lemma committed_batch_rows:
  assumes "milvus_world api stored committed" and "batch \<noteq> []"
    and "\<forall>it \<in> set batch. \<exists>t. cv_tenant_id (snd it) = JStr t"
    and "process_batch api env f batch (cs, w) = (Inr (), (cs', w'))" and "committed w' \<noteq> committed w"
  obtains vs rows w1 where "embed_with_retry api (map (cv_text \<circ> snd) batch) w = (Inr (Vectors vs), w1)"
    and "traverse row_of (zip (map snd batch) vs) = Inr rows"
    and "\<And>t k. get_row (stored w' (t @ ''_docs'')) k =
        (case map_of (rev (map (\<lambda>r. (rw_chunk_id r, r)) (tenant_rows t rows))) k of
           None \<Rightarrow> get_row (stored w (t @ ''_docs'')) k | Some r \<Rightarrow> Some r)"
    and "committed w' = committed w @ map fst batch"
proof -
  obtain vs rows w1 cs2 w2 where e: "embed_with_retry api (map (cv_text \<circ> snd) batch) w = (Inr (Vectors vs), w1)"
    and rows: "traverse row_of (zip (map snd batch) vs) = Inr rows"
    and u: "upsert_groups api env (fold add_to_group rows []) (cs, w1) = (Inr None, (cs2, w2))"
    and fin: "finish_batch api env f batch vs w2 = (Inr (), w')"
    using process_batch_committed [OF assms(1,2,4,5)] by metis
  have str: "\<forall>r \<in> set rows. \<exists>t. rw_tenant_id r = JStr t"
    by (rule traverse_zip_rows [OF rows]) (use assms(3) in auto)
  note gc = group_collections [OF str]
  have "get_row (stored w' (t @ ''_docs'')) k =
        (case map_of (rev (map (\<lambda>r. (rw_chunk_id r, r)) (tenant_rows t rows))) k of
           None \<Rightarrow> get_row (stored w (t @ ''_docs'')) k | Some r \<Rightarrow> Some r)" for t k
    using upsert_groups_stored [OF assms(1) u gc(1,2), of "t @ ''_docs''"] gc(3) [of env t]
      finish_batch_effect(1) [OF assms(1) fin] embed_stored [OF assms(1) e]
    by (simp add: upsert_spec_def milvus.lookup_puts split: option.split if_splits)
  moreover have "committed w' = committed w @ map fst batch"
  proof -
    have "committed w1 = committed w"
      using keepsD [OF keeps_embed [of "\<lambda>v. committed v = committed w"] _ e] keeps_committed [OF assms(1)] by simp
    moreover have "committed w2 = committed w1"
      using keepsD [OF keeps_upsert_groups_committed [OF assms(1), of "committed w1"] _ u] by simp
    ultimately show ?thesis using finish_batch_effect(2) [OF assms(1) fin] by simp
  qed
  ultimately show ?thesis using that e rows by blast
qed


text \<open>A world for the examples.\<close>

type_synonym small_world = "(string \<Rightarrow> row_store) \<times> kmeta list \<times> kmsg list"

fun small_api :: "small_world ew_api" where
  "small_api (Embed_Batch ts) w = (Inr (Ew_Vectors (map (\<lambda>_. [1]) ts)), w)"
| "small_api (Col_Exists c) w = (Inr (Ew_Bool True), w)"
| "small_api (Upsert_Rows c rs) (s, k, d) = (Inr Ew_Done, (s(c := upsert_spec rs (s c)), k, d))"
| "small_api (Ew_Commit m) (s, k, d) = (Inr Ew_Done, (s, k @ [m], d))"
| "small_api (Ew_Dlq_Produce m) (s, k, d) = (Inr Ew_Done, (s, k, d @ [m]))"
| "small_api c w = (Inr Ew_Done, w)"

lemma small_milvus_world: "milvus_world small_api fst (fst \<circ> snd)"
proof -
  have a: "fst w' = fst w" if "\<not> is_upsert c" "small_api c w = (r, w')" for c w r w'
    using that by (cases c; cases w) auto
  have b: "fst (snd w') = fst (snd w)" if "\<not> is_ew_commit c" "small_api c w = (r, w')" for c w r w'
    using that by (cases c; cases w) auto
  show ?thesis using a b by (auto simp: milvus_world_def)
qed

definition small_env :: ew_env where
  "small_env = \<lparr>ee_dlq_topic = ''dlq-chunks'', ee_event_topic = ''embedding-events'', ee_usage_topic = None,
     ee_meta_topic = None, ee_timeout_s = 5, ee_model = ''bge'', ee_dim = 1, ee_backend = ''local-cpu'',
     ee_default_collection = ''documents'', ee_batch_size = 32, ee_float = \<lambda>_. ''0.5'', ee_repr = \<lambda>_. [],
     ee_norm6 = \<lambda>_. 1\<rparr>"

definition small_fresh :: ew_fresh where
  "small_fresh = \<lparr>ef_uuid = show_nat, ef_now = 1, ef_time = ''t'', ef_gpu_seconds = 1\<rparr>"

definition small_chunk :: "string \<Rightarrow> string \<Rightarrow> chunk_event" where
  "small_chunk tenant cid =
     \<lparr>cv_doc_id = JStr ''d1'', cv_chunk_id = JStr cid, cv_chunk_index = JInt 0, cv_total_chunks = JInt 1,
      cv_text = JStr ''x'', cv_source_type = JStr ''nfs'', cv_source_id = JStr ''s1'', cv_content_type = JStr ''text/plain'',
      cv_tenant_id = JStr tenant, cv_metadata = JObj [], cv_event_id = JStr ''e1'', cv_created_at = JFloat 1\<rparr>"

definition small_meta :: "int \<Rightarrow> kmeta" where
  "small_meta offset = \<lparr>kt_topic = Some ''document-chunks'', kt_partition = Some 0, kt_offset = Some offset,
     kt_timestamp_ms = Some 1000\<rparr>"

definition small_batch :: "ew_item list" where
  "small_batch = [(small_meta 1, small_chunk ''acme'' ''d1:0''), (small_meta 2, small_chunk ''beta'' ''d1:0'')]"

lemma small_batch_run:
  "\<exists>cs' s'. process_batch small_api small_env small_fresh small_batch ([], ((\<lambda>_. Map.empty), [], [])) =
     (Inr (), (cs', (s', [small_meta 1, small_meta 2], [])))"
  by (simp add: process_batch_def small_batch_def small_chunk_def embed_with_retry_def embed_attempt_def row_of_def
      group_by_tenant_def hashable_def add_to_group_def upsert_def ensure_collection_by_name_def want_flag_def remember_def
      finish_batch_def announce_batch_def publish_usage_event_def publish_embedding_event_def need_str_def
      set_source_file_status_def tenant_sizes_def small_env_def prog_defs with_state_def collection_of_def Let_def)


subsection \<open>Dead letters\<close>

fun is_dlq_produce :: "ew_cmd \<Rightarrow> bool" where
  "is_dlq_produce (Ew_Dlq_Produce _) = True"
| "is_dlq_produce _ = False"

definition dlq_world :: "'w ew_api \<Rightarrow> ('w \<Rightarrow> kmsg list) \<Rightarrow> bool" where
  "dlq_world api dlq \<longleftrightarrow>
     (\<forall>m w r w'. api (Ew_Dlq_Produce m) w = (r, w') \<longrightarrow> dlq w' = (if is_ok r then dlq w @ [m] else dlq w))
   \<and> (\<forall>cmd w r w'. \<not> is_dlq_produce cmd \<longrightarrow> api cmd w = (r, w') \<longrightarrow> dlq w' = dlq w)"

lemma keeps_dlq: "dlq_world api dlq \<Longrightarrow> \<not> is_dlq_produce cmd \<Longrightarrow> keeps (\<lambda>w. dlq w = x) (api cmd)"
  by (rule keepsI) (auto simp: dlq_world_def)

lemma dlq_each:
  assumes "dlq_world api dlq"
  shows "eachE (send_to_dlq api env f reason detail) items w = (Inr (), w') \<Longrightarrow>
    dlq w' = dlq w @ map (ew_dlq_msg env f reason detail) items"
proof (induction items arbitrary: w)
  case (Cons it items)
  let ?m = "ew_dlq_msg env f reason detail it"
  obtain r w1 where p: "api (Ew_Dlq_Produce ?m) w = (r, w1)" by fastforce
  obtain r2 w2 where fl: "do_cmd api (Ew_Dlq_Flush (ee_timeout_s env)) w1 = (r2, w2)" by fastforce
  have "keeps (\<lambda>v. dlq v = dlq w1) (do_cmd api (Ew_Dlq_Flush (ee_timeout_s env)))"
    by (intro keeps_intros keeps_dlq [OF assms]) simp
  from keepsD [OF this _ fl] have d2: "dlq w2 = dlq w1" by simp
  have s: "send_to_dlq api env f reason detail it w = (case r of Inl e \<Rightarrow> (Inl e, w1) | Inr _ \<Rightarrow> (r2, w2))"
    by (simp add: send_to_dlq_def seqE_def bindE_def p fl split: sum.split)
  have ok: "is_ok r"
    using Cons.prems s by (cases r) (simp_all add: seqE_def bindE_def)
  then have s2: "send_to_dlq api env f reason detail it w = (r2, w2)" using s by (cases r) simp_all
  have rest: "eachE (send_to_dlq api env f reason detail) items w2 = (Inr (), w')"
    using Cons.prems s2 by (cases r2) (simp_all add: seqE_def bindE_def)
  have "dlq w1 = dlq w @ [?m]" using assms p ok unfolding dlq_world_def by metis
  with Cons.IH [OF rest] d2 show ?case by simp
qed simp

lemma keeps_dlq_rest:
  assumes "dlq_world api dlq"
  shows "keeps (\<lambda>w. dlq w = x) (embed_with_retry api ts)"
    and "keeps (\<lambda>cw. dlq (snd cw) = x) (upsert_groups api env gs)"
    and "keeps (\<lambda>w. dlq w = x) (finish_batch api env f batch vs)"
proof -
  note k = keeps_dlq [OF assms]
  show "keeps (\<lambda>w. dlq w = x) (embed_with_retry api ts)" by (intro keeps_embed k) simp_all
  have u: "keeps (\<lambda>cw. dlq (snd cw) = x) (upsert api env rs c)" for rs c
    unfolding upsert_def Let_def
    by (intro keeps_intros keeps_ensure keeps_with_state [where I = "\<lambda>w. dlq w = x"]) (auto intro!: k)
  show "keeps (\<lambda>cw. dlq (snd cw) = x) (upsert_groups api env gs)"
  proof (induction gs)
    case (Cons g gs)
    then show ?case by (cases g) (auto intro!: keeps_intros u split: option.split)
  qed (simp add: keeps_intros)
  show "keeps (\<lambda>w. dlq w = x) (finish_batch api env f batch vs)"
    unfolding finish_batch_def by (intro keeps_intros keeps_announce k) simp_all
qed

lemma dlq_each_uncommitted:
  assumes "milvus_world api stored committed" and "eachE (send_to_dlq api env f reason detail) batch v = (Inr (), v')"
  shows "committed v' = committed v"
proof -
  have "keeps (\<lambda>u. committed u = committed v) (eachE (send_to_dlq api env f reason detail) batch)"
    by (intro keeps_intros keeps_send_to_dlq keeps_committed [OF assms(1)]) simp_all
  from keepsD [OF this _ assms(2)] show ?thesis by simp
qed

text \<open>How the handling of a batch can return: it ends with the dead letters or with the commits, from
  a world in which nothing has been committed or dead-lettered yet.\<close>

lemma process_batch_outcome:
  assumes "milvus_world api stored committed" and "dlq_world api dlq" and "batch \<noteq> []"
    and "process_batch api env f batch (cs, w) = (Inr (), (cs', w'))"
  obtains (dead) reason detail v where "eachE (send_to_dlq api env f reason detail) batch v = (Inr (), w')"
      "reason \<in> {''embedding_rate_limit'', ''embedding_error'', ''milvus_error''}" "committed v = committed w" "dlq v = dlq w"
  | (finished) vs v where "finish_batch api env f batch vs v = (Inr (), w')" "committed v = committed w" "dlq v = dlq w"
proof -
  note kd = keeps_dlq_rest [OF assms(2)]
  obtain r1 w1 where e: "embed_with_retry api (map (cv_text \<circ> snd) batch) w = (r1, w1)" by (rule prod.exhaust)
  have c1: "committed w1 = committed w"
    using keepsD [OF keeps_embed [of "\<lambda>v. committed v = committed w"] _ e] keeps_committed [OF assms(1)] by simp
  have d1: "dlq w1 = dlq w" using keepsD [OF kd(1) [of "dlq w"] _ e] by simp
  from assms(3,4) e obtain er where r1: "r1 = Inr er" by (cases r1) (auto simp: process_batch_def prog_defs with_state_def)
  show ?thesis
  proof (cases er)
    case (Gave_Up reason detail)
    have "reason \<in> {''embedding_rate_limit'', ''embedding_error'', ''milvus_error''}"
      using e r1 Gave_Up
      by (auto simp: embed_with_retry_def seqE_def bindE_def split: prod.splits sum.splits attempt.splits)
    moreover have "eachE (send_to_dlq api env f reason detail) batch w1 = (Inr (), w')"
      using assms(3,4) e r1 Gave_Up by (auto simp: process_batch_def bindE_def with_state_def split: prod.splits)
    ultimately show ?thesis using dead c1 d1 by blast
  next
    case (Vectors vs)
    let ?rows = "traverse row_of (zip (map snd batch) vs)"
    obtain rows where rows: "?rows = Inr rows" and h: "list_all (\<lambda>r. hashable (rw_tenant_id r)) rows"
      using assms(3,4) e r1 Vectors
      by (cases ?rows) (auto simp: process_batch_def group_by_tenant_def prog_defs with_state_def split: if_splits)
    obtain r2 cs2 w2 where u: "upsert_groups api env (fold add_to_group rows []) (cs, w1) = (r2, (cs2, w2))"
      by (rule triple_cases)
    have c2: "committed w2 = committed w"
      using keepsD [OF keeps_upsert_groups_committed [OF assms(1), of "committed w"] _ u] c1 by simp
    have d2: "dlq w2 = dlq w" using keepsD [OF kd(2) [of "dlq w"] _ u] d1 by simp
    have "r2 = Inr None \<and> finish_batch api env f batch vs w2 = (Inr (), w')
      \<or> (\<exists>x. eachE (send_to_dlq api env f ''milvus_error'' (exc_msg x)) batch w2 = (Inr (), w'))"
      using assms(3,4) e r1 Vectors rows h u
      by (auto simp: process_batch_def group_by_tenant_def prog_defs with_state_def split: prod.splits sum.splits option.splits)
    then show ?thesis using dead finished c2 d2 by blast
  qed
qed

text \<open>
  C27. No chunk is dropped silently. When the handling of a non-empty batch returns, either every
  message has been committed and none dead-lettered, or none has been committed and every one has
  been dead-lettered with the same reason: an embedding or rate-limit failure of both attempts, or
  a Milvus failure (then also the chunks of the tenants already stored are dead-lettered, and all
  of them are delivered again, for nothing was committed).
\<close>

theorem batch_committed_or_dead_lettered:
  assumes "milvus_world api stored committed" and "dlq_world api dlq" and "batch \<noteq> []"
    and "process_batch api env f batch (cs, w) = (Inr (), (cs', w'))"
  shows "(committed w' = committed w @ map fst batch \<and> dlq w' = dlq w)
    \<or> (committed w' = committed w \<and>
        (\<exists>reason detail. dlq w' = dlq w @ map (ew_dlq_msg env f reason detail) batch
          \<and> reason \<in> {''embedding_rate_limit'', ''embedding_error'', ''milvus_error''}))"
  using assms
proof (cases rule: process_batch_outcome)
  case (dead reason detail v)
  then show ?thesis
    using dlq_each [OF assms(2) dead(1)] dlq_each_uncommitted [OF assms(1) dead(1)] by auto
next
  case (finished vs v)
  have "dlq w' = dlq w" using keepsD [OF keeps_dlq_rest(3) [OF assms(2), of "dlq w"] _ finished(1)] finished(3) by simp
  with finish_batch_effect(2) [OF assms(1) finished(1)] finished(2) show ?thesis by simp
qed

lemma small_dlq_world: "dlq_world small_api (snd \<circ> snd)"
proof -
  have "snd (snd w') = snd (snd w)" if "\<not> is_dlq_produce c" "small_api c w = (r, w')" for c w r w'
    using that by (cases c; cases w) auto
  then show ?thesis by (auto simp: dlq_world_def)
qed

theorem batch_committed_or_dead_lettered_witness:
  "\<exists>cs' w'. process_batch small_api small_env small_fresh small_batch ([], ((\<lambda>_. Map.empty), [], [])) = (Inr (), (cs', w'))
     \<and> length (fst (snd w')) + length (snd (snd w')) = 2"
proof -
  obtain cs' s' where p: "process_batch small_api small_env small_fresh small_batch ([], ((\<lambda>_. Map.empty), [], [])) =
     (Inr (), (cs', (s', [small_meta 1, small_meta 2], [])))" using small_batch_run by blast
  show ?thesis
    using p batch_committed_or_dead_lettered [OF small_milvus_world small_dlq_world _ p] by (simp add: small_batch_def)
qed



end
