(* ===== verification/Connectors.thy ===== *)
theory Connectors
  imports Events Kafka
begin

text \<open>
  What the two connectors (\<open>services/connector-s3/src\<close>, \<open>services/connector-nfs/src\<close>) share: the
  publication of a raw document with retries, the status table of the source files
  (\<open>status.py\<close>), the lineage events (\<open>metadata_event.py\<close>), and the main loop with its back-off
  (\<open>main.py\<close>). A command reaches MinIO, the mounted file system, Redis, PostgreSQL or Kafka.
\<close>

section \<open>The outside world\<close>

text \<open>An object as MinIO lists it; its modification time is an instant in microseconds (a time
  without zone is read as UTC).\<close>

record s3_object =
  so_name :: string
  so_last_modified :: int
  so_etag :: "string option"
  so_size :: "int option"

datatype conn_cmd =
    Kafka_Produce kmsg
  | Kafka_Flush rat
  | Retry_Wait rat
  | Status_Upsert string string string string "string option"
  | Status_Commit
  | Lineage_Produce kmsg
  | Lineage_Flush rat
  | Count_Error string
  | List_Objects string
  | Hget string string
  | Hset string string string
  | Smembers string
  | Sadd string string
  | Observer_Alive
  | Drain_Queue
  | Walk string
  | Is_File string
  | Get_Size string

text \<open>A listing is a generator: it may fail after having produced some objects.\<close>

datatype conn_reply =
    C_Done
  | C_Objects "s3_object list" "exc option"
  | C_Text "string option"
  | C_Paths "string list"
  | C_Bool bool
  | C_Size int

type_synonym 'w conn_api = "(conn_cmd, exc, conn_reply, 'w) api"

definition unexpected :: exc where
  "unexpected = Exc ''TypeError'' ''unexpected reply''"

definition want_paths :: "conn_reply \<Rightarrow> ('w, string list) prog" where
  "want_paths r = (case r of C_Paths ps \<Rightarrow> ret ps | _ \<Rightarrow> raise unexpected)"

definition want_bool :: "conn_reply \<Rightarrow> ('w, bool) prog" where
  "want_bool r = (case r of C_Bool b \<Rightarrow> ret b | _ \<Rightarrow> raise unexpected)"

definition want_text :: "conn_reply \<Rightarrow> ('w, string option) prog" where
  "want_text r = (case r of C_Text t \<Rightarrow> ret t | _ \<Rightarrow> raise unexpected)"

definition want_size :: "conn_reply \<Rightarrow> ('w, int) prog" where
  "want_size r = (case r of C_Size n \<Rightarrow> ret n | _ \<Rightarrow> raise unexpected)"

record conn_env =
  ce_connector_id :: string
  ce_tenant_id :: string
  ce_topic :: string
  ce_timeout_s :: rat
  ce_meta_topic :: "string option"
  ce_float :: "rat \<Rightarrow> string"
  ce_guess :: "string \<Rightarrow> string option"

section \<open>Publication\<close>

text \<open>The delay after attempt \<open>k\<close>: 100 ms, doubled each time, at most 30 s.\<close>

fun delay_ms :: "nat \<Rightarrow> nat" where
  "delay_ms 0 = 100"
| "delay_ms (Suc k) = min (delay_ms k * 2) 30000"

definition max_retries :: nat where
  "max_retries = 5"

definition raw_msg :: "conn_env \<Rightarrow> raw_event \<Rightarrow> string \<Rightarrow> kmsg" where
  "raw_msg env ev event_id = plain_msg (ce_topic env) event_id (dumps (ce_float env) (raw_to_dict ev))"

definition publish_attempt :: "'w conn_api \<Rightarrow> conn_env \<Rightarrow> kmsg \<Rightarrow> ('w, unit) prog" where
  "publish_attempt api env msg = seqE (api (Kafka_Produce msg)) (do_cmd api (Kafka_Flush (ce_timeout_s env)))"

definition publish_with_retry :: "'w conn_api \<Rightarrow> conn_env \<Rightarrow> kmsg \<Rightarrow> ('w, bool) prog" where
  "publish_with_retry api env msg =
     retrying (\<lambda>_. publish_attempt api env msg) (\<lambda>k. do_cmd api (Retry_Wait (of_nat (delay_ms k) / 1000))) 0 max_retries"

section \<open>Status table\<close>

definition write_source_file_status ::
  "'w conn_api \<Rightarrow> string \<Rightarrow> string \<Rightarrow> string \<Rightarrow> string \<Rightarrow> string option \<Rightarrow> ('w, unit) prog" where
  "write_source_file_status api connector_id source_id event_id ingest_status error_message =
     seqE (api (Status_Upsert connector_id source_id event_id ingest_status error_message)) (do_cmd api Status_Commit)"

text \<open>The table the statement writes: one row per connector and source, whose creation time a later
  write keeps.\<close>

record status_row =
  st_event_id :: string
  st_ingest_status :: string
  st_error_message :: "string option"
  st_chunk_count :: int
  st_created_at :: rat
  st_updated_at :: rat

type_synonym status_table = "(string \<times> string) \<rightharpoonup> status_row"

definition sql_status_upsert ::
  "rat \<Rightarrow> string \<Rightarrow> string \<Rightarrow> string \<Rightarrow> string \<Rightarrow> string option \<Rightarrow> status_table \<Rightarrow> status_table" where
  "sql_status_upsert now connector source eid status err tbl =
     tbl((connector, source) \<mapsto>
       \<lparr>st_event_id = eid, st_ingest_status = status, st_error_message = err,
        st_chunk_count = (case tbl (connector, source) of None \<Rightarrow> 0 | Some r \<Rightarrow> st_chunk_count r),
        st_created_at = (case tbl (connector, source) of None \<Rightarrow> now | Some r \<Rightarrow> st_created_at r),
        st_updated_at = now\<rparr>)"

text \<open>The updates of the document processor and of the embedding worker: every row of the source,
  whatever its connector.\<close>

definition sql_set_status :: "string \<Rightarrow> string \<Rightarrow> status_table \<Rightarrow> status_table" where
  "sql_set_status source status tbl =
     (\<lambda>k. if snd k = source then map_option (\<lambda>r. r\<lparr>st_ingest_status := status\<rparr>) (tbl k) else tbl k)"

definition sql_set_indexed :: "rat \<Rightarrow> string \<Rightarrow> string \<Rightarrow> int \<Rightarrow> status_table \<Rightarrow> status_table" where
  "sql_set_indexed now source status chunk_count tbl =
     (\<lambda>k. if snd k = source
          then map_option (\<lambda>r. r\<lparr>st_ingest_status := status, st_chunk_count := chunk_count, st_updated_at := now\<rparr>) (tbl k)
          else tbl k)"

section \<open>Lineage events\<close>

definition lineage_event :: "conn_env \<Rightarrow> string \<Rightarrow> string \<Rightarrow> (string \<times> json) list \<Rightarrow> (string \<times> json) list \<Rightarrow> string \<Rightarrow> string \<Rightarrow> json" where
  "lineage_event env entity_type entity_key attributes extra eid time =
     JObj [(''specversion'', JStr ''1.0''), (''type'', JStr ''metadata.entity.created''),
       (''source'', JStr (''connector/'' @ ce_connector_id env)), (''subject'', JStr (entity_type @ ''/'' @ entity_key)),
       (''id'', JStr eid), (''time'', JStr time), (''datacontenttype'', JStr ''application/json''),
       (''data'', JObj ([(''entity_type'', JStr entity_type), (''entity_key'', JStr entity_key),
          (''tenant_id'', JStr (ce_tenant_id env)), (''attributes'', JObj attributes)] @ extra))]"

definition datasource_event :: "conn_env \<Rightarrow> string \<Rightarrow> (string \<times> json) list \<Rightarrow> string \<Rightarrow> string \<Rightarrow> json" where
  "datasource_event env entity_key attributes eid time =
     lineage_event env ''DataSource'' entity_key attributes [] eid time"

definition rawdocument_event :: "conn_env \<Rightarrow> string \<Rightarrow> (string \<times> json) list \<Rightarrow> string \<Rightarrow> string \<Rightarrow> string \<Rightarrow> json" where
  "rawdocument_event env entity_key attributes datasource_key eid time =
     lineage_event env ''RawDocument'' entity_key attributes
       [(''upstream'', JList [JObj [(''entity_type'', JStr ''DataSource''), (''entity_key'', JStr datasource_key),
          (''relationship'', JStr ''discovered_in'')]])] eid time"

definition publish_lineage :: "'w conn_api \<Rightarrow> conn_env \<Rightarrow> string \<Rightarrow> string \<Rightarrow> json \<Rightarrow> ('w, unit) prog" where
  "publish_lineage api env topic eid event =
     ignoring (seqE (api (Lineage_Produce (plain_msg topic eid (dumps (ce_float env) event)))) (api (Lineage_Flush 5)))"

section \<open>Main loop\<close>

text \<open>One round: the poll, and when the database connection was lost, the reconnection.\<close>

datatype round_result = Poll_Ok | Db_Lost bool | Poll_Failed

definition next_backoff :: "round_result \<Rightarrow> rat \<Rightarrow> rat" where
  "next_backoff r b =
     (case r of
        Poll_Ok \<Rightarrow> 1
      | Db_Lost reconnected \<Rightarrow> if reconnected then b else min (b * 2) 10
      | Poll_Failed \<Rightarrow> min (b * 2) 10)"

text \<open>Which rounds count as a lost connection; \<open>reconnect\<close> is the outcome of \<open>build_db_conn\<close>.\<close>

definition classify_round :: "bool \<Rightarrow> exc + 'a \<Rightarrow> round_result" where
  "classify_round reconnect r =
     (case r of
        Inr _ \<Rightarrow> Poll_Ok
      | Inl e \<Rightarrow> if exc_class e \<in> {''psycopg2.OperationalError'', ''psycopg2.InterfaceError''}
                 then Db_Lost reconnect else Poll_Failed)"

text \<open>The sleeps of a run of the main loop.\<close>

fun main_sleeps :: "rat \<Rightarrow> rat \<Rightarrow> round_result list \<Rightarrow> rat list" where
  "main_sleeps interval b [] = []"
| "main_sleeps interval b (r # rs) =
     (let b' = next_backoff r b in (interval * b') # main_sleeps interval b' rs)"

interpretation status_rows: keyed_store "\<lambda>k r tbl. tbl(k \<mapsto> r)" "\<lambda>tbl k. tbl k"
  by unfold_locales simp

section \<open>Properties\<close>

text \<open>What the theorems use of the producer: an accepted message joins the queue, a refused one does
  not, and a flush, whether it returns or raises, moves messages from the queue to the broker.\<close>

definition raw_producer :: "'w conn_api \<Rightarrow> ('w \<Rightarrow> kmsg list) \<Rightarrow> bool" where
  "raw_producer api handed_over \<longleftrightarrow>
     (\<forall>m w r w'. api (Kafka_Produce m) w = (r, w') \<longrightarrow> handed_over w' = (if is_ok r then handed_over w @ [m] else handed_over w))
   \<and> (\<forall>c w r w'. (\<forall>m. c \<noteq> Kafka_Produce m) \<longrightarrow> api c w = (r, w') \<longrightarrow> handed_over w' = handed_over w)"

lemma raw_producerD:
  assumes "raw_producer api h"
  shows "api (Kafka_Produce m) w = (r, w') \<Longrightarrow> h w' = (if is_ok r then h w @ [m] else h w)"
    and "(\<And>m. c \<noteq> Kafka_Produce m) \<Longrightarrow> api c w = (r, w') \<Longrightarrow> h w' = h w"
  using assms unfolding raw_producer_def by blast+

text \<open>
  Publication with retries is at-least-once. Whatever Kafka answers, a publication that reports
  success has handed the event to the producer at least once and at most five times, and one that
  reports failure may still have handed over up to five copies (an attempt whose flush raises has
  already produced): the copies carry the same event id.
\<close>

theorem publish_at_least_once:
  assumes "raw_producer api handed_over" and "publish_with_retry api env msg w = (Inr ok, w')"
  shows "\<exists>n \<le> 5. handed_over w' = handed_over w @ replicate n msg \<and> (ok \<longrightarrow> 1 \<le> n)"
proof -
  have "\<exists>n \<le> max_retries. handed_over w' = handed_over w @ replicate n msg \<and> (ok \<longrightarrow> 1 \<le> n)"
  proof (rule retrying_copies [where h = handed_over and x = msg])
    show "retrying (\<lambda>_. publish_attempt api env msg) (\<lambda>k. do_cmd api (Retry_Wait (of_nat (delay_ms k) / 1000))) 0 max_retries w
        = (Inr ok, w')"
      using assms(2) by (simp add: publish_with_retry_def)
  next
    fix w r w' assume a: "publish_attempt api env msg w = (r, w')"
    obtain r1 w1 where p: "api (Kafka_Produce msg) w = (r1, w1)" by fastforce
    obtain r2 w2 where f: "do_cmd api (Kafka_Flush (ce_timeout_s env)) w1 = (r2, w2)" by fastforce
    from do_cmd_run [OF f] obtain r3 where "api (Kafka_Flush (ce_timeout_s env)) w1 = (r3, w2)" by blast
    from raw_producerD(2) [OF assms(1) _ this] have h2: "handed_over w2 = handed_over w1" by simp
    have "w' = (if is_ok r1 then w2 else w1) \<and> (is_ok r \<longrightarrow> is_ok r1)"
      using a p f by (cases r1) (auto simp: publish_attempt_def seqE_def bindE_def)
    then show "\<exists>j \<le> 1. handed_over w' = handed_over w @ replicate j msg \<and> (is_ok r \<longrightarrow> j = (1 :: nat))"
      using raw_producerD(1) [OF assms(1) p] h2
      by (intro exI [of _ "if is_ok r1 then 1 else 0"]) auto
  next
    fix k w r w' assume "do_cmd api (Retry_Wait (of_nat (delay_ms k) / 1000)) w = (r, w')"
    from do_cmd_run [OF this] obtain r3 where "api (Retry_Wait (of_nat (delay_ms k) / 1000)) w = (r3, w')" by blast
    from raw_producerD(2) [OF assms(1) _ this] show "handed_over w' = handed_over w" by simp
  qed
  then show ?thesis by (simp add: max_retries_def)
qed

text \<open>A world for the example: the first two flushes fail.\<close>

fun flaky_api :: "(nat \<times> kmsg list) conn_api" where
  "flaky_api (Kafka_Produce m) (n, q) = (Inr C_Done, (n, q @ [m]))"
| "flaky_api (Kafka_Flush t) (n, q) = (if 0 < n then (Inl (Exc ''KafkaException'' ''''), (n - 1, q)) else (Inr C_Done, (n, q)))"
| "flaky_api c w = (Inr C_Done, w)"

definition sample_conn_env :: conn_env where
  "sample_conn_env = \<lparr>ce_connector_id = ''c1'', ce_tenant_id = ''acme'', ce_topic = ''raw-documents'', ce_timeout_s = 5,
     ce_meta_topic = None, ce_float = \<lambda>_. ''0.5'', ce_guess = \<lambda>_. Some ''text/plain''\<rparr>"

lemma flaky_producer: "raw_producer flaky_api snd"
proof -
  have "snd w' = snd w" if "\<forall>m. c \<noteq> Kafka_Produce m" "flaky_api c w = (r, w')" for c w r w'
    using that by (cases c; cases w) (auto split: if_splits)
  then show ?thesis by (auto simp: raw_producer_def)
qed

theorem publish_at_least_once_witness:
  "publish_with_retry flaky_api sample_conn_env (plain_msg ''t'' ''k'' ''v'') (2, []) = (Inr True, (0, replicate 3 (plain_msg ''t'' ''k'' ''v'')))
    \<and> (\<exists>n \<le> 5. replicate 3 (plain_msg ''t'' ''k'' ''v'') = replicate n (plain_msg ''t'' ''k'' ''v'') \<and> 1 \<le> n)"
proof -
  have five: "max_retries = Suc (Suc (Suc (Suc (Suc 0))))" by (simp add: max_retries_def)
  have p: "publish_with_retry flaky_api sample_conn_env (plain_msg ''t'' ''k'' ''v'') (2, []) = (Inr True, (0, replicate 3 (plain_msg ''t'' ''k'' ''v'')))"
    by (simp add: publish_with_retry_def publish_attempt_def five prog_defs numeral_3_eq_3)
  show ?thesis using p publish_at_least_once [OF flaky_producer p] by auto
qed

lemma delay_ms_eq: "delay_ms k = min (100 * 2 ^ k) 30000"
  by (induction k) (auto simp: min_def)

text \<open>
  The main loop backs off within bounds: started at multiplier 1, every sleep lies between one
  and ten poll intervals, a successful poll brings it back to one interval, and a lost database
  connection that is restored leaves it as it was.
\<close>

theorem backoff_bounded:
  assumes "1 \<le> b" and "b \<le> 10" and "0 \<le> interval"
  shows "list_all (\<lambda>s. interval \<le> s \<and> s \<le> 10 * interval) (main_sleeps interval b rounds)
    \<and> main_sleeps interval b (rounds @ [Poll_Ok]) = main_sleeps interval b rounds @ [interval]"
  using assms
proof (induction rounds arbitrary: b)
  case (Cons r rs)
  have b: "1 \<le> next_backoff r b" "next_backoff r b \<le> 10"
    using Cons.prems by (auto simp: next_backoff_def min_def split: round_result.split)
  have "interval \<le> interval * next_backoff r b" using b Cons.prems(3) by (simp add: mult_le_cancel_left1)
  moreover have "interval * next_backoff r b \<le> interval * 10" using b(2) Cons.prems(3) by (rule mult_left_mono)
  ultimately show ?case using Cons.IH [OF b Cons.prems(3)] by (simp add: Let_def mult.commute)
qed (simp add: next_backoff_def)

theorem backoff_bounded_witness:
  "main_sleeps 30 1 ([Poll_Failed, Db_Lost False] @ [Poll_Ok]) = main_sleeps 30 1 [Poll_Failed, Db_Lost False] @ [30]"
  using backoff_bounded [of 1 30 "[Poll_Failed, Db_Lost False]"] by simp

end
