(* ===== verification/S3_Connector.thy ===== *)
theory S3_Connector
  imports Connectors
begin

text \<open>
  \<open>services/connector-s3/src/connector.py\<close> and \<open>watermark.py\<close>: a poll lists the bucket, publishes
  the objects modified after the watermark and of an allowed type, and stores the highest
  modification time it published as the new watermark. The generator is taken as consumed to its
  end, as the main loop does.
\<close>

record s3_env =
  se_conn :: conn_env
  se_bucket :: string
  se_file_types :: "string list"
  se_iso :: "int \<Rightarrow> string"
  se_from_iso :: "string \<Rightarrow> int option"

text \<open>The fresh identifiers and clock readings, by position in the listing.\<close>

record s3_fresh =
  sf_event_id :: "nat \<Rightarrow> string"
  sf_now :: rat
  sf_meta_id :: "nat \<Rightarrow> string"
  sf_meta_time :: string

section \<open>Watermark\<close>

definition watermark_key :: "string \<Rightarrow> string" where
  "watermark_key connector_id = ''connector:'' @ connector_id @ '':watermark''"

definition get_watermark :: "'w conn_api \<Rightarrow> s3_env \<Rightarrow> ('w, int option) prog" where
  "get_watermark api env =
     bindE (bindE (api (Hget (watermark_key (ce_connector_id (se_conn env))) ''last_seen'')) want_text) (\<lambda>raw.
       case raw of
         None \<Rightarrow> ret None
       | Some s \<Rightarrow> (case se_from_iso env s of
             None \<Rightarrow> raise (Exc ''ValueError'' ''Invalid isoformat string'')
           | Some ts \<Rightarrow> ret (Some ts)))"

definition set_watermark :: "'w conn_api \<Rightarrow> s3_env \<Rightarrow> int \<Rightarrow> ('w, unit) prog" where
  "set_watermark api env ts =
     do_cmd api (Hset (watermark_key (ce_connector_id (se_conn env))) ''last_seen'' (se_iso env ts))"

section \<open>Poll\<close>

definition datasource_key :: "s3_env \<Rightarrow> string" where
  "datasource_key env = ce_tenant_id (se_conn env) @ ''/s3/'' @ se_bucket env"

definition resolve_content_type :: "s3_env \<Rightarrow> s3_object \<Rightarrow> string" where
  "resolve_content_type env obj =
     (case ce_guess (se_conn env) (so_name obj) of
        None \<Rightarrow> ''application/octet-stream''
      | Some t \<Rightarrow> if t = [] then ''application/octet-stream'' else t)"

definition s3_source_id :: "s3_env \<Rightarrow> s3_object \<Rightarrow> string" where
  "s3_source_id env obj = se_bucket env @ ''/'' @ so_name obj"

definition etag_of :: "s3_object \<Rightarrow> string" where
  "etag_of obj = (case so_etag obj of None \<Rightarrow> [] | Some e \<Rightarrow> e)"

definition size_of_object :: "s3_object \<Rightarrow> int" where
  "size_of_object obj = (case so_size obj of None \<Rightarrow> 0 | Some n \<Rightarrow> n)"

definition s3_event :: "s3_env \<Rightarrow> s3_fresh \<Rightarrow> nat \<Rightarrow> s3_object \<Rightarrow> raw_event" where
  "s3_event env f i obj =
     (let source_id = s3_source_id env obj
      in \<lparr>rv_source_type = JStr ''s3'', rv_source_id = JStr source_id, rv_content_ref = JStr (''s3://'' @ source_id),
          rv_content_type = JStr (resolve_content_type env obj), rv_tenant_id = JStr (ce_tenant_id (se_conn env)),
          rv_metadata = JObj [(''etag'', JStr (etag_of obj)), (''size'', JInt (size_of_object obj))],
          rv_event_id = JStr (sf_event_id f i), rv_ingested_at = JFloat (sf_now f)\<rparr>)"

definition fresher :: "int option \<Rightarrow> s3_object \<Rightarrow> bool" where
  "fresher watermark obj = (case watermark of None \<Rightarrow> True | Some t \<Rightarrow> t < so_last_modified obj)"

definition allowed_type :: "s3_env \<Rightarrow> s3_object \<Rightarrow> bool" where
  "allowed_type env obj \<longleftrightarrow> resolve_content_type env obj \<in> set (se_file_types env)"

definition publish_s3_lineage :: "'w conn_api \<Rightarrow> s3_env \<Rightarrow> s3_fresh \<Rightarrow> nat \<Rightarrow> s3_object \<Rightarrow> ('w, unit) prog" where
  "publish_s3_lineage api env f i obj =
     (case ce_meta_topic (se_conn env) of
        None \<Rightarrow> ret ()
      | Some topic \<Rightarrow>
          (let ref = ''s3://'' @ s3_source_id env obj
           in publish_lineage api (se_conn env) topic (sf_meta_id f i)
                (rawdocument_event (se_conn env) ref
                   [(''source_path'', JStr ref), (''content_type'', JStr (resolve_content_type env obj)),
                    (''size_bytes'', JInt (size_of_object obj)), (''etag'', JStr (etag_of obj))]
                   (datasource_key env) (sf_meta_id f i) (sf_meta_time f))))"

text \<open>The body of the loop for one object: the events published and the new watermark so far.\<close>

definition poll_object ::
  "'w conn_api \<Rightarrow> s3_env \<Rightarrow> s3_fresh \<Rightarrow> int option \<Rightarrow> nat \<Rightarrow> s3_object \<Rightarrow> int option
     \<Rightarrow> ('w, raw_event option \<times> int option) prog" where
  "poll_object api env f watermark i obj new_watermark =
     (let source_id = s3_source_id env obj; cid = ce_connector_id (se_conn env);
          event = s3_event env f i obj; event_id = sf_event_id f i
      in if \<not> fresher watermark obj then ret (None, new_watermark)
         else if \<not> allowed_type env obj then
           seqE (write_source_file_status api cid source_id [] ''error''
                   (Some (''content_type '' @ resolve_content_type env obj @ '' not in allowlist'')))
             (ret (None, new_watermark))
         else
           seqE (write_source_file_status api cid source_id event_id ''pending'' None)
             (bindE (publish_with_retry api (se_conn env) (raw_msg (se_conn env) event event_id)) (\<lambda>published.
                if \<not> published then seqE (api (Count_Error ''kafka_timeout'')) (ret (None, new_watermark))
                else
                  seqE (publish_s3_lineage api env f i obj)
                    (ret (Some event,
                       (if (case new_watermark of None \<Rightarrow> True | Some t \<Rightarrow> t < so_last_modified obj)
                        then Some (so_last_modified obj) else new_watermark))))))"

fun poll_objects ::
  "'w conn_api \<Rightarrow> s3_env \<Rightarrow> s3_fresh \<Rightarrow> int option \<Rightarrow> nat \<Rightarrow> s3_object list \<Rightarrow> int option
     \<Rightarrow> ('w, raw_event list \<times> int option) prog" where
  "poll_objects api env f watermark i [] new_watermark = ret ([], new_watermark)"
| "poll_objects api env f watermark i (obj # objs) new_watermark =
     bindE (poll_object api env f watermark i obj new_watermark) (\<lambda>(event, nw).
     bindE (poll_objects api env f watermark (Suc i) objs nw) (\<lambda>(events, nw').
       ret (case event of None \<Rightarrow> (events, nw') | Some e \<Rightarrow> (e # events, nw'))))"

definition want_objects :: "conn_reply \<Rightarrow> ('w, s3_object list \<times> exc option) prog" where
  "want_objects r = (case r of C_Objects os e \<Rightarrow> ret (os, e) | _ \<Rightarrow> raise unexpected)"

definition s3_poll :: "'w conn_api \<Rightarrow> s3_env \<Rightarrow> s3_fresh \<Rightarrow> ('w, raw_event list) prog" where
  "s3_poll api env f =
     bindE (get_watermark api env) (\<lambda>watermark.
     bindE (bindE (api (List_Objects (se_bucket env))) want_objects) (\<lambda>(objects, broken).
     bindE (poll_objects api env f watermark 0 objects watermark) (\<lambda>(events, new_watermark).
       (case broken of
          Some e \<Rightarrow> raise e
        | None \<Rightarrow>
            seqE (case new_watermark of
                    None \<Rightarrow> ret ()
                  | Some t \<Rightarrow> whenE (new_watermark \<noteq> watermark) (set_watermark api env t))
              (ret events)))))"

text \<open>The constructor announces the bucket once when it has a lineage producer.\<close>

definition s3_init :: "'w conn_api \<Rightarrow> s3_env \<Rightarrow> s3_fresh \<Rightarrow> ('w, unit) prog" where
  "s3_init api env f =
     (case ce_meta_topic (se_conn env) of
        None \<Rightarrow> ret ()
      | Some topic \<Rightarrow> publish_lineage api (se_conn env) topic (sf_meta_id f 0)
          (datasource_event (se_conn env) (datasource_key env)
             [(''source_type'', JStr ''s3''), (''endpoint'', JStr (''s3://'' @ se_bucket env @ ''/'')),
              (''connector_id'', JStr (ce_connector_id (se_conn env))),
              (''file_types'', JList (map JStr (se_file_types env)))] (sf_meta_id f 0) (sf_meta_time f)))"

section \<open>What a poll publishes\<close>

definition raise_mark :: "int option \<Rightarrow> int \<Rightarrow> int option" where
  "raise_mark wm t = (case wm of None \<Rightarrow> Some t | Some u \<Rightarrow> Some (max u t))"

lemma poll_object_result:
  assumes "poll_object api env f wm i obj nw w = (Inr (ev, nw'), w')"
  shows "ev = None \<and> nw' = nw
    \<or> ev = Some (s3_event env f i obj) \<and> fresher wm obj \<and> allowed_type env obj \<and> nw' = raise_mark nw (so_last_modified obj)"
proof (cases "fresher wm obj \<and> allowed_type env obj")
  case False
  with assms show ?thesis by (auto simp: poll_object_def Let_def seqE_def bindE_def split: if_splits prod.splits sum.splits)
next
  case True
  have "(case nw of None \<Rightarrow> True | Some t \<Rightarrow> t < so_last_modified obj) = (nw \<noteq> raise_mark nw (so_last_modified obj))"
    and "\<not> (case nw of None \<Rightarrow> True | Some t \<Rightarrow> t < so_last_modified obj) \<Longrightarrow> raise_mark nw (so_last_modified obj) = nw"
    and "(case nw of None \<Rightarrow> True | Some t \<Rightarrow> t < so_last_modified obj) \<Longrightarrow> raise_mark nw (so_last_modified obj) = Some (so_last_modified obj)"
    by (auto simp: raise_mark_def split: option.splits)
  with True assms show ?thesis
    by (auto simp: poll_object_def Let_def seqE_def bindE_def split: if_splits prod.splits sum.splits)
qed

definition mark_le :: "int option \<Rightarrow> int option \<Rightarrow> bool" where
  "mark_le a b \<longleftrightarrow> (case a of None \<Rightarrow> True | Some x \<Rightarrow> (case b of None \<Rightarrow> False | Some y \<Rightarrow> x \<le> y))"

lemma mark_le_refl [simp]: "mark_le a a"
  by (simp add: mark_le_def split: option.split)

lemma mark_le_trans: "mark_le a b \<Longrightarrow> mark_le b c \<Longrightarrow> mark_le a c"
  by (auto simp: mark_le_def split: option.splits)

lemma mark_le_raise [simp]: "mark_le a (raise_mark a t)" "mark_le (Some t) (raise_mark a t)"
  by (simp_all add: mark_le_def raise_mark_def split: option.split)

text \<open>Every event of a poll is that of a listed object that is fresh and allowed, and the new
  watermark is not below the old one nor below any published object.\<close>

lemma poll_objects_result:
  assumes "poll_objects api env f wm i objs nw w = (Inr (evs, nw'), w')"
  shows "mark_le nw nw'
    \<and> (\<forall>ev \<in> set evs. \<exists>k obj. obj \<in> set objs \<and> ev = s3_event env f k obj \<and> fresher wm obj \<and> allowed_type env obj
          \<and> mark_le (Some (so_last_modified obj)) nw')"
  using assms
proof (induction objs arbitrary: i nw w evs nw' w')
  case (Cons obj objs)
  obtain r w1 where o: "poll_object api env f wm i obj nw w = (r, w1)" by fastforce
  with Cons.prems obtain ev nw1 where r: "r = Inr (ev, nw1)" by (cases r) (auto simp: bindE_def)
  obtain r2 w2 where p: "poll_objects api env f wm (Suc i) objs nw1 w1 = (r2, w2)" by fastforce
  with Cons.prems o r obtain evs1 nw2 where r2: "r2 = Inr (evs1, nw2)" by (cases r2) (auto simp: bindE_def)
  have e: "evs = (case ev of None \<Rightarrow> evs1 | Some x \<Rightarrow> x # evs1)" "nw' = nw2"
    using Cons.prems o r p r2 by (auto simp: bindE_def split: option.splits)
  note IH = Cons.IH [OF p [unfolded r2]]
  show ?case
    using poll_object_result [OF o [unfolded r]] IH e
    by (fastforce intro: mark_le_trans [OF mark_le_raise(1)] mark_le_trans [OF mark_le_raise(2)] split: option.splits)
qed simp

section \<open>Properties\<close>

text \<open>What the theorem uses of Redis: the field is read as it was last written, and nothing else
  writes it.\<close>

definition mark_world :: "'w conn_api \<Rightarrow> s3_env \<Rightarrow> ('w \<Rightarrow> string option) \<Rightarrow> bool" where
  "mark_world api env mark \<longleftrightarrow>
     (let key = watermark_key (ce_connector_id (se_conn env)) in
       (\<forall>w r w'. api (Hget key ''last_seen'') w = (Inr r, w') \<longrightarrow> r = C_Text (mark w))
     \<and> (\<forall>v w r w'. api (Hset key ''last_seen'' v) w = (Inr r, w') \<longrightarrow> mark w' = Some v)
     \<and> (\<forall>c w r w'. (\<forall>v. c \<noteq> Hset key ''last_seen'' v) \<longrightarrow> api c w = (r, w') \<longrightarrow> mark w' = mark w))"

definition current_mark :: "s3_env \<Rightarrow> string option \<Rightarrow> int option" where
  "current_mark env raw = (case raw of None \<Rightarrow> None | Some s \<Rightarrow> se_from_iso env s)"

lemma mark_worldD:
  assumes "mark_world api env mark"
  shows "api (Hget (watermark_key (ce_connector_id (se_conn env))) ''last_seen'') w = (Inr r, w') \<Longrightarrow> r = C_Text (mark w)"
    and "api (Hset (watermark_key (ce_connector_id (se_conn env))) ''last_seen'' v) w = (Inr r, w') \<Longrightarrow> mark w' = Some v"
    and "(\<And>k f v. c \<noteq> Hset k f v) \<Longrightarrow> api c w = (r', w') \<Longrightarrow> mark w' = mark w"
  using assms unfolding mark_world_def Let_def by blast+

lemma keeps_mark:
  "mark_world api env mark \<Longrightarrow> (\<And>k f v. c \<noteq> Hset k f v) \<Longrightarrow> keeps (\<lambda>w. mark w = x) (api c)"
  using mark_worldD(3) [of api env mark c] by (intro keepsI) metis

lemma keeps_poll_objects:
  assumes "mark_world api env mark"
  shows "keeps (\<lambda>w. mark w = x) (poll_objects api env f wm i objs nw)"
proof (induction objs arbitrary: i nw)
  case (Cons obj objs)
  note k = keeps_mark [OF assms]
  have st: "keeps (\<lambda>w. mark w = x) (write_source_file_status api a b c d e)" for a b c d e
    unfolding write_source_file_status_def by (intro keeps_intros k) simp_all
  have pb: "keeps (\<lambda>w. mark w = x) (publish_with_retry api e m)" for e m
    unfolding publish_with_retry_def publish_attempt_def by (intro keeps_intros k) simp_all
  have li: "keeps (\<lambda>w. mark w = x) (publish_s3_lineage api env f i obj)"
  proof (cases "ce_meta_topic (se_conn env)")
    case (Some t)
    have "keeps (\<lambda>w. mark w = x) (publish_lineage api e t i v)" for e t i v
      unfolding publish_lineage_def by (intro keeps_intros k) simp_all
    with Some show ?thesis by (simp add: publish_s3_lineage_def Let_def)
  qed (simp add: publish_s3_lineage_def keeps_intros)
  have "keeps (\<lambda>w. mark w = x) (poll_object api env f wm i obj nw)"
    unfolding poll_object_def Let_def by (intro keeps_intros st pb li k) simp
  then show ?case
    using Cons by (auto intro!: keeps_intros)
qed (simp add: keeps_intros)

text \<open>A poll that returns has read the stored watermark, and leaves one that is not below it nor
  below any object it published.\<close>

lemma s3_poll_result:
  assumes m: "mark_world api env mark" and iso: "\<And>t. se_from_iso env (se_iso env t) = Some t"
    and p: "s3_poll api env f w = (Inr evs, w')"
  obtains objs w1 w2 where "api (List_Objects (se_bucket env)) w1 = (Inr (C_Objects objs None), w2)"
    and "mark_le (current_mark env (mark w)) (current_mark env (mark w'))"
    and "\<forall>ev \<in> set evs. \<exists>k obj. obj \<in> set objs \<and> ev = s3_event env f k obj \<and> fresher (current_mark env (mark w)) obj
          \<and> mark_le (Some (so_last_modified obj)) (current_mark env (mark w'))"
proof -
  obtain r0 w0 where g0: "api (Hget (watermark_key (ce_connector_id (se_conn env))) ''last_seen'') w = (r0, w0)" by fastforce
  obtain r1 w1 where g: "get_watermark api env w = (r1, w1)" by fastforce
  from p g obtain wm where r1: "r1 = Inr wm" by (cases r1) (auto simp: s3_poll_def bindE_def)
  have wm: "wm = current_mark env (mark w)" and m1: "mark w1 = mark w"
  proof -
    obtain x where x: "r0 = Inr x" using g g0 r1 by (cases r0) (auto simp: get_watermark_def bindE_def)
    have xt: "x = C_Text (mark w)" "mark w0 = mark w"
      using mark_worldD(1) [OF m g0 [unfolded x]] mark_worldD(3) [OF m _ g0] by simp_all
    then show "wm = current_mark env (mark w)" "mark w1 = mark w"
      using g g0 r1 x by (auto simp: get_watermark_def want_text_def current_mark_def bindE_def split: option.splits)
  qed
  obtain r2 w2 where l: "api (List_Objects (se_bucket env)) w1 = (r2, w2)" by fastforce
  from p g r1 l obtain objs broken where r2: "r2 = Inr (C_Objects objs broken)"
    by (cases r2) (auto simp: s3_poll_def bindE_def want_objects_def split: conn_reply.splits)
  have m2: "mark w2 = mark w" using keepsD [OF keeps_mark [OF m, of "List_Objects (se_bucket env)" "mark w"] m1 l] by simp
  obtain r3 w3 where q: "poll_objects api env f wm 0 objs wm w2 = (r3, w3)" by fastforce
  from p g r1 l r2 q obtain evs1 nw where r3: "r3 = Inr (evs1, nw)"
    by (cases r3) (auto simp: s3_poll_def bindE_def want_objects_def)
  have m3: "mark w3 = mark w" using keepsD [OF keeps_poll_objects [OF m, of "mark w"] m2 q] .
  note pr = poll_objects_result [OF q [unfolded r3]]
  have b: "broken = None" and e: "evs1 = evs" and cm: "current_mark env (mark w') = nw"
  proof -
    show b: "broken = None"
      using p g r1 l r2 q r3 by (auto simp: s3_poll_def bindE_def want_objects_def split: option.splits)
    let ?set = "case nw of None \<Rightarrow> ret () | Some t \<Rightarrow> whenE (nw \<noteq> wm) (set_watermark api env t)"
    have fin: "seqE ?set (ret evs1) w3 = (Inr evs, w')"
      using p g r1 l r2 q r3 b by (simp add: s3_poll_def bindE_def want_objects_def)
    obtain r4 w4 where s: "?set w3 = (r4, w4)" by fastforce
    with fin have r4: "r4 = Inr ()" and "evs1 = evs" "w' = w4" by (cases r4; auto simp: seqE_def bindE_def)+
    then show "evs1 = evs" by simp
    show "current_mark env (mark w') = nw"
    proof (cases "nw = None \<or> nw = wm")
      case True
      then have "w4 = w3" using s by (auto simp: whenE_def split: option.splits)
      moreover have "nw = wm" using True pr by (cases wm) (auto simp: mark_le_def)
      ultimately show ?thesis using \<open>w' = w4\<close> m3 wm by simp
    next
      case False
      then obtain t where t: "nw = Some t" "nw \<noteq> wm" by auto
      with s r4 have "set_watermark api env t w3 = (Inr (), w4)" by (simp add: whenE_def)
      from do_cmd_ok [OF this [unfolded set_watermark_def]]
      have "mark w4 = Some (se_iso env t)" using mark_worldD(2) [OF m] by blast
      then show ?thesis using \<open>w' = w4\<close> iso t by (simp add: current_mark_def)
    qed
  qed
  show thesis using that [of w1 objs w2] l r2 b e pr wm cm by fastforce
qed


text \<open>A world for the example: two objects, of which the older one cannot be published.\<close>

definition old_object :: s3_object where
  "old_object = \<lparr>so_name = ''a.txt'', so_last_modified = 1, so_etag = None, so_size = None\<rparr>"

definition new_object :: s3_object where
  "new_object = \<lparr>so_name = ''b.txt'', so_last_modified = 2, so_etag = None, so_size = None\<rparr>"

fun two_api :: "string option conn_api" where
  "two_api (List_Objects b) w = (Inr (C_Objects [old_object, new_object] None), w)"
| "two_api (Hget k f) w = (Inr (C_Text w), w)"
| "two_api (Hset k f v) w = (Inr C_Done, if k = watermark_key ''c1'' \<and> f = ''last_seen'' then Some v else w)"
| "two_api (Kafka_Produce m) w = (if km_key m = ''0'' then (Inl (Exc ''BufferError'' ''''), w) else (Inr C_Done, w))"
| "two_api c w = (Inr C_Done, w)"

definition two_env :: s3_env where
  "two_env = \<lparr>se_conn = sample_conn_env, se_bucket = ''docs'', se_file_types = [''text/plain''],
     se_iso = show_int, se_from_iso = py_int\<rparr>"

definition two_fresh :: s3_fresh where
  "two_fresh = \<lparr>sf_event_id = \<lambda>i. if i = 0 then ''0'' else ''1'', sf_now = 1, sf_meta_id = show_nat, sf_meta_time = ''t''\<rparr>"

lemma two_mark_world: "mark_world two_api two_env (\<lambda>w. w)"
proof -
  have "w' = w" if "\<forall>v. c \<noteq> Hset (watermark_key ''c1'') ''last_seen'' v" "two_api c w = (r, w')" for c w r w'
    using that by (cases c) (auto split: if_splits)
  then show ?thesis by (simp add: mark_world_def two_env_def sample_conn_env_def Let_def)
qed

lemma two_poll:
  "s3_poll two_api two_env two_fresh None = (Inr [s3_event two_env two_fresh 1 new_object], Some (show_int 2))"
proof -
  have five: "max_retries = Suc (Suc (Suc (Suc (Suc 0))))" by (simp add: max_retries_def)
  show ?thesis
    by (simp add: s3_poll_def get_watermark_def want_text_def want_objects_def poll_object_def fresher_def allowed_type_def
        resolve_content_type_def two_env_def two_fresh_def sample_conn_env_def write_source_file_status_def
        publish_with_retry_def publish_attempt_def raw_msg_def five publish_s3_lineage_def set_watermark_def
        new_object_def old_object_def prog_defs Let_def)
qed

lemma two_poll_again:
  "s3_poll two_api two_env two_fresh (Some (show_int 2)) = (Inr [], Some (show_int 2))"
  by (simp add: s3_poll_def get_watermark_def want_text_def want_objects_def poll_object_def fresher_def
      two_env_def sample_conn_env_def new_object_def old_object_def prog_defs Let_def)


end
