(* ===== verification/Nfs_Connector.thy ===== *)
theory Nfs_Connector
  imports Connectors
begin

text \<open>
  \<open>services/connector-nfs/src/connector.py\<close> and the extension test of its \<open>config.py\<close>: a poll takes
  the paths the file-system watcher has queued or, without a live watcher, the files of the mount
  that are not in the set of known files, publishes each, and records the published ones as known.
  The queue is the state of the service.
\<close>

record nfs_env =
  ne_conn :: conn_env
  ne_mount_path :: string
  ne_extensions :: "string list"
  ne_relpath :: "string \<Rightarrow> string option"

record nfs_fresh =
  nf_event_id :: "string \<Rightarrow> string"
  nf_now :: rat
  nf_meta_id :: "string \<Rightarrow> string"
  nf_meta_time :: string

type_synonym 'w nfs = "string list \<times> 'w"

section \<open>Allowed files\<close>

text \<open>The suffix of \<open>os.path.splitext\<close>: from the last dot of the last component, unless only dots
  come before it.\<close>

definition split_ext :: "string \<Rightarrow> string" where
  "split_ext path =
     (let base = rev (takeWhile (\<lambda>c. c \<noteq> CHR ''/'') (rev path));
          tail = rev (takeWhile (\<lambda>c. c \<noteq> CHR ''.'') (rev base))
      in if CHR ''.'' \<notin> set base then []
         else if list_all (\<lambda>c. c = CHR ''.'') (take (length base - length tail - 1) base) then []
         else CHR ''.'' # tail)"

definition allowed_extensions :: "string \<Rightarrow> string list" where
  "allowed_extensions raw =
     map (\<lambda>ext. lower (strip ext)) (filter (\<lambda>ext. strip ext \<noteq> []) (split_on (CHR '','') raw))"

definition is_allowed_extension :: "nfs_env \<Rightarrow> string \<Rightarrow> bool" where
  "is_allowed_extension env path \<longleftrightarrow> lower (split_ext path) \<in> set (ne_extensions env)"

text \<open>The watcher's callbacks for a created or modified file.\<close>

definition on_file_event :: "nfs_env \<Rightarrow> bool \<Rightarrow> string \<Rightarrow> string list \<Rightarrow> string list" where
  "on_file_event env is_directory src_path queue =
     (if is_directory then queue
      else if is_allowed_extension env src_path then queue @ [src_path] else queue)"

section \<open>Finding the paths\<close>

definition known_files_key :: "string \<Rightarrow> string" where
  "known_files_key connector_id = ''connector:'' @ connector_id @ '':known_files''"

definition drain_queue :: "('w nfs, string list) prog" where
  "drain_queue qw = (Inr (remdups (fst qw)), ([], snd qw))"

text \<open>\<open>os.walk\<close> with the joined paths, less the known ones.\<close>

definition tree_diff :: "'w conn_api \<Rightarrow> nfs_env \<Rightarrow> ('w, string list) prog" where
  "tree_diff api env =
     bindE (bindE (api (Smembers (known_files_key (ce_connector_id (ne_conn env))))) want_paths) (\<lambda>known.
     bindE (bindE (api (Walk (ne_mount_path env))) want_paths) (\<lambda>files.
       ret (remdups (filter (\<lambda>p. is_allowed_extension env p \<and> p \<notin> set known) files))))"

definition nfs_source_id :: "nfs_env \<Rightarrow> string \<Rightarrow> string" where
  "nfs_source_id env path = ''nfs://'' @ (case ne_relpath env path of None \<Rightarrow> path | Some rel \<Rightarrow> rel)"

definition make_event :: "'w conn_api \<Rightarrow> nfs_env \<Rightarrow> nfs_fresh \<Rightarrow> string \<Rightarrow> ('w, raw_event option) prog" where
  "make_event api env f path =
     bindE (bindE (api (Is_File path)) want_bool) (\<lambda>is_file.
       if \<not> is_file then ret None
       else if \<not> is_allowed_extension env path then ret None
       else
         (let ct = (case ce_guess (ne_conn env) path of None \<Rightarrow> [] | Some t \<Rightarrow> t);
              content_type = (if ct = [] then ''application/octet-stream'' else ct)
          in ret (Some \<lparr>rv_source_type = JStr ''nfs'', rv_source_id = JStr (nfs_source_id env path),
               rv_content_ref = JStr path, rv_content_type = JStr content_type,
               rv_tenant_id = JStr (ce_tenant_id (ne_conn env)),
               rv_metadata = JObj [(''path'', JStr path), (''mount_path'', JStr (ne_mount_path env))],
               rv_event_id = JStr (nf_event_id f path), rv_ingested_at = JFloat (nf_now f)\<rparr>)))"

definition nfs_datasource_key :: "nfs_env \<Rightarrow> string" where
  "nfs_datasource_key env = ce_tenant_id (ne_conn env) @ ''/nfs/'' @ ne_mount_path env"

section \<open>Poll\<close>

definition size_or_zero :: "'w conn_api \<Rightarrow> string \<Rightarrow> ('w, int) prog" where
  "size_or_zero api path =
     catchE (bindE (bindE (api (Is_File path)) want_bool) (\<lambda>is_file.
               if is_file then bindE (api (Get_Size path)) want_size else ret 0))
       (\<lambda>e. if exc_class e \<in> {''OSError'', ''FileNotFoundError'', ''PermissionError'', ''NotADirectoryError''}
            then ret 0 else raise e)"

definition publish_nfs_lineage :: "'w conn_api \<Rightarrow> nfs_env \<Rightarrow> nfs_fresh \<Rightarrow> string \<Rightarrow> raw_event \<Rightarrow> ('w, unit) prog" where
  "publish_nfs_lineage api env f path ev =
     (case ce_meta_topic (ne_conn env) of
        None \<Rightarrow> ret ()
      | Some topic \<Rightarrow>
          bindE (size_or_zero api path) (\<lambda>size_bytes.
            publish_lineage api (ne_conn env) topic (nf_meta_id f path)
              (rawdocument_event (ne_conn env) path
                 [(''source_path'', JStr path), (''content_type'', rv_content_type ev), (''size_bytes'', JInt size_bytes)]
                 (nfs_datasource_key env) (nf_meta_id f path) (nf_meta_time f))))"

definition poll_path :: "'w conn_api \<Rightarrow> nfs_env \<Rightarrow> nfs_fresh \<Rightarrow> string \<Rightarrow> ('w, raw_event option) prog" where
  "poll_path api env f path =
     bindE (make_event api env f path) (\<lambda>event. case event of
       None \<Rightarrow> ret None
     | Some ev \<Rightarrow>
         seqE (write_source_file_status api (ce_connector_id (ne_conn env)) path (nf_event_id f path) ''pending'' None)
           (bindE (publish_with_retry api (ne_conn env) (raw_msg (ne_conn env) ev (nf_event_id f path))) (\<lambda>published.
              if \<not> published then seqE (api (Count_Error ''kafka_timeout'')) (ret None)
              else
                seqE (api (Sadd (known_files_key (ce_connector_id (ne_conn env))) path))
                  (seqE (publish_nfs_lineage api env f path ev) (ret (Some ev))))))"

fun poll_paths :: "'w conn_api \<Rightarrow> nfs_env \<Rightarrow> nfs_fresh \<Rightarrow> string list \<Rightarrow> ('w, raw_event list) prog" where
  "poll_paths api env f [] = ret []"
| "poll_paths api env f (p # ps) =
     bindE (poll_path api env f p) (\<lambda>event.
     bindE (poll_paths api env f ps) (\<lambda>events.
       ret (case event of None \<Rightarrow> events | Some e \<Rightarrow> e # events)))"

definition nfs_poll :: "'w conn_api \<Rightarrow> nfs_env \<Rightarrow> nfs_fresh \<Rightarrow> ('w nfs, raw_event list) prog" where
  "nfs_poll api env f =
     bindE (with_state (bindE (api Observer_Alive) want_bool)) (\<lambda>alive.
     bindE (if alive then drain_queue else with_state (tree_diff api env)) (\<lambda>paths.
       with_state (poll_paths api env f (sort paths))))"

definition nfs_init :: "'w conn_api \<Rightarrow> nfs_env \<Rightarrow> nfs_fresh \<Rightarrow> ('w, unit) prog" where
  "nfs_init api env f =
     (case ce_meta_topic (ne_conn env) of
        None \<Rightarrow> ret ()
      | Some topic \<Rightarrow> publish_lineage api (ne_conn env) topic (nf_meta_id f [])
          (datasource_event (ne_conn env) (nfs_datasource_key env)
             [(''source_type'', JStr ''nfs''), (''endpoint'', JStr (ne_mount_path env)),
              (''connector_id'', JStr (ce_connector_id (ne_conn env)))] (nf_meta_id f []) (nf_meta_time f)))"

section \<open>Properties\<close>

text \<open>
  With a live watcher a failed file is forgotten. Whatever a poll could publish, it empties the
  queue: the next poll, when no file has been written meanwhile, touches nothing and publishes
  nothing, so a file whose publication failed is not retried (the log says it is not marked as
  known, but the set of known files is not consulted while the watcher lives); neither are the
  files that were in the mount before the watcher started.
\<close>

theorem watch_mode_forgets_failed_files:
  assumes "\<And>w. api Observer_Alive w = (Inr (C_Bool True), w)"
    and "nfs_poll api env f (q, w) = (Inr evs, (q', w'))"
  shows "q' = [] \<and> nfs_poll api env f2 (q', w2) = (Inr [], ([], w2))"
  using assms by (auto simp: nfs_poll_def want_bool_def drain_queue_def with_state_def prog_defs split: prod.splits sum.splits)

fun nfs_down_api :: "nat conn_api" where
  "nfs_down_api Observer_Alive w = (Inr (C_Bool True), w)"
| "nfs_down_api (Is_File p) w = (Inr (C_Bool True), w)"
| "nfs_down_api (Kafka_Produce m) w = (Inl (Exc ''BufferError'' ''''), w)"
| "nfs_down_api c w = (Inr C_Done, w)"

definition sample_nfs_env :: nfs_env where
  "sample_nfs_env = \<lparr>ne_conn = sample_conn_env, ne_mount_path = ''/mnt'', ne_extensions = ['''', ''.txt''],
     ne_relpath = \<lambda>p. Some (drop 5 p)\<rparr>"

definition sample_nfs_fresh :: nfs_fresh where
  "sample_nfs_fresh = \<lparr>nf_event_id = \<lambda>p. p, nf_now = 1, nf_meta_id = \<lambda>p. p, nf_meta_time = ''t''\<rparr>"

theorem watch_mode_forgets_failed_files_witness:
  "nfs_poll nfs_down_api sample_nfs_env sample_nfs_fresh ([''a''], 0) = (Inr [], ([], 0))
    \<and> nfs_poll nfs_down_api sample_nfs_env sample_nfs_fresh ([], 0) = (Inr [], ([], 0))"
proof -
  have five: "max_retries = Suc (Suc (Suc (Suc (Suc 0))))" by (simp add: max_retries_def)
  have p: "nfs_poll nfs_down_api sample_nfs_env sample_nfs_fresh ([''a''], 0) = (Inr [], ([], 0))"
    by (simp add: nfs_poll_def want_bool_def drain_queue_def with_state_def poll_path_def make_event_def
        is_allowed_extension_def split_ext_def lower_def write_source_file_status_def publish_with_retry_def
        publish_attempt_def five sample_nfs_env_def prog_defs Let_def)
  show ?thesis using p watch_mode_forgets_failed_files [OF _ p, of sample_nfs_fresh 0] by simp
qed

text \<open>
  An NFS file never leaves the state pending. The connector keeps the status row under the
  path of the file, while the event it publishes carries \<open>nfs://\<close> and the relative path as its
  source id, by which the document processor and the embedding worker update the table: once the
  row of a file with an absolute path is written, neither the failure nor the completion of its
  processing reaches it.
\<close>

theorem nfs_status_stays_pending:
  assumes "make_event api env f path w = (Inr (Some ev), w')" and "hd path = CHR ''/''" and "rv_source_id ev = JStr sid"
    and "tbl = sql_status_upsert now cid path eid ''pending'' None tbl0"
  shows "map_option st_ingest_status (sql_set_indexed now2 sid ''indexed'' n (sql_set_status sid ''error'' tbl) (cid, path))
    = Some ''pending''"
proof -
  have "sid = nfs_source_id env path"
    using assms(1,3) by (auto simp: make_event_def bindE_def Let_def split: prod.splits sum.splits if_splits)
  moreover have "hd (nfs_source_id env path) = CHR ''n''" by (simp add: nfs_source_id_def)
  ultimately have "path \<noteq> sid" using assms(2) by auto
  then show ?thesis using assms(4) by (simp add: sql_set_indexed_def sql_set_status_def sql_status_upsert_def)
qed

theorem nfs_status_stays_pending_witness:
  "map_option st_ingest_status (sql_set_indexed 2 ''nfs://a'' ''indexed'' 3 (sql_set_status ''nfs://a'' ''error''
      (sql_status_upsert 1 ''c1'' ''/mnt/a'' ''e1'' ''pending'' None Map.empty)) (''c1'', ''/mnt/a'')) = Some ''pending''"
proof -
  obtain ev where "make_event nfs_down_api sample_nfs_env sample_nfs_fresh ''/mnt/a'' 0 = (Inr (Some ev), 0)"
    and "rv_source_id ev = JStr ''nfs://a''"
    by (simp add: make_event_def want_bool_def is_allowed_extension_def split_ext_def lower_def nfs_source_id_def
        sample_nfs_env_def prog_defs Let_def numeral_eq_Suc)
  then show ?thesis by (intro nfs_status_stays_pending) simp_all
qed

end
