(* ===== verification/Kube_Client.thy ===== *)
theory Kube_Client
  imports Events
begin

text \<open>
  \<open>services/pipeline-operator/operator/k8s_client.py\<close> and \<open>k8s_real_client.py\<close>: the operations the
  operator's handlers call, as a record with one field per method. The base class, whose methods
  do nothing, is one such record; the in-cluster client is the base record updated at the methods
  the subclass overrides. The Kubernetes API server is reached through the commands below; the
  manifests are the JSON values the code builds.
\<close>

section \<open>The client's interface and the base class\<close>

record 'w k8s_client =
  apply_kafka_topic :: "string \<Rightarrow> string \<Rightarrow> int \<Rightarrow> ('w, unit) prog"
  apply_kafka_user :: "string \<Rightarrow> string \<Rightarrow> string \<Rightarrow> string list \<Rightarrow> ('w, unit) prog"
  apply_deployment :: "string \<Rightarrow> string \<Rightarrow> ('w, unit) prog"
  apply_cronjob :: "string \<Rightarrow> string \<Rightarrow> string \<Rightarrow> ('w, unit) prog"
  apply_role :: "json \<Rightarrow> ('w, unit) prog"
  apply_role_binding :: "json \<Rightarrow> ('w, unit) prog"
  delete_role :: "string \<Rightarrow> string \<Rightarrow> ('w, unit) prog"
  delete_role_binding :: "string \<Rightarrow> string \<Rightarrow> ('w, unit) prog"
  delete_deployment :: "string \<Rightarrow> string \<Rightarrow> ('w, unit) prog"
  delete_cronjob :: "string \<Rightarrow> string \<Rightarrow> ('w, unit) prog"
  delete_kafka_user :: "string \<Rightarrow> string \<Rightarrow> ('w, unit) prog"
  patch_configmap :: "string \<Rightarrow> string \<Rightarrow> (string \<times> json) list \<Rightarrow> ('w, unit) prog"
  rollout_restart :: "string \<Rightarrow> string \<Rightarrow> string \<Rightarrow> ('w, unit) prog"
  suspend_cronjob :: "string \<Rightarrow> string \<Rightarrow> ('w, unit) prog"
  resume_cronjob :: "string \<Rightarrow> string \<Rightarrow> ('w, unit) prog"
  list_cronjobs :: "string \<Rightarrow> string \<Rightarrow> ('w, string list) prog"
  get_kafka_consumer_lag :: "string \<Rightarrow> string \<Rightarrow> string \<Rightarrow> ('w, int) prog"
  wait_deployment_ready :: "string \<Rightarrow> string \<Rightarrow> ('w, unit) prog"
  http_get :: "string \<Rightarrow> ('w, int) prog"

definition base_client :: "'w k8s_client" where
  "base_client =
     \<lparr>apply_kafka_topic = \<lambda>_ _ _. ret (), apply_kafka_user = \<lambda>_ _ _ _. ret (),
      apply_deployment = \<lambda>_ _. ret (), apply_cronjob = \<lambda>_ _ _. ret (),
      apply_role = \<lambda>_. ret (), apply_role_binding = \<lambda>_. ret (),
      delete_role = \<lambda>_ _. ret (), delete_role_binding = \<lambda>_ _. ret (),
      delete_deployment = \<lambda>_ _. ret (), delete_cronjob = \<lambda>_ _. ret (), delete_kafka_user = \<lambda>_ _. ret (),
      patch_configmap = \<lambda>_ _ _. ret (), rollout_restart = \<lambda>_ _ _. ret (),
      suspend_cronjob = \<lambda>_ _. ret (), resume_cronjob = \<lambda>_ _. ret (),
      list_cronjobs = \<lambda>_ _. ret [], get_kafka_consumer_lag = \<lambda>_ _ _. ret 0,
      wait_deployment_ready = \<lambda>_ _. ret (), http_get = \<lambda>_. ret 200\<rparr>"

section \<open>The API server\<close>

datatype kube_kind =
    Custom_Kind string string string
  | Deployment_Kind
  | Cronjob_Kind
  | Role_Kind
  | Role_Binding_Kind
  | Configmap_Kind

text \<open>Create in a namespace; patch and delete by name and namespace; the clock.\<close>

datatype kube_cmd =
    Create_Obj kube_kind string json
  | Patch_Obj kube_kind string string json
  | Delete_Obj kube_kind string string
  | Utcnow

text \<open>An \<open>ApiException\<close> carries the HTTP status; any other failure of a call is an exception.\<close>

datatype kube_reply = Api_Ok | Api_Exception int | Now string

type_synonym 'w kube_api = "(kube_cmd, exc, kube_reply, 'w) api"

definition api_exception :: "int \<Rightarrow> exc" where
  "api_exception status = Exc ''ApiException'' (show_int status)"

text \<open>A call outside a \<open>try\<close>, and one whose \<open>ApiException\<close> of one status is swallowed.\<close>

definition checked :: "'w kube_api \<Rightarrow> kube_cmd \<Rightarrow> ('w, unit) prog" where
  "checked api c = bindE (api c) (\<lambda>r. case r of Api_Exception s \<Rightarrow> raise (api_exception s) | _ \<Rightarrow> ret ())"

definition unless_missing :: "'w kube_api \<Rightarrow> kube_cmd \<Rightarrow> ('w, unit) prog" where
  "unless_missing api c =
     bindE (api c) (\<lambda>r. case r of Api_Exception s \<Rightarrow> if s \<noteq> 404 then raise (api_exception s) else ret () | _ \<Rightarrow> ret ())"

text \<open>Create, and patch when the object exists (status 409).\<close>

definition create_or_patch :: "'w kube_api \<Rightarrow> kube_kind \<Rightarrow> string \<Rightarrow> string \<Rightarrow> json \<Rightarrow> ('w, unit) prog" where
  "create_or_patch api kind name ns body =
     bindE (api (Create_Obj kind ns body))
       (\<lambda>r. case r of
              Api_Exception s \<Rightarrow> if s = 409 then checked api (Patch_Obj kind name ns body) else raise (api_exception s)
            | _ \<Rightarrow> ret ())"

section \<open>Manifests\<close>

definition kafka_cluster :: string where "kafka_cluster = ''ai-pipeline-kafka''"
definition kafka_api_version :: string where "kafka_api_version = ''v1''"
definition field_manager :: string where "field_manager = ''pipeline-operator''"

definition obj_meta :: "string \<Rightarrow> string \<Rightarrow> (string \<times> json) list \<Rightarrow> json" where
  "obj_meta name ns labels =
     JObj [(''name'', JStr name), (''namespace'', JStr ns), (''labels'', JObj labels)]"

definition kafka_topic_body :: "string \<Rightarrow> string \<Rightarrow> int \<Rightarrow> json" where
  "kafka_topic_body name ns partitions =
     JObj [(''apiVersion'', JStr (''kafka.strimzi.io/'' @ kafka_api_version)), (''kind'', JStr ''KafkaTopic''),
       (''metadata'', obj_meta name ns [(''strimzi.io/cluster'', JStr kafka_cluster)]),
       (''spec'', JObj [(''partitions'', JInt partitions), (''replicas'', JInt 1)])]"

definition kafka_user_body :: "string \<Rightarrow> string \<Rightarrow> string \<Rightarrow> string list \<Rightarrow> json" where
  "kafka_user_body name ns topic operations =
     JObj [(''apiVersion'', JStr (''kafka.strimzi.io/'' @ kafka_api_version)), (''kind'', JStr ''KafkaUser''),
       (''metadata'', obj_meta name ns [(''strimzi.io/cluster'', JStr kafka_cluster)]),
       (''spec'', JObj [
          (''authentication'', JObj [(''type'', JStr ''tls'')]),
          (''authorization'', JObj [(''type'', JStr ''simple''),
             (''acls'', JList [JObj [
                (''resource'', JObj [(''type'', JStr ''topic''), (''name'', JStr topic), (''patternType'', JStr ''literal'')]),
                (''operations'', JList (map JStr operations))]])])])]"

definition pod_security :: json where
  "pod_security =
     JObj [(''runAsNonRoot'', JBool True), (''runAsUser'', JInt 65534), (''runAsGroup'', JInt 65534),
       (''seccompProfile'', JObj [(''type'', JStr ''RuntimeDefault'')])]"

definition container_body :: "string \<Rightarrow> string \<Rightarrow> string \<Rightarrow> json" where
  "container_body name cpu_limit memory_limit =
     JObj [(''name'', JStr name), (''image'', JStr ''registry.k8s.io/pause:3.9''),
       (''securityContext'', JObj [(''allowPrivilegeEscalation'', JBool False),
          (''readOnlyRootFilesystem'', JBool True), (''capabilities'', JObj [(''drop'', JList [JStr ''ALL''])])]),
       (''resources'', JObj [
          (''requests'', JObj [(''cpu'', JStr ''10m''), (''memory'', JStr ''16Mi'')]),
          (''limits'', JObj [(''cpu'', JStr cpu_limit), (''memory'', JStr memory_limit)])])]"

definition deployment_body :: "string \<Rightarrow> string \<Rightarrow> json" where
  "deployment_body name ns =
     JObj [(''apiVersion'', JStr ''apps/v1''), (''kind'', JStr ''Deployment''),
       (''metadata'', obj_meta name ns [(''app'', JStr name), (''managed-by'', JStr field_manager)]),
       (''spec'', JObj [(''replicas'', JInt 1),
          (''selector'', JObj [(''matchLabels'', JObj [(''app'', JStr name)])]),
          (''template'', JObj [
             (''metadata'', JObj [(''labels'', JObj [(''app'', JStr name)])]),
             (''spec'', JObj [(''automountServiceAccountToken'', JBool False), (''securityContext'', pod_security),
                (''containers'', JList [container_body ''connector'' ''100m'' ''64Mi''])])])])]"

definition cronjob_body :: "string \<Rightarrow> string \<Rightarrow> string \<Rightarrow> json" where
  "cronjob_body name ns schedule =
     JObj [(''apiVersion'', JStr ''batch/v1''), (''kind'', JStr ''CronJob''),
       (''metadata'', obj_meta name ns [(''app'', JStr name), (''managed-by'', JStr field_manager)]),
       (''spec'', JObj [(''schedule'', JStr schedule),
          (''jobTemplate'', JObj [(''spec'', JObj [(''template'', JObj [(''spec'', JObj [
             (''automountServiceAccountToken'', JBool False), (''securityContext'', pod_security),
             (''restartPolicy'', JStr ''OnFailure''),
             (''containers'', JList [container_body ''watcher'' ''50m'' ''32Mi''])])])])])])]"

definition restart_patch :: "string \<Rightarrow> json" where
  "restart_patch ts =
     JObj [(''spec'', JObj [(''template'', JObj [(''metadata'', JObj [(''annotations'',
       JObj [(''kubectl.kubernetes.io/restartedAt'', JStr ts)])])])])]"

section \<open>The in-cluster client\<close>

definition topic_kind :: kube_kind where
  "topic_kind = Custom_Kind ''kafka.strimzi.io'' kafka_api_version ''kafkatopics''"

definition user_kind :: kube_kind where
  "user_kind = Custom_Kind ''kafka.strimzi.io'' kafka_api_version ''kafkausers''"

text \<open>The name and namespace a manifest carries: \<open>body["metadata"]["name"]\<close>.\<close>

definition meta_field :: "string \<Rightarrow> json \<Rightarrow> exc + string" where
  "meta_field k body =
     (case body of
        JObj d \<Rightarrow> (case obj_get d ''metadata'' JNull of
            JObj md \<Rightarrow> (case obj_get md k JNull of JStr s \<Rightarrow> Inr s | _ \<Rightarrow> Inl (Exc ''KeyError'' k))
          | _ \<Rightarrow> Inl (Exc ''KeyError'' ''metadata''))
      | _ \<Rightarrow> Inl (Exc ''TypeError'' ''''))"

definition apply_custom :: "'w kube_api \<Rightarrow> kube_kind \<Rightarrow> string \<Rightarrow> json \<Rightarrow> ('w, unit) prog" where
  "apply_custom api kind ns body =
     bindE (lift_res (meta_field ''name'' body)) (\<lambda>name. create_or_patch api kind name ns body)"

definition apply_manifest :: "'w kube_api \<Rightarrow> kube_kind \<Rightarrow> json \<Rightarrow> ('w, unit) prog" where
  "apply_manifest api kind body =
     bindE (lift_res (meta_field ''name'' body)) (\<lambda>name.
       bindE (lift_res (meta_field ''namespace'' body)) (\<lambda>ns. create_or_patch api kind name ns body))"

definition real_rollout_restart :: "'w kube_api \<Rightarrow> string \<Rightarrow> string \<Rightarrow> string \<Rightarrow> ('w, unit) prog" where
  "real_rollout_restart api kind name ns =
     bindE (api Utcnow) (\<lambda>r.
       unless_missing api (Patch_Obj Deployment_Kind name ns
         (restart_patch ((case r of Now t \<Rightarrow> t | _ \<Rightarrow> []) @ ''Z''))))"

definition real_client :: "'w kube_api \<Rightarrow> 'w k8s_client" where
  "real_client api = base_client
     \<lparr>apply_kafka_topic := \<lambda>name ns partitions. apply_custom api topic_kind ns (kafka_topic_body name ns partitions),
      apply_kafka_user := \<lambda>name ns topic operations. apply_custom api user_kind ns (kafka_user_body name ns topic operations),
      apply_deployment := \<lambda>name ns. create_or_patch api Deployment_Kind name ns (deployment_body name ns),
      apply_cronjob := \<lambda>name ns schedule. create_or_patch api Cronjob_Kind name ns (cronjob_body name ns schedule),
      apply_role := apply_manifest api Role_Kind,
      apply_role_binding := apply_manifest api Role_Binding_Kind,
      delete_role := \<lambda>name ns. unless_missing api (Delete_Obj Role_Kind name ns),
      delete_role_binding := \<lambda>name ns. unless_missing api (Delete_Obj Role_Binding_Kind name ns),
      delete_deployment := \<lambda>name ns. unless_missing api (Delete_Obj Deployment_Kind name ns),
      delete_cronjob := \<lambda>name ns. unless_missing api (Delete_Obj Cronjob_Kind name ns),
      delete_kafka_user := \<lambda>name ns. unless_missing api (Delete_Obj user_kind name ns),
      patch_configmap := \<lambda>name ns dat. unless_missing api (Patch_Obj Configmap_Kind name ns (JObj [(''data'', JObj dat)])),
      rollout_restart := real_rollout_restart api\<rparr>"

section \<open>The contract of the API server\<close>

text \<open>
  An object is named by kind, namespace and name. A create that is accepted adds the object, a
  patch needs it and keeps it, a delete that is accepted removes it and a 404 means it was not
  there; a request answered with an error status changes nothing.
\<close>

type_synonym kube_key = "kube_kind \<times> string \<times> string"

definition kube_world :: "'w kube_api \<Rightarrow> ('w \<Rightarrow> kube_key set) \<Rightarrow> bool" where
  "kube_world api present \<longleftrightarrow>
     (\<forall>kind ns body name w r w'. meta_field ''name'' body = Inr name \<longrightarrow> api (Create_Obj kind ns body) w = (Inr r, w') \<longrightarrow>
        present w' = (case r of Api_Exception _ \<Rightarrow> present w | _ \<Rightarrow> insert (kind, ns, name) (present w))
      \<and> (r = Api_Exception 409 \<longrightarrow> (kind, ns, name) \<in> present w))
   \<and> (\<forall>kind ns body name w r w'. api (Patch_Obj kind name ns body) w = (Inr r, w') \<longrightarrow>
        present w' = present w
      \<and> ((\<forall>s. r \<noteq> Api_Exception s) \<longrightarrow> (kind, ns, name) \<in> present w))
   \<and> (\<forall>kind ns name w r w'. api (Delete_Obj kind name ns) w = (Inr r, w') \<longrightarrow>
        present w' = (case r of Api_Exception _ \<Rightarrow> present w | _ \<Rightarrow> present w - {(kind, ns, name)})
      \<and> (r = Api_Exception 404 \<longrightarrow> (kind, ns, name) \<notin> present w))
   \<and> (\<forall>w r w'. api Utcnow w = (Inr r, w') \<longrightarrow> present w' = present w)"

text \<open>\<open>changes v f p\<close>: when \<open>p\<close> returns, it has changed the view \<open>v\<close> by \<open>f\<close>.\<close>

definition changes :: "('w \<Rightarrow> 'v) \<Rightarrow> ('v \<Rightarrow> 'v) \<Rightarrow> ('w, 'a) prog \<Rightarrow> bool" where
  "changes v f p \<longleftrightarrow> (\<forall>w x w'. p w = (Inr x, w') \<longrightarrow> v w' = f (v w))"

lemma changesD: "changes v f p \<Longrightarrow> p w = (Inr x, w') \<Longrightarrow> v w' = f (v w)"
  by (simp add: changes_def)

lemma changes_bindE: "changes v f p \<Longrightarrow> (\<And>x. changes v g (q x)) \<Longrightarrow> changes v (g \<circ> f) (bindE p q)"
  by (auto simp: changes_def bindE_def split: prod.splits sum.splits)

lemma changes_seqE: "changes v f p \<Longrightarrow> changes v g q \<Longrightarrow> changes v (g \<circ> f) (seqE p q)"
  unfolding seqE_def by (rule changes_bindE)

lemma changes_lift_bind: "(\<And>x. r = Inr x \<Longrightarrow> changes v g (q x)) \<Longrightarrow> changes v g (bindE (lift_res r) q)"
  by (auto simp: changes_def bindE_def split: sum.splits)

lemma changes_eq: "changes v f p \<Longrightarrow> f = g \<Longrightarrow> changes v g p"
  by simp

lemma create_or_patch_changes:
  assumes "kube_world api present" and "meta_field ''name'' body = Inr name"
  shows "changes present (insert (kind, ns, name)) (create_or_patch api kind name ns body)"
  unfolding changes_def
proof (intro allI impI)
  fix w x w' assume run: "create_or_patch api kind name ns body w = (Inr x, w')"
  note W = assms(1) [unfolded kube_world_def]
  obtain r w1 where c: "api (Create_Obj kind ns body) w = (Inr r, w1)"
    using run by (auto simp: create_or_patch_def bindE_def split: prod.splits sum.splits)
  have cw: "present w1 = (case r of Api_Exception _ \<Rightarrow> present w | _ \<Rightarrow> insert (kind, ns, name) (present w))
      \<and> (r = Api_Exception 409 \<longrightarrow> (kind, ns, name) \<in> present w)"
    by (rule W [THEN conjunct1, rule_format, OF assms(2) c])
  show "present w' = insert (kind, ns, name) (present w)"
  proof (cases "r = Api_Exception 409")
    case True
    then have "checked api (Patch_Obj kind name ns body) w1 = (Inr x, w')"
      using run c by (simp add: create_or_patch_def bindE_def)
    then obtain r2 where p: "api (Patch_Obj kind name ns body) w1 = (Inr r2, w')"
      by (auto simp: checked_def bindE_def split: prod.splits sum.splits kube_reply.splits)
    have "present w' = present w1"
      by (rule W [THEN conjunct2, THEN conjunct1, rule_format, OF p, THEN conjunct1])
    then show ?thesis using cw True by (simp add: insert_absorb)
  next
    case False
    then show ?thesis using run c cw by (cases r) (simp_all add: create_or_patch_def bindE_def)
  qed
qed

lemma delete_changes:
  assumes "kube_world api present"
  shows "changes present (\<lambda>P. P - {(kind, ns, name)}) (unless_missing api (Delete_Obj kind name ns))"
  unfolding changes_def
proof (intro allI impI)
  fix w x w' assume run: "unless_missing api (Delete_Obj kind name ns) w = (Inr x, w')"
  then obtain r where c: "api (Delete_Obj kind name ns) w = (Inr r, w')" "\<And>s. r = Api_Exception s \<Longrightarrow> s = 404"
    by (auto simp: unless_missing_def bindE_def split: prod.splits sum.splits kube_reply.splits if_splits)
  have "present w' = (case r of Api_Exception _ \<Rightarrow> present w | _ \<Rightarrow> present w - {(kind, ns, name)})
      \<and> (r = Api_Exception 404 \<longrightarrow> (kind, ns, name) \<notin> present w)"
    using assms [unfolded kube_world_def] c(1) by blast
  then show "present w' = present w - {(kind, ns, name)}"
    using c(2) by (cases r) auto
qed

lemma meta_name_bodies [simp]:
  "meta_field ''name'' (kafka_topic_body name ns n) = Inr name"
  "meta_field ''name'' (kafka_user_body name ns t ops) = Inr name"
  "meta_field ''name'' (deployment_body name ns) = Inr name"
  "meta_field ''name'' (cronjob_body name ns sched) = Inr name"
  by (simp_all add: meta_field_def kafka_topic_body_def kafka_user_body_def deployment_body_def cronjob_body_def
      obj_meta_def obj_get_def get_or_def)

text \<open>What the methods of the in-cluster client do to the set of objects.\<close>

lemma real_client_changes:
  assumes "kube_world api present"
  shows "changes present (insert (topic_kind, ns, name)) (apply_kafka_topic (real_client api) name ns n)"
    and "changes present (insert (user_kind, ns, name)) (apply_kafka_user (real_client api) name ns t ops)"
    and "changes present (insert (Deployment_Kind, ns, name)) (apply_deployment (real_client api) name ns)"
    and "changes present (insert (Cronjob_Kind, ns, name)) (apply_cronjob (real_client api) name ns sched)"
    and "changes present (\<lambda>P. P - {(Role_Kind, ns, name)}) (delete_role (real_client api) name ns)"
    and "changes present (\<lambda>P. P - {(Role_Binding_Kind, ns, name)}) (delete_role_binding (real_client api) name ns)"
    and "changes present (\<lambda>P. P - {(Deployment_Kind, ns, name)}) (delete_deployment (real_client api) name ns)"
    and "changes present (\<lambda>P. P - {(Cronjob_Kind, ns, name)}) (delete_cronjob (real_client api) name ns)"
    and "changes present (\<lambda>P. P - {(user_kind, ns, name)}) (delete_kafka_user (real_client api) name ns)"
  using create_or_patch_changes [OF assms] delete_changes [OF assms]
  by (simp_all add: real_client_def base_client_def apply_custom_def bindE_lift_Inr)

lemma apply_manifest_changes:
  assumes "kube_world api present" and "meta_field ''name'' body = Inr name" and "meta_field ''namespace'' body = Inr ns"
  shows "changes present (insert (kind, ns, name)) (apply_manifest api kind body)"
  using assms create_or_patch_changes [OF assms(1,2)] by (auto simp: apply_manifest_def intro!: changes_lift_bind)

section \<open>An API server\<close>

text \<open>The set of existing objects as a list, with the documented answers.\<close>

fun set_server :: "kube_key list kube_api" where
  "set_server (Create_Obj kind ns body) ks =
     (case meta_field ''name'' body of
        Inl _ \<Rightarrow> (Inr (Api_Exception 422), ks)
      | Inr name \<Rightarrow> if (kind, ns, name) \<in> set ks then (Inr (Api_Exception 409), ks) else (Inr Api_Ok, (kind, ns, name) # ks))"
| "set_server (Patch_Obj kind name ns body) ks =
     (Inr (if (kind, ns, name) \<in> set ks then Api_Ok else Api_Exception 404), ks)"
| "set_server (Delete_Obj kind name ns) ks =
     (if (kind, ns, name) \<in> set ks then (Inr Api_Ok, removeAll (kind, ns, name) ks) else (Inr (Api_Exception 404), ks))"
| "set_server Utcnow ks = (Inr (Now ''2026-01-01T00:00:00''), ks)"

lemma set_server_world: "kube_world set_server set"
  by (auto simp: kube_world_def)

end
