(* ===== verification/Rbac.thy ===== *)
theory Rbac
  imports Events
begin

text \<open>
  \<open>services/pipeline-operator/operator/rbac.py\<close>: the Role and RoleBinding manifests of a connector
  and the wildcard audit, and \<open>auth.py\<close>: the checks of a decoded JWT. What a Role grants is
  read off the manifests with the documented rules of Kubernetes RBAC.
\<close>

section \<open>Manifests\<close>

definition connector_secret_name :: "string \<Rightarrow> string" where
  "connector_secret_name connector_name = ''connector-'' @ connector_name @ ''-creds''"

definition make_connector_role :: "string \<Rightarrow> string \<Rightarrow> json" where
  "make_connector_role connector_name ns =
     JObj [(''apiVersion'', JStr ''rbac.authorization.k8s.io/v1''), (''kind'', JStr ''Role''),
       (''metadata'', JObj [(''name'', JStr (''connector-'' @ connector_name @ ''-role'')), (''namespace'', JStr ns)]),
       (''rules'', JList [
          JObj [(''apiGroups'', JList [JStr '''']), (''resources'', JList [JStr ''configmaps'']),
             (''resourceNames'', JList [JStr ''pipeline-config'']), (''verbs'', JList [JStr ''get'', JStr ''watch''])],
          JObj [(''apiGroups'', JList [JStr '''']), (''resources'', JList [JStr ''secrets'']),
             (''resourceNames'', JList [JStr (connector_secret_name connector_name)]), (''verbs'', JList [JStr ''get''])]])]"

definition make_connector_role_binding :: "string \<Rightarrow> string \<Rightarrow> string \<Rightarrow> json" where
  "make_connector_role_binding connector_name service_account ns =
     JObj [(''apiVersion'', JStr ''rbac.authorization.k8s.io/v1''), (''kind'', JStr ''RoleBinding''),
       (''metadata'', JObj [(''name'', JStr (''connector-'' @ connector_name @ ''-rb'')), (''namespace'', JStr ns)]),
       (''subjects'', JList [JObj [(''kind'', JStr ''ServiceAccount''), (''name'', JStr service_account),
          (''namespace'', JStr ns)]]),
       (''roleRef'', JObj [(''kind'', JStr ''Role''), (''name'', JStr (''connector-'' @ connector_name @ ''-role'')),
          (''apiGroup'', JStr ''rbac.authorization.k8s.io'')])]"

section \<open>The audit\<close>

text \<open>\<open>for x in d.get(k, [])\<close>.\<close>

definition items_of :: "json \<Rightarrow> string \<Rightarrow> exc + json list" where
  "items_of j k =
     (case j of
        JObj d \<Rightarrow> (case obj_get d k (JList []) of JList xs \<Rightarrow> Inr xs | _ \<Rightarrow> Inl (Exc ''TypeError'' ''''))
      | _ \<Rightarrow> Inl (Exc ''AttributeError'' ''''))"

definition offence :: "(json \<Rightarrow> string) \<Rightarrow> json \<Rightarrow> string \<Rightarrow> string" where
  "offence rp rule rn =
     ''resource='' @ py_str rp (case rule of JObj d \<Rightarrow> obj_get d ''resources'' JNull | _ \<Rightarrow> JNull)
       @ '' resourceName='' @ rp (JStr rn) @ '' contains wildcard''"

definition audit_rule :: "(json \<Rightarrow> string) \<Rightarrow> json \<Rightarrow> exc + string list" where
  "audit_rule rp rule =
     res_bind (items_of rule ''resourceNames'') (\<lambda>names.
       res_bind (traverse need_str names) (\<lambda>rns.
         Inr (map (offence rp rule) (filter (\<lambda>rn. CHR ''*'' \<in> set rn) rns))))"

definition audit_role_for_wildcards :: "(json \<Rightarrow> string) \<Rightarrow> json \<Rightarrow> exc + string list" where
  "audit_role_for_wildcards rp role =
     res_bind (items_of role ''rules'') (\<lambda>rules.
       res_bind (traverse (audit_rule rp) rules) (\<lambda>offences. Inr (concat offences)))"

section \<open>What the manifests grant\<close>

text \<open>
  The RBAC rules of Kubernetes: a rule allows a request when its API group, resource and verb are
  listed (or \<open>*\<close> is) and its resource names are absent or list the object's name; a service
  account has the rules of every Role that a RoleBinding of the Role's namespace gives it.
\<close>

definition strs_at :: "json \<Rightarrow> string \<Rightarrow> string list" where
  "strs_at j k = (case items_of j k of Inl _ \<Rightarrow> [] | Inr xs \<Rightarrow> List.map_filter json_str xs)"

definition listed :: "string \<Rightarrow> string list \<Rightarrow> bool" where
  "listed x xs \<longleftrightarrow> x \<in> set xs \<or> ''*'' \<in> set xs"

definition rule_allows :: "json \<Rightarrow> string \<Rightarrow> string \<Rightarrow> string \<Rightarrow> string \<Rightarrow> bool" where
  "rule_allows rule grp resource name verb \<longleftrightarrow>
     listed grp (strs_at rule ''apiGroups'') \<and> listed resource (strs_at rule ''resources'')
   \<and> listed verb (strs_at rule ''verbs'')
   \<and> (strs_at rule ''resourceNames'' = [] \<or> name \<in> set (strs_at rule ''resourceNames''))"

definition role_allows :: "json \<Rightarrow> string \<Rightarrow> string \<Rightarrow> string \<Rightarrow> string \<Rightarrow> bool" where
  "role_allows role grp resource name verb \<longleftrightarrow>
     (case items_of role ''rules'' of Inl _ \<Rightarrow> False
      | Inr rules \<Rightarrow> list_ex (\<lambda>rule. rule_allows rule grp resource name verb) rules)"

fun at_path :: "json \<Rightarrow> string list \<Rightarrow> json" where
  "at_path j [] = j"
| "at_path (JObj d) (k # ks) = at_path (obj_get d k JNull) ks"
| "at_path _ (k # ks) = JNull"

definition binds :: "json \<Rightarrow> json \<Rightarrow> string \<Rightarrow> string \<Rightarrow> bool" where
  "binds rb role sa ns \<longleftrightarrow>
     at_path rb [''roleRef'', ''name''] = at_path role [''metadata'', ''name'']
   \<and> at_path rb [''metadata'', ''namespace''] = at_path role [''metadata'', ''namespace'']
   \<and> (case items_of rb ''subjects'' of Inl _ \<Rightarrow> False
      | Inr subjects \<Rightarrow> list_ex (\<lambda>s. at_path s [''kind''] = JStr ''ServiceAccount'' \<and> at_path s [''name''] = JStr sa
           \<and> at_path s [''namespace''] = JStr ns) subjects)"

definition sa_may :: "json list \<Rightarrow> json list \<Rightarrow> string \<Rightarrow> string \<Rightarrow> string \<Rightarrow> string \<Rightarrow> string \<Rightarrow> string \<Rightarrow> bool" where
  "sa_may roles bindings sa ns grp resource name verb \<longleftrightarrow>
     list_ex (\<lambda>role. list_ex (\<lambda>rb. binds rb role sa ns) bindings \<and> role_allows role grp resource name verb) roles"

lemma connector_role_rules:
  "role_allows (make_connector_role c ns) grp resource name verb \<longleftrightarrow>
     grp = '''' \<and> (resource = ''configmaps'' \<and> name = ''pipeline-config'' \<and> verb \<in> {''get'', ''watch''}
                 \<or> resource = ''secrets'' \<and> name = connector_secret_name c \<and> verb = ''get'')"
  by (auto simp: role_allows_def make_connector_role_def items_of_def obj_get_def get_or_def rule_allows_def listed_def
      strs_at_def List.map_filter_simps)

lemma connector_binding_binds:
  "binds (make_connector_role_binding c sa ns) (make_connector_role d ns) sa' ns' \<longleftrightarrow> c = d \<and> sa' = sa \<and> ns' = ns"
  by (auto simp: binds_def make_connector_role_def make_connector_role_binding_def items_of_def obj_get_def get_or_def)

text \<open>
  C31. The Role of a connector is least privilege: under the rules of Kubernetes RBAC it allows
  exactly \<open>get\<close> and \<open>watch\<close> on the config map \<open>pipeline-config\<close> and \<open>get\<close> on the connector's own
  secret, and the wildcard audit passes it exactly when the connector's name has no asterisk.
\<close>

theorem connector_role_least_privilege:
  "(role_allows (make_connector_role c ns) grp resource name verb \<longleftrightarrow>
      grp = '''' \<and> (resource = ''configmaps'' \<and> name = ''pipeline-config'' \<and> verb \<in> {''get'', ''watch''}
                  \<or> resource = ''secrets'' \<and> name = connector_secret_name c \<and> verb = ''get''))
   \<and> (audit_role_for_wildcards rp (make_connector_role c ns) = Inr [] \<longleftrightarrow> CHR ''*'' \<notin> set c)"
proof
  show "audit_role_for_wildcards rp (make_connector_role c ns) = Inr [] \<longleftrightarrow> CHR ''*'' \<notin> set c"
    by (auto simp: audit_role_for_wildcards_def audit_rule_def make_connector_role_def items_of_def obj_get_def
        get_or_def need_str_def connector_secret_name_def)
qed (rule connector_role_rules)

text \<open>
  The Roles do not separate connectors from one another. Every RoleBinding names the same
  service account, so after the connectors \<open>cs\<close> of a namespace are reconciled that account may
  read exactly the credentials of all of them: whatever runs under it for one connector can read
  the secrets of every other connector.
\<close>

theorem shared_account_reads_every_secret:
  "sa_may (map (\<lambda>c. make_connector_role c ns) cs) (map (\<lambda>c. make_connector_role_binding c sa ns) cs)
     sa ns '''' ''secrets'' name verb \<longleftrightarrow>
   verb = ''get'' \<and> name \<in> connector_secret_name ` set cs"
proof -
  have "list_ex (\<lambda>rb. binds rb (make_connector_role d ns) sa ns) (map (\<lambda>c. make_connector_role_binding c sa ns) cs)
      \<longleftrightarrow> d \<in> set cs" for d
    by (auto simp: list_ex_iff connector_binding_binds)
  then show ?thesis
    by (auto simp: sa_may_def list_ex_iff connector_role_rules)
qed

section \<open>Checks of a decoded token\<close>

datatype auth_error = Auth_Error string int | Auth_Crash exc

definition extract_tenant_id :: "(string \<times> json) list \<Rightarrow> auth_error + json" where
  "extract_tenant_id jwt =
     (let org_id = obj_get jwt ''org_id'' (JStr []) in
      if \<not> truthy org_id then Inl (Auth_Error ''JWT missing org_id claim'' 401) else Inr org_id)"

text \<open>\<open>time.time() > exp\<close> on a JSON value.\<close>

fun later_than :: "rat \<Rightarrow> json \<Rightarrow> exc + bool" where
  "later_than now (JInt i) = Inr (now > of_int i)"
| "later_than now (JFloat q) = Inr (now > q)"
| "later_than now (JBool b) = Inr (now > (if b then 1 else 0))"
| "later_than now _ = Inl (Exc ''TypeError'' '''')"

definition check_not_expired :: "rat \<Rightarrow> (string \<times> json) list \<Rightarrow> auth_error + unit" where
  "check_not_expired now jwt =
     (let exp = obj_get jwt ''exp'' JNull in
      if exp = JNull then Inl (Auth_Error ''JWT missing exp claim'' 401)
      else case later_than now exp of
             Inl e \<Rightarrow> Inl (Auth_Crash e)
           | Inr late \<Rightarrow> if late then Inl (Auth_Error ''JWT has expired'' 401) else Inr ())"

definition get_roles :: "(string \<times> json) list \<Rightarrow> auth_error + json" where
  "get_roles jwt =
     (case obj_get jwt ''realm_access'' (JObj []) of
        JObj d \<Rightarrow> Inr (obj_get d ''roles'' (JList []))
      | _ \<Rightarrow> Inl (Auth_Crash (Exc ''AttributeError'' '''')))"

text \<open>\<open>x in c\<close> for a string \<open>x\<close>: an element of a list, a key of a dictionary, a part of a string.\<close>

definition part_of :: "string \<Rightarrow> string \<Rightarrow> bool" where
  "part_of p s \<longleftrightarrow> list_ex (\<lambda>i. startswith (drop i s) p) [0..<Suc (length s)]"

definition str_in :: "string \<Rightarrow> json \<Rightarrow> exc + bool" where
  "str_in x c =
     (case c of JList xs \<Rightarrow> Inr (JStr x \<in> set xs) | JObj d \<Rightarrow> Inr (x \<in> fst ` set d) | JStr s \<Rightarrow> Inr (part_of x s)
      | _ \<Rightarrow> Inl (Exc ''TypeError'' ''''))"

definition require_role :: "(string \<times> json) list \<Rightarrow> string \<Rightarrow> auth_error + unit" where
  "require_role jwt role =
     (case get_roles jwt of
        Inl e \<Rightarrow> Inl e
      | Inr roles \<Rightarrow> (case str_in role roles of
          Inl e \<Rightarrow> Inl (Auth_Crash e)
        | Inr b \<Rightarrow> if b then Inr ()
            else Inl (Auth_Error (''Access denied: role '' @ [CHR 0x27] @ role @ [CHR 0x27] @ '' required'') 403)))"

definition enforce_tenant_scope :: "(string \<times> json) list \<Rightarrow> string \<Rightarrow> auth_error + unit" where
  "enforce_tenant_scope jwt requested =
     (case extract_tenant_id jwt of
        Inl e \<Rightarrow> Inl e
      | Inr caller \<Rightarrow>
          if caller \<noteq> JStr requested
          then Inl (Auth_Error (''Access denied: tenant '' @ [CHR 0x27] @ requested @ [CHR 0x27] @ '' is not accessible'') 403)
          else Inr ())"

text \<open>A request for a tenant passes only with a token of that tenant.\<close>

lemma enforce_tenant_scope_iff:
  "enforce_tenant_scope jwt t = Inr () \<longleftrightarrow> t \<noteq> [] \<and> obj_get jwt ''org_id'' (JStr []) = JStr t"
  by (auto simp: enforce_tenant_scope_def extract_tenant_id_def Let_def)

end
