(* ===== verification/Dynamic.thy ===== *)
theory Dynamic
  imports Effects Json
begin

text \<open>
  The operations Python applies to a decoded JSON value and that raise on a value of another type:
  \<open>d[k]\<close>, \<open>d.get(k, default)\<close>, \<open>v[0]\<close> and iteration.
\<close>

definition py_index :: "json \<Rightarrow> string \<Rightarrow> exc + json" where
  "py_index j k =
     (case j of
        JObj d \<Rightarrow> (case map_of d k of None \<Rightarrow> Inl (Exc ''KeyError'' k) | Some v \<Rightarrow> Inr v)
      | _ \<Rightarrow> Inl (Exc ''TypeError'' ''''))"

definition py_iter :: "json \<Rightarrow> exc + json list" where
  "py_iter j =
     (case j of JList xs \<Rightarrow> Inr xs | JObj d \<Rightarrow> Inr (map (\<lambda>kv. JStr (fst kv)) d) | JStr s \<Rightarrow> Inr (map (\<lambda>c. JStr [c]) s)
      | _ \<Rightarrow> Inl (Exc ''TypeError'' ''''))"

definition dict_field :: "json \<Rightarrow> string \<Rightarrow> json \<Rightarrow> exc + json" where
  "dict_field j k dflt = (case j of JObj d \<Rightarrow> Inr (obj_get d k dflt) | _ \<Rightarrow> Inl (Exc ''AttributeError'' ''get''))"

definition py_first :: "json \<Rightarrow> exc + json" where
  "py_first j =
     (case j of
        JList (x # _) \<Rightarrow> Inr x | JStr (c # _) \<Rightarrow> Inr (JStr [c])
      | JList [] \<Rightarrow> Inl (Exc ''IndexError'' '''') | JStr [] \<Rightarrow> Inl (Exc ''IndexError'' '''')
      | JObj _ \<Rightarrow> Inl (Exc ''KeyError'' ''0'') | _ \<Rightarrow> Inl (Exc ''TypeError'' ''''))"

end
