(* ===== verification/Operator.thy ===== *)
theory Operator
  imports Kube_Client Rbac Dynamic
begin

text \<open>
  \<open>services/pipeline-operator/operator/handlers.py\<close>: the handlers of the pipeline operator. A
  handler runs over the cluster and the status it patches into the custom resource; the client it
  calls is a field of the operator, as in the code, where start-up replaces the base client by
  the in-cluster one. The event loop's clock and sleep and the metadata service are commands.
  The delay of a \<open>TemporaryError\<close> is not kept.
\<close>

section \<open>State and constants\<close>

type_synonym status = "(string \<times> json) list"

datatype op_cmd =
    Loop_Time
  | Op_Sleep rat
  | Http_Post string json rat

datatype op_reply = Op_Ok | Time_Reply rat

record 'w operator =
  op_client :: "'w k8s_client"
  op_api :: "(op_cmd, exc, op_reply, 'w) api"
  op_repr :: "json \<Rightarrow> string"
  op_metadata_url :: string
  op_health_url :: string
  op_drain_timeout :: int

definition kafka_topic :: string where "kafka_topic = ''raw-documents''"
definition connector_sa :: string where "connector_sa = ''connector-sa''"
definition upload_watcher_schedule :: string where "upload_watcher_schedule = ''* * * * *''"

definition services_upgrade_order :: "string list" where
  "services_upgrade_order = [''doc-processor'', ''embedding-worker'', ''rag-api'']"

definition connector_label_selector :: string where
  "connector_label_selector = ''pipeline.ai-pipeline.io/kind=connector''"

definition kafka_consumer_group :: string where "kafka_consumer_group = ''doc-processor-group''"

definition temporary_error :: "string \<Rightarrow> exc" where
  "temporary_error msg = Exc ''TemporaryError'' msg"

definition set_status :: "string \<Rightarrow> json \<Rightarrow> (status \<times> 'w, unit) prog" where
  "set_status k v sw = (Inr (), (AList.update k v (fst sw), snd sw))"

text \<open>\<open>d[k]\<close> and \<open>x or {}\<close>.\<close>

definition get_key :: "(string \<times> json) list \<Rightarrow> string \<Rightarrow> exc + json" where
  "get_key d k = (case map_of d k of None \<Rightarrow> Inl (Exc ''KeyError'' k) | Some v \<Rightarrow> Inr v)"

definition or_empty :: "json \<Rightarrow> json" where
  "or_empty j = (if truthy j then j else JObj [])"

text \<open>\<open>==\<close> on JSON values: numbers compare by value.\<close>

fun num_of :: "json \<Rightarrow> rat option" where
  "num_of (JBool b) = Some (if b then 1 else 0)"
| "num_of (JInt i) = Some (of_int i)"
| "num_of (JFloat q) = Some q"
| "num_of _ = None"

definition py_eq :: "json \<Rightarrow> json \<Rightarrow> bool" where
  "py_eq a b = (case (num_of a, num_of b) of (Some x, Some y) \<Rightarrow> x = y | _ \<Rightarrow> a = b)"

section \<open>Helpers\<close>

definition int_of_str :: "string \<Rightarrow> exc + int" where
  "int_of_str s = (case py_int s of None \<Rightarrow> Inl (Exc ''ValueError'' s) | Some i \<Rightarrow> Inr i)"

definition poll_interval_to_cron :: "string \<Rightarrow> exc + string" where
  "poll_interval_to_cron poll_interval =
     (if endswith poll_interval ''m'' then
        res_bind (int_of_str (butlast poll_interval)) (\<lambda>minutes. Inr (''*/'' @ show_int minutes @ '' * * * *''))
      else if endswith poll_interval ''h'' then
        res_bind (int_of_str (butlast poll_interval)) (\<lambda>hours. Inr (''0 */'' @ show_int hours @ '' * * *''))
      else Inr ''*/5 * * * *'')"

definition version_parts :: "string \<Rightarrow> int list" where
  "version_parts v = (case traverse int_of_str (split_on (CHR ''.'') v) of Inl _ \<Rightarrow> [0] | Inr parts \<Rightarrow> parts)"

definition version_lt :: "string \<Rightarrow> string \<Rightarrow> bool" where
  "version_lt v1 v2 \<longleftrightarrow> version_parts v1 < version_parts v2"

section \<open>Connectors\<close>

text \<open>\<open>f"connector-{tenant_id}-{source_type}"\<close>.\<close>

definition kafka_user_name :: "'w operator \<Rightarrow> json \<Rightarrow> json \<Rightarrow> string" where
  "kafka_user_name op tenant_id source_type =
     ''connector-'' @ py_str (op_repr op) tenant_id @ ''-'' @ py_str (op_repr op) source_type"

definition apply_workload :: "'w operator \<Rightarrow> (string \<times> json) list \<Rightarrow> string \<Rightarrow> string \<Rightarrow> ('w, unit) prog" where
  "apply_workload op spec name ns =
     (let workload_name = ''connector-'' @ name
      in if truthy (obj_get spec ''pollInterval'' JNull) then
           bindE (lift_res (res_bind (need_str (obj_get spec ''pollInterval'' JNull)) poll_interval_to_cron))
             (\<lambda>schedule. apply_cronjob (op_client op) workload_name ns schedule)
         else apply_deployment (op_client op) workload_name ns)"

definition reconcile_connector ::
  "'w operator \<Rightarrow> (string \<times> json) list \<Rightarrow> string \<Rightarrow> string \<Rightarrow> (status \<times> 'w, unit) prog" where
  "reconcile_connector op spec name ns =
     seqE (with_state
       (bindE (lift_res (get_key spec ''tenantId'')) (\<lambda>tenant_id.
          bindE (lift_res (get_key spec ''sourceType'')) (\<lambda>source_type.
            seqE (apply_kafka_topic (op_client op) kafka_topic ns 4)
              (seqE (apply_kafka_user (op_client op) (kafka_user_name op tenant_id source_type) ns kafka_topic
                       [''Write'', ''Describe''])
                (seqE (apply_role (op_client op) (make_connector_role name ns))
                  (seqE (apply_role_binding (op_client op) (make_connector_role_binding name connector_sa ns))
                    (apply_workload op spec name ns))))))))
       (set_status ''state'' (JStr ''Running''))"

definition delete_workload :: "'w operator \<Rightarrow> (string \<times> json) list \<Rightarrow> string \<Rightarrow> string \<Rightarrow> ('w, unit) prog" where
  "delete_workload op spec name ns =
     (let workload_name = ''connector-'' @ name
      in if truthy (obj_get spec ''pollInterval'' JNull) then delete_cronjob (op_client op) workload_name ns
         else delete_deployment (op_client op) workload_name ns)"

definition delete_connector ::
  "'w operator \<Rightarrow> (string \<times> json) list \<Rightarrow> string \<Rightarrow> string \<Rightarrow> ('w, unit) prog" where
  "delete_connector op spec name ns =
     (let tenant_id = obj_get spec ''tenantId'' (JStr []); source_type = obj_get spec ''sourceType'' (JStr [])
      in seqE (delete_role (op_client op) (''connector-'' @ name @ ''-role'') ns)
           (seqE (delete_role_binding (op_client op) (''connector-'' @ name @ ''-rb'') ns)
             (seqE (delete_workload op spec name ns)
               (delete_kafka_user (op_client op) (kafka_user_name op tenant_id source_type) ns))))"

section \<open>Workspaces\<close>

definition reconcile_workspace ::
  "'w operator \<Rightarrow> (string \<times> json) list \<Rightarrow> string \<Rightarrow> string \<Rightarrow> (status \<times> 'w, unit) prog" where
  "reconcile_workspace op spec name ns =
     seqE (with_state
       (bindE (lift_res (get_key spec ''tenantId'')) (\<lambda>tenant_id.
          apply_cronjob (op_client op) (''upload-watcher-'' @ py_str (op_repr op) tenant_id) ns upload_watcher_schedule)))
       (set_status ''state'' (JStr ''Provisioned''))"

definition delete_workspace ::
  "'w operator \<Rightarrow> (string \<times> json) list \<Rightarrow> string \<Rightarrow> string \<Rightarrow> ('w, unit) prog" where
  "delete_workspace op spec name ns =
     delete_cronjob (op_client op)
       (''upload-watcher-'' @ py_str (op_repr op) (obj_get spec ''tenantId'' (JStr []))) ns"

section \<open>Embedding configuration\<close>

text \<open>\<open>(x.get("spec") or {}).get(k, dflt)\<close>.\<close>

definition spec_field :: "json \<Rightarrow> string \<Rightarrow> json \<Rightarrow> exc + json" where
  "spec_field x k dflt = res_bind (dict_field x ''spec'' JNull) (\<lambda>s. dict_field (or_empty s) k dflt)"

definition dimension_error :: "'w operator \<Rightarrow> json \<Rightarrow> json \<Rightarrow> exc" where
  "dimension_error op old_dim new_dim =
     temporary_error (''Dimension change '' @ py_str (op_repr op) old_dim @ [CHR 0xE2, CHR 0x86, CHR 0x92]
       @ py_str (op_repr op) new_dim @ '' requires re-index. Set spec.reindexConfirmed: true to proceed.'')"

definition schema_version_body :: "(string \<times> json) list \<Rightarrow> json \<Rightarrow> json" where
  "schema_version_body spec tenant_id =
     JObj [(''tenant_id'', tenant_id), (''embedding_model'', obj_get spec ''model'' (JStr [])),
       (''embedding_dimension'', obj_get spec ''dimension'' (JInt 384)),
       (''embedding_backend'', obj_get spec ''backend'' (JStr ''local-cpu'')),
       (''created_by'', JStr ''pipeline-operator'')]"

definition record_schema_version :: "'w operator \<Rightarrow> (string \<times> json) list \<Rightarrow> ('w, unit) prog" where
  "record_schema_version op spec =
     (let tenant_id = obj_get spec ''tenantId'' JNull
      in whenE (op_metadata_url op \<noteq> [] \<and> truthy tenant_id)
           (ignoring (op_api op (Http_Post (op_metadata_url op @ ''/api/schema-versions'')
              (schema_version_body spec tenant_id) 10))))"

definition embedding_config :: "(string \<times> json) list \<Rightarrow> (string \<times> json) list" where
  "embedding_config spec =
     [(''EMBEDDING_BACKEND'', obj_get spec ''backend'' (JStr [])),
      (''EMBEDDING_MODEL'', obj_get spec ''model'' (JStr [])),
      (''EMBEDDING_DEVICE'', obj_get spec ''device'' (JStr []))]"

definition apply_embedding :: "'w operator \<Rightarrow> (string \<times> json) list \<Rightarrow> string \<Rightarrow> (status \<times> 'w, unit) prog" where
  "apply_embedding op spec ns =
     seqE (with_state
       (seqE (record_schema_version op spec)
         (seqE (patch_configmap (op_client op) ''pipeline-config'' ns (embedding_config spec))
           (rollout_restart (op_client op) ''deployment'' ''embedding-worker'' ns))))
       (set_status ''state'' (JStr ''Applied''))"

definition reconcile_embedding ::
  "'w operator \<Rightarrow> (string \<times> json) list \<Rightarrow> json \<Rightarrow> json \<Rightarrow> string \<Rightarrow> (status \<times> 'w, unit) prog" where
  "reconcile_embedding op spec old new ns =
     bindE (lift_res (spec_field old ''dimension'' JNull)) (\<lambda>old_dim.
       bindE (lift_res (spec_field new ''dimension'' JNull)) (\<lambda>new_dim.
         if truthy old_dim \<and> truthy new_dim \<and> \<not> py_eq old_dim new_dim
            \<and> \<not> truthy (obj_get spec ''reindexConfirmed'' JNull) then
           seqE (set_status ''state'' (JStr ''BlockedDimensionChange'')) (raise (dimension_error op old_dim new_dim))
         else apply_embedding op spec ns))"

section \<open>Coordinated upgrades\<close>

definition loop_time :: "'w operator \<Rightarrow> ('w, rat) prog" where
  "loop_time op = bindE (op_api op Loop_Time) (\<lambda>r. ret (case r of Time_Reply t \<Rightarrow> t | Op_Ok \<Rightarrow> 0))"

definition out_of_fuel :: exc where "out_of_fuel = Exc ''OutOfFuel'' ''''"

definition drain_timeout_error :: exc where
  "drain_timeout_error = temporary_error ''Kafka consumer lag did not drain within timeout''"

text \<open>The \<open>while True\<close> loop, with fuel for its passes.\<close>

fun drain_loop :: "'w operator \<Rightarrow> string \<Rightarrow> rat \<Rightarrow> nat \<Rightarrow> ('w, unit) prog" where
  "drain_loop op ns deadline 0 = raise out_of_fuel"
| "drain_loop op ns deadline (Suc n) =
     bindE (get_kafka_consumer_lag (op_client op) kafka_topic kafka_consumer_group ns) (\<lambda>lag.
       if lag = 0 then ret ()
       else bindE (loop_time op) (\<lambda>now.
         if deadline - now \<le> 0 then raise drain_timeout_error
         else seqE (op_api op (Op_Sleep (min 5 (deadline - now)))) (drain_loop op ns deadline n)))"

text \<open>A pass sleeps five seconds or until the deadline, so this many passes suffice.\<close>

definition drain_fuel :: "int \<Rightarrow> nat" where
  "drain_fuel timeout = nat ((timeout + 4) div 5) + 2"

definition drain_kafka_lag :: "'w operator \<Rightarrow> string \<Rightarrow> ('w, unit) prog" where
  "drain_kafka_lag op ns =
     bindE (loop_time op) (\<lambda>now.
       drain_loop op ns (now + of_int (op_drain_timeout op)) (drain_fuel (op_drain_timeout op)))"

definition roll_service :: "'w operator \<Rightarrow> string \<Rightarrow> string \<Rightarrow> ('w, unit) prog" where
  "roll_service op ns svc =
     seqE (rollout_restart (op_client op) ''deployment'' svc ns) (wait_deployment_ready (op_client op) svc ns)"

definition smoke_test_error :: "int \<Rightarrow> exc" where
  "smoke_test_error health_status = temporary_error (''RAG API smoke test failed: HTTP '' @ show_int health_status)"

definition upgrade_steps :: "'w operator \<Rightarrow> string \<Rightarrow> string list \<Rightarrow> ('w, unit) prog" where
  "upgrade_steps op ns services =
     bindE (list_cronjobs (op_client op) ns connector_label_selector) (\<lambda>connector_crons.
       seqE (eachE (\<lambda>cron. suspend_cronjob (op_client op) cron ns) connector_crons)
         (seqE (drain_kafka_lag op ns)
           (seqE (eachE (roll_service op ns) services)
             (bindE (http_get (op_client op) (op_health_url op)) (\<lambda>health_status.
               if health_status \<noteq> 200 then raise (smoke_test_error health_status)
               else eachE (\<lambda>cron. resume_cronjob (op_client op) cron ns) connector_crons)))))"

definition run_coordinated_upgrade :: "'w operator \<Rightarrow> string \<Rightarrow> string list \<Rightarrow> (status \<times> 'w, unit) prog" where
  "run_coordinated_upgrade op ns services =
     seqE (seqE (set_status ''upgradeInProgress'' (JBool True)) (set_status ''state'' (JStr ''UpgradeInProgress'')))
       (seqE (with_state (upgrade_steps op ns services))
         (seqE (set_status ''upgradeInProgress'' (JBool False)) (set_status ''state'' (JStr ''Ready''))))"

definition reconcile_pipeline_cluster ::
  "'w operator \<Rightarrow> (string \<times> json) list \<Rightarrow> json \<Rightarrow> json \<Rightarrow> string \<Rightarrow> (status \<times> 'w, unit) prog" where
  "reconcile_pipeline_cluster op spec old new ns =
     bindE (lift_res (spec_field old ''version'' (JStr []))) (\<lambda>old_version.
       bindE (lift_res (spec_field new ''version'' (obj_get spec ''version'' (JStr [])))) (\<lambda>new_version.
         if \<not> truthy old_version \<or> py_eq old_version new_version then ret ()
         else bindE (lift_res (need_str new_version)) (\<lambda>nv.
           bindE (lift_res (need_str old_version)) (\<lambda>ov.
             run_coordinated_upgrade op ns
               (if version_lt nv ov then rev services_upgrade_order else services_upgrade_order)))))"

section \<open>Handler registrations\<close>

definition handle_connector_create_update ::
  "'w operator \<Rightarrow> (string \<times> json) list \<Rightarrow> string \<Rightarrow> string \<Rightarrow> (status \<times> 'w, unit) prog" where
  "handle_connector_create_update op spec name ns = reconcile_connector op spec name ns"

definition handle_connector_delete ::
  "'w operator \<Rightarrow> (string \<times> json) list \<Rightarrow> string \<Rightarrow> string \<Rightarrow> ('w, unit) prog" where
  "handle_connector_delete op spec name ns = delete_connector op spec name ns"

definition handle_workspace_create_update ::
  "'w operator \<Rightarrow> (string \<times> json) list \<Rightarrow> string \<Rightarrow> string \<Rightarrow> (status \<times> 'w, unit) prog" where
  "handle_workspace_create_update op spec name ns = reconcile_workspace op spec name ns"

definition handle_workspace_delete ::
  "'w operator \<Rightarrow> (string \<times> json) list \<Rightarrow> string \<Rightarrow> string \<Rightarrow> ('w, unit) prog" where
  "handle_workspace_delete op spec name ns = delete_workspace op spec name ns"

definition handle_embedding_update ::
  "'w operator \<Rightarrow> (string \<times> json) list \<Rightarrow> json \<Rightarrow> json \<Rightarrow> string \<Rightarrow> (status \<times> 'w, unit) prog" where
  "handle_embedding_update op spec old new ns = reconcile_embedding op spec old new ns"

definition handle_pipeline_cluster_update ::
  "'w operator \<Rightarrow> (string \<times> json) list \<Rightarrow> json \<Rightarrow> json \<Rightarrow> string \<Rightarrow> (status \<times> 'w, unit) prog" where
  "handle_pipeline_cluster_update op spec old new ns = reconcile_pipeline_cluster op spec old new ns"

section \<open>The objects of a connector\<close>

definition workload_key :: "(string \<times> json) list \<Rightarrow> string \<Rightarrow> string \<Rightarrow> kube_key" where
  "workload_key spec name ns =
     (if truthy (obj_get spec ''pollInterval'' JNull) then Cronjob_Kind else Deployment_Kind, ns, ''connector-'' @ name)"

definition user_key :: "'w operator \<Rightarrow> (string \<times> json) list \<Rightarrow> string \<Rightarrow> kube_key" where
  "user_key op spec ns =
     (user_kind, ns, kafka_user_name op (obj_get spec ''tenantId'' (JStr [])) (obj_get spec ''sourceType'' (JStr [])))"

definition connector_objects :: "'w operator \<Rightarrow> (string \<times> json) list \<Rightarrow> string \<Rightarrow> string \<Rightarrow> kube_key set" where
  "connector_objects op spec name ns =
     {user_key op spec ns, (Role_Kind, ns, ''connector-'' @ name @ ''-role''),
      (Role_Binding_Kind, ns, ''connector-'' @ name @ ''-rb''), workload_key spec name ns}"

lemma manifest_meta [simp]:
  "meta_field ''name'' (make_connector_role c ns) = Inr (''connector-'' @ c @ ''-role'')"
  "meta_field ''namespace'' (make_connector_role c ns) = Inr ns"
  "meta_field ''name'' (make_connector_role_binding c sa ns) = Inr (''connector-'' @ c @ ''-rb'')"
  "meta_field ''namespace'' (make_connector_role_binding c sa ns) = Inr ns"
  by (simp_all add: meta_field_def make_connector_role_def make_connector_role_binding_def obj_get_def get_or_def)

lemma real_apply_role: "apply_role (real_client api) = apply_manifest api Role_Kind"
  "apply_role_binding (real_client api) = apply_manifest api Role_Binding_Kind"
  by (simp_all add: real_client_def base_client_def)

lemma changes_with_state: "changes v f p \<Longrightarrow> changes (\<lambda>sw. v (snd sw)) f (with_state p)"
  by (auto simp: changes_def with_state_def split: prod.splits)

lemma changes_set_status: "changes (\<lambda>sw. v (snd sw)) id (set_status k x)"
  by (simp add: changes_def set_status_def)

lemma workload_changes:
  assumes "kube_world api present" and "op_client op = real_client api"
  shows "changes present (insert (workload_key spec name ns)) (apply_workload op spec name ns)"
    and "changes present (\<lambda>P. P - {workload_key spec name ns}) (delete_workload op spec name ns)"
  unfolding apply_workload_def delete_workload_def workload_key_def Let_def
  by (auto simp: assms(2) intro!: changes_lift_bind real_client_changes [OF assms(1)])

lemma reconcile_connector_changes:
  assumes "kube_world api present" and "op_client op = real_client api"
  shows "changes (\<lambda>sw. present (snd sw)) (\<lambda>P. insert (topic_kind, ns, kafka_topic) (connector_objects op spec name ns \<union> P))
           (reconcile_connector op spec name ns)"
proof -
  note C = real_client_changes [OF assms(1)]
  have R: "changes present (insert (Role_Kind, ns, ''connector-'' @ name @ ''-role''))
      (apply_role (op_client op) (make_connector_role name ns))"
    "changes present (insert (Role_Binding_Kind, ns, ''connector-'' @ name @ ''-rb''))
      (apply_role_binding (op_client op) (make_connector_role_binding name sa ns))" for sa
    by (simp_all add: assms(2) real_apply_role apply_manifest_changes [OF assms(1)])
  have steps: "changes present
      (insert (workload_key spec name ns) \<circ> insert (Role_Binding_Kind, ns, ''connector-'' @ name @ ''-rb'')
        \<circ> insert (Role_Kind, ns, ''connector-'' @ name @ ''-role'') \<circ> insert (user_kind, ns, kafka_user_name op t s)
        \<circ> insert (topic_kind, ns, kafka_topic))
      (seqE (apply_kafka_topic (op_client op) kafka_topic ns 4)
        (seqE (apply_kafka_user (op_client op) (kafka_user_name op t s) ns kafka_topic [''Write'', ''Describe''])
          (seqE (apply_role (op_client op) (make_connector_role name ns))
            (seqE (apply_role_binding (op_client op) (make_connector_role_binding name connector_sa ns))
              (apply_workload op spec name ns)))))" for t s
    unfolding assms(2) [symmetric]
    by (intro changes_seqE R workload_changes [OF assms] C [folded assms(2)])
  have "changes present (\<lambda>P. insert (topic_kind, ns, kafka_topic) (connector_objects op spec name ns \<union> P))
      (seqE (apply_kafka_topic (op_client op) kafka_topic ns 4)
        (seqE (apply_kafka_user (op_client op) (kafka_user_name op t s) ns kafka_topic [''Write'', ''Describe''])
          (seqE (apply_role (op_client op) (make_connector_role name ns))
            (seqE (apply_role_binding (op_client op) (make_connector_role_binding name connector_sa ns))
              (apply_workload op spec name ns)))))"
    if "map_of spec ''tenantId'' = Some t" "map_of spec ''sourceType'' = Some s" for t s
    by (rule changes_eq [OF steps])
       (auto simp: fun_eq_iff connector_objects_def user_key_def obj_get_def get_or_def that)
  then show ?thesis
    unfolding reconcile_connector_def
    by (intro changes_eq [OF changes_seqE [OF changes_with_state changes_set_status]] changes_lift_bind)
       (auto simp: get_key_def split: option.splits)
qed

lemma delete_connector_changes:
  assumes "kube_world api present" and "op_client op = real_client api"
  shows "changes present (\<lambda>P. P - connector_objects op spec name ns) (delete_connector op spec name ns)"
proof -
  have "changes present
      ((\<lambda>P. P - {user_key op spec ns}) \<circ> (\<lambda>P. P - {workload_key spec name ns})
        \<circ> (\<lambda>P. P - {(Role_Binding_Kind, ns, ''connector-'' @ name @ ''-rb'')})
        \<circ> (\<lambda>P. P - {(Role_Kind, ns, ''connector-'' @ name @ ''-role'')}))
      (delete_connector op spec name ns)"
    unfolding delete_connector_def Let_def user_key_def
    by (intro changes_seqE workload_changes [OF assms] real_client_changes [OF assms(1), folded assms(2)])
  then show ?thesis
    by (rule changes_eq) (auto simp: fun_eq_iff connector_objects_def)
qed

text \<open>
  C15. The life of a connector's objects. Against an API server that behaves as documented, a
  reconcile that returns has added exactly the shared topic and the connector's Kafka user, Role,
  RoleBinding and workload and marked the resource \<open>Running\<close>, whether or not some of them existed
  (creation is repeated as a patch on conflict); a delete that returns has removed exactly the
  four objects of the connector, whether or not all of them still existed, and left the topic.
\<close>

theorem connector_lifecycle:
  assumes "kube_world api present" and "op_client op = real_client api"
    and "reconcile_connector op spec name ns (st, w) = (Inr (), (st', w1))"
    and "delete_connector op spec name ns w1 = (Inr (), w2)"
  shows "present w1 = insert (topic_kind, ns, kafka_topic) (connector_objects op spec name ns \<union> present w)
    \<and> map_of st' ''state'' = Some (JStr ''Running'')
    \<and> present w2 = insert (topic_kind, ns, kafka_topic) (present w) - connector_objects op spec name ns"
proof -
  have "map_of st' ''state'' = Some (JStr ''Running'')"
    using assms(3) by (auto simp: reconcile_connector_def prog_defs set_status_def split: prod.splits sum.splits)
  moreover have "(topic_kind, ns, kafka_topic) \<notin> connector_objects op spec name ns"
    by (auto simp: connector_objects_def user_key_def workload_key_def topic_kind_def user_kind_def)
  ultimately show ?thesis
    using changesD [OF reconcile_connector_changes [OF assms(1,2)] assms(3)]
      changesD [OF delete_connector_changes [OF assms(1,2)] assms(4)] by auto
qed

definition plain_op :: "kube_key list operator" where
  "plain_op = \<lparr>op_client = real_client set_server, op_api = \<lambda>c w. (Inr (Time_Reply 0), w), op_repr = \<lambda>_. [],
     op_metadata_url = [], op_health_url = ''http://rag-api'', op_drain_timeout = 600\<rparr>"

definition polled_spec :: "(string \<times> json) list" where
  "polled_spec = [(''tenantId'', JStr ''acme''), (''sourceType'', JStr ''s3''), (''pollInterval'', JStr ''5m'')]"

definition event_spec :: "(string \<times> json) list" where
  "event_spec = [(''tenantId'', JStr ''acme''), (''sourceType'', JStr ''s3'')]"

text \<open>Every object of the example is created, found or deleted, so its runs always return.\<close>

lemma create_or_patch_set_server:
  "meta_field ''name'' body = Inr name \<Longrightarrow>
     create_or_patch set_server kind name ns body ks = (Inr (), List.insert (kind, ns, name) ks)"
  by (simp add: create_or_patch_def checked_def bindE_def List.insert_def)

lemma delete_set_server:
  "unless_missing set_server (Delete_Obj kind name ns) ks = (Inr (), removeAll (kind, ns, name) ks)"
  by (simp add: unless_missing_def bindE_def removeAll_id)

lemma plain_client:
  "apply_kafka_topic (op_client plain_op) name ns n ks = (Inr (), List.insert (topic_kind, ns, name) ks)"
  "apply_kafka_user (op_client plain_op) name ns t acl ks = (Inr (), List.insert (user_kind, ns, name) ks)"
  "apply_role (op_client plain_op) (make_connector_role c ns) ks
     = (Inr (), List.insert (Role_Kind, ns, ''connector-'' @ c @ ''-role'') ks)"
  "apply_role_binding (op_client plain_op) (make_connector_role_binding c sa ns) ks
     = (Inr (), List.insert (Role_Binding_Kind, ns, ''connector-'' @ c @ ''-rb'') ks)"
  "apply_cronjob (op_client plain_op) name ns sched ks = (Inr (), List.insert (Cronjob_Kind, ns, name) ks)"
  "apply_deployment (op_client plain_op) name ns ks = (Inr (), List.insert (Deployment_Kind, ns, name) ks)"
  "delete_role (op_client plain_op) name ns ks = (Inr (), removeAll (Role_Kind, ns, name) ks)"
  "delete_role_binding (op_client plain_op) name ns ks = (Inr (), removeAll (Role_Binding_Kind, ns, name) ks)"
  "delete_cronjob (op_client plain_op) name ns ks = (Inr (), removeAll (Cronjob_Kind, ns, name) ks)"
  "delete_deployment (op_client plain_op) name ns ks = (Inr (), removeAll (Deployment_Kind, ns, name) ks)"
  "delete_kafka_user (op_client plain_op) name ns ks = (Inr (), removeAll (user_kind, ns, name) ks)"
  by (simp_all add: plain_op_def real_client_def base_client_def apply_custom_def apply_manifest_def bindE_lift_Inr
      create_or_patch_set_server delete_set_server del: set_server.simps)

lemma five_minutes: "poll_interval_to_cron ''5m'' = Inr ''*/5 * * * *''"
  by code_simp

text \<open>The objects after reconciling, and what deleting leaves.\<close>

abbreviation after_reconcile :: "(string \<times> json) list \<Rightarrow> string \<Rightarrow> kube_key list \<Rightarrow> kube_key list" where
  "after_reconcile spec name ks \<equiv> snd (snd (reconcile_connector plain_op spec name ''ns'' ([], ks)))"

lemma reconcile_returns:
  "reconcile_connector plain_op polled_spec name ''ns'' ([], ks) =
     (Inr (), ([(''state'', JStr ''Running'')], after_reconcile polled_spec name ks))"
  "reconcile_connector plain_op event_spec name ''ns'' ([], ks) =
     (Inr (), ([(''state'', JStr ''Running'')], after_reconcile event_spec name ks))"
  "delete_connector plain_op event_spec name ''ns'' ks = (Inr (), snd (delete_connector plain_op event_spec name ''ns'' ks))"
  "delete_connector plain_op polled_spec name ''ns'' ks = (Inr (), snd (delete_connector plain_op polled_spec name ''ns'' ks))"
  by (simp_all add: reconcile_connector_def delete_connector_def apply_workload_def delete_workload_def
      polled_spec_def event_spec_def get_key_def obj_get_def get_or_def need_str_def five_minutes bindE_lift_Inr
      seqE_def bindE_def with_state_def set_status_def plain_client ret_def Let_def)

lemma plain_op_client: "op_client plain_op = real_client set_server"
  by (simp add: plain_op_def)

theorem connector_lifecycle_witness:
  "set (after_reconcile polled_spec ''a'' []) =
     insert (topic_kind, ''ns'', kafka_topic) (connector_objects plain_op polled_spec ''a'' ''ns'')"
  using connector_lifecycle [OF set_server_world plain_op_client reconcile_returns(1) reconcile_returns(4), of "''a''" "[]"]
  by simp

text \<open>
  Changing \<open>pollInterval\<close> orphans the old workload. A connector that is reconciled with a poll
  interval and again without one (or the other way round), and then deleted, leaves the workload
  of the first kind in the cluster: reconciling never removes the other kind, and deleting
  removes only the kind of the last spec.
\<close>

theorem poll_interval_change_orphans_workload:
  assumes "kube_world api present" and "op_client op = real_client api"
    and "reconcile_connector op spec1 name ns (st, w) = (Inr (), (st1, w1))"
    and "reconcile_connector op spec2 name ns (st2, w1) = (Inr (), (st3, w2))"
    and "delete_connector op spec2 name ns w2 = (Inr (), w3)"
    and "truthy (obj_get spec1 ''pollInterval'' JNull) \<noteq> truthy (obj_get spec2 ''pollInterval'' JNull)"
  shows "workload_key spec1 name ns \<in> present w3"
proof -
  have "workload_key spec1 name ns \<notin> connector_objects op spec2 name ns"
    using assms(6) by (auto simp: connector_objects_def user_key_def workload_key_def user_kind_def)
  moreover have "workload_key spec1 name ns \<in> connector_objects op spec1 name ns"
    by (simp add: connector_objects_def)
  ultimately show ?thesis
    using changesD [OF reconcile_connector_changes [OF assms(1,2)] assms(3)]
      changesD [OF reconcile_connector_changes [OF assms(1,2)] assms(4)]
      changesD [OF delete_connector_changes [OF assms(1,2)] assms(5)] by auto
qed

theorem poll_interval_change_orphans_workload_witness:
  "(Cronjob_Kind, ''ns'', ''connector-a'') \<in> set (snd (delete_connector plain_op event_spec ''a'' ''ns''
     (after_reconcile event_spec ''a'' (after_reconcile polled_spec ''a'' []))))"
  using poll_interval_change_orphans_workload [OF set_server_world plain_op_client reconcile_returns(1)
      reconcile_returns(2) reconcile_returns(3), of "''a''" "[]"]
  by (simp add: polled_spec_def event_spec_def workload_key_def obj_get_def get_or_def)

text \<open>
  Deleting one connector takes the credentials of another. The Kafka user is named after the
  tenant and the source type, not the connector: when two connectors of one tenant and source
  type exist and the first is deleted, the Kafka user the second one needs is gone, while its
  workload is still there.
\<close>

theorem delete_removes_shared_user:
  assumes "kube_world api present" and "op_client op = real_client api" and "a \<noteq> b"
    and "reconcile_connector op spec a ns (st, w) = (Inr (), (st1, w1))"
    and "reconcile_connector op spec b ns (st2, w1) = (Inr (), (st3, w2))"
    and "delete_connector op spec a ns w2 = (Inr (), w3)"
  shows "user_key op spec ns \<in> present w2 \<and> user_key op spec ns \<notin> present w3 \<and> workload_key spec b ns \<in> present w3"
proof -
  have "workload_key spec b ns \<notin> connector_objects op spec a ns"
    using assms(3) by (auto simp: connector_objects_def user_key_def workload_key_def user_kind_def)
  moreover have "workload_key spec b ns \<in> connector_objects op spec b ns"
    "user_key op spec ns \<in> connector_objects op spec c ns" for c
    by (simp_all add: connector_objects_def)
  ultimately show ?thesis
    using changesD [OF reconcile_connector_changes [OF assms(1,2)] assms(5)]
      changesD [OF delete_connector_changes [OF assms(1,2)] assms(6)] by auto
qed

theorem delete_removes_shared_user_witness:
  "(user_kind, ''ns'', ''connector-acme-s3'') \<notin> set (snd (delete_connector plain_op event_spec ''a'' ''ns''
     (after_reconcile event_spec ''b'' (after_reconcile event_spec ''a'' []))))"
  using delete_removes_shared_user [OF set_server_world plain_op_client _ reconcile_returns(2) reconcile_returns(2)
      reconcile_returns(3), of "''a''" "''b''" "[]"]
  by (simp add: event_spec_def user_key_def kafka_user_name_def obj_get_def get_or_def)

section \<open>The order of an upgrade\<close>

text \<open>What an upgrade has done so far, recorded as each call of the client returns.\<close>

datatype upgrade_event =
    Listed "string list" | Suspended string | Lag int | Restarted string | Ready string | Health int | Resumed string

definition traced :: "('a \<Rightarrow> 'e) \<Rightarrow> ('w, 'a) prog \<Rightarrow> ('e list \<times> 'w, 'a) prog" where
  "traced ev p tw =
     (case p (snd tw) of (Inl e, w') \<Rightarrow> (Inl e, (fst tw, w')) | (Inr x, w') \<Rightarrow> (Inr x, (fst tw @ [ev x], w')))"

definition traced_client :: "'w k8s_client \<Rightarrow> (upgrade_event list \<times> 'w) k8s_client" where
  "traced_client c =
     \<lparr>apply_kafka_topic = \<lambda>a b n. with_state (apply_kafka_topic c a b n),
      apply_kafka_user = \<lambda>a b t l. with_state (apply_kafka_user c a b t l),
      apply_deployment = \<lambda>a b. with_state (apply_deployment c a b),
      apply_cronjob = \<lambda>a b s. with_state (apply_cronjob c a b s),
      apply_role = \<lambda>j. with_state (apply_role c j), apply_role_binding = \<lambda>j. with_state (apply_role_binding c j),
      delete_role = \<lambda>a b. with_state (delete_role c a b), delete_role_binding = \<lambda>a b. with_state (delete_role_binding c a b),
      delete_deployment = \<lambda>a b. with_state (delete_deployment c a b),
      delete_cronjob = \<lambda>a b. with_state (delete_cronjob c a b),
      delete_kafka_user = \<lambda>a b. with_state (delete_kafka_user c a b),
      patch_configmap = \<lambda>a b d. with_state (patch_configmap c a b d),
      rollout_restart = \<lambda>k a b. traced (\<lambda>_. Restarted a) (rollout_restart c k a b),
      suspend_cronjob = \<lambda>a b. traced (\<lambda>_. Suspended a) (suspend_cronjob c a b),
      resume_cronjob = \<lambda>a b. traced (\<lambda>_. Resumed a) (resume_cronjob c a b),
      list_cronjobs = \<lambda>a b. traced Listed (list_cronjobs c a b),
      get_kafka_consumer_lag = \<lambda>t g a. traced Lag (get_kafka_consumer_lag c t g a),
      wait_deployment_ready = \<lambda>a b. traced (\<lambda>_. Ready a) (wait_deployment_ready c a b),
      http_get = \<lambda>u. traced Health (http_get c u)\<rparr>"

definition traced_op :: "'w operator \<Rightarrow> (upgrade_event list \<times> 'w) operator" where
  "traced_op op = \<lparr>op_client = traced_client (op_client op), op_api = \<lambda>c. with_state (op_api op c),
     op_repr = op_repr op, op_metadata_url = op_metadata_url op, op_health_url = op_health_url op,
     op_drain_timeout = op_drain_timeout op\<rparr>"

text \<open>What must have happened before an event.\<close>

fun allowed_after :: "string list \<Rightarrow> upgrade_event list \<Rightarrow> upgrade_event \<Rightarrow> bool" where
  "allowed_after services t (Restarted s) \<longleftrightarrow>
     (\<exists>crons. Listed crons \<in> set t \<and> Suspended ` set crons \<subseteq> set t) \<and> Lag 0 \<in> set t"
| "allowed_after services t (Resumed c) \<longleftrightarrow> Health 200 \<in> set t \<and> Ready ` set services \<subseteq> set t"
| "allowed_after services t _ \<longleftrightarrow> True"

definition in_order :: "string list \<Rightarrow> upgrade_event list \<Rightarrow> bool" where
  "in_order services t \<longleftrightarrow> (\<forall>pre e post. t = pre @ e # post \<longrightarrow> allowed_after services pre e)"

lemma in_order_Nil [simp]: "in_order services []"
  by (simp add: in_order_def)

lemma in_order_snoc [simp]: "in_order services (t @ [e]) \<longleftrightarrow> in_order services t \<and> allowed_after services t e"
proof -
  have "t @ [e] = pre @ x # post \<longleftrightarrow> (post = [] \<and> pre = t \<and> x = e) \<or> (\<exists>q. post = q @ [e] \<and> t = pre @ x # q)" for pre x post
    by (cases post rule: rev_cases) auto
  then show ?thesis by (auto simp: in_order_def)
qed

lemma wp_traced:
  assumes "\<And>x w'. Q x (fst tw @ [ev x], w')" and "\<And>e w'. E e (fst tw, w')"
  shows "wp (traced ev p) Q E tw"
  using assms by (auto simp: wp_def traced_def split: prod.split sum.split)

lemma wp_with_state:
  assumes "\<And>x w'. Q x (fst tw, w')" and "\<And>e w'. E e (fst tw, w')"
  shows "wp (with_state p) Q E tw"
  using assms by (auto simp: wp_def with_state_def split: prod.split sum.split)

lemma traced_op_sel [simp]:
  "list_cronjobs (op_client (traced_op op)) a b = traced Listed (list_cronjobs (op_client op) a b)"
  "suspend_cronjob (op_client (traced_op op)) a b = traced (\<lambda>_. Suspended a) (suspend_cronjob (op_client op) a b)"
  "resume_cronjob (op_client (traced_op op)) a b = traced (\<lambda>_. Resumed a) (resume_cronjob (op_client op) a b)"
  "get_kafka_consumer_lag (op_client (traced_op op)) t g a = traced Lag (get_kafka_consumer_lag (op_client op) t g a)"
  "rollout_restart (op_client (traced_op op)) k a b = traced (\<lambda>_. Restarted a) (rollout_restart (op_client op) k a b)"
  "wait_deployment_ready (op_client (traced_op op)) a b = traced (\<lambda>_. Ready a) (wait_deployment_ready (op_client op) a b)"
  "http_get (op_client (traced_op op)) u = traced Health (http_get (op_client op) u)"
  "op_api (traced_op op) c = with_state (op_api op c)" "op_health_url (traced_op op) = op_health_url op"
  "op_drain_timeout (traced_op op) = op_drain_timeout op"
  by (simp_all add: traced_op_def traced_client_def)

text \<open>A loop over a list, with the part already done.\<close>

lemma wp_eachE_done:
  assumes "\<And>ys x w. I ys w \<Longrightarrow> x \<in> set xs \<Longrightarrow> wp (f x) (\<lambda>_. I (ys @ [x])) E w"
  shows "I ys w \<Longrightarrow> wp (eachE f xs) (\<lambda>_. I (ys @ xs)) E w"
  using assms
proof (induction xs arbitrary: ys w)
  case (Cons x xs)
  have "wp (f x) (\<lambda>_. I (ys @ [x])) E w" using Cons.prems by simp
  moreover have "wp (eachE f xs) (\<lambda>_. I ((ys @ [x]) @ xs)) E w'" if "I (ys @ [x]) w'" for w'
    using Cons.IH [OF that] Cons.prems(2) by simp
  ultimately show ?case by (simp add: wp_simps) (erule wp_mono, auto)
qed (simp add: wp_simps)

text \<open>The lag poll reaches its normal end only after a lag of zero, and adds lag events only.\<close>

lemma wp_loop_time:
  "wp (loop_time (traced_op op)) (\<lambda>_ tw. fst tw = t) (\<lambda>_ tw. fst tw = t) (t, w)"
  unfolding loop_time_def by (simp add: wp_simps) (rule wp_with_state, simp_all)

lemma wp_drain_loop:
  "wp (drain_loop (traced_op op) ns deadline n)
     (\<lambda>_ tw. \<exists>ls. fst tw = t @ map Lag ls @ [Lag 0]) (\<lambda>_ tw. \<exists>ls. fst tw = t @ map Lag ls) (t, w)"
proof (induction n arbitrary: t w)
  case (Suc n)
  let ?Q = "\<lambda>_ tw. \<exists>ls. fst tw = t @ map Lag ls @ [Lag 0]" and ?E = "\<lambda>_ tw. \<exists>ls. fst tw = t @ map Lag ls"
  have rest: "wp (drain_loop (traced_op op) ns deadline n) ?Q ?E tw" if "fst tw = t @ [Lag l]" for tw l
    by (cases tw, rule wp_mono [OF Suc.IH [of "fst tw" "snd tw", simplified]])
       (use that in \<open>force intro: exI [of _ "l # _"]\<close>)+
  have sleep: "wp (with_state (op_api op c)) (\<lambda>_. wp (drain_loop (traced_op op) ns deadline n) ?Q ?E) ?E tw"
    if "fst tw = t @ [Lag l]" for c tw l
    by (rule wp_with_state) (use that rest in \<open>auto intro: exI [of _ "[l]"]\<close>)
  have time: "wp (loop_time (traced_op op))
      (\<lambda>now. wp (if deadline - now \<le> 0 then raise drain_timeout_error
         else seqE (op_api (traced_op op) (Op_Sleep (min 5 (deadline - now)))) (drain_loop (traced_op op) ns deadline n)) ?Q ?E)
      ?E (t @ [Lag l], w')" for l w'
    by (rule wp_mono [OF wp_loop_time]) (auto simp: wp_simps intro!: sleep exI [of _ "[l]"])
  show ?case
    unfolding drain_loop.simps wp_bindE traced_op_sel(4)
  proof (rule wp_traced, goal_cases)
    case (1 l w')
    then show ?case using time [of l w']
      by (cases "l = 0") (auto simp: wp_ret wp_bindE intro: exI [of _ "[]"] simp del: traced_op_sel)
  qed (auto intro: exI [of _ "[]"])
qed (auto simp: wp_simps intro: exI [of _ "[]"])

lemma in_order_lags [simp]: "in_order services (t @ map Lag ls) \<longleftrightarrow> in_order services t"
proof (induction ls rule: rev_induct)
  case (snoc l ls)
  then show ?case using in_order_snoc [of services "t @ map Lag ls" "Lag l"] by simp
qed simp

text \<open>The stages of an upgrade.\<close>

definition drained :: "string list \<Rightarrow> string list \<Rightarrow> upgrade_event list \<Rightarrow> bool" where
  "drained services crons t \<longleftrightarrow>
     in_order services t \<and> Listed crons \<in> set t \<and> Suspended ` set crons \<subseteq> set t \<and> Lag 0 \<in> set t"

lemma drainedI:
  "in_order services t \<Longrightarrow> Listed crons \<in> set t \<Longrightarrow> Suspended ` set crons \<subseteq> set t \<Longrightarrow> Lag 0 \<in> set t \<Longrightarrow> drained services crons t"
  by (auto simp: drained_def)

lemma drained_append: "drained services crons t \<Longrightarrow> in_order services (t @ us) \<Longrightarrow> drained services crons (t @ us)"
  by (fastforce simp: drained_def)

lemma in_order_roll:
  assumes "drained services crons t"
  shows "in_order services (t @ [Restarted s])" and "in_order services (t @ [Restarted s, Ready s])"
  using assms in_order_snoc [of services "t @ [Restarted s]" "Ready s"] by (auto simp: drained_def)

lemma wp_suspend_all:
  assumes "in_order services t" and "Listed crons \<in> set t"
  shows "wp (eachE (\<lambda>cron. suspend_cronjob (op_client (traced_op op)) cron ns) crons)
     (\<lambda>_ tw. in_order services (fst tw) \<and> Listed crons \<in> set (fst tw) \<and> Suspended ` set crons \<subseteq> set (fst tw))
     (\<lambda>_ tw. in_order services (fst tw)) (t, w)"
proof -
  let ?I = "\<lambda>ys tw. in_order services (fst tw) \<and> Listed crons \<in> set (fst tw) \<and> Suspended ` set ys \<subseteq> set (fst tw)"
  have "wp (suspend_cronjob (op_client (traced_op op)) c ns) (\<lambda>_. ?I (ys @ [c])) (\<lambda>_ tw. in_order services (fst tw)) tw"
    if "?I ys tw" for ys c tw
    unfolding traced_op_sel by (rule wp_traced) (use that in auto)
  from wp_eachE_done [where I = ?I and ys = "[]" and f = "\<lambda>cron. suspend_cronjob (op_client (traced_op op)) cron ns", OF this]
  show ?thesis using assms by simp
qed

lemma wp_drain:
  assumes "in_order services t" and "Listed crons \<in> set t" and "Suspended ` set crons \<subseteq> set t"
  shows "wp (drain_kafka_lag (traced_op op) ns)
     (\<lambda>_ tw. drained services crons (fst tw)) (\<lambda>_ tw. in_order services (fst tw)) (t, w)"
proof -
  have "wp (drain_loop (traced_op op) ns d n) (\<lambda>_ tw. drained services crons (fst tw)) (\<lambda>_ tw. in_order services (fst tw)) tw"
    if "fst tw = t" for d n tw
  proof -
    have "in_order services (t @ map Lag ls @ [Lag 0])" for ls
      using in_order_snoc [of services "t @ map Lag ls" "Lag 0"] assms(1) by simp
    moreover have "wp (drain_loop (traced_op op) ns d n)
        (\<lambda>_ tw. \<exists>ls. fst tw = t @ map Lag ls @ [Lag 0]) (\<lambda>_ tw. \<exists>ls. fst tw = t @ map Lag ls) tw"
      using wp_drain_loop [of op ns d n t "snd tw"] that by (metis prod.collapse)
    ultimately show ?thesis
      by (elim wp_mono) (use assms in \<open>auto intro!: drainedI\<close>)
  qed
  then show ?thesis
    unfolding drain_kafka_lag_def wp_bindE
    by (intro wp_mono [OF wp_loop_time]) (auto simp: assms(1))
qed

lemma wp_roll_all:
  assumes "drained services crons t"
  shows "wp (eachE (roll_service (traced_op op) ns) ss)
     (\<lambda>_ tw. drained services crons (fst tw) \<and> Ready ` set ss \<subseteq> set (fst tw)) (\<lambda>_ tw. in_order services (fst tw)) (t, w)"
proof -
  have "wp (roll_service (traced_op op) ns s)
      (\<lambda>_ tw. drained services crons (fst tw) \<and> Ready ` set (ys @ [s]) \<subseteq> set (fst tw)) (\<lambda>_ tw. in_order services (fst tw)) tw"
    if "drained services crons (fst tw) \<and> Ready ` set ys \<subseteq> set (fst tw)" for s ys tw
    unfolding roll_service_def wp_seqE traced_op_sel
    by (intro wp_traced)
       (use that in \<open>auto simp: in_order_roll drained_append [of _ _ _ "[Restarted s, Ready s]"], auto simp: drained_def\<close>)
  then show ?thesis
    using wp_eachE_done [where f = "roll_service (traced_op op) ns" and ys = "[]" and w = "(t, w)" and xs = ss
        and I = "\<lambda>ys tw. drained services crons (fst tw) \<and> Ready ` set ys \<subseteq> set (fst tw)"
        and E = "\<lambda>_ tw. in_order services (fst tw)"] assms
    by simp
qed

definition all_resumed :: "upgrade_event list \<Rightarrow> bool" where
  "all_resumed t \<longleftrightarrow> (\<exists>crons. Listed crons \<in> set t \<and> Resumed ` set crons \<subseteq> set t)"

lemma wp_resume_all:
  assumes "in_order services t" and "Health 200 \<in> set t" and "Ready ` set services \<subseteq> set t" and "Listed crons \<in> set t"
  shows "wp (eachE (\<lambda>cron. resume_cronjob (op_client (traced_op op)) cron ns) crons)
     (\<lambda>_ tw. in_order services (fst tw) \<and> all_resumed (fst tw)) (\<lambda>_ tw. in_order services (fst tw)) (t, w)"
proof -
  let ?I = "\<lambda>ys tw. in_order services (fst tw) \<and> Health 200 \<in> set (fst tw) \<and> Ready ` set services \<subseteq> set (fst tw)
    \<and> Listed crons \<in> set (fst tw) \<and> Resumed ` set ys \<subseteq> set (fst tw)"
  have "wp (resume_cronjob (op_client (traced_op op)) c ns) (\<lambda>_. ?I (ys @ [c])) (\<lambda>_ tw. in_order services (fst tw)) tw"
    if "?I ys tw" for ys c tw
    unfolding traced_op_sel by (rule wp_traced) (use that in auto)
  from wp_eachE_done [where I = ?I and ys = "[]" and f = "\<lambda>cron. resume_cronjob (op_client (traced_op op)) cron ns", OF this]
  have "wp (eachE (\<lambda>cron. resume_cronjob (op_client (traced_op op)) cron ns) crons) (\<lambda>_. ?I crons)
      (\<lambda>_ tw. in_order services (fst tw)) (t, w)" using assms by simp
  then show ?thesis by (rule wp_mono) (auto simp: all_resumed_def)
qed

lemma wp_upgrade_steps:
  "wp (upgrade_steps (traced_op op) ns services)
     (\<lambda>_ tw. in_order services (fst tw) \<and> all_resumed (fst tw)) (\<lambda>_ tw. in_order services (fst tw)) ([], w)"
proof -
  let ?R = "\<lambda>_ tw. in_order services (fst tw) \<and> all_resumed (fst tw)"
  let ?P = "\<lambda>_ tw. in_order services (fst tw)"
  have resume: "wp (http_get (op_client (traced_op op)) u)
      (\<lambda>x. wp (if x \<noteq> 200 then raise (smoke_test_error x)
          else eachE (\<lambda>cron. resume_cronjob (op_client (traced_op op)) cron ns) crons) ?R ?P) ?P tw"
    if "drained services crons (fst tw)" "Ready ` set services \<subseteq> set (fst tw)" for u crons tw
    unfolding traced_op_sel(7)
    by (rule wp_traced) (use that in \<open>auto simp: wp_raise drained_def simp del: traced_op_sel intro!: wp_resume_all\<close>)
  show ?thesis
    unfolding upgrade_steps_def wp_bindE wp_seqE
    unfolding traced_op_sel(1)
  proof (rule wp_traced, goal_cases)
    case (1 crons w')
    have l: "in_order services [Listed crons]" using in_order_snoc [of services "[]" "Listed crons"] by simp
    have roll: "wp (eachE (roll_service (traced_op op) ns) services)
        (\<lambda>_. wp (http_get (op_client (traced_op op)) (op_health_url (traced_op op)))
           (\<lambda>x. wp (if x \<noteq> 200 then raise (smoke_test_error x)
               else eachE (\<lambda>cron. resume_cronjob (op_client (traced_op op)) cron ns) crons) ?R ?P) ?P) ?P tw"
      if "drained services crons (fst tw)" for tw
      by (cases tw, simp only:) (rule wp_mono [OF wp_roll_all], use that in \<open>auto simp del: traced_op_sel intro: resume\<close>)
    have drain: "wp (drain_kafka_lag (traced_op op) ns)
        (\<lambda>_. wp (eachE (roll_service (traced_op op) ns) services)
          (\<lambda>_. wp (http_get (op_client (traced_op op)) (op_health_url (traced_op op)))
             (\<lambda>x. wp (if x \<noteq> 200 then raise (smoke_test_error x)
                 else eachE (\<lambda>cron. resume_cronjob (op_client (traced_op op)) cron ns) crons) ?R ?P) ?P) ?P) ?P tw"
      if "in_order services (fst tw)" "Listed crons \<in> set (fst tw)" "Suspended ` set crons \<subseteq> set (fst tw)" for tw
      by (cases tw, simp only:)
         (rule wp_mono [OF wp_drain [of _ _ crons]], use that in \<open>auto simp del: traced_op_sel intro: roll\<close>)
    show ?case
      by (simp only: fst_conv append_Nil, rule wp_mono [OF wp_suspend_all])
         (auto simp: l simp del: traced_op_sel intro: drain)
  qed simp
qed

text \<open>
  C16. A coordinated upgrade keeps its order, whatever the cluster answers. Services are restarted
  only after every listed connector job has been suspended and a consumer lag of zero was seen;
  jobs are resumed only after every service became ready and the smoke test answered 200. When
  the handler returns, every listed job has been resumed and the status says \<open>Ready\<close>; when it
  raises, the status still says that an upgrade is in progress.
\<close>

theorem upgrade_keeps_order:
  assumes "run_coordinated_upgrade (traced_op op) ns services (st, ([], w)) = (r, (st', (t, w')))"
  shows "in_order services t
    \<and> (is_ok r \<longrightarrow> all_resumed t \<and> map_of st' ''state'' = Some (JStr ''Ready'')
        \<and> map_of st' ''upgradeInProgress'' = Some (JBool False))
    \<and> (\<not> is_ok r \<longrightarrow> map_of st' ''upgradeInProgress'' = Some (JBool True))"
proof -
  obtain r1 t1 w1 where u: "upgrade_steps (traced_op op) ns services ([], w) = (r1, (t1, w1))" by (rule triple_cases)
  from wp_upgrade_steps [of op ns services w] have "in_order services t1 \<and> (is_ok r1 \<longrightarrow> all_resumed t1)"
    by (cases r1) (auto simp: wp_def u)
  then show ?thesis
    using assms u
    by (cases r1) (auto simp: run_coordinated_upgrade_def seqE_def bindE_def set_status_def with_state_def)
qed

theorem upgrade_keeps_order_witness:
  "in_order [''rag-api''] (fst (snd (snd (run_coordinated_upgrade (traced_op plain_op) ''ns'' [''rag-api''] ([], ([], []))))))"
proof -
  obtain r st t w where "run_coordinated_upgrade (traced_op plain_op) ''ns'' [''rag-api''] ([], ([], [])) = (r, (st, (t, w)))"
    by (metis prod.collapse)
  with upgrade_keeps_order [OF this] show ?thesis by simp
qed

text \<open>
  In the cluster none of that happens. The in-cluster client overrides neither the job listing
  nor the lag, readiness and smoke-test methods, whose base versions answer with an empty list,
  zero, nothing and 200: an upgrade run with it is just the restart of the services, one after
  the other, without suspending a connector, draining the topic, waiting or testing.
\<close>

theorem real_upgrade_only_restarts:
  assumes "op_client op = real_client api" and "op_api op Loop_Time w = (Inr x, w)"
  shows "run_coordinated_upgrade op ns services (st, w) =
     (case eachE (\<lambda>svc. real_rollout_restart api ''deployment'' svc ns) services w of
        (Inl e, w') \<Rightarrow> (Inl e, (AList.update ''state'' (JStr ''UpgradeInProgress'')
            (AList.update ''upgradeInProgress'' (JBool True) st), w'))
      | (Inr _, w') \<Rightarrow> (Inr (), (AList.update ''state'' (JStr ''Ready'') (AList.update ''upgradeInProgress'' (JBool False)
            (AList.update ''state'' (JStr ''UpgradeInProgress'') (AList.update ''upgradeInProgress'' (JBool True) st))), w')))"
proof -
  have "roll_service op ns svc v = real_rollout_restart api ''deployment'' svc ns v" for svc v
    by (auto simp: roll_service_def assms(1) real_client_def base_client_def prog_defs split: prod.split sum.split)
  then have roll: "eachE (roll_service op ns) services v = eachE (\<lambda>svc. real_rollout_restart api ''deployment'' svc ns) services v" for v
    by (metis ext)
  have fuel: "drain_fuel n = Suc (nat ((n + 4) div 5) + 1)" for n by (simp add: drain_fuel_def)
  have drain: "drain_kafka_lag op ns w = (Inr (), w)"
    using assms by (simp add: drain_kafka_lag_def loop_time_def fuel real_client_def base_client_def prog_defs)
  have base: "list_cronjobs (op_client op) = (\<lambda>_ _. ret [])" "http_get (op_client op) = (\<lambda>_. ret 200)"
    by (simp_all add: assms(1) real_client_def base_client_def)
  have "upgrade_steps op ns services w = eachE (\<lambda>svc. real_rollout_restart api ''deployment'' svc ns) services w"
    by (simp add: upgrade_steps_def base seqE_def bindE_def drain roll split: prod.split sum.split)
  then show ?thesis
    by (simp add: run_coordinated_upgrade_def seqE_def bindE_def set_status_def with_state_def split: prod.split sum.split)
qed

theorem real_upgrade_only_restarts_witness:
  "fst (run_coordinated_upgrade plain_op ''ns'' [''rag-api''] ([], [])) = Inr ()"
  using real_upgrade_only_restarts [OF plain_op_client, of "[]" "Time_Reply 0" "''ns''" "[''rag-api'']" "[]"]
  by (simp add: plain_op_def real_rollout_restart_def unless_missing_def prog_defs)

text \<open>
  The guard of the embedding configuration never fires. The handler is registered with
  \<open>field="spec"\<close>, and kopf documents that such a handler gets the old and new values of that
  field rather than of the whole object; a spec has no field named \<open>spec\<close>, so both dimensions are
  read as absent and every dimension change is applied without \<open>reindexConfirmed\<close>. The handler of
  \<open>spec.version\<close> gets two strings for the same reason and raises an \<open>AttributeError\<close>: no change of
  the version ever starts an upgrade.
\<close>

theorem field_handlers_miss_their_field:
  assumes "map_of old ''spec'' = None" and "map_of new ''spec'' = None"
  shows "handle_embedding_update op spec (JObj old) (JObj new) ns sw = apply_embedding op spec ns sw
    \<and> handle_pipeline_cluster_update op spec2 (JStr old_version) (JStr new_version) ns sw =
        (Inl (Exc ''AttributeError'' ''get''), sw)"
  using assms
  by (simp add: handle_embedding_update_def reconcile_embedding_def handle_pipeline_cluster_update_def
      reconcile_pipeline_cluster_def spec_field_def dict_field_def or_empty_def obj_get_def get_or_def bindE_lift_Inr
      bindE_def lift_res_def)

definition dims :: "int \<Rightarrow> (string \<times> json) list" where
  "dims d = [(''backend'', JStr ''local-cpu''), (''dimension'', JInt d)]"

theorem field_handlers_miss_their_field_witness:
  "fst (handle_embedding_update plain_op (dims 768) (JObj (dims 384)) (JObj (dims 768)) ''ns'' ([], [])) = Inr ()
    \<and> fst (reconcile_embedding plain_op (dims 768) (JObj [(''spec'', JObj (dims 384))]) (JObj [(''spec'', JObj (dims 768))])
         ''ns'' ([], [])) = Inl (dimension_error plain_op (JInt 384) (JInt 768))"
proof
  have "handle_embedding_update plain_op (dims 768) (JObj (dims 384)) (JObj (dims 768)) ''ns'' ([], []) =
      apply_embedding plain_op (dims 768) ''ns'' ([], [])"
    by (rule field_handlers_miss_their_field [THEN conjunct1]) (simp_all add: dims_def)
  also have "fst \<dots> = Inr ()"
    by (simp add: apply_embedding_def record_schema_version_def plain_op_def real_client_def base_client_def
        real_rollout_restart_def unless_missing_def set_status_def with_state_def prog_defs)
  finally show "fst (handle_embedding_update plain_op (dims 768) (JObj (dims 384)) (JObj (dims 768)) ''ns'' ([], [])) = Inr ()" .
  show "fst (reconcile_embedding plain_op (dims 768) (JObj [(''spec'', JObj (dims 384))]) (JObj [(''spec'', JObj (dims 768))])
         ''ns'' ([], [])) = Inl (dimension_error plain_op (JInt 384) (JInt 768))"
    by (simp add: reconcile_embedding_def spec_field_def dict_field_def or_empty_def obj_get_def get_or_def dims_def
        py_eq_def set_status_def prog_defs)
qed

section \<open>The lag poll ends\<close>

text \<open>
  The event loop's clock does not run backwards and a sleep lasts at least as long as asked;
  \<open>raises\<close> are the exceptions the calls of the poll may raise themselves.
\<close>

definition clock_world :: "'w operator \<Rightarrow> ('w \<Rightarrow> rat) \<Rightarrow> (exc \<Rightarrow> bool) \<Rightarrow> bool" where
  "clock_world op clock raises \<longleftrightarrow>
     (\<forall>w r w'. op_api op Loop_Time w = (r, w') \<longrightarrow>
        (case r of Inl e \<Rightarrow> raises e | Inr Op_Ok \<Rightarrow> False | Inr (Time_Reply t) \<Rightarrow> clock w \<le> t \<and> t \<le> clock w'))
   \<and> (\<forall>d w r w'. op_api op (Op_Sleep d) w = (r, w') \<longrightarrow>
        (case r of Inl e \<Rightarrow> raises e | Inr _ \<Rightarrow> clock w + d \<le> clock w'))
   \<and> (\<forall>t g ns w r w'. get_kafka_consumer_lag (op_client op) t g ns w = (r, w') \<longrightarrow>
        (case r of Inl e \<Rightarrow> raises e | Inr _ \<Rightarrow> clock w \<le> clock w'))"

lemma clock_worldD:
  assumes "clock_world op clock raises"
  shows "wp (loop_time op) (\<lambda>t w'. clock w \<le> t \<and> t \<le> clock w') (\<lambda>e _. raises e) w"
    and "wp (op_api op (Op_Sleep d)) (\<lambda>_ w'. clock w + d \<le> clock w') (\<lambda>e _. raises e) w"
    and "wp (get_kafka_consumer_lag (op_client op) tp g ns) (\<lambda>_ w'. clock w \<le> clock w') (\<lambda>e _. raises e) w"
proof -
  note C = assms [unfolded clock_world_def]
  obtain r1 w1 where l: "op_api op Loop_Time w = (r1, w1)" by fastforce
  with C have "case r1 of Inl e \<Rightarrow> raises e | Inr Op_Ok \<Rightarrow> False | Inr (Time_Reply t) \<Rightarrow> clock w \<le> t \<and> t \<le> clock w1" by blast
  then show "wp (loop_time op) (\<lambda>t w'. clock w \<le> t \<and> t \<le> clock w') (\<lambda>e _. raises e) w"
    by (auto simp: loop_time_def wp_def bindE_def l split: sum.splits op_reply.splits)
  obtain r2 w2 where s: "op_api op (Op_Sleep d) w = (r2, w2)" by fastforce
  with C have "case r2 of Inl e \<Rightarrow> raises e | Inr _ \<Rightarrow> clock w + d \<le> clock w2" by blast
  then show "wp (op_api op (Op_Sleep d)) (\<lambda>_ w'. clock w + d \<le> clock w') (\<lambda>e _. raises e) w"
    by (auto simp: wp_def s split: sum.splits)
  obtain r3 w3 where g: "get_kafka_consumer_lag (op_client op) tp g ns w = (r3, w3)" by fastforce
  with C have "case r3 of Inl e \<Rightarrow> raises e | Inr _ \<Rightarrow> clock w \<le> clock w3" by blast
  then show "wp (get_kafka_consumer_lag (op_client op) tp g ns) (\<lambda>_ w'. clock w \<le> clock w') (\<lambda>e _. raises e) w"
    by (auto simp: wp_def g split: sum.splits)
qed

lemma wp_drain_loop_ends:
  assumes "clock_world op clock raises"
  shows "deadline - clock w \<le> 5 * of_nat n \<Longrightarrow> n < fuel \<Longrightarrow>
    wp (drain_loop op ns deadline fuel) (\<lambda>_ _. True)
      (\<lambda>e w'. raises e \<or> e = drain_timeout_error \<and> deadline \<le> clock w') w"
proof (induction n arbitrary: w fuel rule: less_induct)
  case (less n)
  let ?E = "\<lambda>e w'. raises e \<or> e = drain_timeout_error \<and> deadline \<le> clock w'"
  obtain f where f: "fuel = Suc f" using less.prems(2) by (cases fuel) auto
  have sleep: "wp (op_api op (Op_Sleep (min 5 (deadline - now)))) (\<lambda>_. wp (drain_loop op ns deadline f) (\<lambda>_ _. True) ?E) ?E w2"
    if now: "clock w \<le> now" "now \<le> clock w2" "0 < deadline - now" for now w2
  proof (rule wp_mono [OF clock_worldD(2) [OF assms]])
    fix x w3 assume "clock w2 + min 5 (deadline - now) \<le> clock w3"
    moreover obtain m where m: "n = Suc m"
      using less.prems(1) now by (cases n) auto
    ultimately have "deadline - clock w3 \<le> 5 * of_nat m"
      using less.prems(1) now by (auto simp: min_def split: if_splits)
    then show "wp (drain_loop op ns deadline f) (\<lambda>_ _. True) ?E w3"
      using less.IH [of m w3 f] less.prems(2) m f by simp
  qed simp
  have time: "wp (loop_time op) (\<lambda>now. wp (if deadline - now \<le> 0 then raise drain_timeout_error
      else seqE (op_api op (Op_Sleep (min 5 (deadline - now)))) (drain_loop op ns deadline f)) (\<lambda>_ _. True) ?E) ?E w1"
    if "clock w \<le> clock w1" for w1
    by (rule wp_mono [OF clock_worldD(1) [OF assms]]) (use that in \<open>auto simp: wp_raise wp_seqE intro!: sleep\<close>)
  show ?case
    unfolding f drain_loop.simps wp_bindE
    by (rule wp_mono [OF clock_worldD(3) [OF assms]])
       (use time in \<open>auto simp: wp_ret wp_bindE split: if_split\<close>)
qed

text \<open>
  C30. Waiting for the consumer lag ends. When the clock does not run backwards and a sleep lasts
  at least as long as asked, the loop's fuel is never used up: the wait returns because the lag
  is zero, or raises its time-out error no earlier than the configured time after its start, or
  passes on an exception that one of its calls raised.
\<close>

theorem drain_terminates:
  assumes "clock_world op clock raises" and "drain_kafka_lag op ns w = (r, w')"
  shows "r = Inr () \<or> (r = Inl drain_timeout_error \<and> clock w + of_int (op_drain_timeout op) \<le> clock w')
    \<or> (\<exists>e. r = Inl e \<and> raises e)"
proof -
  let ?T = "op_drain_timeout op"
  have "?T \<le> 5 * int (nat ((?T + 4) div 5))" by linarith
  then have "(of_int ?T :: rat) \<le> of_int (5 * int (nat ((?T + 4) div 5)))" unfolding of_int_le_iff .
  then have fuel: "(of_int ?T :: rat) \<le> 5 * of_nat (nat ((?T + 4) div 5))" by simp
  have "wp (drain_kafka_lag op ns) (\<lambda>_ _. True)
      (\<lambda>e w'. raises e \<or> e = drain_timeout_error \<and> clock w + of_int ?T \<le> clock w') w"
    unfolding drain_kafka_lag_def wp_bindE
  proof (rule wp_mono [OF clock_worldD(1) [OF assms(1)]])
    fix now w1 assume now: "clock w \<le> now \<and> now \<le> clock w1"
    show "wp (drain_loop op ns (now + of_int ?T) (drain_fuel ?T)) (\<lambda>_ _. True)
        (\<lambda>e w'. raises e \<or> e = drain_timeout_error \<and> clock w + of_int ?T \<le> clock w') w1"
      by (rule wp_mono [OF wp_drain_loop_ends [OF assms(1), where n = "nat ((?T + 4) div 5)"]])
         (use now fuel in \<open>auto simp: drain_fuel_def\<close>)
  qed simp
  then show ?thesis using assms(2) by (cases r) (auto simp: wp_def)
qed

text \<open>An operator whose world is its clock, with a lag that never drains.\<close>

definition stuck_op :: "rat operator" where
  "stuck_op = \<lparr>op_client = base_client\<lparr>get_kafka_consumer_lag := \<lambda>_ _ _. ret 1\<rparr>,
     op_api = \<lambda>c w. case c of Op_Sleep d \<Rightarrow> (Inr Op_Ok, w + max 0 d) | _ \<Rightarrow> (Inr (Time_Reply w), w),
     op_repr = \<lambda>_. [], op_metadata_url = [], op_health_url = [], op_drain_timeout = 12\<rparr>"

lemma stuck_clock: "clock_world stuck_op (\<lambda>w. w) (\<lambda>_. False)"
  by (auto simp: clock_world_def stuck_op_def ret_def)

theorem drain_terminates_witness:
  "fst (drain_kafka_lag stuck_op ''ns'' 0) = Inr () \<or> fst (drain_kafka_lag stuck_op ''ns'' 0) = Inl drain_timeout_error
     \<and> 12 \<le> snd (drain_kafka_lag stuck_op ''ns'' 0)"
  using drain_terminates [OF stuck_clock, of "''ns''" 0 "fst (drain_kafka_lag stuck_op ''ns'' 0)"
      "snd (drain_kafka_lag stuck_op ''ns'' 0)"]
  by (auto simp: stuck_op_def)

end
