(* ===== verification/Meta_Store.thy ===== *)
theory Meta_Store
  imports Events
begin

text \<open>
  The lineage store: the tables of \<open>db/alembic_metadata/versions/5001_metadata_schema.py\<close> with their
  keys and constraints, and the SQL statements of \<open>services/metadata-service/src/db.py\<close> as
  functions on them. A statement fails where PostgreSQL documents an error: a text that is no UUID,
  a NULL in a NOT NULL column, a broken foreign key. How psycopg2 adapts a Python value, the UUID
  input function, the generator of fresh identifiers and the clock are parameters.
  Columns that no statement of the service reads or writes, the table \<open>processing_steps\<close> and the
  indexes are left out.
\<close>

section \<open>Tables\<close>

record schema_version =
  sv_id :: string
  sv_tenant_id :: string
  sv_version_number :: int
  sv_chunk_size :: int
  sv_chunk_overlap :: int
  sv_chunking_strategy :: string
  sv_embedding_model :: string
  sv_embedding_dimension :: int
  sv_embedding_backend :: string
  sv_index_type :: string
  sv_is_current :: bool
  sv_created_by :: "string option"

record pipeline_run =
  pr_id :: string
  pr_tenant_id :: string
  pr_pipeline_type :: string
  pr_status :: string
  pr_started_at :: rat

record entity =
  en_id :: string
  en_type :: string
  en_key :: string
  en_tenant_id :: string
  en_pipeline_run_id :: "string option"
  en_schema_version_id :: "string option"
  en_attributes :: json
  en_is_current :: bool
  en_updated_at :: rat

record lineage_edge =
  le_upstream_id :: string
  le_downstream_id :: string
  le_relationship :: string
  le_pipeline_run_id :: "string option"

record quality_row =
  dq_entity_id :: string
  dq_run_id :: "string option"
  dq_check_name :: string
  dq_status :: string
  dq_value :: "rat option"
  dq_threshold :: "rat option"
  dq_message :: "string option"
  dq_checked_at :: rat

record query_result_row =
  qr_query_id :: string
  qr_chunk_entity_id :: string
  qr_rank :: int
  qr_score :: rat

record meta_db =
  schema_versions :: "schema_version list"
  pipeline_runs :: "pipeline_run list"
  entities :: "entity list"
  lineage :: "lineage_edge list"
  data_quality :: "quality_row list"
  query_results :: "query_result_row list"

definition empty_meta_db :: meta_db where
  "empty_meta_db = \<lparr>schema_versions = [], pipeline_runs = [], entities = [], lineage = [], data_quality = [], query_results = []\<rparr>"

text \<open>The unique and foreign key constraints.\<close>

definition entity_unique :: "entity \<Rightarrow> string \<times> string \<times> string" where
  "entity_unique e = (en_tenant_id e, en_type e, en_key e)"

definition fk_ok :: "string option \<Rightarrow> string list \<Rightarrow> bool" where
  "fk_ok ref ids \<longleftrightarrow> (case ref of None \<Rightarrow> True | Some i \<Rightarrow> i \<in> set ids)"

definition entity_ids :: "meta_db \<Rightarrow> string list" where
  "entity_ids db = map en_id (entities db)"

definition run_ids :: "meta_db \<Rightarrow> string list" where
  "run_ids db = map pr_id (pipeline_runs db)"

definition version_ids :: "meta_db \<Rightarrow> string list" where
  "version_ids db = map sv_id (schema_versions db)"

definition edge_key :: "lineage_edge \<Rightarrow> string \<times> string \<times> string" where
  "edge_key l = (le_upstream_id l, le_downstream_id l, le_relationship l)"

definition meta_wf :: "meta_db \<Rightarrow> bool" where
  "meta_wf db \<longleftrightarrow>
     distinct (entity_ids db) \<and> distinct (map entity_unique (entities db))
   \<and> distinct (version_ids db) \<and> distinct (map (\<lambda>v. (sv_tenant_id v, sv_version_number v)) (schema_versions db))
   \<and> distinct (map edge_key (lineage db))
   \<and> list_all (\<lambda>l. le_upstream_id l \<in> set (entity_ids db) \<and> le_downstream_id l \<in> set (entity_ids db)
        \<and> fk_ok (le_pipeline_run_id l) (run_ids db)) (lineage db)
   \<and> list_all (\<lambda>e. fk_ok (en_pipeline_run_id e) (run_ids db) \<and> fk_ok (en_schema_version_id e) (version_ids db)) (entities db)
   \<and> list_all (\<lambda>q. dq_entity_id q \<in> set (entity_ids db) \<and> fk_ok (dq_run_id q) (run_ids db)) (data_quality db)"

section \<open>Parameters of a statement\<close>

text \<open>What psycopg2 makes of a Python value, before anything is sent; a dictionary raises there.\<close>

datatype sql_val = Sql_Null | Sql_Text string | Sql_Other json

record sql_env =
  se_cast :: "json \<Rightarrow> exc + string option"
  se_num :: "sql_val \<Rightarrow> exc + rat option"
  se_uuid :: "string \<Rightarrow> string option"
  se_new_id :: "meta_db \<Rightarrow> string"
  se_now :: "meta_db \<Rightarrow> rat"

definition text_of :: "sql_env \<Rightarrow> sql_val \<Rightarrow> exc + string option" where
  "text_of env v = (case v of Sql_Null \<Rightarrow> Inr None | Sql_Text s \<Rightarrow> Inr (Some s) | Sql_Other j \<Rightarrow> se_cast env j)"

definition data_error :: exc where "data_error = Exc ''InvalidTextRepresentation'' ''''"
definition not_null_violation :: exc where "not_null_violation = Exc ''NotNullViolation'' ''''"
definition fk_violation :: exc where "fk_violation = Exc ''ForeignKeyViolation'' ''''"
definition out_of_range :: exc where "out_of_range = Exc ''NumericValueOutOfRange'' ''''"

definition not_null :: "exc + 'a option \<Rightarrow> exc + 'a" where
  "not_null r = res_bind r (\<lambda>v. case v of None \<Rightarrow> Inl not_null_violation | Some x \<Rightarrow> Inr x)"

definition text_param :: "sql_env \<Rightarrow> sql_val \<Rightarrow> exc + string" where
  "text_param env j = not_null (text_of env j)"

definition uuid_of_text :: "sql_env \<Rightarrow> string \<Rightarrow> exc + string" where
  "uuid_of_text env s = (case se_uuid env s of None \<Rightarrow> Inl data_error | Some u \<Rightarrow> Inr u)"

definition uuid_opt_param :: "sql_env \<Rightarrow> sql_val \<Rightarrow> exc + string option" where
  "uuid_opt_param env j =
     res_bind (text_of env j) (\<lambda>v. case v of None \<Rightarrow> Inr None
       | Some s \<Rightarrow> res_bind (uuid_of_text env s) (\<lambda>u. Inr (Some u)))"

definition uuid_param :: "sql_env \<Rightarrow> sql_val \<Rightarrow> exc + string" where
  "uuid_param env j = not_null (uuid_opt_param env j)"

text \<open>\<open>a || b\<close> on jsonb, for an object \<open>b\<close>.\<close>

definition jsonb_concat :: "json \<Rightarrow> (string \<times> json) list \<Rightarrow> json" where
  "jsonb_concat a b =
     (case a of JObj d \<Rightarrow> JObj (fold (\<lambda>(k, v). AList.update k v) b d) | JList xs \<Rightarrow> JList (xs @ [JObj b])
      | _ \<Rightarrow> JList [a, JObj b])"

text \<open>\<open>attributes ->> key\<close>; \<open>js\<close> renders a value that is not a string.\<close>

definition jsonb_text :: "(json \<Rightarrow> string) \<Rightarrow> json \<Rightarrow> string \<Rightarrow> string option" where
  "jsonb_text js a key =
     (case a of JObj d \<Rightarrow> (case map_of d key of None \<Rightarrow> None | Some JNull \<Rightarrow> None | Some (JStr s) \<Rightarrow> Some s
         | Some v \<Rightarrow> Some (js v)) | _ \<Rightarrow> None)"

section \<open>Writing statements\<close>

type_synonym 'a stmt = "meta_db \<Rightarrow> exc + ('a \<times> meta_db)"

definition find_entity :: "meta_db \<Rightarrow> string \<Rightarrow> string \<Rightarrow> string \<Rightarrow> entity option" where
  "find_entity db tenant etype key = find (\<lambda>e. entity_unique e = (tenant, etype, key)) (entities db)"

definition refresh_entity :: "json \<Rightarrow> rat \<Rightarrow> entity \<Rightarrow> entity" where
  "refresh_entity attrs now e = e\<lparr>en_attributes := attrs, en_updated_at := now, en_is_current := True\<rparr>"

definition update_where :: "('r \<Rightarrow> bool) \<Rightarrow> ('r \<Rightarrow> 'r) \<Rightarrow> 'r list \<Rightarrow> 'r list" where
  "update_where P f rows = map (\<lambda>r. if P r then f r else r) rows"

definition upsert_entity_sql ::
  "sql_env \<Rightarrow> sql_val \<Rightarrow> sql_val \<Rightarrow> sql_val \<Rightarrow> json \<Rightarrow> sql_val \<Rightarrow> sql_val \<Rightarrow> string stmt" where
  "upsert_entity_sql env etype key tenant attrs run sv db =
     res_bind (text_param env etype) (\<lambda>et. res_bind (text_param env key) (\<lambda>k. res_bind (uuid_param env tenant) (\<lambda>tn.
     res_bind (uuid_opt_param env run) (\<lambda>r. res_bind (uuid_opt_param env sv) (\<lambda>s.
       case find_entity db tn et k of
         Some e \<Rightarrow> Inr (en_id e, db\<lparr>entities := update_where (\<lambda>e. entity_unique e = (tn, et, k))
                    (refresh_entity attrs (se_now env db)) (entities db)\<rparr>)
       | None \<Rightarrow>
           if fk_ok r (run_ids db) \<and> fk_ok s (version_ids db) then
             Inr (se_new_id env db, db\<lparr>entities := entities db @
               [\<lparr>en_id = se_new_id env db, en_type = et, en_key = k, en_tenant_id = tn, en_pipeline_run_id = r,
                 en_schema_version_id = s, en_attributes = attrs, en_is_current = True, en_updated_at = se_now env db\<rparr>]\<rparr>)
           else Inl fk_violation)))))"

text \<open>A comparison with a NULL parameter selects nothing.\<close>

definition select_entity_sql :: "sql_env \<Rightarrow> sql_val \<Rightarrow> sql_val \<Rightarrow> sql_val \<Rightarrow> string option stmt" where
  "select_entity_sql env tenant etype key db =
     res_bind (uuid_opt_param env tenant) (\<lambda>tn. res_bind (text_of env etype) (\<lambda>et. res_bind (text_of env key) (\<lambda>k.
       Inr (case (tn, et, k) of
              (Some t, Some y, Some x) \<Rightarrow> map_option en_id (find_entity db t y x)
            | _ \<Rightarrow> None, db))))"

definition insert_edge_sql :: "sql_env \<Rightarrow> string \<Rightarrow> string \<Rightarrow> sql_val \<Rightarrow> sql_val \<Rightarrow> unit stmt" where
  "insert_edge_sql env upstream downstream relationship run db =
     res_bind (text_param env relationship) (\<lambda>rel. res_bind (uuid_opt_param env run) (\<lambda>r.
       if (upstream, downstream, rel) \<in> edge_key ` set (lineage db) then Inr ((), db)
       else if upstream \<in> set (entity_ids db) \<and> downstream \<in> set (entity_ids db) \<and> fk_ok r (run_ids db) then
         Inr ((), db\<lparr>lineage := lineage db @ [\<lparr>le_upstream_id = upstream, le_downstream_id = downstream,
                       le_relationship = rel, le_pipeline_run_id = r\<rparr>]\<rparr>)
       else Inl fk_violation))"

definition insert_check_sql ::
  "sql_env \<Rightarrow> string \<Rightarrow> sql_val \<Rightarrow> sql_val \<Rightarrow> sql_val \<Rightarrow> sql_val \<Rightarrow> sql_val \<Rightarrow> sql_val \<Rightarrow> unit stmt" where
  "insert_check_sql env eid run name status val threshold message db =
     res_bind (uuid_opt_param env run) (\<lambda>r. res_bind (text_param env name) (\<lambda>n. res_bind (text_param env status) (\<lambda>s.
     res_bind (se_num env val) (\<lambda>v. res_bind (se_num env threshold) (\<lambda>t. res_bind (text_of env message) (\<lambda>msg.
       if eid \<in> set (entity_ids db) \<and> fk_ok r (run_ids db) then
         Inr ((), db\<lparr>data_quality := data_quality db @ [\<lparr>dq_entity_id = eid, dq_run_id = r, dq_check_name = n, dq_status = s,
                       dq_value = v, dq_threshold = t, dq_message = msg, dq_checked_at = se_now env db\<rparr>]\<rparr>)
       else Inl fk_violation))))))"

definition mark_failed :: "rat \<Rightarrow> entity \<Rightarrow> entity" where
  "mark_failed now e =
     e\<lparr>en_attributes := jsonb_concat (en_attributes e) [(''quality_status'', JStr ''failed'')], en_updated_at := now\<rparr>"

definition mark_failed_sql :: "sql_env \<Rightarrow> string \<Rightarrow> unit stmt" where
  "mark_failed_sql env eid db =
     Inr ((), db\<lparr>entities := update_where (\<lambda>e. en_id e = eid) (mark_failed (se_now env db)) (entities db)\<rparr>)"

definition deactivate_versions_sql :: "sql_env \<Rightarrow> string \<Rightarrow> unit stmt" where
  "deactivate_versions_sql env tenant db =
     res_bind (uuid_of_text env tenant) (\<lambda>tn.
       Inr ((), db\<lparr>schema_versions := update_where (\<lambda>v. sv_tenant_id v = tn) (\<lambda>v. v\<lparr>sv_is_current := False\<rparr>)
              (schema_versions db)\<rparr>))"

text \<open>\<open>COALESCE((SELECT MAX(version_number) ...), 0) + 1\<close>.\<close>

definition next_version :: "meta_db \<Rightarrow> string \<Rightarrow> int" where
  "next_version db tenant =
     (let ns = map sv_version_number (filter (\<lambda>v. sv_tenant_id v = tenant) (schema_versions db))
      in (if ns = [] then 0 else Max (set ns)) + 1)"

record version_request =
  vq_tenant_id :: string
  vq_embedding_model :: string
  vq_embedding_dimension :: int
  vq_embedding_backend :: string
  vq_chunk_size :: int
  vq_chunk_overlap :: int
  vq_chunking_strategy :: string
  vq_index_type :: string
  vq_created_by :: "string option"

text \<open>An \<open>INTEGER\<close> column holds 32 bits.\<close>

definition int4_ok :: "int \<Rightarrow> bool" where
  "int4_ok i \<longleftrightarrow> - (2 ^ 31) \<le> i \<and> i < 2 ^ 31"

definition insert_version_sql :: "sql_env \<Rightarrow> version_request \<Rightarrow> schema_version stmt" where
  "insert_version_sql env q db =
     res_bind (uuid_of_text env (vq_tenant_id q)) (\<lambda>tn.
       let row = \<lparr>sv_id = se_new_id env db, sv_tenant_id = tn, sv_version_number = next_version db tn,
             sv_chunk_size = vq_chunk_size q, sv_chunk_overlap = vq_chunk_overlap q,
             sv_chunking_strategy = vq_chunking_strategy q, sv_embedding_model = vq_embedding_model q,
             sv_embedding_dimension = vq_embedding_dimension q, sv_embedding_backend = vq_embedding_backend q,
             sv_index_type = vq_index_type q, sv_is_current = True, sv_created_by = vq_created_by q\<rparr>
       in if int4_ok (sv_version_number row) \<and> int4_ok (vq_chunk_size q) \<and> int4_ok (vq_chunk_overlap q)
             \<and> int4_ok (vq_embedding_dimension q)
          then Inr (row, db\<lparr>schema_versions := schema_versions db @ [row]\<rparr>)
          else Inl out_of_range)"

section \<open>The session\<close>

text \<open>
  A PostgreSQL session: the committed tables, the transaction's view of them, and whether the
  transaction has failed. After an error every statement is refused until the transaction ends,
  and a \<open>COMMIT\<close> then rolls back without reporting an error.
\<close>

record pg_session =
  pg_committed :: meta_db
  pg_working :: meta_db
  pg_failed :: bool

definition in_failed_transaction :: exc where
  "in_failed_transaction = Exc ''InFailedSqlTransaction'' ''current transaction is aborted''"

definition run_stmt :: "'a stmt \<Rightarrow> (pg_session, 'a) prog" where
  "run_stmt stmt s =
     (if pg_failed s then (Inl in_failed_transaction, s)
      else case stmt (pg_working s) of
             Inl e \<Rightarrow> (Inl e, s\<lparr>pg_failed := True\<rparr>)
           | Inr (x, db) \<Rightarrow> (Inr x, s\<lparr>pg_working := db\<rparr>))"

definition pg_commit :: "(pg_session, unit) prog" where
  "pg_commit s =
     (Inr (), if pg_failed s then s\<lparr>pg_working := pg_committed s, pg_failed := False\<rparr>
              else s\<lparr>pg_committed := pg_working s\<rparr>)"

definition fresh_session :: "meta_db \<Rightarrow> pg_session" where
  "fresh_session db = \<lparr>pg_committed = db, pg_working = db, pg_failed = False\<rparr>"

section \<open>Queries\<close>

record chain_row =
  cr_entity :: entity
  cr_relationship :: "string option"
  cr_depth :: nat

text \<open>
  The recursive query of \<open>query_upstream\<close>: the entities with the key (of any type and tenant), then
  round by round the parents of the rows of the last round whose depth is below five.
\<close>

definition parents :: "meta_db \<Rightarrow> chain_row \<Rightarrow> chain_row list" where
  "parents db r =
     concat (map (\<lambda>l. map (\<lambda>e. \<lparr>cr_entity = e, cr_relationship = Some (le_relationship l), cr_depth = Suc (cr_depth r)\<rparr>)
         (filter (\<lambda>e. en_id e = le_upstream_id l) (entities db)))
       (filter (\<lambda>l. le_downstream_id l = en_id (cr_entity r)) (lineage db)))"

fun upstream_rounds :: "meta_db \<Rightarrow> nat \<Rightarrow> chain_row list \<Rightarrow> chain_row list" where
  "upstream_rounds db 0 rows = rows"
| "upstream_rounds db (Suc n) rows = rows @ upstream_rounds db n (concat (map (parents db) rows))"

definition max_upstream_depth :: nat where "max_upstream_depth = 5"

definition query_upstream :: "meta_db \<Rightarrow> string \<Rightarrow> chain_row list" where
  "query_upstream db chunk_id =
     rev (sort_key cr_depth (upstream_rounds db max_upstream_depth
       (map (\<lambda>e. \<lparr>cr_entity = e, cr_relationship = None, cr_depth = 0\<rparr>)
          (filter (\<lambda>e. en_key e = chunk_id) (entities db)))))"

definition children :: "meta_db \<Rightarrow> entity \<Rightarrow> entity list" where
  "children db d =
     concat (map (\<lambda>l. filter (\<lambda>e. en_id e = le_downstream_id l) (entities db))
       (filter (\<lambda>l. le_upstream_id l = en_id d) (lineage db)))"

fun downstream_rounds :: "meta_db \<Rightarrow> nat \<Rightarrow> entity list \<Rightarrow> entity list" where
  "downstream_rounds db 0 rows = []"
| "downstream_rounds db (Suc n) rows =
     (let next_rows = concat (map (children db) rows) in next_rows @ downstream_rounds db n next_rows)"

definition max_downstream_depth :: nat where "max_downstream_depth = 4"

text \<open>\<open>COUNT(*)\<close> and \<open>ARRAY_AGG(entity_key)\<close> by entity type.\<close>

definition group_by_type :: "entity list \<Rightarrow> (string \<times> nat \<times> string list) list" where
  "group_by_type es =
     map (\<lambda>t. let g = filter (\<lambda>e. en_type e = t) es in (t, length g, map en_key g)) (remdups (map en_type es))"

definition query_downstream :: "(json \<Rightarrow> string) \<Rightarrow> meta_db \<Rightarrow> string \<Rightarrow> string \<Rightarrow> (string \<times> nat \<times> string list) list" where
  "query_downstream js db tenant source_path =
     group_by_type (downstream_rounds db max_downstream_depth
       (filter (\<lambda>e. en_type e = ''RawDocument'' \<and> jsonb_text js (en_attributes e) ''source_path'' = Some source_path
           \<and> en_tenant_id e = tenant) (entities db)))"

record stale_row =
  sr_embedding_id :: string
  sr_chunk_id :: "string option"
  sr_model_name :: "string option"
  sr_schema_version :: int
  sr_old_model :: string
  sr_current_model :: string

definition stale_rows_of :: "(json \<Rightarrow> string) \<Rightarrow> meta_db \<Rightarrow> entity \<Rightarrow> stale_row list" where
  "stale_rows_of js db e =
     concat (map (\<lambda>sv. map (\<lambda>cv.
         \<lparr>sr_embedding_id = en_key e, sr_chunk_id = jsonb_text js (en_attributes e) ''chunk_id'',
          sr_model_name = jsonb_text js (en_attributes e) ''model_name'', sr_schema_version = sv_version_number sv,
          sr_old_model = sv_embedding_model sv, sr_current_model = sv_embedding_model cv\<rparr>)
         (filter (\<lambda>cv. sv_tenant_id cv = sv_tenant_id sv \<and> sv_is_current cv \<and> sv_id sv \<noteq> sv_id cv) (schema_versions db)))
       (filter (\<lambda>sv. en_schema_version_id e = Some (sv_id sv)) (schema_versions db)))"

definition query_stale :: "(json \<Rightarrow> string) \<Rightarrow> meta_db \<Rightarrow> string \<Rightarrow> stale_row list" where
  "query_stale js db tenant =
     sort_key sr_schema_version (concat (map (stale_rows_of js db)
       (filter (\<lambda>e. en_type e = ''Embedding'' \<and> en_tenant_id e = tenant) (entities db))))"

record provenance_row =
  pv_rank :: int
  pv_score :: rat
  pv_chunk_id :: string
  pv_text_preview :: "string option"
  pv_page :: "string option"
  pv_source_file :: "string option"
  pv_format :: "string option"
  pv_embedding_model :: string
  pv_chunk_size :: int
  pv_indexed_at :: rat

definition provenance_rows_of :: "(json \<Rightarrow> string) \<Rightarrow> meta_db \<Rightarrow> query_result_row \<Rightarrow> provenance_row list" where
  "provenance_rows_of js db qr =
     concat (map (\<lambda>ch. concat (map (\<lambda>l. concat (map (\<lambda>doc. concat (map (\<lambda>sv. map (\<lambda>pr.
         \<lparr>pv_rank = qr_rank qr, pv_score = qr_score qr, pv_chunk_id = en_key ch,
          pv_text_preview = jsonb_text js (en_attributes ch) ''text_preview'',
          pv_page = jsonb_text js (en_attributes ch) ''page_number'',
          pv_source_file = jsonb_text js (en_attributes doc) ''source_path'',
          pv_format = jsonb_text js (en_attributes doc) ''content_type'',
          pv_embedding_model = sv_embedding_model sv, pv_chunk_size = sv_chunk_size sv, pv_indexed_at = pr_started_at pr\<rparr>)
         (filter (\<lambda>pr. en_pipeline_run_id ch = Some (pr_id pr)) (pipeline_runs db)))
         (filter (\<lambda>sv. en_schema_version_id ch = Some (sv_id sv)) (schema_versions db))))
         (filter (\<lambda>doc. en_id doc = le_upstream_id l) (entities db))))
         (filter (\<lambda>l. le_downstream_id l = en_id ch \<and> le_relationship l = ''chunked_into'') (lineage db))))
         (filter (\<lambda>ch. en_id ch = qr_chunk_entity_id qr) (entities db)))"

definition query_provenance :: "(json \<Rightarrow> string) \<Rightarrow> meta_db \<Rightarrow> string \<Rightarrow> provenance_row list" where
  "query_provenance js db query_id =
     sort_key pv_rank (concat (map (provenance_rows_of js db)
       (filter (\<lambda>qr. qr_query_id qr = query_id) (query_results db))))"

definition query_runs :: "meta_db \<Rightarrow> string option \<Rightarrow> pipeline_run list" where
  "query_runs db tenant =
     take 100 (rev (sort_key pr_started_at
       (filter (\<lambda>r. case tenant of None \<Rightarrow> True | Some t \<Rightarrow> pr_tenant_id r = t) (pipeline_runs db))))"

definition query_quality :: "meta_db \<Rightarrow> string \<Rightarrow> (quality_row \<times> string \<times> string) list" where
  "query_quality db tenant =
     rev (sort_key (\<lambda>(q, _). dq_checked_at q) (concat (map (\<lambda>q. map (\<lambda>e. (q, en_type e, en_key e))
         (filter (\<lambda>e. en_id e = dq_entity_id q \<and> en_tenant_id e = tenant) (entities db)))
       (filter (\<lambda>q. dq_status q \<in> {''failed'', ''warning''}) (data_quality db)))))"

end
