(* ===== verification/Meta_Consumer.thy ===== *)
theory Meta_Consumer
  imports Meta_Store Kafka Dynamic
begin

text \<open>
  \<open>services/metadata-service/src/consumer.py\<close> and \<open>events.py\<close> with the writing functions of \<open>db.py\<close>:
  an event of the metadata topic becomes an entity, its lineage edges and its quality checks in
  one transaction, failed checks are announced, and the loop goes on whatever happened. The
  database connection and the Kafka clients are commands.
\<close>

section \<open>The outside world\<close>

datatype meta_cmd =
    Q_Upsert sql_val sql_val sql_val json sql_val sql_val
  | Q_Select_Entity sql_val sql_val sql_val
  | Q_Edge string string sql_val sql_val
  | Q_Check string sql_val sql_val sql_val sql_val sql_val sql_val
  | Q_Mark_Failed string
  | Q_Deactivate string
  | Q_Insert_Version version_request
  | Q_Commit
  | Produce_Dq kmsg
  | Flush_Dq rat
  | Meta_Subscribe string
  | Meta_Close

datatype meta_reply = R_Unit | R_Id string | R_Opt_Id "string option" | R_Version schema_version

type_synonym 'w meta_api = "(meta_cmd, exc, meta_reply, 'w) api"

record meta_cfg =
  mc_adapt :: "json \<Rightarrow> exc + sql_val"
  mc_decode :: "string \<Rightarrow> exc + string"
  mc_loads :: "string \<Rightarrow> exc + json"
  mc_float :: "rat \<Rightarrow> string"
  mc_repr :: "json \<Rightarrow> string"
  mc_events_topic :: string
  mc_dq_topic :: string

record meta_fresh =
  mf_event_id :: string
  mf_event_time :: string

section \<open>The writing functions\<close>

definition upsert_entity ::
  "'w meta_api \<Rightarrow> meta_cfg \<Rightarrow> json \<Rightarrow> json \<Rightarrow> json \<Rightarrow> json \<Rightarrow> json \<Rightarrow> json \<Rightarrow> ('w, string) prog" where
  "upsert_entity api cfg etype key tenant attrs run sv =
     bindE (lift_res (mc_adapt cfg etype)) (\<lambda>et. bindE (lift_res (mc_adapt cfg key)) (\<lambda>k.
     bindE (lift_res (mc_adapt cfg tenant)) (\<lambda>tn. bindE (lift_res (mc_adapt cfg run)) (\<lambda>r.
     bindE (lift_res (mc_adapt cfg sv)) (\<lambda>s.
       bindE (api (Q_Upsert et k tn attrs r s)) (\<lambda>reply. ret (case reply of R_Id i \<Rightarrow> i | _ \<Rightarrow> [])))))))"

definition insert_lineage_edge ::
  "'w meta_api \<Rightarrow> meta_cfg \<Rightarrow> json \<Rightarrow> json \<Rightarrow> json \<Rightarrow> string \<Rightarrow> json \<Rightarrow> json \<Rightarrow> ('w, unit) prog" where
  "insert_lineage_edge api cfg upstream_type upstream_key tenant downstream_id relationship run =
     bindE (lift_res (mc_adapt cfg tenant)) (\<lambda>tn. bindE (lift_res (mc_adapt cfg upstream_type)) (\<lambda>ut.
     bindE (lift_res (mc_adapt cfg upstream_key)) (\<lambda>uk.
       bindE (api (Q_Select_Entity tn ut uk)) (\<lambda>reply.
         case reply of
           R_Opt_Id (Some upstream_id) \<Rightarrow>
             bindE (lift_res (mc_adapt cfg relationship)) (\<lambda>rel. bindE (lift_res (mc_adapt cfg run)) (\<lambda>r.
               do_cmd api (Q_Edge upstream_id downstream_id rel r)))
         | _ \<Rightarrow> ret ()))))"

definition insert_check ::
  "'w meta_api \<Rightarrow> meta_cfg \<Rightarrow> string \<Rightarrow> json \<Rightarrow> json \<Rightarrow> ('w, unit) prog" where
  "insert_check api cfg entity_id run check =
     bindE (lift_res (py_index check ''check_name'')) (\<lambda>name. bindE (lift_res (py_index check ''status'')) (\<lambda>status.
     bindE (lift_res (dict_field check ''value'' JNull)) (\<lambda>val. bindE (lift_res (dict_field check ''threshold'' JNull)) (\<lambda>threshold.
     bindE (lift_res (dict_field check ''message'' JNull)) (\<lambda>message.
     bindE (lift_res (traverse (mc_adapt cfg) [run, name, status, val, threshold, message])) (\<lambda>ps.
       case ps of [r, n, s, v, t, msg] \<Rightarrow> do_cmd api (Q_Check entity_id r n s v t msg) | _ \<Rightarrow> ret ()))))))"

fun insert_quality_checks ::
  "'w meta_api \<Rightarrow> meta_cfg \<Rightarrow> string \<Rightarrow> json \<Rightarrow> json list \<Rightarrow> ('w, json list) prog" where
  "insert_quality_checks api cfg entity_id run [] = ret []"
| "insert_quality_checks api cfg entity_id run (check # checks) =
     seqE (insert_check api cfg entity_id run check)
       (bindE (lift_res (py_index check ''status'')) (\<lambda>status.
         bindE (insert_quality_checks api cfg entity_id run checks) (\<lambda>failed.
           ret (if status = JStr ''failed'' then check # failed else failed))))"

definition update_entity_quality_failed :: "'w meta_api \<Rightarrow> string \<Rightarrow> ('w, unit) prog" where
  "update_entity_quality_failed api entity_id = do_cmd api (Q_Mark_Failed entity_id)"

section \<open>The announcement of failed checks\<close>

definition dq_cloudevent :: "meta_fresh \<Rightarrow> string \<Rightarrow> string \<Rightarrow> string \<Rightarrow> json \<Rightarrow> json" where
  "dq_cloudevent f event_type source subject dat =
     JObj [(''specversion'', JStr ''1.0''), (''type'', JStr event_type), (''source'', JStr source),
       (''subject'', JStr subject), (''id'', JStr (mf_event_id f)), (''time'', JStr (mf_event_time f)),
       (''datacontenttype'', JStr ''application/json''), (''data'', dat)]"

definition publish_dq_failed ::
  "'w meta_api \<Rightarrow> meta_cfg \<Rightarrow> meta_fresh \<Rightarrow> string \<Rightarrow> json \<Rightarrow> json \<Rightarrow> json \<Rightarrow> json list \<Rightarrow> ('w, unit) prog" where
  "publish_dq_failed api cfg f entity_id etype key tenant failed =
     (let str = py_str (mc_repr cfg);
          event = dq_cloudevent f ''data.quality.failed'' ''metadata-service'' (str etype @ ''/'' @ str key)
            (JObj [(''entity_id'', JStr entity_id), (''entity_type'', etype), (''entity_key'', key),
               (''tenant_id'', tenant), (''failed_checks'', JList failed)])
      in ignoring (bindE (lift_res (need_str key)) (\<lambda>k.
           seqE (api (Produce_Dq (plain_msg (mc_dq_topic cfg) k (dumps (mc_float cfg) event))))
             (api (Flush_Dq 5)))))"

section \<open>One event\<close>

definition handled_event_type :: string where
  "handled_event_type = ''metadata.entity.created''"

definition insert_ref :: "'w meta_api \<Rightarrow> meta_cfg \<Rightarrow> json \<Rightarrow> string \<Rightarrow> json \<Rightarrow> json \<Rightarrow> ('w, unit) prog" where
  "insert_ref api cfg tenant entity_id run ref =
     ignoring (bindE (lift_res (py_index ref ''entity_type'')) (\<lambda>ut. bindE (lift_res (py_index ref ''entity_key'')) (\<lambda>uk.
       bindE (lift_res (py_index ref ''relationship'')) (\<lambda>rel.
         insert_lineage_edge api cfg ut uk tenant entity_id rel run))))"

definition record_entity :: "'w meta_api \<Rightarrow> meta_cfg \<Rightarrow> meta_fresh \<Rightarrow> (string \<times> json) list \<Rightarrow> ('w, unit) prog" where
  "record_entity api cfg f dat =
     (let etype = obj_get dat ''entity_type'' (JStr []); key = obj_get dat ''entity_key'' (JStr []);
          tenant = obj_get dat ''tenant_id'' (JStr []); run = obj_get dat ''pipeline_run_id'' JNull
      in bindE (upsert_entity api cfg etype key tenant (obj_get dat ''attributes'' (JObj [])) run
                 (obj_get dat ''schema_version_id'' JNull)) (\<lambda>entity_id.
           seqE (bindE (lift_res (py_iter (obj_get dat ''upstream'' (JList []))))
                   (eachE (insert_ref api cfg tenant entity_id run)))
             (seqE (bindE (lift_res (py_iter (obj_get dat ''quality_checks'' (JList [])))) (\<lambda>checks.
                     bindE (insert_quality_checks api cfg entity_id run checks) (\<lambda>failed.
                       whenE (failed \<noteq> [])
                         (seqE (ignoring (update_entity_quality_failed api entity_id))
                           (publish_dq_failed api cfg f entity_id etype key tenant failed)))))
               (ignoring (api Q_Commit)))))"

definition process_event :: "'w meta_api \<Rightarrow> meta_cfg \<Rightarrow> meta_fresh \<Rightarrow> json \<Rightarrow> ('w, unit) prog" where
  "process_event api cfg f event =
     bindE (lift_res (dict_field event ''type'' JNull)) (\<lambda>etype.
       if etype \<noteq> JStr handled_event_type then ret ()
       else bindE (lift_res (dict_field event ''data'' (JObj []))) (\<lambda>dat.
         case dat of JObj d \<Rightarrow> record_entity api cfg f d | _ \<Rightarrow> raise (Exc ''AttributeError'' ''get'')))"

section \<open>The consumer loop\<close>

datatype meta_polled = Poll_Nothing | Poll_Failure | Poll_Raise exc | Poll_Value meta_fresh "string option"

definition decode_event :: "meta_cfg \<Rightarrow> string option \<Rightarrow> exc + json" where
  "decode_event cfg v =
     (case v of None \<Rightarrow> Inl (Exc ''AttributeError'' ''decode'')
      | Some b \<Rightarrow> res_bind (mc_decode cfg b) (mc_loads cfg))"

definition handle_meta :: "'w meta_api \<Rightarrow> meta_cfg \<Rightarrow> meta_polled \<Rightarrow> ('w, unit) prog" where
  "handle_meta api cfg p =
     (case p of Poll_Nothing \<Rightarrow> ret () | Poll_Failure \<Rightarrow> ret () | Poll_Raise e \<Rightarrow> raise e
      | Poll_Value f v \<Rightarrow> ignoring (bindE (lift_res (decode_event cfg v)) (process_event api cfg f)))"

text \<open>The loop over the polls up to an interrupt, which ends it normally, with its \<open>finally\<close>.\<close>

definition keyboard_interrupt :: exc where "keyboard_interrupt = Exc ''KeyboardInterrupt'' ''''"

definition run_consumer :: "'w meta_api \<Rightarrow> meta_cfg \<Rightarrow> meta_polled list \<Rightarrow> ('w, unit) prog" where
  "run_consumer api cfg polls =
     seqE (api (Meta_Subscribe (mc_events_topic cfg)))
       (\<lambda>w. case catchE (eachE (handle_meta api cfg) polls)
                  (\<lambda>e. if e = keyboard_interrupt then ret () else raise e) w of
              (r, w1) \<Rightarrow> (case api Meta_Close w1 of (Inl e, w2) \<Rightarrow> (Inl e, w2) | (Inr _, w2) \<Rightarrow> (r, w2)))"

section \<open>Schema versions\<close>

definition create_schema_version :: "'w meta_api \<Rightarrow> version_request \<Rightarrow> ('w, schema_version option) prog" where
  "create_schema_version api q =
     seqE (api (Q_Deactivate (vq_tenant_id q)))
       (bindE (api (Q_Insert_Version q)) (\<lambda>reply.
         seqE (api Q_Commit) (ret (case reply of R_Version v \<Rightarrow> Some v | _ \<Rightarrow> None))))"

section \<open>The contract of the database\<close>

definition sql_exec :: "sql_env \<Rightarrow> meta_cmd \<Rightarrow> (pg_session, meta_reply) prog" where
  "sql_exec env c =
     (case c of
        Q_Upsert et k tn attrs r s \<Rightarrow> bindE (run_stmt (upsert_entity_sql env et k tn attrs r s)) (\<lambda>i. ret (R_Id i))
      | Q_Select_Entity tn et k \<Rightarrow> bindE (run_stmt (select_entity_sql env tn et k)) (\<lambda>i. ret (R_Opt_Id i))
      | Q_Edge u d rel r \<Rightarrow> bindE (run_stmt (insert_edge_sql env u d rel r)) (\<lambda>_. ret R_Unit)
      | Q_Check i r n s v t msg \<Rightarrow> bindE (run_stmt (insert_check_sql env i r n s v t msg)) (\<lambda>_. ret R_Unit)
      | Q_Mark_Failed i \<Rightarrow> bindE (run_stmt (mark_failed_sql env i)) (\<lambda>_. ret R_Unit)
      | Q_Deactivate t \<Rightarrow> bindE (run_stmt (deactivate_versions_sql env t)) (\<lambda>_. ret R_Unit)
      | Q_Insert_Version q \<Rightarrow> bindE (run_stmt (insert_version_sql env q)) (\<lambda>v. ret (R_Version v))
      | Q_Commit \<Rightarrow> bindE pg_commit (\<lambda>_. ret R_Unit)
      | _ \<Rightarrow> ret R_Unit)"

fun is_sql :: "meta_cmd \<Rightarrow> bool" where
  "is_sql (Produce_Dq _) = False"
| "is_sql (Flush_Dq _) = False"
| "is_sql (Meta_Subscribe _) = False"
| "is_sql Meta_Close = False"
| "is_sql _ = True"

text \<open>The connection runs the statements on its session; Kafka does not touch the session.\<close>

definition meta_world :: "sql_env \<Rightarrow> 'w meta_api \<Rightarrow> ('w \<Rightarrow> pg_session) \<Rightarrow> bool" where
  "meta_world env api sess \<longleftrightarrow>
     (\<forall>c w r w'. is_sql c \<longrightarrow> api c w = (r, w') \<longrightarrow> sql_exec env c (sess w) = (r, sess w'))
   \<and> (\<forall>c w r w'. \<not> is_sql c \<longrightarrow> api c w = (r, w') \<longrightarrow> sess w' = sess w)"

lemma meta_worldD:
  assumes "meta_world env api sess"
  shows "is_sql c \<Longrightarrow> api c w = (r, w') \<Longrightarrow> sql_exec env c (sess w) = (r, sess w')"
    and "\<not> is_sql c \<Longrightarrow> api c w = (r, w') \<Longrightarrow> sess w' = sess w"
  using assms by (auto simp: meta_world_def)

end
