(* ===== verification/Meta_Lineage.thy ===== *)
theory Meta_Lineage
  imports Meta_Consumer
begin

text \<open>
  What the lineage store keeps true: the constraints of the schema, and that no lineage edge joins
  entities of two tenants, hold after every event whatever it contains; what a failed statement
  does to the events after it; schema versions; the recursive upstream query.
\<close>

section \<open>The invariant of the tables\<close>

definition owned :: "meta_db \<Rightarrow> string \<Rightarrow> string \<Rightarrow> bool" where
  "owned db i tenant \<longleftrightarrow> (i, tenant) \<in> set (map (\<lambda>e. (en_id e, en_tenant_id e)) (entities db))"

definition edges_within_tenants :: "meta_db \<Rightarrow> bool" where
  "edges_within_tenants db \<longleftrightarrow>
     list_all (\<lambda>l. \<exists>t. owned db (le_upstream_id l) t \<and> owned db (le_downstream_id l) t) (lineage db)"

definition db_ok :: "meta_db \<Rightarrow> bool" where
  "db_ok db \<longleftrightarrow> meta_wf db \<and> edges_within_tenants db"

definition env_fresh :: "sql_env \<Rightarrow> bool" where
  "env_fresh env \<longleftrightarrow> (\<forall>db. se_new_id env db \<notin> set (entity_ids db) \<union> set (version_ids db))"

lemma map_update_where: "(\<And>r. g (f r) = g r) \<Longrightarrow> map g (update_where P f rows) = map g rows"
  by (simp add: update_where_def)

lemma list_all_update_where: "(\<And>r. Q (f r) = Q r) \<Longrightarrow> list_all Q (update_where P f rows) = list_all Q rows"
  by (induction rows) (simp_all add: update_where_def)

lemma entity_update_sel [simp]:
  "en_id (refresh_entity a n e) = en_id e" "entity_unique (refresh_entity a n e) = entity_unique e"
  "en_tenant_id (refresh_entity a n e) = en_tenant_id e" "en_schema_version_id (refresh_entity a n e) = en_schema_version_id e"
  "en_pipeline_run_id (refresh_entity a n e) = en_pipeline_run_id e" "en_key (refresh_entity a n e) = en_key e"
  "en_type (refresh_entity a n e) = en_type e"
  "en_id (mark_failed n e) = en_id e" "entity_unique (mark_failed n e) = entity_unique e"
  "en_tenant_id (mark_failed n e) = en_tenant_id e" "en_schema_version_id (mark_failed n e) = en_schema_version_id e"
  "en_pipeline_run_id (mark_failed n e) = en_pipeline_run_id e" "en_key (mark_failed n e) = en_key e"
  "en_type (mark_failed n e) = en_type e"
  by (simp_all add: refresh_entity_def mark_failed_def entity_unique_def)

text \<open>A rewrite of entities that keeps their identity keeps everything.\<close>

lemma owned_update:
  assumes "\<And>e. en_id (f e) = en_id e" and "\<And>e. en_tenant_id (f e) = en_tenant_id e"
  shows "owned (db\<lparr>entities := update_where P f (entities db)\<rparr>) i t \<longleftrightarrow> owned db i t"
  unfolding owned_def by (simp add: map_update_where assms del: set_map)

lemma db_ok_update_entities:
  assumes "db_ok db" and f: "\<And>e. en_id (f e) = en_id e" "\<And>e. entity_unique (f e) = entity_unique e"
    "\<And>e. en_tenant_id (f e) = en_tenant_id e"
    "\<And>e. en_pipeline_run_id (f e) = en_pipeline_run_id e" "\<And>e. en_schema_version_id (f e) = en_schema_version_id e"
  shows "db_ok (db\<lparr>entities := update_where P f (entities db)\<rparr>)"
proof -
  let ?db = "db\<lparr>entities := update_where P f (entities db)\<rparr>"
  have "entity_ids ?db = entity_ids db" "run_ids ?db = run_ids db" "version_ids ?db = version_ids db"
    "map entity_unique (entities ?db) = map entity_unique (entities db)"
    by (simp_all add: entity_ids_def run_ids_def version_ids_def map_update_where f)
  moreover have "list_all (\<lambda>e. fk_ok (en_pipeline_run_id e) rs \<and> fk_ok (en_schema_version_id e) vs) (entities ?db)
      = list_all (\<lambda>e. fk_ok (en_pipeline_run_id e) rs \<and> fk_ok (en_schema_version_id e) vs) (entities db)" for rs vs
    by (simp add: list_all_update_where f)
  ultimately show ?thesis
    using assms(1) unfolding db_ok_def meta_wf_def edges_within_tenants_def owned_update [OF f(1,3)] by simp
qed

lemma find_entity_in:
  "find_entity db t y k = Some e \<Longrightarrow> e \<in> set (entities db) \<and> entity_unique e = (t, y, k)"
  by (auto simp: find_entity_def find_Some_iff)

lemma find_entity_None: "find_entity db t y k = None \<Longrightarrow> (t, y, k) \<notin> entity_unique ` set (entities db)"
  by (auto simp: find_entity_def find_None_iff)

lemma db_ok_add_entity:
  assumes "db_ok db" and "en_id e \<notin> set (entity_ids db)" and "entity_unique e \<notin> entity_unique ` set (entities db)"
    and "fk_ok (en_pipeline_run_id e) (run_ids db)" and "fk_ok (en_schema_version_id e) (version_ids db)"
  shows "db_ok (db\<lparr>entities := entities db @ [e]\<rparr>)"
proof -
  let ?db = "db\<lparr>entities := entities db @ [e]\<rparr>"
  have i: "entity_ids ?db = entity_ids db @ [en_id e]" "run_ids ?db = run_ids db" "version_ids ?db = version_ids db"
    by (simp_all add: entity_ids_def run_ids_def version_ids_def)
  have own: "owned db j t \<Longrightarrow> owned ?db j t" for j t by (auto simp: owned_def)
  have "edges_within_tenants ?db"
    using assms(1) own unfolding db_ok_def edges_within_tenants_def list_all_iff by fastforce
  then show ?thesis
    using assms unfolding db_ok_def meta_wf_def i by (auto simp: list_all_iff)
qed

lemma upsert_sql_ok:
  assumes "upsert_entity_sql env et k tn attrs r s db = Inr (i, db')" and "db_ok db" and "env_fresh env"
  shows "db_ok db' \<and> (\<exists>t. uuid_param env tn = Inr t \<and> owned db' i t)"
proof -
  from assms(1) obtain y x t rr ss where p: "text_param env et = Inr y" "text_param env k = Inr x" "uuid_param env tn = Inr t"
    "uuid_opt_param env r = Inr rr" "uuid_opt_param env s = Inr ss"
    by (auto simp: upsert_entity_sql_def res_bind_Inr_iff)
  show ?thesis
  proof (cases "find_entity db t y x")
    case (Some e)
    then have "i = en_id e" "db' = db\<lparr>entities := update_where (\<lambda>e. entity_unique e = (t, y, x))
        (refresh_entity attrs (se_now env db)) (entities db)\<rparr>"
      using assms(1) p by (simp_all add: upsert_entity_sql_def)
    moreover have "owned db (en_id e) t" using find_entity_in [OF Some] by (auto simp: owned_def entity_unique_def)
    ultimately show ?thesis using p(3) assms(2) by (simp add: db_ok_update_entities owned_update)
  next
    case None
    then show ?thesis using assms p find_entity_None [OF None]
      by (auto simp: upsert_entity_sql_def env_fresh_def owned_def entity_unique_def intro!: db_ok_add_entity split: if_splits)
  qed
qed

lemma insert_edge_sql_ok:
  assumes "insert_edge_sql env u d rel r db = Inr (x, db')" and "db_ok db" and "owned db u t" and "owned db d t"
  shows "db_ok db' \<and> (\<forall>j t. owned db' j t \<longleftrightarrow> owned db j t)"
proof -
  have own: "owned (db\<lparr>lineage := ls\<rparr>) j t = owned db j t" for ls j t by (simp add: owned_def)
  have ids: "entity_ids (db\<lparr>lineage := ls\<rparr>) = entity_ids db" "run_ids (db\<lparr>lineage := ls\<rparr>) = run_ids db"
    "version_ids (db\<lparr>lineage := ls\<rparr>) = version_ids db" for ls
    by (simp_all add: entity_ids_def run_ids_def version_ids_def)
  have add: "db_ok (db\<lparr>lineage := lineage db @ [l]\<rparr>)"
    if "edge_key l \<notin> edge_key ` set (lineage db)" "le_upstream_id l = u" "le_downstream_id l = d"
      "u \<in> set (entity_ids db)" "d \<in> set (entity_ids db)" "fk_ok (le_pipeline_run_id l) (run_ids db)" for l
    using assms(2-4) that unfolding db_ok_def meta_wf_def edges_within_tenants_def own ids by auto
  obtain y rr where p: "text_param env rel = Inr y" "uuid_opt_param env r = Inr rr"
    using assms(1) by (auto simp: insert_edge_sql_def res_bind_Inr_iff)
  let ?l = "\<lparr>le_upstream_id = u, le_downstream_id = d, le_relationship = y, le_pipeline_run_id = rr\<rparr>"
  have "db' = db \<or> db' = db\<lparr>lineage := lineage db @ [?l]\<rparr> \<and> (u, d, y) \<notin> edge_key ` set (lineage db)
      \<and> u \<in> set (entity_ids db) \<and> d \<in> set (entity_ids db) \<and> fk_ok rr (run_ids db)"
    using assms(1) p by (auto simp: insert_edge_sql_def split: if_splits)
  then show ?thesis using add [of ?l] assms(2) by (auto simp: own edge_key_def)
qed

lemma insert_check_sql_ok:
  assumes "insert_check_sql env i r n s v th msg db = Inr (x, db')" and "db_ok db"
  shows "db_ok db' \<and> (\<forall>j t. owned db' j t \<longleftrightarrow> owned db j t)"
  using assms
  by (auto simp: insert_check_sql_def res_bind_Inr_iff db_ok_def meta_wf_def edges_within_tenants_def owned_def
      entity_ids_def run_ids_def version_ids_def list_all_iff split: if_splits)

lemma mark_failed_sql_ok:
  assumes "mark_failed_sql env i db = Inr (x, db')" and "db_ok db"
  shows "db_ok db' \<and> (\<forall>j t. owned db' j t \<longleftrightarrow> owned db j t)"
  using assms by (auto simp: mark_failed_sql_def owned_update intro!: db_ok_update_entities)

lemma find_entity_owned: "find_entity db t y k = Some e \<Longrightarrow> owned db (en_id e) t"
  using find_entity_in [of db t y k e] by (auto simp: owned_def entity_unique_def)

lemma select_entity_sql_ok:
  assumes "select_entity_sql env tn y k db = Inr (Some i, db')"
  shows "db' = db \<and> (\<exists>t. uuid_param env tn = Inr t \<and> owned db i t)"
proof -
  obtain a b c where p: "uuid_opt_param env tn = Inr a" "text_of env y = Inr b" "text_of env k = Inr c"
    using assms by (auto simp: select_entity_sql_def res_bind_Inr_iff)
  with assms show ?thesis
    by (cases a; cases b; cases c)
       (auto simp: select_entity_sql_def uuid_param_def not_null_def find_entity_owned)
qed

section \<open>The invariant of the session\<close>

text \<open>Both the committed tables and the view of the transaction are in order; \<open>mine\<close>: unless the
  transaction has failed, the entity being recorded is one of the event's tenant.\<close>

definition sess_ok :: "pg_session \<Rightarrow> bool" where
  "sess_ok s \<longleftrightarrow> db_ok (pg_committed s) \<and> db_ok (pg_working s)"

definition mine :: "sql_env \<Rightarrow> sql_val \<Rightarrow> string \<Rightarrow> pg_session \<Rightarrow> bool" where
  "mine env tn i s \<longleftrightarrow> sess_ok s \<and> (pg_failed s \<or> (\<exists>t. uuid_param env tn = Inr t \<and> owned (pg_working s) i t))"

lemma run_stmt_cases:
  assumes "run_stmt stmt s = (r, s')"
  obtains (refuse) e where "r = Inl e" "s' = s" "pg_failed s"
    | (fail) e where "r = Inl e" "s' = s\<lparr>pg_failed := True\<rparr>" "\<not> pg_failed s"
    | (success) x db where "r = Inr x" "stmt (pg_working s) = Inr (x, db)" "s' = s\<lparr>pg_working := db\<rparr>" "\<not> pg_failed s"
  using assms by (auto simp: run_stmt_def split: if_splits sum.splits prod.splits)

lemma run_stmt_mine:
  assumes "run_stmt stmt s = (r, s')" and "mine env tn i s"
    and "\<And>x db db'. stmt db = Inr (x, db') \<Longrightarrow> db_ok db \<Longrightarrow> (\<exists>t. uuid_param env tn = Inr t \<and> owned db i t) \<Longrightarrow>
      db_ok db' \<and> (\<forall>j t. owned db' j t \<longleftrightarrow> owned db j t)"
  shows "mine env tn i s'"
  using assms(1)
proof (cases rule: run_stmt_cases)
  case (success x db)
  then show ?thesis using assms(2) assms(3) [OF success(2)] by (auto simp: mine_def sess_ok_def)
qed (use assms(2) in \<open>auto simp: mine_def sess_ok_def\<close>)

lemma sess_ok_commit: "pg_commit s = (r, s') \<Longrightarrow> sess_ok s \<Longrightarrow> sess_ok s'"
  by (auto simp: pg_commit_def sess_ok_def split: if_splits)

lemma run_stmt_sess_ok:
  assumes "run_stmt stmt s = (r, s')" and "sess_ok s"
    and "\<And>x db'. stmt (pg_working s) = Inr (x, db') \<Longrightarrow> db_ok db'"
  shows "sess_ok s'"
  using assms(1) by (cases rule: run_stmt_cases) (use assms(2,3) in \<open>auto simp: sess_ok_def\<close>)

text \<open>A statement followed by packing its result.\<close>

lemma bind_run_stmt:
  "bindE (run_stmt stmt) (\<lambda>x. ret (f x)) s = (r, s') \<Longrightarrow> \<exists>r'. run_stmt stmt s = (r', s') \<and> r = map_sum id f r'"
  by (auto simp: bindE_def split: prod.splits sum.splits)

lemma mine_checks:
  assumes "meta_world env api sess"
  shows "keeps (\<lambda>w. mine env tn i (sess w)) (api (Q_Check j r n s v th msg))"
    and "keeps (\<lambda>w. mine env tn i (sess w)) (api (Q_Mark_Failed j))"
    and "\<not> is_sql c \<Longrightarrow> keeps (\<lambda>w. mine env tn i (sess w)) (api c)"
proof -
  have stmt: "keeps (\<lambda>w. mine env tn i (sess w)) (api c)"
    if sql: "is_sql c" and exec: "\<And>s. sql_exec env c s = bindE (run_stmt stmt) (\<lambda>_. ret R_Unit) s"
      and ok: "\<And>x db db'. stmt db = Inr (x, db') \<Longrightarrow> db_ok db \<Longrightarrow> db_ok db' \<and> (\<forall>j t. owned db' j t \<longleftrightarrow> owned db j t)"
    for c and stmt :: "unit stmt"
  proof (rule keepsI)
    fix w r w' assume m: "mine env tn i (sess w)" and a: "api c w = (r, w')"
    from meta_worldD(1) [OF assms sql a] obtain r' where e: "run_stmt stmt (sess w) = (r', sess w')"
      by (auto simp: exec dest: bind_run_stmt)
    show "mine env tn i (sess w')" by (rule run_stmt_mine [OF e m ok])
  qed
  show "keeps (\<lambda>w. mine env tn i (sess w)) (api (Q_Check j r n s v th msg))"
    by (rule stmt [where stmt = "insert_check_sql env j r n s v th msg"])
       (simp_all add: sql_exec_def insert_check_sql_ok)
  show "keeps (\<lambda>w. mine env tn i (sess w)) (api (Q_Mark_Failed j))"
    by (rule stmt [where stmt = "mark_failed_sql env j"]) (simp_all add: sql_exec_def mark_failed_sql_ok)
  show "keeps (\<lambda>w. mine env tn i (sess w)) (api c)" if "\<not> is_sql c"
    using meta_worldD(2) [OF assms that] by (auto intro!: keepsI)
qed

lemma wp_select:
  assumes "meta_world env api sess" and "mine env tn i (sess w)"
  shows "wp (api (Q_Select_Entity tn y k))
     (\<lambda>reply w'. mine env tn i (sess w') \<and> (\<forall>u. reply = R_Opt_Id (Some u) \<longrightarrow>
        (\<exists>t. uuid_param env tn = Inr t \<and> owned (pg_working (sess w')) u t \<and> owned (pg_working (sess w')) i t)))
     (\<lambda>_ w'. mine env tn i (sess w')) w"
proof -
  obtain r w' where a: "api (Q_Select_Entity tn y k) w = (r, w')" by fastforce
  from meta_worldD(1) [OF assms(1) _ a] obtain r' where
    e: "run_stmt (select_entity_sql env tn y k) (sess w) = (r', sess w')" "r = map_sum id R_Opt_Id r'"
    by (auto simp: sql_exec_def dest: bind_run_stmt)
  from e(1) show ?thesis
  proof (cases rule: run_stmt_cases)
    case (success x db)
    then have "db = pg_working (sess w)"
      by (auto simp: select_entity_sql_def res_bind_Inr_iff)
    then have "sess w' = sess w" using success(3) by simp
    moreover have "\<exists>t. uuid_param env tn = Inr t \<and> owned (pg_working (sess w)) u t" if "x = Some u" for u
      using select_entity_sql_ok [OF success(2) [unfolded that]] by simp
    ultimately show ?thesis using assms(2) success(1,4) e(2) a by (auto simp: wp_def mine_def)
  qed (use assms(2) e(2) a in \<open>auto simp: wp_def mine_def sess_ok_def\<close>)
qed

lemma wp_edge:
  assumes "meta_world env api sess" and "mine env tn i (sess w)" and "uuid_param env tn = Inr t"
    and "owned (pg_working (sess w)) u t" and "owned (pg_working (sess w)) i t"
  shows "wp (api (Q_Edge u i rel r)) (\<lambda>_ w'. mine env tn i (sess w')) (\<lambda>_ w'. mine env tn i (sess w')) w"
proof -
  obtain r0 w' where a: "api (Q_Edge u i rel r) w = (r0, w')" by fastforce
  from meta_worldD(1) [OF assms(1) _ a] obtain r' where
    e: "run_stmt (insert_edge_sql env u i rel r) (sess w) = (r', sess w')"
    by (auto simp: sql_exec_def dest: bind_run_stmt)
  from e have "mine env tn i (sess w')"
  proof (cases rule: run_stmt_cases)
    case (success x db)
    then show ?thesis
      using insert_edge_sql_ok [OF success(2) _ assms(4,5)] assms(2,3,5) by (auto simp: mine_def sess_ok_def)
  qed (use assms(2) in \<open>auto simp: mine_def sess_ok_def\<close>)
  then show ?thesis by (auto simp: wp_def a split: sum.split)
qed

lemma keeps_insert_ref:
  assumes "meta_world env api sess" and "mc_adapt cfg tenant = Inr tn"
  shows "keeps (\<lambda>w. mine env tn i (sess w)) (insert_ref api cfg tenant i run ref)"
proof -
  have "keeps (\<lambda>w. mine env tn i (sess w)) (insert_lineage_edge api cfg ut uk tenant i rel run)" for ut uk rel
    unfolding keeps_def
  proof (intro allI impI)
    fix w assume m: "mine env tn i (sess w)"
    have edge: "wp (case reply of
          R_Opt_Id (Some upstream_id) \<Rightarrow>
            bindE (lift_res (mc_adapt cfg rel)) (\<lambda>rel. bindE (lift_res (mc_adapt cfg run)) (\<lambda>r. do_cmd api (Q_Edge upstream_id i rel r)))
        | _ \<Rightarrow> ret ()) (\<lambda>_ w'. mine env tn i (sess w')) (\<lambda>_ w'. mine env tn i (sess w')) w'"
      if "mine env tn i (sess w') \<and> (\<forall>u. reply = R_Opt_Id (Some u) \<longrightarrow>
        (\<exists>t. uuid_param env tn = Inr t \<and> owned (pg_working (sess w')) u t \<and> owned (pg_working (sess w')) i t))" for reply w'
      using that wp_edge [OF assms(1)]
      by (auto simp: wp_simps split: meta_reply.split option.split sum.split)
    show "wp (insert_lineage_edge api cfg ut uk tenant i rel run) (\<lambda>_ w'. mine env tn i (sess w')) (\<lambda>_ w'. mine env tn i (sess w')) w"
      unfolding insert_lineage_edge_def
      by (simp add: wp_simps assms(2) m split: sum.split)
         (intro allI impI conjI wp_mono [OF wp_select [OF assms(1) m]] edge, simp_all)
  qed
  then show ?thesis
    unfolding insert_ref_def by (intro keeps_intros)
qed

lemma keeps_insert_quality_checks:
  assumes "meta_world env api sess"
  shows "keeps (\<lambda>w. mine env tn i (sess w)) (insert_quality_checks api cfg j run checks)"
proof (induction checks)
  case (Cons check checks)
  have "keeps (\<lambda>w. mine env tn i (sess w)) (insert_check api cfg j run check)"
    unfolding insert_check_def
    by (intro keeps_intros) (auto intro!: keeps_intros mine_checks [OF assms] split: list.split)
  then show ?case by (auto intro!: keeps_intros Cons.IH)
qed (auto intro!: keeps_intros)

lemma wp_upsert:
  assumes "meta_world env api sess" and "env_fresh env" and "sess_ok (sess w)"
  shows "wp (upsert_entity api cfg etype key tenant attrs run sv)
     (\<lambda>i w'. \<exists>tn. mc_adapt cfg tenant = Inr tn \<and> mine env tn i (sess w')) (\<lambda>_ w'. sess_ok (sess w')) w"
proof -
  have "wp (api (Q_Upsert et k tn attrs r s)) (\<lambda>reply w'. mine env tn (case reply of R_Id i \<Rightarrow> i | _ \<Rightarrow> []) (sess w'))
      (\<lambda>_ w'. sess_ok (sess w')) w" for et k tn r s
  proof -
    obtain r0 w' where a: "api (Q_Upsert et k tn attrs r s) w = (r0, w')" by fastforce
    from meta_worldD(1) [OF assms(1) _ a] obtain r' where
      e: "run_stmt (upsert_entity_sql env et k tn attrs r s) (sess w) = (r', sess w')" "r0 = map_sum id R_Id r'"
      by (auto simp: sql_exec_def dest: bind_run_stmt)
    from e(1) show ?thesis
    proof (cases rule: run_stmt_cases)
      case (success x db)
      then show ?thesis using upsert_sql_ok [OF success(2) _ assms(2)] assms(3) e(2) a
        by (auto simp: wp_def mine_def sess_ok_def)
    qed (use assms(3) e(2) a in \<open>auto simp: wp_def sess_ok_def\<close>)
  qed
  then show ?thesis
    using assms(3) unfolding upsert_entity_def by (auto simp: wp_simps split: sum.split)
qed

section \<open>Events keep the invariant\<close>

lemma keeps_mono: "keeps I p \<Longrightarrow> I w \<Longrightarrow> (\<And>w. I w \<Longrightarrow> J w) \<Longrightarrow> wp p (\<lambda>_. J) (\<lambda>_. J) w"
  unfolding keeps_def by (blast intro: wp_mono)

lemma keeps_finally:
  assumes "keeps I p" and "keeps I c"
  shows "keeps I (\<lambda>w. case p w of (r, w1) \<Rightarrow> (case c w1 of (Inl e, w2) \<Rightarrow> (Inl e, w2) | (Inr _, w2) \<Rightarrow> (r, w2)))"
proof (rule keepsI)
  fix w r w' assume I: "I w" and run: "(case p w of (r, w1) \<Rightarrow> (case c w1 of (Inl e, w2) \<Rightarrow> (Inl e, w2) | (Inr _, w2) \<Rightarrow> (r, w2))) = (r, w')"
  obtain r1 w1 r2 w2 where p: "p w = (r1, w1)" and c: "c w1 = (r2, w2)" by fastforce
  have "I w2" by (rule keepsD [OF assms(2) keepsD [OF assms(1) I p] c])
  then show "I w'" using run by (simp add: p c split: sum.splits)
qed

lemma keeps_sess_commit:
  assumes "meta_world env api sess"
  shows "keeps (\<lambda>w. sess_ok (sess w)) (ignoring (api Q_Commit))"
proof -
  have "keeps (\<lambda>w. sess_ok (sess w)) (api Q_Commit)"
  proof (rule keepsI)
    fix w r w' assume m: "sess_ok (sess w)" and a: "api Q_Commit w = (r, w')"
    from meta_worldD(1) [OF assms _ a] obtain r' where "pg_commit (sess w) = (r', sess w')"
      by (auto simp: sql_exec_def bindE_def split: prod.splits sum.splits)
    from sess_ok_commit [OF this m] show "sess_ok (sess w')" .
  qed
  then show ?thesis by (intro keeps_intros)
qed

lemma keeps_record_entity:
  assumes "meta_world env api sess" and "env_fresh env"
  shows "keeps (\<lambda>w. sess_ok (sess w)) (record_entity api cfg f d)"
proof -
  let ?J = "\<lambda>_ w'. sess_ok (sess w')"
  have mid: "wp (seqE (bindE (lift_res (py_iter refs)) (eachE (insert_ref api cfg tenant i run)))
      (seqE (bindE (lift_res (py_iter cs)) (\<lambda>checks. bindE (insert_quality_checks api cfg i run checks) (\<lambda>failed.
          whenE (failed \<noteq> []) (seqE (ignoring (update_entity_quality_failed api i))
            (publish_dq_failed api cfg f i et key tn2 failed)))))
        (ignoring (api Q_Commit)))) ?J ?J w"
    if tn: "mc_adapt cfg tenant = Inr tn" and m: "mine env tn i (sess w)" for refs tenant i run cs et key tn2 tn w
  proof -
    let ?I = "\<lambda>w. mine env tn i (sess w)"
    note k = mine_checks [OF assms(1), where tn = tn and i = i]
    have "keeps ?I (bindE (lift_res (py_iter refs)) (eachE (insert_ref api cfg tenant i run)))"
      by (intro keeps_intros keeps_insert_ref [OF assms(1) tn])
    moreover have "keeps ?I (bindE (lift_res (py_iter cs)) (\<lambda>checks. bindE (insert_quality_checks api cfg i run checks) (\<lambda>failed.
          whenE (failed \<noteq> []) (seqE (ignoring (update_entity_quality_failed api i))
            (publish_dq_failed api cfg f i et key tn2 failed)))))"
      unfolding update_entity_quality_failed_def publish_dq_failed_def Let_def
      by (intro keeps_intros keeps_insert_quality_checks [OF assms(1)] k) simp_all
    moreover have ok: "\<And>w. ?I w \<Longrightarrow> sess_ok (sess w)" by (simp add: mine_def)
    moreover have "wp (ignoring (api Q_Commit)) ?J ?J w'" if "?I w'" for w'
      using keeps_sess_commit [OF assms(1)] ok [OF that] by (auto simp: keeps_def)
    ultimately show ?thesis
      unfolding wp_seqE [where p = "bindE _ _"]
      using m unfolding keeps_def
      by (blast intro: wp_mono)
  qed
  show ?thesis
    unfolding keeps_def record_entity_def Let_def wp_bindE [of "upsert_entity _ _ _ _ _ _ _ _"]
    by (intro allI impI wp_mono [OF wp_upsert [OF assms]]) (auto intro: mid)
qed

lemma keeps_handle_meta:
  assumes "meta_world env api sess" and "env_fresh env"
  shows "keeps (\<lambda>w. sess_ok (sess w)) (handle_meta api cfg p)"
proof -
  have "keeps (\<lambda>w. sess_ok (sess w)) (process_event api cfg f ev)" for f ev
    unfolding process_event_def by (intro keeps_intros) (auto intro!: keeps_intros keeps_record_entity [OF assms] split: json.split)
  then show ?thesis
    unfolding handle_meta_def by (auto intro!: keeps_intros split: meta_polled.split)
qed

section \<open>Facts about tables that every statement keeps\<close>

definition both_tables :: "(meta_db \<Rightarrow> bool) \<Rightarrow> pg_session \<Rightarrow> bool" where
  "both_tables D s \<longleftrightarrow> D (pg_committed s) \<and> D (pg_working s)"

definition keeps_db :: "(meta_db \<Rightarrow> bool) \<Rightarrow> 'a stmt \<Rightarrow> bool" where
  "keeps_db D stmt \<longleftrightarrow> (\<forall>db x db'. stmt db = Inr (x, db') \<longrightarrow> D db \<longrightarrow> D db')"

lemma both_tables_stmt:
  assumes "run_stmt stmt s = (r, s')" and "both_tables D s" and "keeps_db D stmt"
  shows "both_tables D s'"
  using assms(1)
proof (cases rule: run_stmt_cases)
  case (success x db)
  then show ?thesis using assms(2,3) by (auto simp: both_tables_def keeps_db_def)
qed (use assms(2) in \<open>auto simp: both_tables_def\<close>)

lemma both_tables_commit:
  "bindE pg_commit (\<lambda>_. ret x) s = (r, s') \<Longrightarrow> both_tables D s \<longrightarrow> both_tables D s'"
  by (auto simp: pg_commit_def bindE_def both_tables_def)

text \<open>The statements a command runs keep \<open>D\<close>.\<close>

fun cmd_keeps :: "(meta_db \<Rightarrow> bool) \<Rightarrow> sql_env \<Rightarrow> meta_cmd \<Rightarrow> bool" where
  "cmd_keeps D env (Q_Upsert et k tn attrs r s) = keeps_db D (upsert_entity_sql env et k tn attrs r s)"
| "cmd_keeps D env (Q_Select_Entity tn et k) = keeps_db D (select_entity_sql env tn et k)"
| "cmd_keeps D env (Q_Edge u d rel r) = keeps_db D (insert_edge_sql env u d rel r)"
| "cmd_keeps D env (Q_Check i r n s v t msg) = keeps_db D (insert_check_sql env i r n s v t msg)"
| "cmd_keeps D env (Q_Mark_Failed i) = keeps_db D (mark_failed_sql env i)"
| "cmd_keeps D env (Q_Deactivate t) = keeps_db D (deactivate_versions_sql env t)"
| "cmd_keeps D env (Q_Insert_Version q) = keeps_db D (insert_version_sql env q)"
| "cmd_keeps D env _ = True"

lemma keeps_tables:
  assumes "meta_world env api sess" and "cmd_keeps D env c"
  shows "keeps (\<lambda>w. both_tables D (sess w)) (api c)"
proof (rule keepsI)
  fix w r w' assume T: "both_tables D (sess w)" and a: "api c w = (r, w')"
  show "both_tables D (sess w')"
  proof (cases "is_sql c")
    case True
    from meta_worldD(1) [OF assms(1) True a] assms(2) T show ?thesis
      by (cases c) (auto simp: sql_exec_def dest!: bind_run_stmt both_tables_commit intro: both_tables_stmt)
  next
    case False
    then show ?thesis using meta_worldD(2) [OF assms(1) False a] T by simp
  qed
qed

section \<open>A database for the examples\<close>

text \<open>A database connection alone, with fresh identifiers longer than all in use.\<close>

definition longer_id :: "meta_db \<Rightarrow> string" where
  "longer_id db = replicate (Suc (sum_list (map length (entity_ids db @ version_ids db)))) (CHR ''x'')"

definition sample_sql_env :: sql_env where
  "sample_sql_env = \<lparr>se_cast = \<lambda>_. Inl data_error, se_num = \<lambda>_. Inr None,
     se_uuid = \<lambda>s. if startswith s ''u'' then Some s else None, se_new_id = longer_id, se_now = \<lambda>_. 0\<rparr>"

definition session_api :: "pg_session meta_api" where
  "session_api c s = (if is_sql c then sql_exec sample_sql_env c s else (Inr R_Unit, s))"

lemma session_world: "meta_world sample_sql_env session_api (\<lambda>s. s)"
  by (auto simp: meta_world_def session_api_def)

lemma sample_env_fresh: "env_fresh sample_sql_env"
proof -
  have "longer_id db \<noteq> i" if "i \<in> set (entity_ids db @ version_ids db)" for db i
  proof
    assume "longer_id db = i"
    then have "length i = Suc (sum_list (map length (entity_ids db @ version_ids db)))"
      by (metis longer_id_def length_replicate)
    moreover have "length i \<le> sum_list (map length (entity_ids db @ version_ids db))"
      by (rule member_le_sum_list) (use that in auto)
    ultimately show False by simp
  qed
  then show ?thesis by (auto simp: env_fresh_def sample_sql_env_def)
qed

definition sample_adapt :: "json \<Rightarrow> exc + sql_val" where
  "sample_adapt j = (case j of JStr s \<Rightarrow> Inr (Sql_Text s) | JNull \<Rightarrow> Inr Sql_Null | JObj _ \<Rightarrow> Inl (Exc ''ProgrammingError'' '''')
     | _ \<Rightarrow> Inr (Sql_Other j))"

definition sample_meta_cfg :: "json \<Rightarrow> meta_cfg" where
  "sample_meta_cfg ev = \<lparr>mc_adapt = sample_adapt, mc_decode = Inr, mc_loads = \<lambda>_. Inr ev, mc_float = \<lambda>_. [],
     mc_repr = \<lambda>_. [], mc_events_topic = ''metadata-events'', mc_dq_topic = ''data-quality-failed''\<rparr>"

definition sample_meta_fresh :: meta_fresh where
  "sample_meta_fresh = \<lparr>mf_event_id = ''m1'', mf_event_time = ''t''\<rparr>"

lemma sess_ok_empty: "sess_ok (fresh_session empty_meta_db)"
  by (simp add: sess_ok_def fresh_session_def empty_meta_db_def db_ok_def meta_wf_def edges_within_tenants_def
      entity_ids_def version_ids_def)

definition sample_version_request :: version_request where
  "sample_version_request = \<lparr>vq_tenant_id = ''u1'', vq_embedding_model = ''minilm'', vq_embedding_dimension = 384,
     vq_embedding_backend = ''local-cpu'', vq_chunk_size = 512, vq_chunk_overlap = 64, vq_chunking_strategy = ''fixed'',
     vq_index_type = ''IVF_FLAT'', vq_created_by = None\<rparr>"

end
