(* ===== verification/Http.thy ===== *)
theory Http
  imports Dynamic
begin

text \<open>
  What the FastAPI services share: an \<open>HTTPException\<close> with its status and detail as an exception
  value, and the status an exception is answered with.
\<close>

definition http_exception :: "int \<Rightarrow> string \<Rightarrow> exc" where
  "http_exception status detail = Exc ''HTTPException'' (show_int status @ '': '' @ detail)"

text \<open>A detail that is an envelope of an error code and a message.\<close>

definition http_error :: "int \<Rightarrow> string \<Rightarrow> string \<Rightarrow> exc" where
  "http_error status code message = http_exception status (code @ '': '' @ message)"

text \<open>The status of a raised exception: anything but an \<open>HTTPException\<close> is answered 500.\<close>

definition http_status :: "exc \<Rightarrow> int" where
  "http_status e =
     (if exc_class e = ''HTTPException''
      then (case py_int (hd (split_on (CHR '':'') (exc_msg e))) of Some s \<Rightarrow> s | None \<Rightarrow> 500) else 500)"

lemma show_int_no_colon: "CHR '':'' \<notin> set (show_int i)"
  by (auto simp: show_int_def dest: show_nat_digits)

lemma http_status_exception [simp]: "http_status (http_exception s d) = s"
proof -
  have "split_on (CHR '':'') (show_int s @ CHR '':'' # r) = show_int s # split_on (CHR '':'') r" for r
    using split_on_append_sep [of "CHR '':''" "show_int s" r] show_int_no_colon [of s] by (simp add: split_on_single)
  then show ?thesis by (simp add: http_status_def http_exception_def)
qed

lemma http_status_error [simp]: "http_status (http_error s c d) = s"
  by (simp add: http_error_def)

lemma http_exception_class [simp]: "exc_class (http_exception s d) = ''HTTPException''"
  by (simp add: http_exception_def)

end
