(* ===== verification/Meta_Queries.thy ===== *)
theory Meta_Queries
  imports Meta_Lineage Http
begin

text \<open>
  The reading side of the metadata service: what the recursive upstream query returns, as a walk
  in the lineage graph, the schema versions, and which embeddings are reported as stale.
\<close>

section \<open>The upstream query\<close>

text \<open>A step from an entity to one it was made from.\<close>

definition made_from :: "meta_db \<Rightarrow> entity rel" where
  "made_from db = {(e, p). p \<in> set (entities db) \<and>
     (\<exists>l \<in> set (lineage db). le_downstream_id l = en_id e \<and> le_upstream_id l = en_id p)}"

definition row_pos :: "chain_row \<Rightarrow> entity \<times> nat" where
  "row_pos r = (cr_entity r, cr_depth r)"

lemma parents_pos:
  "(\<exists>r' \<in> set (parents db r). P (cr_entity r') (cr_depth r')) \<longleftrightarrow>
     (\<exists>p. (cr_entity r, p) \<in> made_from db \<and> P p (Suc (cr_depth r)))"
proof -
  have flat: "(\<exists>y \<in> set (concat (map (\<lambda>l. map (g l) (filter (p l) ys)) (filter q xs))). Q y) \<longleftrightarrow>
      (\<exists>l \<in> set xs. q l \<and> (\<exists>e \<in> set ys. p l e \<and> Q (g l e)))"
    for g :: "lineage_edge \<Rightarrow> entity \<Rightarrow> chain_row" and p ys q xs Q
    by (induction xs) auto
  show ?thesis unfolding parents_def flat made_from_def by (auto, metis+)
qed

lemma relpow_step: "(s, e) \<in> R ^^ Suc k \<longleftrightarrow> (\<exists>p. (s, p) \<in> R \<and> (p, e) \<in> R ^^ k)"
  by (metis relpow_Suc_D2 relpow_Suc_I2)

lemma upstream_rounds_pos:
  "(e, m) \<in> row_pos ` set (upstream_rounds db n rows) \<longleftrightarrow>
     (\<exists>r \<in> set rows. \<exists>k \<le> n. m = cr_depth r + k \<and> (cr_entity r, e) \<in> made_from db ^^ k)"
proof (induction n arbitrary: rows)
  case 0
  show ?case by (auto simp: row_pos_def image_iff)
next
  case (Suc n)
  let ?reach = "\<lambda>s d. \<exists>k \<le> n. m = d + k \<and> (s, e) \<in> made_from db ^^ k"
  have "(e, m) \<in> row_pos ` set (upstream_rounds db (Suc n) rows) \<longleftrightarrow>
      (\<exists>r \<in> set rows. e = cr_entity r \<and> m = cr_depth r) \<or>
      (\<exists>r \<in> set rows. \<exists>r' \<in> set (parents db r). ?reach (cr_entity r') (cr_depth r'))"
    using Suc.IH [of "concat (map (parents db) rows)"] by (auto simp: row_pos_def image_Un)
  also have "(\<exists>r \<in> set rows. \<exists>r' \<in> set (parents db r). ?reach (cr_entity r') (cr_depth r')) \<longleftrightarrow>
      (\<exists>r \<in> set rows. \<exists>k \<le> n. m = cr_depth r + Suc k \<and> (cr_entity r, e) \<in> made_from db ^^ Suc k)"
    unfolding parents_pos [where P = ?reach] relpow_step by auto
  also have "(\<exists>r \<in> set rows. e = cr_entity r \<and> m = cr_depth r) \<or> \<dots> \<longleftrightarrow>
      (\<exists>r \<in> set rows. \<exists>k \<le> Suc n. m = cr_depth r + k \<and> (cr_entity r, e) \<in> made_from db ^^ k)"
  proof -
    have "(\<exists>k \<le> Suc n. Q k) \<longleftrightarrow> Q 0 \<or> (\<exists>k \<le> n. Q (Suc k))" for Q
      by (metis Suc_le_mono le0 not0_implies_Suc)
    then show ?thesis by (auto simp del: relpow.simps(2))
  qed
  finally show ?case .
qed

text \<open>
  C22. The upstream query is the bounded walk of the lineage graph: an entity is returned at depth
  \<open>d\<close> exactly when \<open>d\<close> is at most five and it is reached in \<open>d\<close> steps along lineage edges from
  some entity with the key asked for, of whatever type and tenant.
\<close>

theorem query_upstream_is_bounded_walk:
  "(e, d) \<in> row_pos ` set (query_upstream db key) \<longleftrightarrow>
     d \<le> 5 \<and> (\<exists>s \<in> set (entities db). en_key s = key \<and> (s, e) \<in> made_from db ^^ d)"
proof -
  let ?start = "map (\<lambda>e. \<lparr>cr_entity = e, cr_relationship = None, cr_depth = 0\<rparr>)
      (filter (\<lambda>e. en_key e = key) (entities db)) :: chain_row list"
  have "(e, d) \<in> row_pos ` set (query_upstream db key) \<longleftrightarrow>
      (\<exists>r \<in> set ?start. \<exists>k \<le> 5. d = cr_depth r + k \<and> (cr_entity r, e) \<in> made_from db ^^ k)"
    unfolding query_upstream_def max_upstream_depth_def set_rev set_sort upstream_rounds_pos ..
  then show ?thesis by auto
qed

section \<open>Schema versions\<close>

definition current_versions :: "meta_db \<Rightarrow> string \<Rightarrow> schema_version list" where
  "current_versions db tenant = filter (\<lambda>v. sv_tenant_id v = tenant \<and> sv_is_current v) (schema_versions db)"

lemma next_version_fresh:
  assumes "v \<in> set (schema_versions db)" and "sv_tenant_id v = t"
  shows "sv_version_number v < next_version db t"
proof -
  let ?ns = "map sv_version_number (filter (\<lambda>v. sv_tenant_id v = t) (schema_versions db))"
  have v: "sv_version_number v \<in> set ?ns" using assms by auto
  then have "sv_version_number v \<le> Max (set ?ns)" by simp
  moreover have "?ns \<noteq> []" using v by (cases ?ns) simp_all
  ultimately show ?thesis by (simp only: next_version_def Let_def if_False)
qed

definition deactivated :: "string \<Rightarrow> schema_version list \<Rightarrow> schema_version list" where
  "deactivated t = update_where (\<lambda>v. sv_tenant_id v = t) (\<lambda>v. v\<lparr>sv_is_current := False\<rparr>)"

lemma map_filter_update_where:
  "(\<And>r. p (f r) = p r) \<Longrightarrow> (\<And>r. g (f r) = g r) \<Longrightarrow> map g (filter p (update_where P f rows)) = map g (filter p rows)"
  by (induction rows) (simp_all add: update_where_def)

lemma next_version_deactivated:
  "next_version (db\<lparr>schema_versions := deactivated t (schema_versions db)\<rparr>) u = next_version db u"
proof -
  have "map sv_version_number (filter (\<lambda>v. sv_tenant_id v = u) (deactivated t vs)) =
      map sv_version_number (filter (\<lambda>v. sv_tenant_id v = u) vs)" for vs
    unfolding deactivated_def by (rule map_filter_update_where) simp_all
  then show ?thesis by (simp add: next_version_def)
qed

text \<open>
  C29. A new schema version is the tenant's only current one. When the request returns a version,
  it has been committed with the number after the tenant's greatest (the first is one), every
  other version of the tenant has been deactivated, and the versions of the other tenants are as
  they were.
\<close>

theorem new_schema_version_is_current:
  assumes "meta_world env api sess" and "create_schema_version api q w = (Inr (Some v), w')"
  shows "sv_version_number v = next_version (pg_working (sess w)) (sv_tenant_id v)
    \<and> se_uuid env (vq_tenant_id q) = Some (sv_tenant_id v)
    \<and> current_versions (pg_committed (sess w')) (sv_tenant_id v) = [v]
    \<and> filter (\<lambda>u. sv_tenant_id u \<noteq> sv_tenant_id v) (schema_versions (pg_committed (sess w'))) =
        filter (\<lambda>u. sv_tenant_id u \<noteq> sv_tenant_id v) (schema_versions (pg_working (sess w)))"
proof -
  let ?db = "pg_working (sess w)"
  obtain r1 w1 where a1: "api (Q_Deactivate (vq_tenant_id q)) w = (Inr r1, w1)"
    using assms(2) by (auto simp: create_schema_version_def seqE_def bindE_def split: prod.splits sum.splits)
  obtain w2 where a2: "api (Q_Insert_Version q) w1 = (Inr (R_Version v), w2)"
    using assms(2) a1 by (auto simp: create_schema_version_def seqE_def bindE_def split: prod.splits sum.splits meta_reply.splits)
  obtain r3 where a3: "api Q_Commit w2 = (Inr r3, w')"
    using assms(2) a1 a2 by (auto simp: create_schema_version_def seqE_def bindE_def split: prod.splits sum.splits)
  note S = meta_worldD(1) [OF assms(1)]
  note e1 = S [OF _ a1, symmetric] and e2 = S [OF _ a2, symmetric] and e3 = S [OF _ a3, symmetric]
  have f0: "\<not> pg_failed (sess w)" using e1 by (auto simp: sql_exec_def run_stmt_def bindE_def)
  obtain t where t: "se_uuid env (vq_tenant_id q) = Some t"
    using e1 f0 by (cases "se_uuid env (vq_tenant_id q)")
      (auto simp: sql_exec_def run_stmt_def bindE_def deactivate_versions_sql_def uuid_of_text_def)
  have s1: "sess w1 = (sess w)\<lparr>pg_working := ?db\<lparr>schema_versions := deactivated t (schema_versions ?db)\<rparr>\<rparr>"
    using e1 f0 t by (simp add: sql_exec_def run_stmt_def bindE_def deactivate_versions_sql_def uuid_of_text_def deactivated_def)
  let ?db1 = "?db\<lparr>schema_versions := deactivated t (schema_versions ?db)\<rparr>"
  have s2: "sess w2 = (sess w1)\<lparr>pg_working := ?db1\<lparr>schema_versions := schema_versions ?db1 @ [v]\<rparr>\<rparr>"
    and v: "sv_tenant_id v = t" "sv_version_number v = next_version ?db1 t" "sv_is_current v"
    using e2 f0 t
    by (auto simp: sql_exec_def run_stmt_def bindE_def insert_version_sql_def uuid_of_text_def s1 Let_def split: if_splits)
  have s3: "pg_committed (sess w') = pg_working (sess w2)"
    using e3 f0 s1 s2 by (auto simp: sql_exec_def pg_commit_def bindE_def split: if_splits)
  have cur: "filter (\<lambda>u. sv_tenant_id u = t \<and> sv_is_current u) (deactivated t vs) = []"
    and oth: "filter (\<lambda>u. sv_tenant_id u \<noteq> t) (deactivated t vs) = filter (\<lambda>u. sv_tenant_id u \<noteq> t) vs" for vs
    by (induction vs) (auto simp: deactivated_def update_where_def)
  have "current_versions (pg_working (sess w2)) t = [v]"
    by (simp add: current_versions_def s2 v cur)
  moreover have "filter (\<lambda>u. sv_tenant_id u \<noteq> t) (schema_versions (pg_working (sess w2))) =
      filter (\<lambda>u. sv_tenant_id u \<noteq> t) (schema_versions ?db)"
    by (simp add: s2 v oth)
  ultimately show ?thesis
    using v t s3 next_version_deactivated [where db = ?db and t = t and u = t] by simp
qed

theorem new_schema_version_is_current_witness:
  "\<exists>v s. create_schema_version session_api sample_version_request (fresh_session empty_meta_db) = (Inr (Some v), s)
     \<and> current_versions (pg_committed s) ''u1'' = [v] \<and> sv_version_number v = 1"
proof -
  obtain v s where run: "create_schema_version session_api sample_version_request (fresh_session empty_meta_db) = (Inr (Some v), s)"
    by (simp add: create_schema_version_def session_api_def sql_exec_def sample_sql_env_def sample_version_request_def
        fresh_session_def empty_meta_db_def run_stmt_def deactivate_versions_sql_def insert_version_sql_def uuid_of_text_def
        startswith_def update_where_def int4_ok_def next_version_def pg_commit_def prog_defs Let_def)
  have t: "sv_tenant_id v = ''u1''"
    using new_schema_version_is_current [OF session_world run]
    by (simp add: sample_sql_env_def sample_version_request_def startswith_def)
  show ?thesis
    using new_schema_version_is_current [OF session_world run] run
    by (auto simp: t next_version_def fresh_session_def empty_meta_db_def)
qed

section \<open>The read endpoints\<close>

text \<open>A column value as psycopg2 returns it, and its JSON form.\<close>

datatype pg_value = Pg_Uuid string | Pg_Time rat | Pg_Decimal rat | Pg_Array "pg_value list" | Pg_Json json

fun pg_plain :: "(rat \<Rightarrow> string) \<Rightarrow> pg_value \<Rightarrow> json" where
  "pg_plain isofmt (Pg_Uuid u) = JStr u"
| "pg_plain isofmt (Pg_Time t) = JStr (isofmt t)"
| "pg_plain isofmt (Pg_Decimal d) = JFloat d"
| "pg_plain isofmt (Pg_Array vs) = JList (map (pg_plain isofmt) vs)"
| "pg_plain isofmt (Pg_Json j) = j"

definition row_to_dict :: "(rat \<Rightarrow> string) \<Rightarrow> (string \<times> pg_value) list \<Rightarrow> json" where
  "row_to_dict isofmt row = JObj (map (\<lambda>(k, v). (k, pg_plain isofmt v)) row)"

text \<open>The dependency that opens the connection; the endpoints read what is committed.\<close>

definition get_db :: "string \<Rightarrow> exc + meta_db \<Rightarrow> exc + meta_db" where
  "get_db database_url connection =
     (if database_url = [] then Inl (http_exception 503 ''database not configured'') else connection)"

definition lineage_upstream :: "exc + meta_db \<Rightarrow> string \<Rightarrow> exc + chain_row list" where
  "lineage_upstream db chunk_id = res_bind db (\<lambda>d. Inr (query_upstream d chunk_id))"

definition lineage_downstream ::
  "sql_env \<Rightarrow> (json \<Rightarrow> string) \<Rightarrow> exc + meta_db \<Rightarrow> string \<Rightarrow> string \<Rightarrow> exc + (string \<times> nat \<times> string list) list" where
  "lineage_downstream env js db source_path tenant_id =
     res_bind db (\<lambda>d. res_bind (uuid_of_text env tenant_id) (\<lambda>t. Inr (query_downstream js d t source_path)))"

definition lineage_stale :: "sql_env \<Rightarrow> (json \<Rightarrow> string) \<Rightarrow> exc + meta_db \<Rightarrow> string \<Rightarrow> exc + stale_row list" where
  "lineage_stale env js db tenant_id =
     res_bind db (\<lambda>d. res_bind (uuid_of_text env tenant_id) (\<lambda>t. Inr (query_stale js d t)))"

definition lineage_provenance :: "sql_env \<Rightarrow> (json \<Rightarrow> string) \<Rightarrow> exc + meta_db \<Rightarrow> string \<Rightarrow> exc + provenance_row list" where
  "lineage_provenance env js db query_id =
     res_bind db (\<lambda>d. res_bind (uuid_of_text env query_id) (\<lambda>q. Inr (query_provenance js d q)))"

definition runs :: "sql_env \<Rightarrow> exc + meta_db \<Rightarrow> string option \<Rightarrow> exc + pipeline_run list" where
  "runs env db tenant_id =
     res_bind db (\<lambda>d. case tenant_id of None \<Rightarrow> Inr (query_runs d None)
       | Some s \<Rightarrow> res_bind (uuid_of_text env s) (\<lambda>t. Inr (query_runs d (Some t))))"

definition quality :: "sql_env \<Rightarrow> exc + meta_db \<Rightarrow> string \<Rightarrow> exc + (quality_row \<times> string \<times> string) list" where
  "quality env db tenant_id =
     res_bind db (\<lambda>d. res_bind (uuid_of_text env tenant_id) (\<lambda>t. Inr (query_quality d t)))"

text \<open>The answer to a new schema version: the columns of \<open>RETURNING\<close>.\<close>

definition version_row :: "schema_version \<Rightarrow> (string \<times> pg_value) list" where
  "version_row v =
     [(''id'', Pg_Uuid (sv_id v)), (''version_number'', Pg_Json (JInt (sv_version_number v))),
      (''embedding_model'', Pg_Json (JStr (sv_embedding_model v))),
      (''embedding_dimension'', Pg_Json (JInt (sv_embedding_dimension v))), (''is_current'', Pg_Json (JBool (sv_is_current v)))]"

definition create_schema_version_endpoint ::
  "'w meta_api \<Rightarrow> (rat \<Rightarrow> string) \<Rightarrow> string \<Rightarrow> version_request \<Rightarrow> ('w, json) prog" where
  "create_schema_version_endpoint api isofmt database_url body =
     (if database_url = [] then raise (http_exception 503 ''database not configured'')
      else bindE (create_schema_version api body) (\<lambda>v. case v of
             Some row \<Rightarrow> ret (row_to_dict isofmt (version_row row)) | None \<Rightarrow> raise (Exc ''AttributeError'' '''')))"

end
