(* ===== verification/Meta_Compose.thy ===== *)
theory Meta_Compose
  imports Meta_Queries Doc_Processor Embedding_Worker Connectors
begin

text \<open>
  The metadata service together with its producers: the invariant over a whole run of the consumer
  on the events the pipeline announces, and what the announcements of the document processor do
  to the lineage store.
\<close>

section \<open>Runs of the consumer\<close>

text \<open>
  C6. The lineage store is never corrupted by an event. Whatever messages the consumer polls,
  well-formed or not, whatever fails in between, the committed tables and the open transaction
  satisfy the keys and foreign keys of the schema, and no lineage edge joins entities of two
  tenants.
\<close>

theorem lineage_store_invariant:
  assumes "meta_world env api sess" and "env_fresh env" and "sess_ok (sess w)"
    and "run_consumer api cfg polls w = (r, w')"
  shows "sess_ok (sess w')"
proof -
  let ?I = "\<lambda>w. sess_ok (sess w)"
  have other: "keeps ?I (api c)" if "\<not> is_sql c" for c
    using meta_worldD(2) [OF assms(1) that] by (auto intro!: keepsI)
  have "keeps ?I (catchE (eachE (handle_meta api cfg) polls) (\<lambda>e. if e = keyboard_interrupt then ret () else raise e))"
    by (intro keeps_intros keeps_handle_meta [OF assms(1,2)])
  then have "keeps ?I (run_consumer api cfg polls)"
    unfolding run_consumer_def by (intro keeps_seqE keeps_finally other) simp_all
  from keepsD [OF this assms(3,4)] show ?thesis .
qed

definition sample_chunk :: chunk where
  "sample_chunk = new_chunk ''hello'' 0 ''d1'' 120"

theorem lineage_store_invariant_witness:
  "sess_ok (snd (run_consumer session_api (sample_meta_cfg (chunk_entity_event sample_chunk 1 (JStr ''u1'') ''e'' ''t''))
     [Poll_Value sample_meta_fresh (Some ''{}''), Poll_Failure, Poll_Value sample_meta_fresh None]
     (fresh_session empty_meta_db)))"
  by (rule lineage_store_invariant [OF session_world sample_env_fresh sess_ok_empty prod.collapse [symmetric]])

section \<open>A failed transaction\<close>

lemma failed_stays:
  assumes "meta_world env api sess" and "pg_failed s"
  shows "is_sql c \<Longrightarrow> c \<noteq> Q_Commit \<Longrightarrow> sess w = s \<Longrightarrow> wp (api c) (\<lambda>_ _. False) (\<lambda>_ w'. sess w' = s) w"
proof -
  assume c: "is_sql c" "c \<noteq> Q_Commit" "sess w = s"
  obtain r w' where a: "api c w = (r, w')" by fastforce
  have "(\<exists>e. r = Inl e) \<and> sess w' = s"
    using meta_worldD(1) [OF assms(1) c(1) a] c assms(2) by (cases c) (auto simp: sql_exec_def run_stmt_def bindE_def)
  then show ?thesis by (auto simp: wp_def a)
qed

lemma failed_handle_meta:
  assumes "meta_world env api sess" and "pg_failed s"
  shows "keeps (\<lambda>w. sess w = s) (handle_meta api cfg p)"
proof -
  have "keeps (\<lambda>w. sess w = s) (record_entity api cfg f d)" for f d
    unfolding keeps_def record_entity_def upsert_entity_def Let_def
    by (auto simp: wp_simps split: sum.split intro!: wp_mono [OF failed_stays [OF assms]])
  then have "keeps (\<lambda>w. sess w = s) (process_event api cfg f ev)" for f ev
    unfolding process_event_def by (intro keeps_intros) (auto intro!: keeps_intros split: json.split)
  then show ?thesis
    unfolding handle_meta_def by (auto intro!: keeps_intros split: meta_polled.split)
qed

lemma wp_bindE_fails: "wp p (\<lambda>_ _. False) E w \<Longrightarrow> wp (bindE p q) Q E w"
  by (auto simp: wp_bindE elim: wp_mono)

text \<open>
  C35. One event of a tenant whose id is no UUID stops lineage for good. The announcement the
  document processor makes for a chunk of such a tenant (the connectors' default tenant is
  \<open>default\<close>) fails in the first statement; the consumer logs the exception without rolling back,
  so every statement for the events after it is refused: whatever they are, nothing is committed
  any more.
\<close>

theorem non_uuid_tenant_poisons_connection:
  assumes "meta_world env api sess" and "\<And>s. mc_adapt cfg (JStr s) = Inr (Sql_Text s)" and "mc_adapt cfg JNull = Inr Sql_Null"
    and "decode_event cfg v = Inr (chunk_entity_event ch n (JStr tenant) eid time)" and "se_uuid env tenant = None"
    and "eachE (handle_meta api cfg) (Poll_Value f v # later) w = (r, w')"
  shows "pg_committed (sess w') = pg_committed (sess w) \<and> pg_failed (sess w')"
proof -
  let ?I = "\<lambda>w'. pg_committed (sess w') = pg_committed (sess w) \<and> pg_failed (sess w')"
  have "wp (api (Q_Upsert et k (Sql_Text tenant) attrs x y)) (\<lambda>_ _. False) (\<lambda>_. ?I) w" for et k attrs x y
  proof -
    obtain r1 w1 where a: "api (Q_Upsert et k (Sql_Text tenant) attrs x y) w = (r1, w1)" by fastforce
    have "\<exists>e. upsert_entity_sql env et k (Sql_Text tenant) attrs x y db = Inl e" for db
      by (auto simp: upsert_entity_sql_def res_bind_def uuid_param_def uuid_opt_param_def not_null_def text_of_def
          uuid_of_text_def assms(5) split: sum.split)
    then obtain e where e: "upsert_entity_sql env et k (Sql_Text tenant) attrs x y (pg_working (sess w)) = Inl e" by blast
    have "(\<exists>e. r1 = Inl e) \<and> ?I w1"
      using meta_worldD(1) [OF assms(1) _ a, symmetric] by (cases "pg_failed (sess w)") (auto simp: sql_exec_def bindE_def run_stmt_def e)
    then show ?thesis by (auto simp: wp_def a)
  qed
  then have "wp (upsert_entity api cfg (JStr ''DocumentChunk'') (JStr key) (JStr tenant) attrs JNull JNull)
      (\<lambda>_ _. False) (\<lambda>_. ?I) w" for key attrs
    unfolding upsert_entity_def by (simp add: wp_simps assms(2,3))
  then have "wp (process_event api cfg f (chunk_entity_event ch n (JStr tenant) eid time)) (\<lambda>_ _. False) (\<lambda>_. ?I) w"
    by (simp add: process_event_def chunk_entity_event_def dict_field_def obj_get_def get_or_def handled_event_type_def
        record_entity_def Let_def bindE_lift_Inr wp_bindE_fails)
  then have first: "wp (handle_meta api cfg (Poll_Value f v)) (\<lambda>_. ?I) (\<lambda>_. ?I) w"
    unfolding handle_meta_def by (simp add: wp_simps assms(4)) (auto elim: wp_mono)
  have "keeps ?I (handle_meta api cfg p)" for p
  proof (rule keepsI)
    fix w1 r1 w2 assume "?I w1" "handle_meta api cfg p w1 = (r1, w2)"
    with keepsD [OF failed_handle_meta [OF assms(1), of "sess w1"]] have "sess w2 = sess w1" by blast
    with \<open>?I w1\<close> show "?I w2" by simp
  qed
  then have "keeps ?I (eachE (handle_meta api cfg) later)" by (intro keeps_intros)
  then have "wp (eachE (handle_meta api cfg) (Poll_Value f v # later)) (\<lambda>_. ?I) (\<lambda>_. ?I) w"
    using first by (auto simp: wp_simps keeps_def elim!: wp_mono)
  then show ?thesis using assms(6) by (cases r) (auto simp: wp_def)
qed

theorem non_uuid_tenant_poisons_connection_witness:
  "pg_failed (snd (eachE (handle_meta session_api (sample_meta_cfg (chunk_entity_event sample_chunk 1 (JStr ''default'') ''e'' ''t'')))
     [Poll_Value sample_meta_fresh (Some ''{}''), Poll_Value sample_meta_fresh (Some ''{}'')] (fresh_session empty_meta_db)))"
proof (rule non_uuid_tenant_poisons_connection [OF session_world _ _ _ _ prod.collapse [symmetric], THEN conjunct2])
  show "se_uuid sample_sql_env ''default'' = None" by (simp add: sample_sql_env_def startswith_def)
qed (simp_all add: sample_meta_cfg_def sample_adapt_def decode_event_def)

section \<open>Programs that keep a fact about the tables\<close>

lemma keeps_commit_ignoring:
  assumes "meta_world env api sess"
  shows "keeps (\<lambda>w. both_tables D (sess w)) (ignoring (api Q_Commit))"
  by (intro keeps_intros keeps_tables [OF assms]) simp

lemma keeps_quality_tables:
  assumes "meta_world env api sess" and "\<And>j r n s v th msg. keeps_db D (insert_check_sql env j r n s v th msg)"
    and "\<And>j. keeps_db D (mark_failed_sql env j)"
  shows "keeps (\<lambda>w. both_tables D (sess w)) (bindE (lift_res (py_iter cs)) (\<lambda>checks.
     bindE (insert_quality_checks api cfg i r checks) (\<lambda>failed.
       whenE (failed \<noteq> []) (seqE (ignoring (update_entity_quality_failed api i))
         (publish_dq_failed api cfg f i et key tn failed)))))"
proof -
  note k = keeps_tables [OF assms(1)]
  have "keeps (\<lambda>w. both_tables D (sess w)) (insert_check api cfg i r check)" for check
    unfolding insert_check_def
    by (intro keeps_intros) (auto intro!: keeps_intros k assms(2) split: list.split)
  then have "keeps (\<lambda>w. both_tables D (sess w)) (insert_quality_checks api cfg i r checks)" for checks
    by (induction checks) (auto intro!: keeps_intros)
  then show ?thesis
    unfolding update_entity_quality_failed_def publish_dq_failed_def Let_def
    by (intro keeps_intros k) (simp_all add: assms(3))
qed

lemma keeps_consumer:
  assumes "meta_world env api sess" and "\<And>p. p \<in> set polls \<Longrightarrow> keeps (\<lambda>w. both_tables D (sess w)) (handle_meta api cfg p)"
  shows "keeps (\<lambda>w. both_tables D (sess w)) (run_consumer api cfg polls)"
  unfolding run_consumer_def
  by (intro keeps_seqE keeps_finally keeps_tables [OF assms(1)] keeps_catchE keeps_eachE assms(2) keeps_if keeps_ret) simp_all

section \<open>What the pipeline announces\<close>

inductive pipeline_event :: "json \<Rightarrow> bool" where
  datasource: "pipeline_event (datasource_event ce key attrs eid time)"
| rawdocument: "pipeline_event (rawdocument_event ce key attrs ds eid time)"
| chunk: "pipeline_event (chunk_entity_event ch n tenant eid time)"
| embedding: "pipeline_event (embedding_entity_event ee ef c emb)"

lemma pipeline_event_data:
  assumes "pipeline_event ev"
  shows "\<exists>d. ev = JObj d \<and> (\<exists>dat. obj_get d ''data'' (JObj []) = JObj dat \<and> map_of dat ''schema_version_id'' = None)"
  using assms
  by cases (simp_all add: datasource_event_def rawdocument_event_def lineage_event_def chunk_entity_event_def
      embedding_entity_event_def Let_def obj_get_def get_or_def)

section \<open>Schema versions are never recorded\<close>

definition unversioned :: "meta_db \<Rightarrow> bool" where
  "unversioned db \<longleftrightarrow> list_all (\<lambda>e. en_schema_version_id e = None) (entities db)"

lemma unversioned_statements:
  "keeps_db unversioned (upsert_entity_sql env et k tn attrs r Sql_Null)"
  "keeps_db unversioned (select_entity_sql env tn et k)"
  "keeps_db unversioned (insert_edge_sql env u d rel r)"
  "keeps_db unversioned (insert_check_sql env i r n s v th msg)"
  "keeps_db unversioned (mark_failed_sql env i)"
  by (auto simp: keeps_db_def unversioned_def upsert_entity_sql_def select_entity_sql_def insert_edge_sql_def
      insert_check_sql_def mark_failed_sql_def res_bind_Inr_iff uuid_opt_param_def text_of_def list_all_update_where
      split: option.splits if_splits)

lemma unversioned_record_entity:
  assumes "meta_world env api sess" and "mc_adapt cfg JNull = Inr Sql_Null" and "map_of d ''schema_version_id'' = None"
  shows "keeps (\<lambda>w. both_tables unversioned (sess w)) (record_entity api cfg f d)"
proof -
  note k = keeps_tables [OF assms(1)]
  have "keeps (\<lambda>w. both_tables unversioned (sess w)) (upsert_entity api cfg et key tn attrs r JNull)" for et key tn attrs r
    unfolding upsert_entity_def assms(2) bindE_lift_Inr
    by (intro keeps_intros k) (simp add: unversioned_statements)
  moreover have "keeps (\<lambda>w. both_tables unversioned (sess w)) (insert_ref api cfg tn i r ref)" for tn i r ref
    unfolding insert_ref_def insert_lineage_edge_def
    by (intro keeps_intros) (auto intro!: keeps_intros k unversioned_statements split: meta_reply.split option.split)
  moreover have "obj_get d ''schema_version_id'' JNull = JNull" by (simp add: obj_get_def get_or_def assms(3))
  ultimately show ?thesis
    unfolding record_entity_def Let_def
    by (intro keeps_intros keeps_quality_tables [OF assms(1)] keeps_commit_ignoring [OF assms(1)] unversioned_statements) simp_all
qed

text \<open>
  The reports on schema versions are always empty. No producer of the pipeline puts a schema
  version into its announcements, so whatever sequence of them the consumer handles, no entity
  ever refers to a version: the stale-embedding report and the provenance of a query, which join
  on that reference, return nothing.
\<close>

theorem version_reports_stay_empty:
  assumes "meta_world env api sess" and "mc_adapt cfg JNull = Inr Sql_Null"
    and "both_tables unversioned (sess w)"
    and "\<And>f v ev. Poll_Value f v \<in> set polls \<Longrightarrow> decode_event cfg v = Inr ev \<Longrightarrow> pipeline_event ev"
    and "run_consumer api cfg polls w = (r, w')"
  shows "query_stale js (pg_committed (sess w')) tenant = [] \<and> query_provenance js (pg_committed (sess w')) query_id = []"
proof -
  let ?I = "\<lambda>w. both_tables unversioned (sess w)"
  have ev: "keeps ?I (process_event api cfg f ev)" if pe: "pipeline_event ev" for f ev
  proof -
    obtain d dat where d: "ev = JObj d" "obj_get d ''data'' (JObj []) = JObj dat" "map_of dat ''schema_version_id'' = None"
      using pipeline_event_data [OF pe] by blast
    then have "process_event api cfg f ev =
        (if obj_get d ''type'' JNull \<noteq> JStr handled_event_type then ret () else record_entity api cfg f dat)"
      by (simp add: process_event_def dict_field_def bindE_lift_Inr ret_def fun_eq_iff)
    then show ?thesis using d(3) by (auto intro!: keeps_intros unversioned_record_entity [OF assms(1,2)])
  qed
  have "keeps ?I (handle_meta api cfg p)" if "p \<in> set polls" for p
  proof (cases p)
    case (Poll_Value f v)
    have "keeps ?I (bindE (lift_res (decode_event cfg v)) (process_event api cfg f))"
    proof (cases "decode_event cfg v")
      case (Inr j)
      then show ?thesis using ev assms(4) that Poll_Value by (simp add: bindE_lift_Inr)
    qed (auto intro!: keepsI simp: bindE_def lift_res_def)
    then show ?thesis by (simp add: handle_meta_def Poll_Value keeps_ignoring)
  qed (auto simp: handle_meta_def intro!: keeps_intros)
  from keepsD [OF keeps_consumer [OF assms(1) this] assms(3,5)]
  have "unversioned (pg_committed (sess w'))" by (simp add: both_tables_def)
  then have none: "en_schema_version_id e = None" if "e \<in> set (entities (pg_committed (sess w')))" for e
    using that by (simp add: unversioned_def list_all_iff)
  have "stale_rows_of js (pg_committed (sess w')) e = []" if "e \<in> set (entities (pg_committed (sess w')))" for e
    using none [OF that] by (simp add: stale_rows_of_def)
  moreover have "provenance_rows_of js (pg_committed (sess w')) qr = []" for qr
    using none by (auto simp: provenance_rows_of_def)
  moreover have nil: "(\<And>x. x \<in> set xs \<Longrightarrow> g x = []) \<Longrightarrow> sort_key h (concat (map g xs)) = []" for g h xs
    by (induction xs) simp_all
  ultimately show ?thesis unfolding query_stale_def query_provenance_def
    by (intro conjI) ((rule nil, simp)+)
qed

theorem version_reports_stay_empty_witness:
  "query_stale (\<lambda>_. []) (pg_committed (snd (run_consumer session_api (sample_meta_cfg (chunk_entity_event sample_chunk 1 (JStr ''u1'') ''e'' ''t''))
     [Poll_Value sample_meta_fresh (Some ''{}'')] (fresh_session empty_meta_db)))) ''u1'' = []"
  by (rule version_reports_stay_empty [OF session_world _ _ _ prod.collapse [symmetric], THEN conjunct1])
     (auto simp: sample_meta_cfg_def sample_adapt_def both_tables_def unversioned_def fresh_session_def empty_meta_db_def
       decode_event_def intro: pipeline_event.intros)

section \<open>Documents and chunks are never linked\<close>

text \<open>Documents are registered under a path or an S3 URL; no edge is a \<open>chunked_into\<close> edge.\<close>

definition unlinked :: "meta_db \<Rightarrow> bool" where
  "unlinked db \<longleftrightarrow> list_all (\<lambda>e. en_type e = ''RawDocument'' \<longrightarrow> CHR ''/'' \<in> set (en_key e)) (entities db)
     \<and> list_all (\<lambda>l. le_relationship l \<noteq> ''chunked_into'') (lineage db)"

lemma unlinked_update:
  "(\<And>e. en_type (g e) = en_type e) \<Longrightarrow> (\<And>e. en_key (g e) = en_key e) \<Longrightarrow>
     unlinked (db\<lparr>entities := update_where P g (entities db)\<rparr>) = unlinked db"
  by (simp add: unlinked_def list_all_update_where)

lemma unlinked_statements:
  "(et = ''RawDocument'' \<longrightarrow> CHR ''/'' \<in> set key) \<Longrightarrow>
     keeps_db unlinked (upsert_entity_sql env (Sql_Text et) (Sql_Text key) tn attrs r s)"
  "keeps_db unlinked (select_entity_sql env tn y k)"
  "rel \<noteq> ''chunked_into'' \<Longrightarrow> keeps_db unlinked (insert_edge_sql env u d (Sql_Text rel) r)"
  "keeps_db unlinked (insert_check_sql env i r n st v th msg)"
  "keeps_db unlinked (mark_failed_sql env i)"
  by (auto simp: keeps_db_def upsert_entity_sql_def select_entity_sql_def insert_edge_sql_def insert_check_sql_def
      mark_failed_sql_def res_bind_Inr_iff text_param_def not_null_def text_of_def unlinked_update
      split: option.splits if_splits) (auto simp: unlinked_def)

definition text_params :: "meta_cfg \<Rightarrow> bool" where
  "text_params cfg \<longleftrightarrow> (\<forall>s. mc_adapt cfg (JStr s) = Inr (Sql_Text s)) \<and> mc_adapt cfg JNull = Inr Sql_Null"

lemma keeps_other_ref:
  assumes "meta_world env api sess" and "text_params cfg" and "rel \<noteq> ''chunked_into''"
  shows "keeps (\<lambda>w. both_tables unlinked (sess w))
     (insert_ref api cfg tn i rn (JObj [(''entity_type'', ut), (''entity_key'', uk), (''relationship'', JStr rel)]))"
  using assms(2) unfolding insert_ref_def insert_lineage_edge_def text_params_def
  by (simp add: py_index_def bindE_lift_Inr)
     (auto intro!: keeps_intros keeps_tables [OF assms(1)] unlinked_statements assms(3) split: meta_reply.split option.split)

text \<open>The lookup of a document by a key without a slash finds nothing.\<close>

lemma keeps_chunk_ref:
  assumes "meta_world env api sess" and "text_params cfg" and "CHR ''/'' \<notin> set doc_id"
  shows "keeps (\<lambda>w. both_tables unlinked (sess w)) (insert_ref api cfg tn i rn
     (JObj [(''entity_type'', JStr ''RawDocument''), (''entity_key'', JStr doc_id), (''relationship'', JStr rel)]))"
proof -
  let ?I = "\<lambda>w. both_tables unlinked (sess w)"
  have sel: "wp (api (Q_Select_Entity t (Sql_Text ''RawDocument'') (Sql_Text doc_id)))
      (\<lambda>reply w'. ?I w' \<and> (\<forall>u. reply \<noteq> R_Opt_Id (Some u))) (\<lambda>_. ?I) w" if I: "?I w" for t w
  proof -
    obtain r w' where a: "api (Q_Select_Entity t (Sql_Text ''RawDocument'') (Sql_Text doc_id)) w = (r, w')" by fastforce
    have "keeps ?I (api (Q_Select_Entity t (Sql_Text ''RawDocument'') (Sql_Text doc_id)))"
      by (rule keeps_tables [OF assms(1)]) (simp add: unlinked_statements)
    from keepsD [OF this I a] have I': "?I w'" .
    from meta_worldD(1) [OF assms(1) _ a] obtain r' where
      e: "run_stmt (select_entity_sql env t (Sql_Text ''RawDocument'') (Sql_Text doc_id)) (sess w) = (r', sess w')"
        "r = map_sum id R_Opt_Id r'"
      by (auto simp: sql_exec_def dest: bind_run_stmt)
    have "x = None" if "r' = Inr x" for x
    proof (rule ccontr)
      assume "x \<noteq> None"
      with e(1) that obtain en tn where "find_entity (pg_working (sess w)) tn ''RawDocument'' doc_id = Some en"
        by (auto simp: run_stmt_def select_entity_sql_def res_bind_Inr_iff text_of_def split: if_splits sum.splits option.splits)
      from find_entity_in [OF this] I assms(3) show False
        by (auto simp: both_tables_def unlinked_def list_all_iff entity_unique_def)
    qed
    then show ?thesis using I' e(2) by (cases r') (auto simp: wp_def a)
  qed
  show ?thesis
    using assms(2) unfolding insert_ref_def insert_lineage_edge_def text_params_def
    by (intro keeps_ignoring)
       (auto simp: keeps_def py_index_def bindE_lift_Inr wp_simps split: sum.split
         intro!: wp_mono [OF sel] split: meta_reply.splits option.splits)
qed

lemma py_iter_list: "py_iter (JList xs) = Inr xs"
  by (simp add: py_iter_def)

lemma unlinked_record_entity:
  assumes "meta_world env api sess" and "text_params cfg"
    and "obj_get d ''entity_type'' (JStr []) = JStr et" and "obj_get d ''entity_key'' (JStr []) = JStr key"
    and "et = ''RawDocument'' \<longrightarrow> CHR ''/'' \<in> set key"
    and "obj_get d ''upstream'' (JList []) = JList refs"
    and "\<And>ref tn i rn. ref \<in> set refs \<Longrightarrow> keeps (\<lambda>w. both_tables unlinked (sess w)) (insert_ref api cfg tn i rn ref)"
  shows "keeps (\<lambda>w. both_tables unlinked (sess w)) (record_entity api cfg f d)"
proof -
  have "keeps (\<lambda>w. both_tables unlinked (sess w)) (upsert_entity api cfg (JStr et) (JStr key) tn attrs rn sv)" for tn attrs rn sv
    using assms(2) unfolding upsert_entity_def text_params_def
    by (simp add: bindE_lift_Inr)
       (intro keeps_intros keeps_tables [OF assms(1)], simp add: unlinked_statements assms(5))
  then show ?thesis
    unfolding record_entity_def Let_def assms(3,4,6) py_iter_list bindE_lift_Inr
    by (intro keeps_intros keeps_quality_tables [OF assms(1)] keeps_commit_ignoring [OF assms(1)] unlinked_statements assms(7))
qed

text \<open>The announcements of documents whose key is a path or URL, and of chunks whose document id is
  not one (it is a hex digest).\<close>

inductive pathed_event :: "json \<Rightarrow> bool" where
  datasource: "pathed_event (datasource_event ce key attrs eid time)"
| rawdocument: "CHR ''/'' \<in> set key \<Longrightarrow> pathed_event (rawdocument_event ce key attrs ds eid time)"
| chunk: "CHR ''/'' \<notin> set (ch_doc_id ch) \<Longrightarrow> pathed_event (chunk_entity_event ch n tenant eid time)"
| embedding: "pathed_event (embedding_entity_event ee ef c emb)"

lemma pathed_event_keeps:
  assumes "meta_world env api sess" and "text_params cfg" and "pathed_event ev"
  shows "keeps (\<lambda>w. both_tables unlinked (sess w)) (process_event api cfg f ev)"
proof -
  note rec = unlinked_record_entity [OF assms(1,2)]
  note ref = keeps_other_ref [OF assms(1,2)] keeps_chunk_ref [OF assms(1,2)]
  have shape: "keeps (\<lambda>w. both_tables unlinked (sess w)) (process_event api cfg f (JObj d))"
    if "obj_get d ''type'' JNull = JStr handled_event_type" "obj_get d ''data'' (JObj []) = JObj dat"
      "keeps (\<lambda>w. both_tables unlinked (sess w)) (record_entity api cfg f dat)" for d dat
    using that by (simp add: process_event_def dict_field_def bindE_lift_Inr)
  from assms(3) show ?thesis
  proof cases
    case (datasource ce key attrs eid time)
    show ?thesis unfolding datasource datasource_event_def lineage_event_def
      by (rule shape, simp add: obj_get_def get_or_def handled_event_type_def, simp add: obj_get_def get_or_def, rule rec)
         (auto simp: obj_get_def get_or_def)
  next
    case (rawdocument key ce attrs ds eid time)
    show ?thesis unfolding rawdocument rawdocument_event_def lineage_event_def
      by (rule shape, simp add: obj_get_def get_or_def handled_event_type_def, simp add: obj_get_def get_or_def, rule rec)
         (auto simp: obj_get_def get_or_def rawdocument intro: ref)
  next
    case (chunk ch n tenant eid time)
    show ?thesis unfolding chunk chunk_entity_event_def
      by (rule shape, simp add: obj_get_def get_or_def handled_event_type_def, simp add: obj_get_def get_or_def, rule rec)
         (auto simp: obj_get_def get_or_def intro: ref(2) [OF chunk(2)])
  next
    case (embedding ee ef c emb)
    show ?thesis unfolding embedding embedding_entity_event_def Let_def
      by (rule shape, simp add: obj_get_def get_or_def handled_event_type_def, simp add: obj_get_def get_or_def, rule rec)
         (auto simp: obj_get_def get_or_def intro: ref)
  qed
qed



end
