(* ===== verification/Bff_Auth.thy ===== *)
theory Bff_Auth
  imports Http
begin

text \<open>
  \<open>services/bff/src/auth.py\<close> and \<open>models.py\<close>: the dependency every endpoint of the management API
  goes through. Token verification is a function of the JOSE library, a parameter that returns the
  claims or raises; the claims are the strings and the list of roles Keycloak's mappers issue. The
  key set is fetched once per URL and kept in the process.
\<close>

section \<open>Claims\<close>

record token =
  tk_sub :: "string option"
  tk_email :: "string option"
  tk_org_id :: "string option"
  tk_org_name :: "string option"
  tk_license_type :: "string option"
  tk_quota_tier :: "string option"
  tk_roles :: "string list option"

record jwt_claims =
  cl_sub :: string
  cl_org_id :: string
  cl_email :: string
  cl_org_name :: string
  cl_license_type :: string
  cl_quota_tier :: string
  cl_roles :: "string list"

definition claim_or :: "string option \<Rightarrow> string \<Rightarrow> string" where
  "claim_or c dflt = (case c of None \<Rightarrow> dflt | Some s \<Rightarrow> s)"

section \<open>Verification\<close>

text \<open>The key set is what the URL answers, an error status being raised.\<close>

datatype jwks_cmd = Get_Jwks string

type_synonym 'w jwks_api = "(jwks_cmd, exc, json, 'w) api"

record auth_cfg =
  ac_jwks_url :: string
  ac_issuer :: string
  ac_algorithms :: "string list"
  ac_test_secret :: "string option"

definition fetch_jwks :: "'w jwks_api \<Rightarrow> string \<Rightarrow> ((string \<times> json) list \<times> 'w, json) prog" where
  "fetch_jwks api url cw =
     (case map_of (fst cw) url of
        Some k \<Rightarrow> (Inr k, cw)
      | None \<Rightarrow> (case api (Get_Jwks url) (snd cw) of
            (Inl e, w') \<Rightarrow> (Inl e, (fst cw, w'))
          | (Inr k, w') \<Rightarrow> (Inr k, (AList.update url k (fst cw), w'))))"

datatype jwt_key = Shared_Secret string | Key_Set json

text \<open>\<open>jwt.decode(token, key, algorithms, issuer)\<close>.\<close>

type_synonym jwt_decoder = "string \<Rightarrow> jwt_key \<Rightarrow> string list \<Rightarrow> string option \<Rightarrow> exc + token"

definition decode_token ::
  "'w jwks_api \<Rightarrow> jwt_decoder \<Rightarrow> auth_cfg \<Rightarrow> string \<Rightarrow> ((string \<times> json) list \<times> 'w, token) prog" where
  "decode_token api decode cfg tok =
     (case ac_test_secret cfg of
        Some secret \<Rightarrow>
          if secret \<noteq> [] then lift_res (decode tok (Shared_Secret secret) [''HS256''] None)
          else bindE (fetch_jwks api (ac_jwks_url cfg)) (\<lambda>k.
                 lift_res (decode tok (Key_Set k) (ac_algorithms cfg) (Some (ac_issuer cfg))))
      | None \<Rightarrow> bindE (fetch_jwks api (ac_jwks_url cfg)) (\<lambda>k.
          lift_res (decode tok (Key_Set k) (ac_algorithms cfg) (Some (ac_issuer cfg)))))"

text \<open>The JOSE library's error class and its subclasses.\<close>

definition is_jwt_error :: "exc \<Rightarrow> bool" where
  "is_jwt_error e \<longleftrightarrow> exc_class e \<in> {''JWTError'', ''JWTClaimsError'', ''ExpiredSignatureError''}"

definition claims_of :: "token \<Rightarrow> string \<Rightarrow> jwt_claims" where
  "claims_of t org =
     \<lparr>cl_sub = claim_or (tk_sub t) [], cl_org_id = org, cl_email = claim_or (tk_email t) [],
      cl_org_name = claim_or (tk_org_name t) [], cl_license_type = claim_or (tk_license_type t) ''free'',
      cl_quota_tier = claim_or (tk_quota_tier t) ''free'',
      cl_roles = (case tk_roles t of None \<Rightarrow> [] | Some rs \<Rightarrow> rs)\<rparr>"

definition require_auth ::
  "'w jwks_api \<Rightarrow> jwt_decoder \<Rightarrow> auth_cfg \<Rightarrow> string option \<Rightarrow> string option
     \<Rightarrow> ((string \<times> json) list \<times> 'w, jwt_claims) prog" where
  "require_auth api decode cfg authorization x_tenant_id =
     (case authorization of
        None \<Rightarrow> raise (http_error 401 ''MISSING_TOKEN'' ''Authorization: Bearer <token> header required'')
      | Some a \<Rightarrow>
          if \<not> startswith a ''Bearer '' then raise (http_error 401 ''MISSING_TOKEN'' ''Authorization: Bearer <token> header required'')
          else bindE (catchE (decode_token api decode cfg (split_once (CHR '' '') a ! 1))
                  (\<lambda>e. if is_jwt_error e then raise (http_error 401 ''INVALID_TOKEN'' (exc_msg e)) else raise e))
            (\<lambda>t. case tk_org_id t of
                 None \<Rightarrow> raise (http_error 401 ''MISSING_ORG_ID'' ''JWT is missing required org_id claim'')
               | Some org \<Rightarrow>
                   if org = [] then raise (http_error 401 ''MISSING_ORG_ID'' ''JWT is missing required org_id claim'')
                   else if x_tenant_id \<notin> {None, Some [], Some org}
                   then raise (http_error 403 ''TENANT_MISMATCH'' ''X-Tenant-ID header does not match JWT org_id'')
                   else ret (claims_of t org)))"

definition is_admin :: "jwt_claims \<Rightarrow> bool" where
  "is_admin c \<longleftrightarrow> ''pipeline-admin'' \<in> set (cl_roles c)"

definition require_admin :: "jwt_claims \<Rightarrow> exc + jwt_claims" where
  "require_admin c =
     (if \<not> is_admin c then Inl (http_error 403 ''FORBIDDEN'' ''pipeline-admin role required'') else Inr c)"

text \<open>The body of \<open>/api/whoami\<close>.\<close>

definition whoami :: "jwt_claims \<Rightarrow> json" where
  "whoami c =
     JObj [(''sub'', JStr (cl_sub c)), (''email'', JStr (cl_email c)), (''org_id'', JStr (cl_org_id c)),
       (''org_name'', JStr (cl_org_name c)), (''license_type'', JStr (cl_license_type c)),
       (''roles'', JList (map JStr (cl_roles c)))]"

text \<open>
  The claims of an accepted request are those of a verified token of a non-empty organisation, and
  the header of the gateway, when present, names the same one.
\<close>

lemma require_auth_claims:
  assumes "require_auth api decode cfg authorization x_tenant_id cw = (Inr c, cw')"
  obtains a key algs iss t where "authorization = Some (''Bearer '' @ a)" and "decode a key algs iss = Inr t"
    and "tk_org_id t = Some (cl_org_id c)" and "cl_org_id c \<noteq> []" and "x_tenant_id \<in> {None, Some [], Some (cl_org_id c)}"
proof -
  obtain a where a: "authorization = Some (''Bearer '' @ a)"
    using assms by (auto simp: require_auth_def startswith_iff split: option.splits if_splits)
  have "split_once (CHR '' '') (''Bearer '' @ a) ! 1 = a"
    by (simp add: split_once_def Let_def)
  moreover note assms
  ultimately obtain t w1 where d: "decode_token api decode cfg a cw = (Inr t, w1)"
      and t: "tk_org_id t = Some (cl_org_id c)" "cl_org_id c \<noteq> []" "x_tenant_id \<in> {None, Some [], Some (cl_org_id c)}"
    unfolding a require_auth_def
    by (auto simp: bindE_def catchE_def startswith_def claims_of_def split: prod.splits sum.splits option.splits if_splits)
  from d have "\<exists>key algs iss. decode a key algs iss = Inr t"
    by (auto simp: decode_token_def bindE_def lift_res_def split: option.splits if_splits prod.splits sum.splits)
  then show thesis using that a t by blast
qed

lemma require_admin_iff: "require_admin c = Inr d \<longleftrightarrow> d = c \<and> is_admin c"
  by (auto simp: require_admin_def)

end
