(* ===== verification/Bff_World.thy ===== *)
theory Bff_World
  imports Bff_Auth
begin

text \<open>
  The outside of the management API (\<open>services/bff/src\<close>): the Kubernetes objects, HTTP services,
  object store and Kafka it commands, the functions of \<open>k8s_client.py\<close>, \<open>minio_client.py\<close> and
  \<open>kafka_client.py\<close>, and the contract of the API server on config maps.
\<close>

section \<open>Commands and replies\<close>

record configmap =
  cm_name :: string
  cm_data :: "string dict"
  cm_labels :: "string dict"

record pod =
  pod_name :: string
  pod_phase :: "string option"
  pod_conditions :: "(string \<times> string) list"

text \<open>An HTTP answer: its status, the \<open>Location\<close> header, what decoding its body gives, and its text.\<close>

record http_answer =
  ha_status :: int
  ha_location :: "string option"
  ha_json :: "exc + json"
  ha_text :: string

text \<open>HTTP calls carry the address, the headers and the query parameters, the JSON body or the form fields.\<close>

datatype bff_cmd =
    List_Pods string string
  | List_Configmaps string string
  | Read_Configmap string string
  | Create_Configmap string configmap
  | Patch_Configmap string string "string dict"
  | Delete_Configmap string string
  | Create_Custom string string string string json
  | Delete_Custom string string string string string
  | Pod_Exec string string "string list"
  | Http_Get string "string dict" "string dict"
  | Http_Post string "string dict" json
  | Http_Put string "string dict" json
  | Http_Form string "string dict"
  | Put_Object string string string
  | Producer_Start
  | Producer_Send string string
  | Producer_Stop
  | New_Uuid

datatype bff_reply =
    B_Ok
  | B_Api_Exception int
  | B_Pods "pod list"
  | B_Configmaps "configmap list"
  | B_Configmap configmap
  | B_Text "string option"
  | B_Answer http_answer
  | B_Uuid string

type_synonym 'w bff_api = "(bff_cmd, exc, bff_reply, 'w) api"

section \<open>The cluster client\<close>

definition api_error :: "int \<Rightarrow> exc" where
  "api_error status = Exc ''ApiException'' (show_int status)"

definition kcall :: "'w bff_api \<Rightarrow> bff_cmd \<Rightarrow> ('w, bff_reply) prog" where
  "kcall api c = bindE (api c) (\<lambda>r. case r of B_Api_Exception s \<Rightarrow> raise (api_error s) | _ \<Rightarrow> ret r)"

record pod_status =
  ps_name :: string
  ps_status :: string
  ps_ready :: bool

definition pod_status_of :: "pod \<Rightarrow> pod_status" where
  "pod_status_of p =
     \<lparr>ps_name = pod_name p,
      ps_status = (case pod_phase p of None \<Rightarrow> ''Unknown'' | Some s \<Rightarrow> if s = [] then ''Unknown'' else s),
      ps_ready = list_ex (\<lambda>c. c = (''Ready'', ''True'')) (pod_conditions p)\<rparr>"

definition list_pods :: "'w bff_api \<Rightarrow> string \<Rightarrow> string \<Rightarrow> ('w, pod_status list) prog" where
  "list_pods api ns label_selector =
     bindE (kcall api (List_Pods ns label_selector)) (\<lambda>r. ret (case r of B_Pods ps \<Rightarrow> map pod_status_of ps | _ \<Rightarrow> []))"

definition list_configmaps :: "'w bff_api \<Rightarrow> string \<Rightarrow> string \<Rightarrow> ('w, configmap list) prog" where
  "list_configmaps api ns label_selector =
     bindE (kcall api (List_Configmaps ns label_selector)) (\<lambda>r. ret (case r of B_Configmaps cms \<Rightarrow> cms | _ \<Rightarrow> []))"

definition get_configmap :: "'w bff_api \<Rightarrow> string \<Rightarrow> string \<Rightarrow> ('w, configmap option) prog" where
  "get_configmap api ns name =
     bindE (api (Read_Configmap ns name)) (\<lambda>r. case r of
         B_Api_Exception s \<Rightarrow> if s = 404 then ret None else raise (api_error s)
       | B_Configmap cm \<Rightarrow> ret (Some cm) | _ \<Rightarrow> ret None)"

definition create_configmap :: "'w bff_api \<Rightarrow> string \<Rightarrow> string \<Rightarrow> string dict \<Rightarrow> string dict \<Rightarrow> ('w, unit) prog" where
  "create_configmap api ns name dat labels =
     seqE (kcall api (Create_Configmap ns \<lparr>cm_name = name, cm_data = dat, cm_labels = labels\<rparr>)) (ret ())"

definition patch_cm :: "'w bff_api \<Rightarrow> string \<Rightarrow> string \<Rightarrow> string dict \<Rightarrow> ('w, configmap) prog" where
  "patch_cm api ns name dat =
     bindE (kcall api (Patch_Configmap ns name dat)) (\<lambda>r. case r of B_Configmap cm \<Rightarrow> ret cm
       | _ \<Rightarrow> raise (Exc ''AttributeError'' ''metadata''))"

definition delete_configmap :: "'w bff_api \<Rightarrow> string \<Rightarrow> string \<Rightarrow> ('w, unit) prog" where
  "delete_configmap api ns name = seqE (kcall api (Delete_Configmap ns name)) (ret ())"

definition create_custom_object :: "'w bff_api \<Rightarrow> string \<Rightarrow> string \<Rightarrow> string \<Rightarrow> string \<Rightarrow> json \<Rightarrow> ('w, unit) prog" where
  "create_custom_object api group_name version ns plural body =
     seqE (kcall api (Create_Custom group_name version ns plural body)) (ret ())"

definition delete_custom_object :: "'w bff_api \<Rightarrow> string \<Rightarrow> string \<Rightarrow> string \<Rightarrow> string \<Rightarrow> string \<Rightarrow> ('w, unit) prog" where
  "delete_custom_object api group_name version ns plural name =
     seqE (kcall api (Delete_Custom group_name version ns plural name)) (ret ())"

text \<open>The non-blank lines of a listing, stripped (\<open>splitlines\<close> and the filter on blank lines).\<close>

definition is_line_break :: "char \<Rightarrow> bool" where
  "is_line_break c \<longleftrightarrow> (of_char c :: nat) \<in> {10, 11, 12, 13, 28, 29, 30}"

fun split_lines :: "string \<Rightarrow> string list" where
  "split_lines [] = [[]]"
| "split_lines (c # cs) =
     (if is_line_break c then [] # split_lines cs
      else (case split_lines cs of [] \<Rightarrow> [[c]] | l # ls \<Rightarrow> (c # l) # ls))"

definition listing_of :: "string \<Rightarrow> string list" where
  "listing_of s = filter (\<lambda>l. l \<noteq> []) (map strip (split_lines s))"

definition browse_nfs_path :: "'w bff_api \<Rightarrow> string \<Rightarrow> string \<Rightarrow> string \<Rightarrow> ('w, string list) prog" where
  "browse_nfs_path api ns connector_id path =
     bindE (list_pods api ns (''connector-id='' @ connector_id)) (\<lambda>pods. case pods of
         [] \<Rightarrow> ret []
       | p # _ \<Rightarrow> bindE (kcall api (Pod_Exec (ps_name p) ns [''ls'', ''-la'', path])) (\<lambda>r.
            ret (case r of B_Text (Some s) \<Rightarrow> listing_of s | _ \<Rightarrow> [])))"

section \<open>Object store and Kafka\<close>

text \<open>Both clients are imported on use: a missing library is logged and the call skipped.\<close>

definition unless_not_installed :: "('w, unit) prog \<Rightarrow> ('w, unit) prog" where
  "unless_not_installed p =
     catchE p (\<lambda>e. if exc_class e \<in> {''ImportError'', ''ModuleNotFoundError''} then ret () else raise e)"

definition object_name :: "string \<Rightarrow> string \<Rightarrow> string \<Rightarrow> string" where
  "object_name tenant_id session_id filename = tenant_id @ ''/uploads/'' @ session_id @ ''/'' @ filename"

definition upload_file :: "'w bff_api \<Rightarrow> string \<Rightarrow> string \<Rightarrow> string \<Rightarrow> string \<Rightarrow> string \<Rightarrow> ('w, string) prog" where
  "upload_file api bucket tenant_id session_id filename content =
     seqE (unless_not_installed (do_cmd api (Put_Object bucket (object_name tenant_id session_id filename) content)))
       (ret (object_name tenant_id session_id filename))"

text \<open>\<open>try: send finally: stop\<close>.\<close>

definition publish_event :: "'w bff_api \<Rightarrow> (rat \<Rightarrow> string) \<Rightarrow> string \<Rightarrow> json \<Rightarrow> ('w, unit) prog" where
  "publish_event api fl topic payload =
     unless_not_installed (seqE (api Producer_Start)
       (\<lambda>w. case api (Producer_Send topic (dumps fl payload)) w of
              (r, w1) \<Rightarrow> (case api Producer_Stop w1 of
                  (Inl e, w2) \<Rightarrow> (Inl e, w2)
                | (Inr _, w2) \<Rightarrow> (case r of Inl e \<Rightarrow> (Inl e, w2) | Inr _ \<Rightarrow> (Inr (), w2)))))"

lemma keeps_unless_not_installed: "keeps I p \<Longrightarrow> keeps I (unless_not_installed p)"
  unfolding unless_not_installed_def by (intro keeps_intros)

lemma publish_event_keeps:
  assumes "keeps I (api Producer_Start)" and "keeps I (api (Producer_Send topic (dumps fl payload)))" and "keeps I (api Producer_Stop)"
  shows "keeps I (publish_event api fl topic payload)"
proof -
  have "keeps I (\<lambda>w. case api (Producer_Send topic (dumps fl payload)) w of
      (r, w1) \<Rightarrow> (case api Producer_Stop w1 of (Inl e, w2) \<Rightarrow> (Inl e, w2)
          | (Inr _, w2) \<Rightarrow> (case r of Inl e \<Rightarrow> (Inl e, w2) | Inr _ \<Rightarrow> (Inr (), w2))))"
  proof (rule keepsI)
    fix w r w' assume I: "I w"
    obtain r1 w1 where s: "api (Producer_Send topic (dumps fl payload)) w = (r1, w1)" by fastforce
    obtain r2 w2 where t: "api Producer_Stop w1 = (r2, w2)" by fastforce
    have "I w2" by (rule keepsD [OF assms(3) keepsD [OF assms(2) I s] t])
    moreover assume "(case api (Producer_Send topic (dumps fl payload)) w of
      (r, w1) \<Rightarrow> (case api Producer_Stop w1 of (Inl e, w2) \<Rightarrow> (Inl e, w2)
          | (Inr _, w2) \<Rightarrow> (case r of Inl e \<Rightarrow> (Inl e, w2) | Inr _ \<Rightarrow> (Inr (), w2)))) = (r, w')"
    ultimately show "I w'" using s t by (simp split: sum.splits)
  qed
  then show ?thesis unfolding publish_event_def by (intro keeps_unless_not_installed keeps_seqE assms(1))
qed

section \<open>Fresh identifiers and HTTP\<close>

definition uuid4 :: "'w bff_api \<Rightarrow> ('w, string) prog" where
  "uuid4 api = bindE (api New_Uuid) (\<lambda>r. ret (case r of B_Uuid u \<Rightarrow> u | _ \<Rightarrow> []))"

definition status_error :: "http_answer \<Rightarrow> exc" where
  "status_error a = Exc ''HTTPStatusError'' (show_int (ha_status a) @ '': '' @ ha_text a)"

text \<open>\<open>resp.raise_for_status()\<close>.\<close>

definition raise_for_status :: "http_answer \<Rightarrow> exc + unit" where
  "raise_for_status a = (if 200 \<le> ha_status a \<and> ha_status a < 300 then Inr () else Inl (status_error a))"

definition http_call :: "'w bff_api \<Rightarrow> bff_cmd \<Rightarrow> ('w, http_answer) prog" where
  "http_call api c = bindE (api c) (\<lambda>r. case r of B_Answer a \<Rightarrow> ret a | _ \<Rightarrow> raise (Exc ''TypeError'' []))"

end
