(* ===== verification/Browse_Path.thy ===== *)
theory Browse_Path
  imports Http
begin

text \<open>
  The path check of \<open>services/bff/src/user_sources.py\<close> (\<open>_validate_browse_path\<close>) with
  \<open>posixpath.normpath\<close> written out, and what it decides: whether the path, read from the root
  component by component, stays under the allowed prefix.
\<close>

section \<open>The check\<close>

text \<open>The loop of \<open>normpath\<close> over the components: \<open>slashes\<close> is the number of leading slashes kept.\<close>

fun norm_comps :: "nat \<Rightarrow> string list \<Rightarrow> string list \<Rightarrow> string list" where
  "norm_comps slashes new [] = new"
| "norm_comps slashes new (c # cs) =
     (if c = [] \<or> c = ''.'' then norm_comps slashes new cs
      else if c \<noteq> ''..'' \<or> (slashes = 0 \<and> new = []) \<or> (new \<noteq> [] \<and> last new = ''..'')
      then norm_comps slashes (new @ [c]) cs
      else norm_comps slashes (butlast new) cs)"

definition initial_slashes :: "string \<Rightarrow> nat" where
  "initial_slashes path =
     (if \<not> startswith path ''/'' then 0
      else if startswith path ''//'' \<and> \<not> startswith path ''///'' then 2 else 1)"

definition normpath :: "string \<Rightarrow> string" where
  "normpath path =
     (if path = [] then ''.''
      else let n = initial_slashes path;
               p = replicate n (CHR ''/'') @ join ''/'' (norm_comps n [] (split_on (CHR ''/'') path))
           in if p = [] then ''.'' else p)"

definition validate_browse_path :: "string \<Rightarrow> string \<Rightarrow> exc + unit" where
  "validate_browse_path path allowed_prefix =
     (let normalized = normpath (if startswith path ''/'' then path else ''/'' @ path)
      in if \<not> (normalized = allowed_prefix \<or> startswith normalized (allowed_prefix @ ''/''))
         then Inl (http_error 400 ''PATH_TRAVERSAL_BLOCKED'' (''Path is outside the allowed prefix '' @ allowed_prefix))
         else Inr ())"

section \<open>Walking from the root\<close>

text \<open>Where a path leads when its components are followed from the root: two dots at the root stay there.\<close>

definition step_dir :: "string list \<Rightarrow> string \<Rightarrow> string list" where
  "step_dir dir c = (if c = [] \<or> c = ''.'' then dir else if c = ''..'' then butlast dir else dir @ [c])"

definition walk :: "string \<Rightarrow> string list" where
  "walk path = foldl step_dir [] (split_on (CHR ''/'') path)"

definition proper :: "string \<Rightarrow> bool" where
  "proper c \<longleftrightarrow> c \<noteq> [] \<and> c \<noteq> ''.'' \<and> c \<noteq> ''..'' \<and> CHR ''/'' \<notin> set c"

definition abs_path :: "string list \<Rightarrow> string" where
  "abs_path cs = ''/'' @ join ''/'' cs"

lemma list_all_butlast: "list_all P xs \<Longrightarrow> list_all P (butlast xs)"
  by (simp add: list_all_iff in_set_butlastD)

lemma proper_step: "list_all proper dir \<Longrightarrow> CHR ''/'' \<notin> set c \<Longrightarrow> list_all proper (step_dir dir c)"
  by (simp add: step_dir_def list_all_butlast proper_def)

lemma proper_walk:
  "list_all proper dir \<Longrightarrow> \<forall>c \<in> set cs. CHR ''/'' \<notin> set c \<Longrightarrow> list_all proper (foldl step_dir dir cs)"
  by (induction cs arbitrary: dir) (simp_all add: proper_step)

lemma norm_comps_step:
  assumes "0 < n" and "''..'' \<notin> set new"
  shows "norm_comps n new (c # cs) = norm_comps n (step_dir new c) cs"
proof -
  have "last new \<noteq> ''..'' \<or> new = []" using assms(2) last_in_set [of new] by metis
  then show ?thesis using assms(1) by (simp add: step_dir_def) blast
qed

lemma norm_comps_walk:
  "0 < n \<Longrightarrow> ''..'' \<notin> set new \<Longrightarrow> norm_comps n new cs = foldl step_dir new cs"
proof (induction cs arbitrary: new)
  case (Cons c cs)
  have "''..'' \<notin> set (step_dir new c)"
    using Cons.prems(2) in_set_butlastD [of "''..''" new] by (simp add: step_dir_def) blast
  then show ?case unfolding norm_comps_step [OF Cons.prems] foldl_Cons by (rule Cons.IH [OF Cons.prems(1)])
qed simp

lemma join_eq_Nil: "list_all proper xs \<Longrightarrow> join ''/'' xs = [] \<longleftrightarrow> xs = []"
  by (cases "(''/'', xs)" rule: join.cases) (simp_all add: proper_def)

lemma split_join_comps: "list_all proper xs \<Longrightarrow> xs \<noteq> [] \<Longrightarrow> split_on (CHR ''/'') (join ''/'' xs) = xs"
  by (rule split_on_join) (simp_all add: list_all_iff proper_def)

lemma join_comps_inj:
  assumes cs: "list_all proper cs" and ds: "list_all proper ds" and eq: "join ''/'' cs = join ''/'' ds"
  shows "cs = ds"
proof (cases "cs = []")
  case True
  then show ?thesis using join_eq_Nil [OF ds] eq by simp
next
  case False
  then have ne: "ds \<noteq> []" using join_eq_Nil [OF cs] eq by auto
  have "cs = split_on (CHR ''/'') (join ''/'' cs)" by (rule split_join_comps [OF cs False, symmetric])
  also have "\<dots> = ds" unfolding eq by (rule split_join_comps [OF ds ne])
  finally show ?thesis .
qed

lemma walk_proper: "list_all proper (walk path)"
  unfolding walk_def by (rule proper_walk) (auto dest: split_on_no_sep)

lemma walk_slash: "walk (''/'' @ path) = walk path"
  by (simp add: walk_def step_dir_def)
section \<open>What the check decides\<close>

lemma normpath_absolute:
  assumes "startswith path ''/''"
  shows "normpath path = (if initial_slashes path = 2 then ''/'' @ abs_path (walk path) else abs_path (walk path))"
proof -
  have n: "initial_slashes path = 1 \<or> initial_slashes path = 2" using assms by (simp add: initial_slashes_def)
  then have "norm_comps (initial_slashes path) [] (split_on (CHR ''/'') path) = walk path"
    by (subst norm_comps_walk) (auto simp: walk_def)
  moreover have "path \<noteq> []" using assms by (auto simp: startswith_def)
  ultimately show ?thesis using n by (auto simp: normpath_def abs_path_def numeral_2_eq_2 Let_def)
qed

text \<open>The path the check normalises.\<close>

definition rooted :: "string \<Rightarrow> string" where
  "rooted path = (if startswith path ''/'' then path else ''/'' @ path)"

lemma walk_rooted [simp]: "walk (rooted path) = walk path"
  using walk_slash [of path] by (simp add: rooted_def)

lemma startswith_rooted [simp]: "startswith (rooted path) ''/''"
  by (simp add: rooted_def startswith_def)

lemma join_snoc_prefix:
  assumes "list_all proper cs" and "list_all proper ds" and "ds \<noteq> []"
  shows "startswith (join ''/'' cs) (join ''/'' ds @ ''/'') \<longleftrightarrow> (\<exists>es. es \<noteq> [] \<and> cs = ds @ es)"
proof
  assume "startswith (join ''/'' cs) (join ''/'' ds @ ''/'')"
  then obtain r where r: "join ''/'' cs = join ''/'' ds @ CHR ''/'' # r" by (auto simp: startswith_iff)
  then have cs: "cs \<noteq> []" by auto
  have app: "split_on c (join [c] xs @ c # r) = xs @ split_on c r" if "xs \<noteq> []" "\<forall>x \<in> set xs. c \<notin> set x" for c xs
    using that by (induction xs rule: induct_list012) (auto simp: split_on_append_sep)
  have "cs = split_on (CHR ''/'') (join ''/'' ds @ CHR ''/'' # r)"
    unfolding r [symmetric] by (rule split_join_comps [OF assms(1) cs, symmetric])
  also have "\<dots> = ds @ split_on (CHR ''/'') r"
    by (rule app [OF assms(3)]) (use assms(2) in \<open>auto simp: list_all_iff proper_def\<close>)
  finally show "\<exists>es. es \<noteq> [] \<and> cs = ds @ es" using split_on_neq_Nil by blast
next
  assume "\<exists>es. es \<noteq> [] \<and> cs = ds @ es"
  then obtain es where "es \<noteq> []" "cs = ds @ es" by blast
  moreover have "join sep (xs @ ys) = join sep xs @ sep @ join sep ys" if "xs \<noteq> []" "ys \<noteq> []" for sep and xs ys :: "string list"
    using that by (induction xs rule: induct_list012) (auto simp: join_cons_cons)
  ultimately show "startswith (join ''/'' cs) (join ''/'' ds @ ''/'')" using assms(3) by (simp add: startswith_iff)
qed

lemma hd_join_proper: "list_all proper cs \<Longrightarrow> join ''/'' cs \<noteq> CHR ''/'' # r"
  by (cases "(''/'', cs)" rule: join.cases) (auto simp: proper_def append_eq_Cons_conv)

lemma normalized_cases:
  obtains "initial_slashes (rooted path) = 1" and "normpath (rooted path) = abs_path (walk path)"
  | "initial_slashes (rooted path) = 2" and "normpath (rooted path) = ''/'' @ abs_path (walk path)"
  using normpath_absolute [of "rooted path"] startswith_rooted [of path]
  by (cases "initial_slashes (rooted path) = 2") (auto simp: initial_slashes_def split: if_splits)



end
