(* ===== verification/Ssrf.thy ===== *)
theory Ssrf
  imports Http "HOL-Library.Word"
begin

unbundle bit_operations_syntax

text \<open>
  \<open>services/bff/src/ssrf_validator.py\<close>: the check of a connection endpoint before the platform
  connects to it. The parts of Python's \<open>ipaddress\<close> and \<open>urllib.parse\<close> (version 3.11) it uses are
  written out on ASCII strings: the parsers of both address families, membership in a network and
  the splitting of a URL up to its host name.
\<close>

section \<open>Addresses and networks\<close>

datatype ip = V4 "32 word" | V6 "128 word"

datatype network = Net4 "32 word" nat | Net6 "128 word" nat

text \<open>\<open>addr in net\<close>: the masked address is the network's address, in the same family.\<close>

definition netmask :: "nat \<Rightarrow> nat \<Rightarrow> 'a::len word" where
  "netmask width prefix = push_bit (width - prefix) (- 1)"

fun in_network :: "ip \<Rightarrow> network \<Rightarrow> bool" where
  "in_network (V4 a) (Net4 n p) = (a AND netmask 32 p = n)"
| "in_network (V6 a) (Net6 n p) = (a AND netmask 128 p = n)"
| "in_network _ _ = False"

text \<open>\<open>_parse_octet\<close> and the dotted notation.\<close>

definition parse_octet :: "string \<Rightarrow> nat option" where
  "parse_octet s =
     (if s = [] \<or> \<not> list_all is_digit s \<or> 3 < length s then None
      else if s \<noteq> ''0'' \<and> hd s = CHR ''0'' then None
      else if 255 < read_digits s then None
      else Some (read_digits s))"

definition parse_ipv4 :: "string \<Rightarrow> 32 word option" where
  "parse_ipv4 s =
     (case map parse_octet (split_on (CHR ''.'') s) of
        [Some a, Some b, Some c, Some d] \<Rightarrow> Some (of_nat (((a * 256 + b) * 256 + c) * 256 + d))
      | _ \<Rightarrow> None)"

text \<open>\<open>_parse_hextet\<close>, \<open>'%x' % n\<close> and the colon notation.\<close>

definition is_hex :: "char \<Rightarrow> bool" where
  "is_hex c \<longleftrightarrow> c \<in> set ''0123456789abcdefABCDEF''"

definition hex_value :: "char \<Rightarrow> nat" where
  "hex_value c = (let n = of_char c :: nat in if n < 58 then n - 48 else if n < 71 then n - 55 else n - 87)"

definition parse_hextet :: "string \<Rightarrow> nat option" where
  "parse_hextet s =
     (if s = [] \<or> \<not> list_all is_hex s \<or> 4 < length s then None else Some (foldl (\<lambda>n c. 16 * n + hex_value c) 0 s))"

fun show_hex :: "nat \<Rightarrow> string" where
  "show_hex n = (if n < 16 then [hex_digit n] else show_hex (n div 16) @ [hex_digit (n mod 16)])"

declare show_hex.simps [simp del]

text \<open>An address in dotted notation as the last part is replaced by two hextets.\<close>

definition hextet_parts :: "string \<Rightarrow> string list option" where
  "hextet_parts s =
     (let parts = split_on (CHR '':'') s in
      if length parts < 3 then None
      else if CHR ''.'' \<in> set (last parts)
      then map_option (\<lambda>a. butlast parts @ [show_hex (unat a div 65536), show_hex (unat a mod 65536)]) (parse_ipv4 (last parts))
      else Some parts)"

definition hextets_value :: "string list \<Rightarrow> nat option" where
  "hextets_value parts =
     (if None \<in> set (map parse_hextet parts) then None
      else Some (foldl (\<lambda>n h. n * 65536 + the h) 0 (map parse_hextet parts)))"

text \<open>The empty inner parts: at most one, and an empty end must be next to it.\<close>

definition empty_inner :: "string list \<Rightarrow> nat list" where
  "empty_inner parts = filter (\<lambda>i. parts ! i = []) [1..<length parts - 1]"

definition ipv6_value :: "string list \<Rightarrow> nat option" where
  "ipv6_value parts =
     (if 9 < length parts then None
      else case empty_inner parts of
          [] \<Rightarrow> if length parts \<noteq> 8 then None else hextets_value parts
        | [k] \<Rightarrow>
            (let front = take k parts; back = drop (Suc k) parts;
                 hi = (if hd parts = [] then k - 1 else k); lo = (if last parts = [] then length back - 1 else length back)
             in if (hd parts = [] \<and> hi \<noteq> 0) \<or> (last parts = [] \<and> lo \<noteq> 0) \<or> 8 < Suc (hi + lo) then None
                else case (hextets_value (take hi front), hextets_value (drop (length back - lo) back)) of
                    (Some x, Some y) \<Rightarrow> Some (x * 65536 ^ (8 - hi) + y)
                  | _ \<Rightarrow> None)
        | _ \<Rightarrow> None)"

text \<open>\<open>partition\<close> at the first occurrence: before, whether found, after.\<close>

definition partition_at :: "char \<Rightarrow> string \<Rightarrow> string \<times> bool \<times> string" where
  "partition_at c s =
     (let a = takeWhile (\<lambda>x. x \<noteq> c) s in if a = s then (s, False, []) else (a, True, drop (Suc (length a)) s))"

definition parse_ipv6 :: "string \<Rightarrow> 128 word option" where
  "parse_ipv6 s =
     (if CHR ''/'' \<in> set s then None
      else case partition_at (CHR ''%'') s of (host, scoped, scope) \<Rightarrow>
        if scoped \<and> (scope = [] \<or> CHR ''%'' \<in> set scope) then None
        else (case hextet_parts host of None \<Rightarrow> None | Some parts \<Rightarrow> map_option of_nat (ipv6_value parts)))"

definition ip_address :: "string \<Rightarrow> ip option" where
  "ip_address s =
     (case parse_ipv4 s of Some a \<Rightarrow> Some (V4 a) | None \<Rightarrow> map_option V6 (parse_ipv6 s))"

section \<open>The host name of a URL\<close>

text \<open>
  \<open>urlsplit\<close>: leading control characters and blanks and every tab and line break go, a scheme is
  a letter followed by scheme characters up to the first colon, the network location what
  follows two slashes. \<open>None\<close> is a \<open>ValueError\<close>.
\<close>

definition is_letter :: "char \<Rightarrow> bool" where
  "is_letter c \<longleftrightarrow> (let n = of_char (lower_char c) :: nat in 97 \<le> n \<and> n \<le> 122)"

definition is_scheme_char :: "char \<Rightarrow> bool" where
  "is_scheme_char c \<longleftrightarrow> is_letter c \<or> is_digit c \<or> c \<in> set ''+-.''"

definition clean_url :: "string \<Rightarrow> string" where
  "clean_url url =
     filter (\<lambda>c. (of_char c :: nat) \<notin> {9, 10, 13}) (dropWhile (\<lambda>c. (of_char c :: nat) \<le> 32) url)"

definition split_scheme :: "string \<Rightarrow> string \<times> string" where
  "split_scheme url =
     (case partition_at (CHR '':'') url of (s, found, rest) \<Rightarrow>
        if found \<and> s \<noteq> [] \<and> is_letter (hd s) \<and> list_all is_scheme_char s then (lower s, rest) else ([], url))"

definition is_v_address :: "string \<Rightarrow> bool" where
  "is_v_address s =
     (case partition_at (CHR ''.'') (tl s) of (version, found, rest) \<Rightarrow>
        version \<noteq> [] \<and> list_all is_hex version \<and> found \<and> rest \<noteq> [])"

definition bracketed_host_ok :: "string \<Rightarrow> bool" where
  "bracketed_host_ok s =
     (if startswith s ''v'' then is_v_address s
      else (case ip_address s of Some (V6 _) \<Rightarrow> True | _ \<Rightarrow> False))"

definition netloc_ok :: "string \<Rightarrow> bool" where
  "netloc_ok netloc \<longleftrightarrow>
     (CHR ''['' \<in> set netloc \<longleftrightarrow> CHR '']'' \<in> set netloc)
   \<and> (CHR ''['' \<in> set netloc \<longrightarrow>
        bracketed_host_ok (fst (partition_at (CHR '']'') (snd (snd (partition_at (CHR ''['') netloc))))))"

definition urlsplit :: "string \<Rightarrow> (string \<times> string) option" where
  "urlsplit url =
     (case split_scheme (clean_url url) of (scheme, rest) \<Rightarrow>
        let netloc = (if startswith rest ''//'' then takeWhile (\<lambda>c. c \<notin> set ''/?#'') (drop 2 rest) else [])
        in if netloc_ok netloc then Some (scheme, netloc) else None)"

text \<open>\<open>hostname\<close>: after the last \<open>@\<close>, inside brackets or before the port, in lower case up to a zone.\<close>

definition hostname :: "string \<Rightarrow> string" where
  "hostname netloc =
     (let hostinfo = last (split_on (CHR ''@'') netloc)
      in case partition_at (CHR ''['') hostinfo of (_, bracket, inner) \<Rightarrow>
           let host = fst (if bracket then partition_at (CHR '']'') inner else partition_at (CHR '':'') hostinfo)
           in case partition_at (CHR ''%'') host of (name, zoned, zone) \<Rightarrow>
                lower name @ (if zoned then ''%'' @ zone else []))"

section \<open>The validator\<close>

definition blocked_schemes :: "string list" where
  "blocked_schemes = [''file'', ''gopher'', ''dict'', ''ldap'', ''ldaps'', ''ftp'', ''netdoc'']"

definition svc_suffixes :: "string list" where
  "svc_suffixes = [''.svc'', ''.svc.cluster.local'', ''.internal'']"

definition blocked_networks :: "network list" where
  "blocked_networks =
     [Net4 0x0A000000 8, Net4 0xAC100000 12, Net4 0xC0A80000 16, Net4 0x7F000000 8, Net4 0xA9FE0000 16,
      Net6 1 128, Net6 0xFC000000000000000000000000000000 7, Net6 0xFE800000000000000000000000000000 10]"

definition is_blocked_ip :: "string \<Rightarrow> bool" where
  "is_blocked_ip host =
     (case ip_address host of None \<Rightarrow> False | Some addr \<Rightarrow> list_ex (in_network addr) blocked_networks)"

definition is_blocked_hostname :: "string \<Rightarrow> bool" where
  "is_blocked_hostname host =
     (let low = lower host in low = ''localhost'' \<or> list_ex (endswith low) svc_suffixes)"

definition block :: "string \<Rightarrow> exc" where
  "block msg = http_error 400 ''SSRF_BLOCKED'' msg"

definition validate_endpoint :: "string \<Rightarrow> exc + unit" where
  "validate_endpoint endpoint =
     (case urlsplit endpoint of
        None \<Rightarrow> Inl (block ''Invalid endpoint URL'')
      | Some (scheme, netloc) \<Rightarrow>
          if lower scheme \<in> set blocked_schemes then Inl (block (''Scheme '' @ lower scheme @ '' is not permitted''))
          else let host = hostname netloc in
            if host = [] then Inl (block ''No hostname found in endpoint'')
            else if is_blocked_ip host \<or> is_blocked_hostname host
            then Inl (block (''Internal address blocked: '' @ host)) else Inr ())"

section \<open>Parsing what was printed\<close>

definition show_ipv4 :: "32 word \<Rightarrow> string" where
  "show_ipv4 a = join ''.'' (map show_nat
     [unat a div 16777216, unat a div 65536 mod 256, unat a div 256 mod 256, unat a mod 256])"

lemma show_nat_hd: "show_nat n \<noteq> ''0'' \<Longrightarrow> hd (show_nat n) \<noteq> CHR ''0''"
proof (induction n rule: show_nat.induct)
  case (1 n)
  show ?case
  proof (cases "n < 10")
    case True
    have "digit_char n = CHR ''0'' \<Longrightarrow> n = 0"
      using of_char_digit_char [OF True] by auto
    then show ?thesis using True 1 by (auto simp: show_nat.simps [of n])
  next
    case False
    have "show_nat 0 = ''0''" by code_simp
    then have "show_nat (n div 10) \<noteq> ''0''" using False show_nat_inj [of "n div 10" 0] by auto
    with 1 False show ?thesis by (simp add: show_nat.simps [of n])
  qed
qed

lemma show_nat_length: "n < 1000 \<Longrightarrow> length (show_nat n) \<le> 3"
  by (simp add: show_nat.simps [of n] show_nat.simps [of "n div 10"] show_nat.simps [of "n div 10 div 10"])

lemma parse_octet_show [simp]: "n \<le> 255 \<Longrightarrow> parse_octet (show_nat n) = Some n"
  using show_nat_hd [of n] show_nat_length [of n] show_nat_digits [of _ n]
  by (auto simp: parse_octet_def list_all_iff)

lemma dot_notin_show_nat [simp]: "CHR ''.'' \<notin> set (show_nat n)"
  using show_nat_digits [of "CHR ''.''" n] by (auto simp: is_digit_def)

lemma octets_value:
  "((unat a div 16777216 * 256 + unat a div 65536 mod 256) * 256 + unat a div 256 mod 256) * 256 + unat a mod 256 = unat a"
proof -
  let ?n = "unat a"
  have "?n div 65536 = ?n div 256 div 256" "?n div 16777216 = ?n div 256 div 256 div 256"
    by (simp_all add: div_mult2_eq [symmetric])
  then show ?thesis by (simp only: div_mult_mod_eq)
qed

lemma parse_show_ipv4 [simp]: "parse_ipv4 (show_ipv4 a) = Some a"
proof -
  have n: "unat a < 256 * 16777216" using unsigned_less [of a] by simp
  then have "unat a div 16777216 \<le> 255" by (simp add: div_less_iff_less_mult less_Suc_eq_le [symmetric])
  moreover have "unat a div 65536 mod 256 \<le> 255" "unat a div 256 mod 256 \<le> 255" "unat a mod 256 \<le> 255"
    by (simp_all add: less_Suc_eq_le [symmetric])
  moreover have "split_on (CHR ''.'') (show_ipv4 a) = map show_nat
     [unat a div 16777216, unat a div 65536 mod 256, unat a div 256 mod 256, unat a mod 256]"
    unfolding show_ipv4_def by (rule split_on_join) auto
  ultimately show ?thesis
    by (simp only: parse_ipv4_def list.simps parse_octet_show option.case octets_value of_nat_unat ucast_id)
qed

text \<open>The characters of a printed address.\<close>

lemma show_ipv4_chars: "c \<in> set (show_ipv4 a) \<Longrightarrow> is_digit c \<or> c = CHR ''.''"
  by (auto simp: show_ipv4_def dest: show_nat_digits)

lemma show_ipv4_notin: "\<not> is_digit c \<Longrightarrow> c \<noteq> CHR ''.'' \<Longrightarrow> c \<notin> set (show_ipv4 a)"
  using show_ipv4_chars by blast

lemma show_ipv4_neq_Nil [simp]: "show_ipv4 a \<noteq> []"
  by (simp add: show_ipv4_def)

lemma lower_digits: "\<forall>c \<in> set s. is_digit c \<or> c \<in> set ''.:'' \<Longrightarrow> lower s = s"
  by (induction s) (auto simp: lower_def lower_char_def is_digit_def)

section \<open>Splitting a well-formed URL\<close>

lemma takeWhile_neq:
  "c \<notin> set s \<Longrightarrow> takeWhile (\<lambda>x. x \<noteq> c) (s @ c # r) = s" "c \<notin> set s \<Longrightarrow> takeWhile (\<lambda>x. x \<noteq> c) s = s"
  by (induction s) auto

lemma partition_at_found: "c \<notin> set s \<Longrightarrow> partition_at c (s @ c # r) = (s, True, r)"
  by (simp add: partition_at_def takeWhile_neq)

lemma partition_at_none: "c \<notin> set s \<Longrightarrow> partition_at c s = (s, False, [])"
  by (simp add: partition_at_def takeWhile_neq)

lemma letter_code: "is_letter c \<Longrightarrow> 65 \<le> (of_char c :: nat)"
  by (auto simp: is_letter_def lower_char_def Let_def split: if_splits)

lemma scheme_char_code: "is_scheme_char c \<Longrightarrow> 33 \<le> (of_char c :: nat)"
  using letter_code [of c] by (auto simp: is_scheme_char_def is_digit_def)

lemma not_letter [simp]: "\<not> is_letter (CHR '':'')" "\<not> is_letter (CHR ''.'')" "\<not> is_letter (CHR ''@'')"
  by (simp_all add: is_letter_def lower_char_def)

definition url_scheme :: "string \<Rightarrow> bool" where
  "url_scheme s \<longleftrightarrow> s \<noteq> [] \<and> is_letter (hd s) \<and> list_all is_scheme_char s"

text \<open>A host without delimiters, and what may follow it.\<close>

definition plain_netloc :: "string \<Rightarrow> bool" where
  "plain_netloc h \<longleftrightarrow> (\<forall>c \<in> set h. 33 \<le> (of_char c :: nat) \<and> c \<notin> set ''/?#'')"

definition url_rest :: "string \<Rightarrow> bool" where
  "url_rest r \<longleftrightarrow> r = [] \<or> hd r \<in> set ''/?#''"

lemma clean_url_scheme:
  assumes "url_scheme s" and "plain_netloc h"
  shows "clean_url (s @ ''://'' @ h @ r) = s @ ''://'' @ h @ filter (\<lambda>c. (of_char c :: nat) \<notin> {9, 10, 13}) r"
proof -
  have big: "filter (\<lambda>c. (of_char c :: nat) \<notin> {9, 10, 13}) t = t" if "\<forall>c \<in> set t. 33 \<le> (of_char c :: nat)" for t
    using that by (induction t) auto
  have "\<forall>c \<in> set s. 33 \<le> (of_char c :: nat)"
    using assms(1) scheme_char_code by (auto simp: url_scheme_def list_all_iff)
  moreover obtain c cs where s: "s = c # cs" "is_letter c"
    using assms(1) by (cases s) (auto simp: url_scheme_def)
  moreover have "\<not> (of_char c :: nat) \<le> 32" using letter_code [OF s(2)] by simp
  moreover have "\<forall>c \<in> set h. 33 \<le> (of_char c :: nat)" using assms(2) by (auto simp: plain_netloc_def)
  ultimately show ?thesis
    using big [of s] big [of h] by (simp add: clean_url_def)
qed

lemma urlsplit_url:
  assumes "url_scheme s" and "plain_netloc h" and "url_rest r"
  shows "urlsplit (s @ ''://'' @ h @ r) = (if netloc_ok h then Some (lower s, h) else None)"
proof -
  let ?r = "filter (\<lambda>c. (of_char c :: nat) \<notin> {9, 10, 13}) r"
  have r: "?r = [] \<or> hd ?r \<in> set ''/?#''"
    using assms(3) by (cases r) (auto simp: url_rest_def)
  have "CHR '':'' \<notin> set s"
    using assms(1) by (auto simp: url_scheme_def list_all_iff is_scheme_char_def is_digit_def)
  then have p: "partition_at (CHR '':'') (s @ CHR '':'' # ''//'' @ h @ ?r) = (s, True, ''//'' @ h @ ?r)"
    by (rule partition_at_found)
  have h: "\<forall>c \<in> set h. c \<notin> set ''/?#''" using assms(2) by (auto simp: plain_netloc_def)
  have "takeWhile (\<lambda>c. c \<notin> set ''/?#'') (h @ ?r) = h @ takeWhile (\<lambda>c. c \<notin> set ''/?#'') ?r"
    by (rule takeWhile_append2) (use h in auto)
  moreover have "takeWhile (\<lambda>c. c \<notin> set ''/?#'') ?r = []" using r by (cases ?r) auto
  ultimately have tw: "takeWhile (\<lambda>c. c \<notin> set ''/?#'') (h @ ?r) = h" by simp
  have sp: "split_scheme (clean_url (s @ ''://'' @ h @ r)) = (lower s, ''//'' @ h @ ?r)"
    using p assms(1) unfolding clean_url_scheme [OF assms(1,2)] split_scheme_def by (simp add: url_scheme_def)
  show ?thesis unfolding urlsplit_def sp using tw by (simp add: startswith_def Let_def)
qed

text \<open>The host name of a location without user, port, brackets and zone.\<close>

lemma hostname_plain:
  "set h \<inter> set ''@[:%'' = {} \<Longrightarrow> hostname h = lower h"
  by (simp add: hostname_def split_on_single partition_at_none)

lemma hostname_bracketed:
  "set h \<inter> set ''@[]%'' = {} \<Longrightarrow> hostname (''['' @ h @ '']'') = lower h"
proof -
  assume h: "set h \<inter> set ''@[]%'' = {}"
  have "partition_at (CHR '']'') (h @ '']'') = (h, True, [])"
    using partition_at_found [of "CHR '']''" h "[]"] h by auto
  moreover have "partition_at (CHR ''['') (CHR ''['' # h @ '']'') = ([], True, h @ '']'')"
    using partition_at_found [of "CHR ''[''" "[]" "h @ '']''"] by simp
  ultimately show ?thesis using h by (simp add: hostname_def split_on_single partition_at_none)
qed

lemma netloc_ok_plain: "set h \<inter> set ''[]'' = {} \<Longrightarrow> netloc_ok h"
  by (simp add: netloc_ok_def)

section \<open>Which addresses are refused\<close>

text \<open>Masking an address is cutting its host bits off.\<close>

lemma and_shifted_ones: "a AND push_bit n (- 1) = push_bit n (drop_bit n a)" for a :: "'a::len word"
  by (rule bit_word_eqI) (auto simp: bit_simps)

lemma in_prefix_iff:
  fixes a :: "'a::len word"
  assumes "drop_bit n (push_bit n b) = b"
  shows "a AND push_bit n (- 1) = push_bit n b \<longleftrightarrow> drop_bit n a = b"
proof
  assume "a AND push_bit n (- 1) = push_bit n b"
  then have "drop_bit n (push_bit n (drop_bit n a)) = b" by (simp only: and_shifted_ones assms)
  moreover have "drop_bit n (push_bit n (drop_bit n a)) = drop_bit n a"
    by (rule bit_word_eqI) (auto simp: bit_simps dest: bit_imp_le_length)
  ultimately show "drop_bit n a = b" by simp
qed (simp only: and_shifted_ones)

text \<open>The private, loopback and link-local blocks.\<close>

definition internal_ipv4 :: "32 word \<Rightarrow> bool" where
  "internal_ipv4 a \<longleftrightarrow> drop_bit 24 a \<in> {10, 127} \<or> drop_bit 20 a = 0xAC1 \<or> drop_bit 16 a \<in> {0xC0A8, 0xA9FE}"

lemma blocked_ipv4: "list_ex (in_network (V4 a)) blocked_networks \<longleftrightarrow> internal_ipv4 a"
  using in_prefix_iff [of 24 10 a] in_prefix_iff [of 20 "0xAC1" a] in_prefix_iff [of 16 "0xC0A8" a]
    in_prefix_iff [of 24 127 a] in_prefix_iff [of 16 "0xA9FE" a]
  by (auto simp: blocked_networks_def netmask_def internal_ipv4_def)

lemma digits_neq_localhost: "is_digit (last s) \<Longrightarrow> \<not> is_blocked_hostname s \<or> lower s \<noteq> s"
proof -
  assume d: "is_digit (last s)"
  have "\<not> endswith s t" if "t \<in> set svc_suffixes" for t
    using that d by (auto simp: svc_suffixes_def endswith_iff is_digit_def)
  moreover have "s \<noteq> ''localhost''" using d by (auto simp: is_digit_def)
  ultimately show ?thesis by (auto simp: is_blocked_hostname_def Let_def list_ex_iff)
qed

lemma last_show_nat [simp]: "is_digit (last (show_nat n))"
  using show_nat_digits [of "last (show_nat n)" n] by simp

lemma last_show_ipv4 [simp]: "is_digit (last (show_ipv4 a))"
  by (simp add: show_ipv4_def)

lemma lower_show_ipv4 [simp]: "lower (show_ipv4 a) = show_ipv4 a"
  by (rule lower_digits) (use show_ipv4_chars in auto)

lemma show_ipv4_not_hostname [simp]: "\<not> is_blocked_hostname (show_ipv4 a)"
  using digits_neq_localhost [of "show_ipv4 a"] by simp

lemma plain_show_ipv4 [simp]: "plain_netloc (show_ipv4 a)"
  using show_ipv4_chars [of _ a] by (fastforce simp: plain_netloc_def is_digit_def)

lemma show_ipv4_delims: "set (show_ipv4 a) \<inter> set ''@[]:%/'' = {}"
  by (simp add: show_ipv4_notin is_digit_def)

lemma lower_scheme: "url_scheme s \<Longrightarrow> lower (lower s) = lower s"
  by (auto simp: lower_def lower_char_def)



section \<open>Aliases of internal addresses\<close>

lemma set_split_on: "c \<in> set s \<Longrightarrow> c = sep \<or> (\<exists>p \<in> set (split_on sep s). c \<in> set p)"
  by (induction s) (auto split: list.splits if_splits)

lemma parse_ipv4_chars:
  assumes "parse_ipv4 s = Some a" and "c \<in> set s"
  shows "is_digit c \<or> c = CHR ''.''"
proof (cases "c = CHR ''.''")
  case False
  then obtain p where p: "p \<in> set (split_on (CHR ''.'') s)" "c \<in> set p"
    using set_split_on [OF assms(2), of "CHR ''.''"] by blast
  have "\<forall>q \<in> set (map parse_octet (split_on (CHR ''.'') s)). q \<noteq> None"
    using assms(1) by (auto simp: parse_ipv4_def split: list.splits option.splits)
  with p have "parse_octet p \<noteq> None" by simp
  with p(2) show ?thesis by (auto simp: parse_octet_def list_all_iff split: if_splits)
qed simp

lemma parse_ipv4_not: "c \<in> set s \<Longrightarrow> \<not> is_digit c \<Longrightarrow> c \<noteq> CHR ''.'' \<Longrightarrow> parse_ipv4 s = None"
  using parse_ipv4_chars by (cases "parse_ipv4 s") blast+

lemma parse_ipv6_not: "length (split_on (CHR '':'') s) < 3 \<Longrightarrow> CHR ''%'' \<notin> set s \<Longrightarrow> parse_ipv6 s = None"
  by (simp add: parse_ipv6_def partition_at_none hextet_parts_def Let_def)

lemma no_ip_address: "\<forall>c \<in> set s. is_digit c \<Longrightarrow> ip_address s = None"
proof -
  assume d: "\<forall>c \<in> set s. is_digit c"
  then have "CHR ''.'' \<notin> set s" "CHR '':'' \<notin> set s" "CHR ''%'' \<notin> set s" by (auto simp: is_digit_def)
  then show ?thesis
    by (cases "parse_octet s") (simp_all add: ip_address_def parse_ipv4_def split_on_single parse_ipv6_not)
qed

text \<open>Hextets are read as they are printed.\<close>

lemma hex_digit_facts: "d < 16 \<Longrightarrow> is_hex (hex_digit d) \<and> hex_value (hex_digit d) = d"
proof -
  have "list_all (\<lambda>d. is_hex (hex_digit d) \<and> hex_value (hex_digit d) = d) [0..<16]" by code_simp
  then show "d < 16 \<Longrightarrow> ?thesis" by (simp add: list_all_iff)
qed

lemma show_hex_facts: "list_all is_hex (show_hex n) \<and> foldl (\<lambda>n c. 16 * n + hex_value c) 0 (show_hex n) = n"
proof (induction n rule: show_hex.induct)
  case (1 n)
  show ?case
    using 1 hex_digit_facts [of n] hex_digit_facts [of "n mod 16"]
    by (cases "n < 16") (simp_all add: show_hex.simps [of n])
qed

lemma show_hex_neq_Nil [simp]: "show_hex n \<noteq> []"
  by (simp add: show_hex.simps [of n])

lemma show_hex_length: "n < 65536 \<Longrightarrow> length (show_hex n) \<le> 4"
  by (simp add: show_hex.simps [of n] show_hex.simps [of "n div 16"] show_hex.simps [of "n div 16 div 16"]
      show_hex.simps [of "n div 16 div 16 div 16"])

lemma parse_show_hextet [simp]: "n < 65536 \<Longrightarrow> parse_hextet (show_hex n) = Some n"
  using show_hex_facts [of n] show_hex_length [of n] by (simp add: parse_hextet_def)

lemma mapped_address:
  "ip_address (''::ffff:'' @ show_ipv4 a) = Some (V6 (of_nat (0xFFFF00000000 + unat a)))"
proof -
  let ?h = "unat a div 65536" and ?l = "unat a mod 65536"
  have "unat a < 65536 * 65536" using unsigned_less [of a] by simp
  then have n: "?h < 65536" "?l < 65536" by (simp_all add: less_mult_imp_div_less)
  have ffff: "parse_hextet ''ffff'' = Some 65535" by (simp add: parse_hextet_def is_hex_def hex_value_def)
  have "split_on (CHR '':'') (''::ffff:'' @ show_ipv4 a) = [[], [], ''ffff'', show_ipv4 a]"
    using show_ipv4_delims [of a] by (simp add: split_on_single)
  moreover have "CHR ''.'' \<in> set (show_ipv4 a)" by (simp add: show_ipv4_def)
  ultimately have parts: "hextet_parts (''::ffff:'' @ show_ipv4 a) = Some [[], [], ''ffff'', show_hex ?h, show_hex ?l]"
    by (simp add: hextet_parts_def)
  have upt: "[1..<4] = [1, 2, 3 :: nat]" by code_simp
  have "length [[], [], ''ffff'', show_hex ?h, show_hex ?l] - 1 = 4" by simp
  then have inner: "empty_inner [[], [], ''ffff'', show_hex ?h, show_hex ?l] = [1]"
    by (simp only: empty_inner_def upt) simp
  have "ipv6_value [[], [], ''ffff'', show_hex ?h, show_hex ?l] = Some (0xFFFF00000000 + unat a)"
    using n by (simp add: ipv6_value_def inner hextets_value_def ffff Let_def)
  moreover have "parse_ipv4 (''::ffff:'' @ show_ipv4 a) = None"
    by (rule parse_ipv4_not [of "CHR '':''"]) (simp_all add: is_digit_def)
  moreover have "CHR ''%'' \<notin> set (''::ffff:'' @ show_ipv4 a)" "CHR ''/'' \<notin> set (''::ffff:'' @ show_ipv4 a)"
    using show_ipv4_delims [of a] by auto
  ultimately show ?thesis
    by (simp only: ip_address_def parse_ipv6_def partition_at_none parts option.case prod.case if_False simp_thms option.map)
qed

lemma mapped_not_blocked: "\<not> list_ex (in_network (V6 (of_nat (0xFFFF00000000 + unat a)))) blocked_networks"
  for a :: "32 word"
proof -
  define w :: "128 word" where "w = of_nat (0xFFFF00000000 + unat a)"
  have "unat a < 4294967296" using unsigned_less [of a] by simp
  moreover have "unat (of_nat m :: 128 word) = m" if "m < 2 ^ 48" for m
    using that by (simp add: unat_of_nat take_bit_nat_eq_self)
  from this [of "0xFFFF00000000 + unat a"] have "unat a < 4294967296 \<Longrightarrow> unat w = 0xFFFF00000000 + unat a"
    unfolding w_def by simp
  ultimately have u: "unat w = 0xFFFF00000000 + unat a" "unat w < 2 ^ 48" by simp_all
  have zero: "drop_bit n w = 0" if "48 \<le> n" for n
  proof -
    have "unat (drop_bit n w) = unat w div 2 ^ n" by (simp only: unat_drop_bit_eq) (simp add: drop_bit_eq_div)
    also have "\<dots> = 0" using u(2) power_increasing [OF that, of "2 :: nat"] by simp
    finally show ?thesis by (simp add: unsigned_eq_0_iff)
  qed
  have "w \<noteq> 1" using u(1) by auto
  moreover have "\<not> in_network (V6 w) (Net6 0xFC000000000000000000000000000000 7)"
    using in_prefix_iff [of 121 "0x7E" w] zero [of 121] by (simp add: netmask_def)
  moreover have "\<not> in_network (V6 w) (Net6 0xFE800000000000000000000000000000 10)"
    using in_prefix_iff [of 118 "0x3FA" w] zero [of 118] by (simp add: netmask_def)
  ultimately show ?thesis
    unfolding w_def [symmetric] by (simp add: blocked_networks_def netmask_def)
qed

lemma validate_url:
  assumes "url_scheme scheme" and "lower scheme \<notin> set blocked_schemes" and "url_rest rest"
    and "plain_netloc h" and "netloc_ok h" and "hostname h = name" and "name \<noteq> []"
    and "\<not> is_blocked_ip name" and "\<not> is_blocked_hostname name"
  shows "validate_endpoint (scheme @ ''://'' @ h @ rest) = Inr ()"
  unfolding validate_endpoint_def urlsplit_url [OF assms(1,4,3)]
  using assms by (simp add: lower_scheme Let_def)

text \<open>
  C37. The check knows an internal host by one spelling only. Take any address, loopback and private
  ones included: an endpoint that names it as an IPv6-mapped address or as one decimal number, both
  of which the connecting side resolves to the same host, is accepted, and so is \<open>localhost\<close> with
  the final dot of a fully qualified name.
\<close>

theorem address_aliases_accepted:
  assumes "url_scheme scheme" and "lower scheme \<notin> set blocked_schemes" and "url_rest rest"
  shows "validate_endpoint (scheme @ ''://'' @ (''[::ffff:'' @ show_ipv4 a @ '']'') @ rest) = Inr ()
    \<and> validate_endpoint (scheme @ ''://'' @ show_nat (unat a) @ rest) = Inr ()
    \<and> validate_endpoint (scheme @ ''://'' @ ''localhost.'' @ rest) = Inr ()"
proof (intro conjI)
  let ?m = "''::ffff:'' @ show_ipv4 a"
  have m: "set ?m \<inter> set ''@[]%'' = {}" using show_ipv4_delims [of a] by auto
  have low: "lower ?m = ?m" using lower_show_ipv4 [of a] by (simp add: lower_def lower_char_def)
  have "netloc_ok (''['' @ ?m @ '']'')"
    using m mapped_address [of a] partition_at_found [of "CHR '']''" ?m "[]"]
    by (auto simp: netloc_ok_def bracketed_host_ok_def startswith_def partition_at_found [of _ "[]", simplified])
  moreover have "plain_netloc (''['' @ ?m @ '']'')" using plain_show_ipv4 [of a] by (auto simp: plain_netloc_def)
  moreover have "\<not> is_blocked_hostname ?m"
    using digits_neq_localhost [of ?m] low by (simp add: last_append)
  moreover have "\<not> is_blocked_ip ?m"
    using mapped_not_blocked [of a] by (simp only: is_blocked_ip_def mapped_address option.case) simp
  moreover have host: "hostname (''['' @ ?m @ '']'') = ?m" by (simp only: hostname_bracketed [OF m] low)
  ultimately have "validate_endpoint (scheme @ ''://'' @ (''['' @ ?m @ '']'') @ rest) = Inr ()"
    by (intro validate_url [OF assms _ _ host]) (assumption | simp)+
  then show "validate_endpoint (scheme @ ''://'' @ (''[::ffff:'' @ show_ipv4 a @ '']'') @ rest) = Inr ()" by simp
next
  let ?d = "show_nat (unat a)"
  have d: "\<forall>c \<in> set ?d. is_digit c" using show_nat_digits by blast
  then have low: "lower ?d = ?d" by (intro lower_digits) blast
  have "set ?d \<inter> set ''@[:%]'' = {}" "plain_netloc ?d" using d by (fastforce simp: plain_netloc_def is_digit_def)+
  then show "validate_endpoint (scheme @ ''://'' @ ?d @ rest) = Inr ()"
    using digits_neq_localhost [of ?d] low no_ip_address [OF d]
    by (intro validate_url [OF assms, where name = ?d]) (auto simp: hostname_plain is_blocked_ip_def netloc_ok_plain)
next
  have "hostname ''localhost.'' = ''localhost.''" "\<not> is_blocked_hostname ''localhost.''" "ip_address ''localhost.'' = None"
    by code_simp+
  then show "validate_endpoint (scheme @ ''://'' @ ''localhost.'' @ rest) = Inr ()"
    by (intro validate_url [OF assms]) (auto simp: plain_netloc_def netloc_ok_def is_blocked_ip_def)
qed

theorem address_aliases_accepted_witness:
  "validate_endpoint (''http'' @ ''://'' @ show_nat (unat (0x7F000001 :: 32 word)) @ ''/'') = Inr ()
   \<and> internal_ipv4 0x7F000001"
proof -
  have "url_scheme ''http''" "lower ''http'' \<notin> set blocked_schemes" "url_rest ''/''"
    by (simp_all add: url_scheme_def is_letter_def is_scheme_char_def lower_def lower_char_def blocked_schemes_def url_rest_def)
  from address_aliases_accepted [OF this, of "0x7F000001"] show ?thesis by (simp add: internal_ipv4_def)
qed

end
