(* ===== verification/Bff_Connectors.thy ===== *)
theory Bff_Connectors
  imports Bff_World Browse_Path Ssrf
begin

text \<open>
  The connector endpoints of the management API: \<open>services/bff/src/admin_endpoints.py\<close> and
  \<open>user_sources.py\<close>. A connector is a config map of the shared namespace, whose data names the
  tenant and, for a user's connector, the owner.
\<close>

section \<open>Constants and helpers\<close>

definition bff_namespace :: string where "bff_namespace = ''ai-pipeline''"
definition connector_component :: string where "connector_component = ''connector''"
definition component_label :: string where "component_label = ''app.kubernetes.io/component''"
definition pipeline_part_of :: string where "pipeline_part_of = ''app.kubernetes.io/part-of=ai-pipeline''"
definition pipeline_config_cm :: string where "pipeline_config_cm = ''pipeline-config''"
definition dc_group :: string where "dc_group = ''pipeline.example.com''"
definition dc_version :: string where "dc_version = ''v1alpha1''"
definition dc_plural :: string where "dc_plural = ''dataconnectors''"
definition metadata_events_topic :: string where "metadata_events_topic = ''metadata-events''"

record bff_env =
  be_loads :: "string \<Rightarrow> exc + json"
  be_float :: "rat \<Rightarrow> string"
  be_quota_url :: string
  be_bucket :: string

record connector_response =
  co_id :: string
  co_name :: string
  co_source_type :: string
  co_config :: "(string \<times> json) list"
  co_tenant_id :: string
  co_start_paused :: bool

text \<open>\<open>d[k]\<close>.\<close>

definition dict_item :: "string dict \<Rightarrow> string \<Rightarrow> exc + string" where
  "dict_item d k = (case map_of d k of None \<Rightarrow> Inl (Exc ''KeyError'' k) | Some v \<Rightarrow> Inr v)"

definition validation_error :: exc where "validation_error = Exc ''ValidationError'' []"

definition as_object :: "json \<Rightarrow> exc + (string \<times> json) list" where
  "as_object j = (case j of JObj d \<Rightarrow> Inr d | _ \<Rightarrow> Inl validation_error)"

definition as_dict :: "json \<Rightarrow> exc + (string \<times> json) list" where
  "as_dict j = (case j of JObj d \<Rightarrow> Inr d | _ \<Rightarrow> Inl (Exc ''AttributeError'' ''get''))"

definition cm_to_connector :: "bff_env \<Rightarrow> configmap \<Rightarrow> exc + connector_response" where
  "cm_to_connector env cm =
     (let d = cm_data cm in
      res_bind (dict_item d ''id'') (\<lambda>i. res_bind (dict_item d ''name'') (\<lambda>n. res_bind (dict_item d ''source_type'') (\<lambda>st.
      res_bind (be_loads env (get_or d ''config'' ''{}'')) (\<lambda>j. res_bind (dict_item d ''tenant_id'') (\<lambda>t.
      res_bind (as_object j) (\<lambda>c.
        Inr \<lparr>co_id = i, co_name = n, co_source_type = st, co_config = c, co_tenant_id = t,
             co_start_paused = (lower (get_or d ''start_paused'' ''false'') = ''true'')\<rparr>)))))))"

definition connector_labels :: "string \<Rightarrow> string dict" where
  "connector_labels org = [(component_label, connector_component), (''tenant-id'', org)]"

definition tenant_selector :: "string \<Rightarrow> string" where
  "tenant_selector org = component_label @ ''='' @ connector_component @ '',tenant-id='' @ org"

definition connector_cm :: "string \<Rightarrow> string" where
  "connector_cm connector_id = ''connector-'' @ connector_id"

definition py_bool :: "bool \<Rightarrow> string" where
  "py_bool b = (if b then ''true'' else ''false'')"

definition data_connector :: "string \<Rightarrow> string \<Rightarrow> string \<Rightarrow> bool \<Rightarrow> json" where
  "data_connector name org source_type start_paused =
     JObj [(''apiVersion'', JStr (dc_group @ ''/'' @ dc_version)), (''kind'', JStr ''DataConnector''),
       (''metadata'', JObj [(''name'', JStr name), (''namespace'', JStr bff_namespace),
          (''labels'', JObj (map (\<lambda>(k, v). (k, JStr v)) (connector_labels org)))]),
       (''spec'', JObj [(''sourceType'', JStr source_type), (''configMapRef'', JStr name),
          (''tenantId'', JStr org), (''startPaused'', JBool start_paused)])]"

definition not_found :: "string \<Rightarrow> exc" where
  "not_found message = http_error 404 ''NOT_FOUND'' message"

definition forbidden :: "string \<Rightarrow> exc" where
  "forbidden message = http_error 403 ''FORBIDDEN'' message"

section \<open>The administrator's endpoints\<close>

definition pipeline_status :: "'w bff_api \<Rightarrow> jwt_claims \<Rightarrow> ('w, pod_status list \<times> string) prog" where
  "pipeline_status api claims =
     seqE (lift_res (require_admin claims))
       (bindE (list_pods api bff_namespace pipeline_part_of) (\<lambda>pods. ret (pods, cl_org_id claims)))"

definition list_connectors :: "'w bff_api \<Rightarrow> bff_env \<Rightarrow> jwt_claims \<Rightarrow> ('w, connector_response list) prog" where
  "list_connectors api env claims =
     seqE (lift_res (require_admin claims))
       (bindE (list_configmaps api bff_namespace (tenant_selector (cl_org_id claims)))
         (\<lambda>cms. lift_res (traverse (cm_to_connector env) cms)))"

record connector_create =
  cc_name :: string
  cc_source_type :: string
  cc_config :: "(string \<times> json) list"
  cc_start_paused :: bool

definition create_connector :: "'w bff_api \<Rightarrow> bff_env \<Rightarrow> connector_create \<Rightarrow> jwt_claims \<Rightarrow> ('w, connector_response) prog" where
  "create_connector api env body claims =
     seqE (lift_res (require_admin claims))
       (bindE (uuid4 api) (\<lambda>connector_id.
         let name = connector_cm connector_id; org = cl_org_id claims in
         seqE (create_configmap api bff_namespace name
                 [(''id'', connector_id), (''name'', cc_name body), (''source_type'', cc_source_type body),
                  (''config'', dumps (be_float env) (JObj (cc_config body))), (''tenant_id'', org),
                  (''start_paused'', py_bool (cc_start_paused body))] (connector_labels org))
           (seqE (create_custom_object api dc_group dc_version bff_namespace dc_plural
                    (data_connector name org (cc_source_type body) (cc_start_paused body)))
             (ret \<lparr>co_id = connector_id, co_name = cc_name body, co_source_type = cc_source_type body,
                   co_config = cc_config body, co_tenant_id = org, co_start_paused = cc_start_paused body\<rparr>))))"

record connector_patch =
  cp_name :: "string option"
  cp_config :: "(string \<times> json) list option"
  cp_start_paused :: "bool option"

definition patched_data :: "bff_env \<Rightarrow> connector_patch \<Rightarrow> string dict \<Rightarrow> string dict" where
  "patched_data env body d =
     (let d1 = (case cp_name body of None \<Rightarrow> d | Some n \<Rightarrow> dict_set ''name'' n d);
          d2 = (case cp_config body of None \<Rightarrow> d1 | Some c \<Rightarrow> dict_set ''config'' (dumps (be_float env) (JObj c)) d1)
      in (case cp_start_paused body of None \<Rightarrow> d2 | Some b \<Rightarrow> dict_set ''start_paused'' (py_bool b) d2))"

text \<open>The checks of the two endpoints that name a connector: 404, then 403 for another tenant's.\<close>

definition tenants_own :: "'w bff_api \<Rightarrow> string \<Rightarrow> jwt_claims \<Rightarrow> ('w, configmap) prog" where
  "tenants_own api connector_id claims =
     bindE (get_configmap api bff_namespace (connector_cm connector_id)) (\<lambda>found. case found of
         None \<Rightarrow> raise (not_found ''Connector not found'')
       | Some cm \<Rightarrow> if map_of (cm_data cm) ''tenant_id'' \<noteq> Some (cl_org_id claims)
           then raise (forbidden ''Connector belongs to another tenant'') else ret cm)"

definition update_connector ::
  "'w bff_api \<Rightarrow> bff_env \<Rightarrow> string \<Rightarrow> connector_patch \<Rightarrow> jwt_claims \<Rightarrow> ('w, connector_response) prog" where
  "update_connector api env connector_id body claims =
     seqE (lift_res (require_admin claims))
       (bindE (tenants_own api connector_id claims) (\<lambda>cm.
         bindE (patch_cm api bff_namespace (connector_cm connector_id) (patched_data env body (cm_data cm)))
           (\<lambda>updated. lift_res (cm_to_connector env updated))))"

definition remove_connector :: "'w bff_api \<Rightarrow> string \<Rightarrow> ('w, unit) prog" where
  "remove_connector api connector_id =
     seqE (delete_configmap api bff_namespace (connector_cm connector_id))
       (ignoring (delete_custom_object api dc_group dc_version bff_namespace dc_plural (connector_cm connector_id)))"

definition admin_delete_connector :: "'w bff_api \<Rightarrow> string \<Rightarrow> jwt_claims \<Rightarrow> ('w, unit) prog" where
  "admin_delete_connector api connector_id claims =
     seqE (lift_res (require_admin claims))
       (seqE (tenants_own api connector_id claims) (remove_connector api connector_id))"

section \<open>The pipeline configuration\<close>

record pipeline_config =
  pc_chunk_size :: int
  pc_chunk_overlap :: int
  pc_embedding_backend :: string
  pc_milvus_index_type :: string
  pc_milvus_nlist :: int

definition default_pipeline_config :: pipeline_config where
  "default_pipeline_config =
     \<lparr>pc_chunk_size = 512, pc_chunk_overlap = 50, pc_embedding_backend = ''bge-small-en-v1.5'',
      pc_milvus_index_type = ''IVF_FLAT'', pc_milvus_nlist = 128\<rparr>"

text \<open>\<open>int(d.get(k, n))\<close>.\<close>

definition int_item :: "string dict \<Rightarrow> string \<Rightarrow> int \<Rightarrow> exc + int" where
  "int_item d k n =
     (case map_of d k of None \<Rightarrow> Inr n
      | Some s \<Rightarrow> (case py_int s of None \<Rightarrow> Inl (Exc ''ValueError'' s) | Some i \<Rightarrow> Inr i))"

definition get_pipeline_config :: "'w bff_api \<Rightarrow> jwt_claims \<Rightarrow> ('w, pipeline_config) prog" where
  "get_pipeline_config api claims =
     seqE (lift_res (require_admin claims))
       (bindE (get_configmap api bff_namespace pipeline_config_cm) (\<lambda>found. case found of
           None \<Rightarrow> ret default_pipeline_config
         | Some cm \<Rightarrow> (let d = cm_data cm in lift_res
             (res_bind (int_item d ''chunk_size'' 512) (\<lambda>cs. res_bind (int_item d ''chunk_overlap'' 50) (\<lambda>co.
              res_bind (int_item d ''milvus_nlist'' 128) (\<lambda>nl.
               Inr \<lparr>pc_chunk_size = cs, pc_chunk_overlap = co,
                    pc_embedding_backend = get_or d ''embedding_backend'' ''bge-small-en-v1.5'',
                    pc_milvus_index_type = get_or d ''milvus_index_type'' ''IVF_FLAT'', pc_milvus_nlist = nl\<rparr>)))))))"

definition config_data :: "pipeline_config \<Rightarrow> string dict" where
  "config_data body =
     [(''chunk_size'', show_int (pc_chunk_size body)), (''chunk_overlap'', show_int (pc_chunk_overlap body)),
      (''embedding_backend'', pc_embedding_backend body), (''milvus_index_type'', pc_milvus_index_type body),
      (''milvus_nlist'', show_int (pc_milvus_nlist body))]"

definition update_pipeline_config :: "'w bff_api \<Rightarrow> pipeline_config \<Rightarrow> jwt_claims \<Rightarrow> ('w, pipeline_config) prog" where
  "update_pipeline_config api body claims =
     seqE (lift_res (require_admin claims))
       (bindE (get_configmap api bff_namespace pipeline_config_cm) (\<lambda>existing.
         seqE (case existing of
                 None \<Rightarrow> create_configmap api bff_namespace pipeline_config_cm (config_data body)
                           [(''app.kubernetes.io/component'', ''pipeline-config'')]
               | Some _ \<Rightarrow> seqE (patch_cm api bff_namespace pipeline_config_cm (config_data body)) (ret ()))
           (ret body)))"

section \<open>The users' endpoints\<close>

definition get_connector :: "'w bff_api \<Rightarrow> string \<Rightarrow> string \<Rightarrow> ('w, configmap) prog" where
  "get_connector api connector_id org =
     bindE (get_configmap api bff_namespace (connector_cm connector_id)) (\<lambda>found. case found of
         None \<Rightarrow> raise (not_found ''Connector not found'')
       | Some cm \<Rightarrow> if map_of (cm_data cm) ''tenant_id'' \<noteq> Some org
           then raise (not_found ''Connector not found'') else ret cm)"

definition assert_owns :: "configmap \<Rightarrow> jwt_claims \<Rightarrow> exc + unit" where
  "assert_owns cm claims =
     (if is_admin claims then Inr ()
      else if get_or (cm_data cm) ''owner_id'' [] \<noteq> cl_sub claims then Inl (forbidden ''You do not own this connector'')
      else Inr ())"

text \<open>\<open>quota_client.check_quota\<close>: what the quota service answers, DENIED by default.\<close>

definition check_connector_quota :: "'w bff_api \<Rightarrow> bff_env \<Rightarrow> string \<Rightarrow> string \<Rightarrow> ('w, bool) prog" where
  "check_connector_quota api env tenant_id metric =
     bindE (http_call api (Http_Post (be_quota_url env @ ''/v1/check-quota'') []
              (JObj [(''tenant_id'', JStr tenant_id), (''metric'', JStr metric), (''amount'', JInt 1),
                 (''increment_on_allow'', JBool True)])))
       (\<lambda>a. seqE (lift_res (raise_for_status a)) (bindE (lift_res (res_bind (ha_json a) as_dict)) (\<lambda>d.
          ret (obj_get d ''status'' (JStr ''DENIED'') \<in> {JStr ''ALLOWED'', JStr ''UNLIMITED''}))))"

definition create_source :: "'w bff_api \<Rightarrow> bff_env \<Rightarrow> connector_create \<Rightarrow> jwt_claims \<Rightarrow> ('w, string) prog" where
  "create_source api env body claims =
     seqE (if cl_license_type claims \<notin> {''pro'', ''enterprise''}
           then bindE (check_connector_quota api env (cl_org_id claims) ''CONNECTOR_COUNT'') (\<lambda>allowed.
                  whenE (\<not> allowed) (raise (http_error 402 ''QUOTA_EXCEEDED'' ''Connector quota exceeded for this tier'')))
           else ret ())
       (bindE (uuid4 api) (\<lambda>connector_id.
         let name = connector_cm connector_id; org = cl_org_id claims in
         seqE (create_configmap api bff_namespace name
                 [(''id'', connector_id), (''name'', cc_name body), (''source_type'', cc_source_type body),
                  (''config'', dumps (be_float env) (JObj (cc_config body))), (''tenant_id'', org),
                  (''owner_id'', cl_sub claims), (''start_paused'', py_bool (cc_start_paused body))] (connector_labels org))
           (seqE (create_custom_object api dc_group dc_version bff_namespace dc_plural
                    (data_connector name org (cc_source_type body) (cc_start_paused body)))
             (ret connector_id))))"

definition test_source :: "string \<Rightarrow> jwt_claims \<Rightarrow> exc + unit" where
  "test_source endpoint claims = validate_endpoint endpoint"

definition upload_source ::
  "'w bff_api \<Rightarrow> bff_env \<Rightarrow> string option \<Rightarrow> string \<Rightarrow> jwt_claims \<Rightarrow> ('w, string \<times> string) prog" where
  "upload_source api env filename content claims =
     bindE (uuid4 api) (\<lambda>session_id.
       bindE (upload_file api (be_bucket env) (cl_org_id claims) session_id
                (if filename \<in> {None, Some []} then ''upload'' else the filename) content) (\<lambda>path.
         seqE (publish_event api (be_float env) metadata_events_topic
                 (JObj [(''entity_type'', JStr ''DataSource''), (''source_type'', JStr ''upload''),
                    (''tenant_id'', JStr (cl_org_id claims)), (''path'', JStr path), (''session_id'', JStr session_id)]))
           (ret (session_id, path))))"

definition set_paused :: "'w bff_api \<Rightarrow> string \<Rightarrow> string \<Rightarrow> jwt_claims \<Rightarrow> ('w, unit) prog" where
  "set_paused api paused connector_id claims =
     bindE (get_connector api connector_id (cl_org_id claims)) (\<lambda>cm.
       seqE (lift_res (assert_owns cm claims))
         (seqE (patch_cm api bff_namespace (connector_cm connector_id) (dict_set ''start_paused'' paused (cm_data cm)))
           (ret ())))"

definition pause_source :: "'w bff_api \<Rightarrow> string \<Rightarrow> jwt_claims \<Rightarrow> ('w, unit) prog" where
  "pause_source api = set_paused api ''true''"

definition resume_source :: "'w bff_api \<Rightarrow> string \<Rightarrow> jwt_claims \<Rightarrow> ('w, unit) prog" where
  "resume_source api = set_paused api ''false''"

definition delete_source :: "'w bff_api \<Rightarrow> string \<Rightarrow> jwt_claims \<Rightarrow> ('w, unit) prog" where
  "delete_source api connector_id claims =
     bindE (get_connector api connector_id (cl_org_id claims)) (\<lambda>cm.
       seqE (lift_res (assert_owns cm claims)) (remove_connector api connector_id))"

definition browse_source :: "'w bff_api \<Rightarrow> bff_env \<Rightarrow> string \<Rightarrow> string \<Rightarrow> jwt_claims \<Rightarrow> ('w, string list) prog" where
  "browse_source api env connector_id path claims =
     bindE (get_connector api connector_id (cl_org_id claims)) (\<lambda>cm.
       bindE (lift_res (res_bind (be_loads env (get_or (cm_data cm) ''config'' ''{}'')) as_dict)) (\<lambda>config.
         case obj_get config ''allowed_path_prefix'' (JStr ''/'') of
           JStr allowed_prefix \<Rightarrow>
             seqE (lift_res (validate_browse_path path allowed_prefix)) (browse_nfs_path api bff_namespace connector_id path)
         | _ \<Rightarrow> raise (Exc ''TypeError'' [])))"

end
