(* ===== verification/Bff_Tenancy.thy ===== *)
theory Bff_Tenancy
  imports Bff_Connectors
begin

text \<open>
  Who may change which connector. The contract of the API server on config maps, the access relation
  the endpoints enforce on it, and its consequence for the tenants of the shared namespace.
\<close>

section \<open>Config maps on the API server\<close>

type_synonym cm_store = "string \<times> string \<Rightarrow> configmap option"

text \<open>A merge patch of \<open>data\<close> overwrites the keys it names.\<close>

definition merged :: "string dict \<Rightarrow> configmap \<Rightarrow> configmap" where
  "merged d cm = cm\<lparr>cm_data := AList.merge (cm_data cm) d\<rparr>"

definition cm_effect :: "bff_cmd \<Rightarrow> cm_store \<Rightarrow> cm_store" where
  "cm_effect c M =
     (case c of
        Create_Configmap ns cm \<Rightarrow> (case M (ns, cm_name cm) of None \<Rightarrow> M((ns, cm_name cm) \<mapsto> cm) | Some _ \<Rightarrow> M)
      | Patch_Configmap ns name d \<Rightarrow> (case M (ns, name) of None \<Rightarrow> M | Some cm \<Rightarrow> M((ns, name) \<mapsto> merged d cm))
      | Delete_Configmap ns name \<Rightarrow> M((ns, name) := None)
      | _ \<Rightarrow> M)"

text \<open>
  A request has its effect or none, and has it when it is accepted; a create is refused for a name
  in use, reads and patches answer with the stored map, and a 404 means there is none.
\<close>

definition accepted :: "exc + bff_reply \<Rightarrow> bool" where
  "accepted r \<longleftrightarrow> (case r of Inr (B_Api_Exception _) \<Rightarrow> False | Inr _ \<Rightarrow> True | Inl _ \<Rightarrow> False)"

definition cluster_world :: "'w bff_api \<Rightarrow> ('w \<Rightarrow> cm_store) \<Rightarrow> bool" where
  "cluster_world api cms \<longleftrightarrow>
     (\<forall>c w r w'. api c w = (r, w') \<longrightarrow>
        (cms w' = cms w \<or> cms w' = cm_effect c (cms w)) \<and> (accepted r \<longrightarrow> cms w' = cm_effect c (cms w)))
   \<and> (\<forall>ns name w x w'. api (Read_Configmap ns name) w = (Inr x, w') \<longrightarrow>
        (case x of B_Configmap cm \<Rightarrow> cms w (ns, name) = Some cm
         | B_Api_Exception s \<Rightarrow> s = 404 \<longrightarrow> cms w (ns, name) = None | _ \<Rightarrow> False))
   \<and> (\<forall>ns cm w r w'. api (Create_Configmap ns cm) w = (r, w') \<longrightarrow> accepted r \<longrightarrow> cms w (ns, cm_name cm) = None)
   \<and> (\<forall>ns name d w r w'. api (Patch_Configmap ns name d) w = (r, w') \<longrightarrow> accepted r \<longrightarrow> cms w (ns, name) \<noteq> None)"

lemma cluster_worldD:
  assumes "cluster_world api cms"
  shows "api c w = (r, w') \<Longrightarrow> cms w' = cms w \<or> cms w' = cm_effect c (cms w)"
    and "api c w = (r, w') \<Longrightarrow> accepted r \<Longrightarrow> cms w' = cm_effect c (cms w)"
    and "api (Read_Configmap ns name) w = (Inr x, w') \<Longrightarrow>
        (case x of B_Configmap cm \<Rightarrow> cms w (ns, name) = Some cm
         | B_Api_Exception s \<Rightarrow> s = 404 \<longrightarrow> cms w (ns, name) = None | _ \<Rightarrow> False)"
    and "api (Create_Configmap ns cm) w = (r, w') \<Longrightarrow> accepted r \<Longrightarrow> cms w (ns, cm_name cm) = None"
    and "api (Patch_Configmap ns name d) w = (r, w') \<Longrightarrow> accepted r \<Longrightarrow> cms w (ns, name) \<noteq> None"
proof -
  note W = assms [unfolded cluster_world_def]
  show "api c w = (r, w') \<Longrightarrow> cms w' = cms w \<or> cms w' = cm_effect c (cms w)"
    by (rule W [THEN conjunct1, rule_format, THEN conjunct1])
  show "api c w = (r, w') \<Longrightarrow> accepted r \<Longrightarrow> cms w' = cm_effect c (cms w)"
    by (rule W [THEN conjunct1, rule_format, THEN conjunct2, rule_format])
  note R = W [THEN conjunct2]
  show "api (Read_Configmap ns name) w = (Inr x, w') \<Longrightarrow>
      (case x of B_Configmap cm \<Rightarrow> cms w (ns, name) = Some cm
       | B_Api_Exception s \<Rightarrow> s = 404 \<longrightarrow> cms w (ns, name) = None | _ \<Rightarrow> False)"
    by (rule R [THEN conjunct1, THEN spec, THEN spec, THEN spec, THEN spec, THEN spec, THEN mp])
  show "api (Create_Configmap ns cm) w = (r, w') \<Longrightarrow> accepted r \<Longrightarrow> cms w (ns, cm_name cm) = None"
    by (rule R [THEN conjunct2, THEN conjunct1, rule_format])
  show "api (Patch_Configmap ns name d) w = (r, w') \<Longrightarrow> accepted r \<Longrightarrow> cms w (ns, name) \<noteq> None"
    by (rule R [THEN conjunct2, THEN conjunct2, rule_format])
qed

text \<open>Commands that are no writes of config maps.\<close>

fun is_cm_write :: "bff_cmd \<Rightarrow> bool" where
  "is_cm_write (Create_Configmap _ _) = True"
| "is_cm_write (Patch_Configmap _ _ _) = True"
| "is_cm_write (Delete_Configmap _ _) = True"
| "is_cm_write _ = False"

lemma cm_effect_other: "\<not> is_cm_write c \<Longrightarrow> cm_effect c M = M"
  by (cases c) (simp_all add: cm_effect_def)

lemma unwritten: "cluster_world api cms \<Longrightarrow> \<not> is_cm_write c \<Longrightarrow> api c w = (r, w') \<Longrightarrow> cms w' = cms w"
  using cluster_worldD(1) [of api cms c w r w'] cm_effect_other by auto

section \<open>Access\<close>

definition accessible :: "jwt_claims \<Rightarrow> configmap \<Rightarrow> bool" where
  "accessible claims cm \<longleftrightarrow> map_of (cm_data cm) ''tenant_id'' = Some (cl_org_id claims)
     \<and> (is_admin claims \<or> get_or (cm_data cm) ''owner_id'' [] = cl_sub claims)"

text \<open>Every entry that differs was accessible before, if it was there, and is now, if it is there.\<close>

definition within_access :: "jwt_claims \<Rightarrow> cm_store \<Rightarrow> cm_store \<Rightarrow> bool" where
  "within_access claims M M' \<longleftrightarrow>
     (\<forall>k. M' k = M k \<or> ((\<forall>cm. M k = Some cm \<longrightarrow> accessible claims cm) \<and> (\<forall>cm. M' k = Some cm \<longrightarrow> accessible claims cm)))"

lemma within_access_refl [simp]: "within_access claims M M"
  by (simp add: within_access_def)

lemma within_access_put:
  assumes "within_access claims M0 M" and "\<And>cm. M k = Some cm \<Longrightarrow> accessible claims cm"
    and "\<And>cm. v = Some cm \<Longrightarrow> accessible claims cm"
  shows "within_access claims M0 (M(k := v))"
  using assms unfolding within_access_def by (metis fun_upd_apply)

text \<open>The invariant of a request's run: only accessible entries have changed since its start.\<close>

definition contained :: "('w \<Rightarrow> cm_store) \<Rightarrow> jwt_claims \<Rightarrow> cm_store \<Rightarrow> 'w \<Rightarrow> bool" where
  "contained cms claims M0 w \<longleftrightarrow> within_access claims M0 (cms w)"

lemma keeps_unwritten [keeps_intros]:
  "cluster_world api cms \<Longrightarrow> \<not> is_cm_write c \<Longrightarrow> keeps (contained cms claims M0) (api c)"
  by (rule keepsI) (simp add: contained_def unwritten)

lemma keeps_kcall [keeps_intros]: "keeps I (api c) \<Longrightarrow> keeps I (kcall api c)"
  unfolding kcall_def by (intro keeps_intros) (auto split: bff_reply.split intro: keeps_intros)

text \<open>A created map belongs to the caller.\<close>

lemma keeps_create:
  assumes "cluster_world api cms" and "accessible claims cm"
  shows "keeps (contained cms claims M0) (api (Create_Configmap ns cm))"
proof (rule keepsI)
  fix w r w' assume I: "contained cms claims M0 w" and run: "api (Create_Configmap ns cm) w = (r, w')"
  show "contained cms claims M0 w'"
    using cluster_worldD(1) [OF assms(1) run] I assms(2)
    by (auto simp: contained_def cm_effect_def split: option.splits intro!: within_access_put)
qed

text \<open>A patch that keeps tenant and owner, and a delete, of a map that was read.\<close>

lemma wp_patch_read:
  assumes "cluster_world api cms" and "contained cms claims M0 w" and "cms w (ns, name) = Some cm"
    and "accessible claims cm" and "accessible claims (merged d cm)"
  shows "wp (kcall api (Patch_Configmap ns name d)) (\<lambda>_. contained cms claims M0) (\<lambda>_. contained cms claims M0) w"
proof -
  obtain r w' where run: "api (Patch_Configmap ns name d) w = (r, w')" by fastforce
  have "contained cms claims M0 w'"
    using cluster_worldD(1) [OF assms(1) run] assms(2-5)
    by (auto simp: contained_def cm_effect_def intro!: within_access_put)
  then show ?thesis using run
    by (auto simp: wp_def kcall_def bindE_def split: sum.split bff_reply.split)
qed

lemma wp_delete_read:
  assumes "cluster_world api cms" and "contained cms claims M0 w" and "cms w (ns, name) = Some cm" and "accessible claims cm"
  shows "wp (kcall api (Delete_Configmap ns name)) (\<lambda>_. contained cms claims M0) (\<lambda>_. contained cms claims M0) w"
proof -
  obtain r w' where run: "api (Delete_Configmap ns name) w = (r, w')" by fastforce
  have "contained cms claims M0 w'"
    using cluster_worldD(1) [OF assms(1) run] assms(2-4)
    by (auto simp: contained_def cm_effect_def intro!: within_access_put)
  then show ?thesis using run
    by (auto simp: wp_def kcall_def bindE_def split: sum.split bff_reply.split)
qed

lemma wp_get_configmap:
  assumes "cluster_world api cms" and "contained cms claims M0 w"
  shows "wp (get_configmap api ns name)
    (\<lambda>found w'. contained cms claims M0 w' \<and> (\<forall>cm. found = Some cm \<longrightarrow> cms w' (ns, name) = Some cm))
    (\<lambda>_. contained cms claims M0) w"
proof -
  obtain r w' where run: "api (Read_Configmap ns name) w = (r, w')" by fastforce
  have same: "cms w' = cms w" by (rule unwritten [OF assms(1) _ run]) simp
  show ?thesis
  proof (cases r)
    case (Inr x)
    then show ?thesis using run same assms(2) cluster_worldD(3) [OF assms(1), of ns name w x w']
      by (cases x) (auto simp: wp_def get_configmap_def bindE_def contained_def)
  qed (use run same assms(2) in \<open>simp add: wp_def get_configmap_def bindE_def contained_def\<close>)
qed
section \<open>The endpoints stay within access\<close>

lemma accessible_merged:
  assumes "accessible claims cm" and "map_of d ''tenant_id'' = map_of (cm_data cm) ''tenant_id''"
    and "map_of d ''owner_id'' = map_of (cm_data cm) ''owner_id''"
  shows "accessible claims (merged d cm)"
  using assms by (auto simp: accessible_def merged_def merge_conv' get_or_def map_add_def split: option.splits)

lemma accessible_paused: "accessible claims cm \<Longrightarrow> accessible claims (merged (dict_set ''start_paused'' p (cm_data cm)) cm)"
  by (rule accessible_merged) simp_all

lemma accessible_patched: "accessible claims cm \<Longrightarrow> accessible claims (merged (patched_data env body (cm_data cm)) cm)"
  by (rule accessible_merged) (simp_all add: patched_data_def Let_def split: option.split)

text \<open>What a caller has after the check of an endpoint: a stored map it may access.\<close>

definition holds_own :: "('w \<Rightarrow> cm_store) \<Rightarrow> jwt_claims \<Rightarrow> cm_store \<Rightarrow> string \<Rightarrow> configmap \<Rightarrow> 'w \<Rightarrow> bool" where
  "holds_own cms claims M0 connector_id cm w \<longleftrightarrow> contained cms claims M0 w
     \<and> cms w (bff_namespace, connector_cm connector_id) = Some cm \<and> accessible claims cm"

lemma wp_tenants_own:
  assumes "cluster_world api cms" and "contained cms claims M0 w" and "is_admin claims"
  shows "wp (tenants_own api connector_id claims) (holds_own cms claims M0 connector_id) (\<lambda>_. contained cms claims M0) w"
  unfolding tenants_own_def wp_bindE
  by (rule wp_mono [OF wp_get_configmap [OF assms(1,2)]])
     (use assms(3) in \<open>auto simp: wp_simps holds_own_def accessible_def split: option.split\<close>)

lemma wp_owned:
  assumes "cluster_world api cms" and "contained cms claims M0 w"
  shows "wp (get_connector api connector_id (cl_org_id claims))
    (\<lambda>cm w'. contained cms claims M0 w' \<and> (assert_owns cm claims = Inr () \<longrightarrow> holds_own cms claims M0 connector_id cm w'))
    (\<lambda>_. contained cms claims M0) w"
  unfolding get_connector_def wp_bindE
  by (rule wp_mono [OF wp_get_configmap [OF assms(1,2)]])
     (auto simp: wp_simps holds_own_def accessible_def assert_owns_def split: option.split if_splits)

lemma wp_patch_own:
  assumes "cluster_world api cms" and "holds_own cms claims M0 connector_id cm w" and "accessible claims (merged d cm)"
  shows "wp (patch_cm api bff_namespace (connector_cm connector_id) d) (\<lambda>_. contained cms claims M0) (\<lambda>_. contained cms claims M0) w"
  unfolding patch_cm_def wp_bindE
  by (rule wp_mono [OF wp_patch_read [OF assms(1)]])
     (use assms(2,3) in \<open>auto simp: holds_own_def wp_simps split: bff_reply.split\<close>)

lemma wp_remove_own:
  assumes "cluster_world api cms" and "holds_own cms claims M0 connector_id cm w"
  shows "wp (remove_connector api connector_id) (\<lambda>_. contained cms claims M0) (\<lambda>_. contained cms claims M0) w"
proof -
  have k: "keeps (contained cms claims M0) (kcall api (Delete_Custom g v ns p n))" for g v ns p n
    by (intro keeps_intros assms(1)) simp
  have "wp (kcall api (Delete_Custom g v ns p n)) (\<lambda>_. contained cms claims M0) (\<lambda>_. contained cms claims M0) w"
    if "contained cms claims M0 w" for g v ns p n w
    using k that by (simp add: keeps_def)
  then show ?thesis
    unfolding remove_connector_def delete_configmap_def delete_custom_object_def wp_seqE wp_ignoring wp_ret
    by (intro wp_mono [OF wp_delete_read [OF assms(1)]]) (use assms(2) in \<open>auto simp: holds_own_def\<close>)
qed

lemma keeps_of_wp: "(\<And>w. I w \<Longrightarrow> wp p (\<lambda>_. I) (\<lambda>_. I) w) \<Longrightarrow> keeps I p"
  by (simp add: keeps_def)

lemma keeps_update_connector:
  assumes "cluster_world api cms"
  shows "keeps (contained cms claims M0) (update_connector api env connector_id body claims)"
proof (rule keeps_of_wp)
  fix w assume I: "contained cms claims M0 w"
  show "wp (update_connector api env connector_id body claims) (\<lambda>_. contained cms claims M0) (\<lambda>_. contained cms claims M0) w"
  proof (cases "is_admin claims")
    case True
    have "wp (patch_cm api bff_namespace (connector_cm connector_id) (patched_data env body (cm_data cm)))
        (\<lambda>x. wp (lift_res (cm_to_connector env x)) (\<lambda>_. contained cms claims M0) (\<lambda>_. contained cms claims M0))
        (\<lambda>_. contained cms claims M0) w'" if "holds_own cms claims M0 connector_id cm w'" for cm w'
      by (rule wp_mono [OF wp_patch_own [OF assms that accessible_patched]])
         (use that in \<open>auto simp: holds_own_def wp_simps split: sum.split\<close>)
    then show ?thesis
      unfolding update_connector_def wp_seqE wp_bindE
      by (simp add: wp_lift_res require_admin_def True) (rule wp_mono [OF wp_tenants_own [OF assms I True]], auto)
  qed (simp add: update_connector_def wp_simps require_admin_def I)
qed

lemma keeps_admin_delete:
  assumes "cluster_world api cms"
  shows "keeps (contained cms claims M0) (admin_delete_connector api connector_id claims)"
proof (rule keeps_of_wp)
  fix w assume I: "contained cms claims M0 w"
  show "wp (admin_delete_connector api connector_id claims) (\<lambda>_. contained cms claims M0) (\<lambda>_. contained cms claims M0) w"
  proof (cases "is_admin claims")
    case True
    then show ?thesis
      unfolding admin_delete_connector_def wp_seqE
      by (simp add: wp_lift_res require_admin_def)
         (rule wp_mono [OF wp_tenants_own [OF assms I True]], auto intro: wp_remove_own [OF assms])
  qed (simp add: admin_delete_connector_def wp_simps require_admin_def I)
qed

lemma keeps_set_paused:
  assumes "cluster_world api cms"
  shows "keeps (contained cms claims M0) (set_paused api p connector_id claims)"
proof (rule keeps_of_wp)
  fix w assume I: "contained cms claims M0 w"
  have "wp (patch_cm api bff_namespace (connector_cm connector_id) (dict_set ''start_paused'' p (cm_data cm)))
      (\<lambda>_. contained cms claims M0) (\<lambda>_. contained cms claims M0) w'" if "holds_own cms claims M0 connector_id cm w'" for cm w'
    by (rule wp_patch_own [OF assms that accessible_paused]) (use that in \<open>simp add: holds_own_def\<close>)
  then show "wp (set_paused api p connector_id claims) (\<lambda>_. contained cms claims M0) (\<lambda>_. contained cms claims M0) w"
    unfolding set_paused_def wp_bindE
    by (intro wp_mono [OF wp_owned [OF assms I]]) (auto simp: wp_simps split: sum.split)
qed

lemma keeps_delete_source:
  assumes "cluster_world api cms"
  shows "keeps (contained cms claims M0) (delete_source api connector_id claims)"
proof (rule keeps_of_wp)
  fix w assume I: "contained cms claims M0 w"
  show "wp (delete_source api connector_id claims) (\<lambda>_. contained cms claims M0) (\<lambda>_. contained cms claims M0) w"
    unfolding delete_source_def wp_bindE
    by (intro wp_mono [OF wp_owned [OF assms I]]) (auto simp: wp_simps split: sum.split intro: wp_remove_own [OF assms])
qed

lemma keeps_plain_calls [keeps_intros]:
  assumes "cluster_world api cms"
  shows "keeps (contained cms claims M0) (uuid4 api)"
    and "keeps (contained cms claims M0) (list_pods api ns sel)"
    and "keeps (contained cms claims M0) (list_configmaps api ns sel)"
    and "keeps (contained cms claims M0) (create_custom_object api g v ns p body)"
    and "keeps (contained cms claims M0) (http_call api (Http_Post url h j))"
  by (auto simp: uuid4_def list_pods_def list_configmaps_def create_custom_object_def http_call_def
      intro!: keeps_intros assms split: bff_reply.split)

lemma keeps_create_configmap:
  "cluster_world api cms \<Longrightarrow> accessible claims \<lparr>cm_name = name, cm_data = d, cm_labels = l\<rparr> \<Longrightarrow>
     keeps (contained cms claims M0) (create_configmap api ns name d l)"
  unfolding create_configmap_def by (intro keeps_intros keeps_create)

lemma keeps_get_configmap:
  "cluster_world api cms \<Longrightarrow> keeps (contained cms claims M0) (get_configmap api ns name)"
  unfolding get_configmap_def by (intro keeps_intros) (auto intro: keeps_intros split: bff_reply.split)

lemma keeps_get_connector:
  "cluster_world api cms \<Longrightarrow> keeps (contained cms claims M0) (get_connector api connector_id org)"
  unfolding get_connector_def
  by (intro keeps_intros keeps_get_configmap) (auto intro: keeps_intros split: option.split)

lemma keeps_create_connector:
  assumes "cluster_world api cms"
  shows "keeps (contained cms claims M0) (create_connector api env body claims)"
proof (cases "is_admin claims")
  case True
  then have "accessible claims \<lparr>cm_name = n, cm_data = [(''id'', i), (''name'', cc_name body), (''source_type'', cc_source_type body),
      (''config'', c), (''tenant_id'', cl_org_id claims), (''start_paused'', p)], cm_labels = l\<rparr>" for n i c p l
    by (simp add: accessible_def)
  then show ?thesis unfolding create_connector_def Let_def by (intro keeps_intros keeps_create_configmap assms)
next
  case False
  then have "create_connector api env body claims w = (Inl (http_error 403 ''FORBIDDEN'' ''pipeline-admin role required''), w)" for w
    by (simp add: create_connector_def seqE_def bindE_def require_admin_def)
  then show ?thesis by (intro keepsI) auto
qed

lemma keeps_check_quota:
  "cluster_world api cms \<Longrightarrow> keeps (contained cms claims M0) (check_connector_quota api env t m)"
  unfolding check_connector_quota_def by (intro keeps_intros)

lemma keeps_create_source:
  assumes "cluster_world api cms"
  shows "keeps (contained cms claims M0) (create_source api env body claims)"
proof -
  have "accessible claims \<lparr>cm_name = n, cm_data = [(''id'', i), (''name'', cc_name body), (''source_type'', cc_source_type body),
      (''config'', c), (''tenant_id'', cl_org_id claims), (''owner_id'', cl_sub claims), (''start_paused'', p)], cm_labels = l\<rparr>" for n i c p l
    by (simp add: accessible_def get_or_def)
  then show ?thesis unfolding create_source_def Let_def
    by (intro keeps_intros keeps_create_configmap keeps_check_quota assms)
qed

lemma keeps_publish_event:
  assumes "cluster_world api cms"
  shows "keeps (contained cms claims M0) (publish_event api fl topic payload)"
  by (rule publish_event_keeps) (rule keeps_unwritten [OF assms], simp)+

lemma keeps_upload_source:
  assumes "cluster_world api cms"
  shows "keeps (contained cms claims M0) (upload_source api env fn content claims)"
  unfolding upload_source_def upload_file_def unless_not_installed_def
  by (intro keeps_intros keeps_publish_event assms) simp

lemma keeps_browse_source:
  assumes "cluster_world api cms"
  shows "keeps (contained cms claims M0) (browse_source api env connector_id path claims)"
proof -
  have "keeps (contained cms claims M0) (browse_nfs_path api ns i path)" for ns i
    unfolding browse_nfs_path_def by (intro keeps_intros assms) (auto intro!: keeps_intros assms split: list.split)
  then show ?thesis unfolding browse_source_def
    by (intro keeps_intros keeps_get_connector assms) (auto intro!: keeps_intros split: json.split)
qed

section \<open>Requests\<close>

datatype connector_request =
    Admin_Status
  | Admin_List
  | Admin_Create connector_create
  | Admin_Update string connector_patch
  | Admin_Delete string
  | User_Create connector_create
  | User_Test string
  | User_Upload "string option" string
  | User_Pause string
  | User_Resume string
  | User_Delete string
  | User_Browse string string

definition run_request :: "'w bff_api \<Rightarrow> bff_env \<Rightarrow> jwt_claims \<Rightarrow> connector_request \<Rightarrow> ('w, unit) prog" where
  "run_request api env claims req =
     (case req of
        Admin_Status \<Rightarrow> seqE (pipeline_status api claims) (ret ())
      | Admin_List \<Rightarrow> seqE (list_connectors api env claims) (ret ())
      | Admin_Create body \<Rightarrow> seqE (create_connector api env body claims) (ret ())
      | Admin_Update i body \<Rightarrow> seqE (update_connector api env i body claims) (ret ())
      | Admin_Delete i \<Rightarrow> admin_delete_connector api i claims
      | User_Create body \<Rightarrow> seqE (create_source api env body claims) (ret ())
      | User_Test endpoint \<Rightarrow> lift_res (test_source endpoint claims)
      | User_Upload fn content \<Rightarrow> seqE (upload_source api env fn content claims) (ret ())
      | User_Pause i \<Rightarrow> pause_source api i claims
      | User_Resume i \<Rightarrow> resume_source api i claims
      | User_Delete i \<Rightarrow> delete_source api i claims
      | User_Browse i path \<Rightarrow> seqE (browse_source api env i path claims) (ret ()))"

definition serve_request :: "'w bff_api \<Rightarrow> bff_env \<Rightarrow> jwt_claims \<times> connector_request \<Rightarrow> 'w \<Rightarrow> 'w" where
  "serve_request api env cr w = snd (run_request api env (fst cr) (snd cr) w)"

lemma request_within_access:
  assumes "cluster_world api cms"
  shows "within_access (fst cr) (cms w) (cms (serve_request api env cr w))"
proof -
  let ?I = "contained cms (fst cr) (cms w)"
  have k: "keeps ?I (run_request api env (fst cr) req)" for req
    using assms
    by (cases req) (auto simp: run_request_def pause_source_def resume_source_def pipeline_status_def list_connectors_def
        intro!: keeps_intros keeps_create_connector keeps_update_connector keeps_admin_delete keeps_create_source
          keeps_upload_source keeps_set_paused keeps_delete_source keeps_browse_source)
  obtain r w' where run: "run_request api env (fst cr) (snd cr) w = (r, w')" by fastforce
  have "?I w" by (simp add: contained_def)
  from keepsD [OF k this run] have "?I w'" .
  then show ?thesis using run by (simp add: contained_def serve_request_def)
qed

text \<open>The connectors of a tenant.\<close>

definition tenant_maps :: "string \<Rightarrow> cm_store \<Rightarrow> cm_store" where
  "tenant_maps t M k = (case M k of Some cm \<Rightarrow> if map_of (cm_data cm) ''tenant_id'' = Some t then Some cm else None | None \<Rightarrow> None)"

lemma within_access_other:
  assumes "within_access claims M M'" and "cl_org_id claims \<noteq> t"
  shows "tenant_maps t M' = tenant_maps t M"
proof
  fix k
  have "M' k = M k \<or> (\<forall>cm. M k = Some cm \<longrightarrow> map_of (cm_data cm) ''tenant_id'' \<noteq> Some t)
      \<and> (\<forall>cm. M' k = Some cm \<longrightarrow> map_of (cm_data cm) ''tenant_id'' \<noteq> Some t)"
    using assms(1) [unfolded within_access_def, THEN spec, of k] assms(2) by (auto simp: accessible_def)
  then show "tenant_maps t M' k = tenant_maps t M k"
    by (cases "M k"; cases "M' k") (auto simp: tenant_maps_def split: if_splits)
qed

lemma requests_tenant_scoped:
  assumes "cluster_world api cms"
  shows "tenant_scoped (serve_request api env) (\<lambda>cr. cl_org_id (fst cr)) (\<lambda>t w. tenant_maps t (cms w)) (\<lambda>_. True)"
  using within_access_other [OF request_within_access [OF assms]] by unfold_locales auto

section \<open>An API server\<close>

text \<open>The documented answers on a store of config maps; other calls are answered with success.\<close>

fun cm_server :: "cm_store bff_api" where
  "cm_server (Read_Configmap ns name) M =
     (Inr (case M (ns, name) of Some cm \<Rightarrow> B_Configmap cm | None \<Rightarrow> B_Api_Exception 404), M)"
| "cm_server (Create_Configmap ns cm) M =
     (if M (ns, cm_name cm) = None then (Inr (B_Configmap cm), M((ns, cm_name cm) \<mapsto> cm)) else (Inr (B_Api_Exception 409), M))"
| "cm_server (Patch_Configmap ns name d) M =
     (case M (ns, name) of None \<Rightarrow> (Inr (B_Api_Exception 404), M)
      | Some cm \<Rightarrow> (Inr (B_Configmap (merged d cm)), M((ns, name) \<mapsto> merged d cm)))"
| "cm_server (Delete_Configmap ns name) M =
     (if M (ns, name) = None then (Inr (B_Api_Exception 404), M) else (Inr B_Ok, M((ns, name) := None)))"
| "cm_server New_Uuid M = (Inr (B_Uuid ''u''), M)"
| "cm_server _ M = (Inr B_Ok, M)"

lemma cm_server_world: "cluster_world cm_server (\<lambda>M. M)"
  unfolding cluster_world_def
proof (intro conjI allI impI)
  fix c w r w' assume run: "cm_server c w = (r, w')"
  show "w' = w \<or> w' = cm_effect c w"
    using run by (cases c) (auto simp: cm_effect_def split: option.splits if_splits)
  assume "accepted r"
  then show "w' = cm_effect c w"
    using run by (cases c) (auto simp: cm_effect_def accepted_def split: option.splits if_splits)
qed (auto simp: accepted_def split: option.splits if_splits)

interpretation connectors: tenant_scoped "serve_request cm_server env" "\<lambda>cr. cl_org_id (fst cr)" "\<lambda>t M. tenant_maps t M" "\<lambda>_. True"
  for env
  by (rule requests_tenant_scoped [OF cm_server_world])

text \<open>
  C3. Connectors are isolated. Whatever a request does and however the API server answers, every
  config map that differs afterwards belonged to the caller's tenant, and for a caller who is no
  administrator to the caller, before and after; and however many requests of other tenants are
  served, in any order, the connectors of a tenant stay as they are.
\<close>

theorem connectors_isolated:
  assumes "cluster_world api cms"
  shows "within_access claims (cms w) (cms (serve_request api env (claims, req) w))
    \<and> (t \<notin> (\<lambda>cr. cl_org_id (fst cr)) ` set crs \<longrightarrow>
        tenant_maps t (cms (fold (serve_request api env) crs w)) = tenant_maps t (cms w))"
  using request_within_access [OF assms, of "(claims, req)"] tenant_scoped.serve_others [OF requests_tenant_scoped [OF assms]]
  by simp

definition sample_bff_env :: bff_env where
  "sample_bff_env = \<lparr>be_loads = \<lambda>_. Inr (JObj []), be_float = \<lambda>_. [], be_quota_url = ''http://quota'', be_bucket = ''b''\<rparr>"

definition sample_claims :: "string \<Rightarrow> string \<Rightarrow> jwt_claims" where
  "sample_claims sub org =
     \<lparr>cl_sub = sub, cl_org_id = org, cl_email = [], cl_org_name = [], cl_license_type = ''pro'', cl_quota_tier = ''pro'',
      cl_roles = [''pipeline-admin'']\<rparr>"

theorem connectors_isolated_witness:
  "let M = Map.empty ((''ai-pipeline'', ''connector-1'') \<mapsto>
         \<lparr>cm_name = ''connector-1'', cm_data = [(''tenant_id'', ''acme'')], cm_labels = []\<rparr>)
   in tenant_maps ''acme'' (fold (serve_request cm_server sample_bff_env)
        [(sample_claims ''eve'' ''other'', Admin_Delete ''1'')] M) = tenant_maps ''acme'' M"
  using connectors_isolated [OF cm_server_world, of _ _ _ _ "''acme''" "[(sample_claims ''eve'' ''other'', Admin_Delete ''1'')]"]
  by (simp add: sample_claims_def)

section \<open>The pipeline configuration\<close>

lemma get_configmap_run:
  assumes "cluster_world api cms" and run: "get_configmap api ns name w = (Inr found, w')"
  shows "found = cms w (ns, name) \<and> cms w' = cms w"
proof -
  obtain r w1 where a: "api (Read_Configmap ns name) w = (r, w1)" by fastforce
  have same: "cms w1 = cms w" by (rule unwritten [OF assms(1) _ a]) simp
  obtain x where r: "r = Inr x" using run a by (cases r) (auto simp: get_configmap_def bindE_def)
  have "w' = w1 \<and> found = cms w (ns, name)"
    using run a cluster_worldD(3) [OF assms(1) a [unfolded r]]
    by (cases x) (auto simp: get_configmap_def bindE_def r split: if_splits)
  with same show ?thesis by simp
qed

lemma kcall_run: "kcall api c w = (Inr x, w') \<Longrightarrow> \<exists>r. api c w = (r, w') \<and> accepted r"
  by (auto simp: kcall_def bindE_def accepted_def split: prod.splits sum.splits bff_reply.splits)

lemma create_configmap_run:
  assumes "cluster_world api cms" and "create_configmap api ns name d l w = (Inr u, w')"
  shows "cms w' = (cms w)((ns, name) \<mapsto> \<lparr>cm_name = name, cm_data = d, cm_labels = l\<rparr>)"
proof -
  obtain r where a: "api (Create_Configmap ns \<lparr>cm_name = name, cm_data = d, cm_labels = l\<rparr>) w = (r, w')" "accepted r"
    using assms(2) kcall_run by (fastforce simp: create_configmap_def seqE_def bindE_def split: prod.splits sum.splits)
  show ?thesis
    using cluster_worldD(2) [OF assms(1) a] cluster_worldD(4) [OF assms(1) a] by (simp add: cm_effect_def)
qed

lemma patch_cm_run:
  assumes "cluster_world api cms" and "patch_cm api ns name d w = (Inr cm, w')"
  obtains old where "cms w (ns, name) = Some old" and "cms w' = (cms w)((ns, name) \<mapsto> merged d old)"
proof -
  obtain r where a: "api (Patch_Configmap ns name d) w = (r, w')" "accepted r"
    using assms(2) kcall_run by (fastforce simp: patch_cm_def bindE_def split: prod.splits sum.splits bff_reply.splits)
  obtain old where old: "cms w (ns, name) = Some old" using cluster_worldD(5) [OF assms(1) a] by auto
  show thesis
    by (rule that [OF old]) (use cluster_worldD(2) [OF assms(1) a] old in \<open>simp add: cm_effect_def\<close>)
qed

lemma update_config_stored:
  assumes "cluster_world api cms" and "update_pipeline_config api body claims w = (Inr b, w')"
  obtains cm where "cms w' (bff_namespace, pipeline_config_cm) = Some cm"
    and "\<And>k. k \<in> fst ` set (config_data body) \<Longrightarrow> map_of (cm_data cm) k = map_of (config_data body) k" and "is_admin claims"
proof -
  have ad: "is_admin claims" using assms(2)
    by (auto simp: update_pipeline_config_def require_admin_def seqE_def bindE_def split: if_splits)
  obtain found w1 where g: "get_configmap api bff_namespace pipeline_config_cm w = (Inr found, w1)"
    using assms(2) by (auto simp: update_pipeline_config_def require_admin_def ad seqE_def bindE_def split: prod.splits sum.splits)
  show thesis
  proof (cases found)
    case None
    then obtain u where c: "create_configmap api bff_namespace pipeline_config_cm (config_data body)
        [(''app.kubernetes.io/component'', ''pipeline-config'')] w1 = (Inr u, w')"
      using assms(2) g by (auto simp: update_pipeline_config_def require_admin_def ad seqE_def bindE_def split: prod.splits sum.splits)
    show thesis by (rule that) (use create_configmap_run [OF assms(1) c] ad in auto)
  next
    case (Some old)
    then obtain u where p: "patch_cm api bff_namespace pipeline_config_cm (config_data body) w1 = (Inr u, w')"
      using assms(2) g by (auto simp: update_pipeline_config_def require_admin_def ad seqE_def bindE_def split: prod.splits sum.splits)
    obtain old' where "cms w' = (cms w1)((bff_namespace, pipeline_config_cm) \<mapsto> merged (config_data body) old')"
      using patch_cm_run [OF assms(1) p] by blast
    then show thesis
      by (intro that [of "merged (config_data body) old'"] ad)
         (auto simp: merged_def merge_conv' map_add_def config_data_def split: option.split)
  qed
qed

text \<open>
  The pipeline configuration survives its way through the config map: what an administrator puts
  is, number for number, what the next reader gets. The map is one for the whole platform, so the
  reader may be the administrator of any tenant, and so may the writer.
\<close>

theorem pipeline_config_roundtrip:
  assumes "cluster_world api cms" and "update_pipeline_config api body writer w = (Inr b, w1)"
    and "get_pipeline_config api reader w1 = (Inr cfg, w2)"
  shows "cfg = body"
proof -
  obtain cm where cm: "cms w1 (bff_namespace, pipeline_config_cm) = Some cm"
      "\<And>k. k \<in> fst ` set (config_data body) \<Longrightarrow> map_of (cm_data cm) k = map_of (config_data body) k"
    using update_config_stored [OF assms(1,2)] by metis
  obtain found w3 where g: "get_configmap api bff_namespace pipeline_config_cm w1 = (Inr found, w3)"
    using assms(3) by (auto simp: get_pipeline_config_def require_admin_def seqE_def bindE_def split: prod.splits sum.splits if_splits)
  have "found = Some cm" using get_configmap_run [OF assms(1) g] cm(1) by simp
  moreover have "map_of (cm_data cm) ''chunk_size'' = Some (show_int (pc_chunk_size body))"
    "map_of (cm_data cm) ''chunk_overlap'' = Some (show_int (pc_chunk_overlap body))"
    "map_of (cm_data cm) ''embedding_backend'' = Some (pc_embedding_backend body)"
    "map_of (cm_data cm) ''milvus_index_type'' = Some (pc_milvus_index_type body)"
    "map_of (cm_data cm) ''milvus_nlist'' = Some (show_int (pc_milvus_nlist body))"
    using cm(2) by (simp_all add: config_data_def)
  ultimately show ?thesis
    using assms(3) g by (auto simp: get_pipeline_config_def require_admin_def seqE_def bindE_def int_item_def get_or_def Let_def
        split: if_splits)
qed

theorem pipeline_config_roundtrip_witness:
  "\<exists>M. update_pipeline_config cm_server (default_pipeline_config\<lparr>pc_chunk_size := 1024\<rparr>) (sample_claims ''a'' ''acme'') Map.empty
       = (Inr (default_pipeline_config\<lparr>pc_chunk_size := 1024\<rparr>), M)
     \<and> get_pipeline_config cm_server (sample_claims ''b'' ''other'') M = (Inr (default_pipeline_config\<lparr>pc_chunk_size := 1024\<rparr>), M)"
proof -
  let ?body = "default_pipeline_config\<lparr>pc_chunk_size := 1024\<rparr>"
  obtain M where u: "update_pipeline_config cm_server ?body (sample_claims ''a'' ''acme'') Map.empty = (Inr ?body, M)"
    by (simp add: update_pipeline_config_def sample_claims_def require_admin_def is_admin_def get_configmap_def
        create_configmap_def kcall_def prog_defs)
  obtain cfg where g: "get_pipeline_config cm_server (sample_claims ''b'' ''other'') M = (Inr cfg, M)"
    using u by (auto simp: update_pipeline_config_def get_pipeline_config_def sample_claims_def require_admin_def is_admin_def
        get_configmap_def create_configmap_def kcall_def prog_defs config_data_def int_item_def Let_def)
  from pipeline_config_roundtrip [OF cm_server_world u g] u g show ?thesis by auto
qed

end
