(* ===== verification/Bff_Workspaces.thy ===== *)
theory Bff_Workspaces
  imports Bff_Auth
begin

text \<open>
  The workspaces of the management API: \<open>services/bff/src/user_endpoints.py\<close> over the statements of
  \<open>db_client.py\<close> on the tables of \<open>db/alembic/versions/0001_initial_schema.py\<close>. Every statement runs
  in a transaction of its own. Python's \<open>uuid.UUID\<close> and the clock are parameters. The columns that no
  endpoint returns and no statement selects on (\<open>added_at\<close>, \<open>content_type\<close>, \<open>error_message\<close>,
  \<open>indexed_at\<close>) are left out of the rows.
\<close>

section \<open>Tables\<close>

record workspace =
  ws_id :: string
  ws_tenant_id :: string
  ws_owner_id :: string
  ws_name :: string
  ws_description :: "string option"
  ws_created_at :: rat

record workspace_source =
  wo_id :: string
  wo_workspace_id :: string
  wo_connector_id :: string
  wo_path_prefix :: string

record file_status =
  fs_id :: string
  fs_tenant_id :: string
  fs_connector_id :: string
  fs_file_path :: string
  fs_file_size_bytes :: "int option"
  fs_last_modified :: "rat option"
  fs_ingest_status :: string
  fs_chunk_count :: "int option"

record ws_db =
  workspaces :: "workspace list"
  workspace_sources :: "workspace_source list"
  source_files :: "file_status list"

section \<open>Statements\<close>

datatype ws_cmd =
    Ws_List string
  | Ws_Insert string string string string "string option" rat
  | Ws_Get string string
  | Ws_Delete string string
  | Wo_List string
  | Wo_Insert string string string string
  | Wo_Delete string string
  | Ws_Files string string int int
  | Ws_Uuid
  | Ws_Now

datatype ws_reply =
    Wr_Workspaces "workspace list"
  | Wr_Sources "workspace_source list"
  | Wr_Files "file_status list"
  | Wr_Deleted nat
  | Wr_Uuid string
  | Wr_Now rat

definition unique_violation :: exc where "unique_violation = Exc ''UniqueViolationError'' []"
definition foreign_key_violation :: exc where "foreign_key_violation = Exc ''ForeignKeyViolationError'' []"

text \<open>Newest first; \<open>NULLS LAST\<close>.\<close>

definition newest_first :: "('r \<Rightarrow> rat option) \<Rightarrow> 'r list \<Rightarrow> 'r list" where
  "newest_first key rows =
     rev (sort_key (\<lambda>r. the (key r)) (filter (\<lambda>r. key r \<noteq> None) rows)) @ filter (\<lambda>r. key r = None) rows"

text \<open>The join of the files with the sources of a workspace: one row per matching source.\<close>

definition joined_files :: "ws_db \<Rightarrow> string \<Rightarrow> string \<Rightarrow> file_status list" where
  "joined_files db workspace tenant =
     concat (map (\<lambda>f. map (\<lambda>_. f) (filter (\<lambda>s. wo_connector_id s = fs_connector_id f \<and> wo_workspace_id s = workspace)
                (workspace_sources db)))
       (filter (\<lambda>f. fs_tenant_id f = tenant) (source_files db)))"

text \<open>\<open>LIMIT n OFFSET m\<close> with the \<open>bigint\<close> parameters of the driver.\<close>

definition limit_offset :: "int \<Rightarrow> int \<Rightarrow> 'r list \<Rightarrow> exc + 'r list" where
  "limit_offset n m rows =
     (if n < 0 \<or> m < 0 \<or> 2 ^ 63 \<le> n \<or> 2 ^ 63 \<le> m then Inl (Exc ''DataError'' []) else Inr (take (nat n) (drop (nat m) rows)))"

fun ws_exec :: "ws_cmd \<Rightarrow> ws_db \<Rightarrow> exc + (ws_reply \<times> ws_db)" where
  "ws_exec (Ws_List t) db =
     Inr (Wr_Workspaces (newest_first (\<lambda>w. Some (ws_created_at w)) (filter (\<lambda>w. ws_tenant_id w = t) (workspaces db))), db)"
| "ws_exec (Ws_Insert i t ow n d now) db =
     (if i \<in> ws_id ` set (workspaces db) then Inl unique_violation
      else let row = \<lparr>ws_id = i, ws_tenant_id = t, ws_owner_id = ow, ws_name = n, ws_description = d, ws_created_at = now\<rparr>
           in Inr (Wr_Workspaces [row], db\<lparr>workspaces := workspaces db @ [row]\<rparr>))"
| "ws_exec (Ws_Get i t) db =
     Inr (Wr_Workspaces (filter (\<lambda>w. ws_id w = i \<and> ws_tenant_id w = t) (workspaces db)), db)"
| "ws_exec (Ws_Delete i t) db =
     (let gone = filter (\<lambda>w. ws_id w = i \<and> ws_tenant_id w = t) (workspaces db)
      in if \<exists>w \<in> set gone. ws_id w \<in> wo_workspace_id ` set (workspace_sources db) then Inl foreign_key_violation
         else Inr (Wr_Deleted (length gone),
                db\<lparr>workspaces := filter (\<lambda>w. \<not> (ws_id w = i \<and> ws_tenant_id w = t)) (workspaces db)\<rparr>))"
| "ws_exec (Wo_List i) db = Inr (Wr_Sources (filter (\<lambda>s. wo_workspace_id s = i) (workspace_sources db)), db)"
| "ws_exec (Wo_Insert s i c p) db =
     (if s \<in> wo_id ` set (workspace_sources db)
         \<or> (i, c, p) \<in> (\<lambda>s. (wo_workspace_id s, wo_connector_id s, wo_path_prefix s)) ` set (workspace_sources db)
      then Inl unique_violation
      else if i \<notin> ws_id ` set (workspaces db) then Inl foreign_key_violation
      else let row = \<lparr>wo_id = s, wo_workspace_id = i, wo_connector_id = c, wo_path_prefix = p\<rparr>
           in Inr (Wr_Sources [row], db\<lparr>workspace_sources := workspace_sources db @ [row]\<rparr>))"
| "ws_exec (Wo_Delete s i) db =
     Inr (Wr_Deleted (length (filter (\<lambda>r. wo_id r = s \<and> wo_workspace_id r = i) (workspace_sources db))),
        db\<lparr>workspace_sources := filter (\<lambda>r. \<not> (wo_id r = s \<and> wo_workspace_id r = i)) (workspace_sources db)\<rparr>)"
| "ws_exec (Ws_Files i t n m) db =
     (case limit_offset n m (newest_first fs_last_modified (joined_files db i t)) of
        Inl e \<Rightarrow> Inl e | Inr rows \<Rightarrow> Inr (Wr_Files rows, db))"
| "ws_exec Ws_Uuid db = Inr (Wr_Uuid [], db)"
| "ws_exec Ws_Now db = Inr (Wr_Now 0, db)"

type_synonym 'w ws_api = "(ws_cmd, exc, ws_reply, 'w) api"

section \<open>The client functions\<close>

text \<open>\<open>uuid.UUID(s)\<close> and its \<open>ValueError\<close>.\<close>

type_synonym uuid_parser = "string \<Rightarrow> string option"

definition as_uuid :: "uuid_parser \<Rightarrow> string \<Rightarrow> exc + string" where
  "as_uuid parse s =
     (case parse s of None \<Rightarrow> Inl (Exc ''ValueError'' ''badly formed hexadecimal UUID string'') | Some u \<Rightarrow> Inr u)"

definition get_workspaces :: "'w ws_api \<Rightarrow> uuid_parser \<Rightarrow> string \<Rightarrow> ('w, workspace list) prog" where
  "get_workspaces api parse tenant_id =
     bindE (lift_res (as_uuid parse tenant_id)) (\<lambda>t. bindE (api (Ws_List t)) (\<lambda>r.
       ret (case r of Wr_Workspaces ws \<Rightarrow> ws | _ \<Rightarrow> [])))"

text \<open>\<open>fetchrow\<close>: the first row or none.\<close>

definition first_workspace :: "ws_reply \<Rightarrow> workspace option" where
  "first_workspace r = (case r of Wr_Workspaces (w # _) \<Rightarrow> Some w | _ \<Rightarrow> None)"

definition first_source :: "ws_reply \<Rightarrow> workspace_source option" where
  "first_source r = (case r of Wr_Sources (s # _) \<Rightarrow> Some s | _ \<Rightarrow> None)"

text \<open>\<open>dict(row)\<close> of a missing row.\<close>

definition dict_of_row :: "'r option \<Rightarrow> exc + 'r" where
  "dict_of_row r = (case r of None \<Rightarrow> Inl (Exc ''TypeError'' []) | Some x \<Rightarrow> Inr x)"

definition fresh_uuid :: "'w ws_api \<Rightarrow> ('w, string) prog" where
  "fresh_uuid api = bindE (api Ws_Uuid) (\<lambda>r. ret (case r of Wr_Uuid u \<Rightarrow> u | _ \<Rightarrow> []))"

definition create_workspace_row ::
  "'w ws_api \<Rightarrow> uuid_parser \<Rightarrow> string \<Rightarrow> string \<Rightarrow> string \<Rightarrow> string option \<Rightarrow> ('w, workspace) prog" where
  "create_workspace_row api parse tenant_id owner_id name description =
     bindE (fresh_uuid api) (\<lambda>i. bindE (lift_res (as_uuid parse tenant_id)) (\<lambda>t. bindE (lift_res (as_uuid parse owner_id)) (\<lambda>ow.
       bindE (api Ws_Now) (\<lambda>now. bindE (api (Ws_Insert i t ow name description (case now of Wr_Now n \<Rightarrow> n | _ \<Rightarrow> 0)))
         (\<lambda>r. lift_res (dict_of_row (first_workspace r)))))))"

definition get_workspace :: "'w ws_api \<Rightarrow> uuid_parser \<Rightarrow> string \<Rightarrow> string \<Rightarrow> ('w, workspace option) prog" where
  "get_workspace api parse workspace_id tenant_id =
     bindE (lift_res (as_uuid parse workspace_id)) (\<lambda>i. bindE (lift_res (as_uuid parse tenant_id)) (\<lambda>t.
       bindE (api (Ws_Get i t)) (\<lambda>r. ret (first_workspace r))))"

definition delete_workspace_row :: "'w ws_api \<Rightarrow> uuid_parser \<Rightarrow> string \<Rightarrow> string \<Rightarrow> ('w, bool) prog" where
  "delete_workspace_row api parse workspace_id tenant_id =
     bindE (lift_res (as_uuid parse workspace_id)) (\<lambda>i. bindE (lift_res (as_uuid parse tenant_id)) (\<lambda>t.
       bindE (api (Ws_Delete i t)) (\<lambda>r. ret (r \<noteq> Wr_Deleted 0))))"

definition get_workspace_sources :: "'w ws_api \<Rightarrow> uuid_parser \<Rightarrow> string \<Rightarrow> ('w, workspace_source list) prog" where
  "get_workspace_sources api parse workspace_id =
     bindE (lift_res (as_uuid parse workspace_id)) (\<lambda>i. bindE (api (Wo_List i)) (\<lambda>r.
       ret (case r of Wr_Sources ss \<Rightarrow> ss | _ \<Rightarrow> [])))"

definition add_workspace_source_row ::
  "'w ws_api \<Rightarrow> uuid_parser \<Rightarrow> string \<Rightarrow> string \<Rightarrow> string \<Rightarrow> ('w, workspace_source) prog" where
  "add_workspace_source_row api parse workspace_id connector_id path_prefix =
     bindE (fresh_uuid api) (\<lambda>s. bindE (lift_res (as_uuid parse workspace_id)) (\<lambda>i.
       bindE (api (Wo_Insert s i connector_id path_prefix)) (\<lambda>r. lift_res (dict_of_row (first_source r)))))"

definition delete_workspace_source_row :: "'w ws_api \<Rightarrow> uuid_parser \<Rightarrow> string \<Rightarrow> string \<Rightarrow> ('w, bool) prog" where
  "delete_workspace_source_row api parse workspace_id source_id =
     bindE (lift_res (as_uuid parse source_id)) (\<lambda>s. bindE (lift_res (as_uuid parse workspace_id)) (\<lambda>i.
       bindE (api (Wo_Delete s i)) (\<lambda>r. ret (r \<noteq> Wr_Deleted 0))))"

definition get_workspace_files ::
  "'w ws_api \<Rightarrow> uuid_parser \<Rightarrow> string \<Rightarrow> string \<Rightarrow> int \<Rightarrow> int \<Rightarrow> ('w, file_status list) prog" where
  "get_workspace_files api parse workspace_id tenant_id page per_page =
     bindE (lift_res (as_uuid parse workspace_id)) (\<lambda>i. bindE (lift_res (as_uuid parse tenant_id)) (\<lambda>t.
       bindE (api (Ws_Files i t per_page ((page - 1) * per_page))) (\<lambda>r. ret (case r of Wr_Files fs \<Rightarrow> fs | _ \<Rightarrow> []))))"

section \<open>The endpoints\<close>

record workspace_response =
  wr_id :: string
  wr_tenant_id :: string
  wr_owner_id :: string
  wr_name :: string
  wr_description :: "string option"

definition workspace_response_of :: "workspace \<Rightarrow> workspace_response" where
  "workspace_response_of r =
     \<lparr>wr_id = ws_id r, wr_tenant_id = ws_tenant_id r, wr_owner_id = ws_owner_id r, wr_name = ws_name r,
      wr_description = ws_description r\<rparr>"

record file_response =
  fr_id :: string
  fr_connector_id :: string
  fr_file_path :: string
  fr_ingest_status :: string
  fr_file_size_bytes :: "int option"
  fr_chunk_count :: "int option"

definition file_response_of :: "file_status \<Rightarrow> file_response" where
  "file_response_of r =
     \<lparr>fr_id = fs_id r, fr_connector_id = fs_connector_id r, fr_file_path = fs_file_path r,
      fr_ingest_status = fs_ingest_status r, fr_file_size_bytes = fs_file_size_bytes r, fr_chunk_count = fs_chunk_count r\<rparr>"

text \<open>A source row is answered as it is: \<open>workspace_source\<close> has the fields of the response.\<close>

definition workspace_or_404 :: "'w ws_api \<Rightarrow> uuid_parser \<Rightarrow> string \<Rightarrow> jwt_claims \<Rightarrow> ('w, workspace) prog" where
  "workspace_or_404 api parse workspace_id claims =
     bindE (get_workspace api parse workspace_id (cl_org_id claims)) (\<lambda>found. case found of
         None \<Rightarrow> raise (http_error 404 ''NOT_FOUND'' ''Workspace not found'') | Some w \<Rightarrow> ret w)"

definition list_workspaces :: "'w ws_api \<Rightarrow> uuid_parser \<Rightarrow> jwt_claims \<Rightarrow> ('w, workspace_response list) prog" where
  "list_workspaces api parse claims =
     bindE (get_workspaces api parse (cl_org_id claims)) (\<lambda>rows. ret (map workspace_response_of rows))"

definition create_workspace ::
  "'w ws_api \<Rightarrow> uuid_parser \<Rightarrow> string \<Rightarrow> string option \<Rightarrow> jwt_claims \<Rightarrow> ('w, workspace_response) prog" where
  "create_workspace api parse name description claims =
     bindE (create_workspace_row api parse (cl_org_id claims) (cl_sub claims) name description)
       (\<lambda>row. ret (workspace_response_of row))"

definition delete_workspace_endpoint :: "'w ws_api \<Rightarrow> uuid_parser \<Rightarrow> string \<Rightarrow> jwt_claims \<Rightarrow> ('w, unit) prog" where
  "delete_workspace_endpoint api parse workspace_id claims =
     seqE (workspace_or_404 api parse workspace_id claims)
       (seqE (delete_workspace_row api parse workspace_id (cl_org_id claims)) (ret ()))"

definition list_workspace_sources :: "'w ws_api \<Rightarrow> uuid_parser \<Rightarrow> string \<Rightarrow> jwt_claims \<Rightarrow> ('w, workspace_source list) prog" where
  "list_workspace_sources api parse workspace_id claims =
     seqE (workspace_or_404 api parse workspace_id claims) (get_workspace_sources api parse workspace_id)"

definition add_workspace_source ::
  "'w ws_api \<Rightarrow> uuid_parser \<Rightarrow> string \<Rightarrow> string \<Rightarrow> string \<Rightarrow> jwt_claims \<Rightarrow> ('w, workspace_source) prog" where
  "add_workspace_source api parse workspace_id connector_id path_prefix claims =
     seqE (workspace_or_404 api parse workspace_id claims)
       (add_workspace_source_row api parse workspace_id connector_id path_prefix)"

definition delete_workspace_source :: "'w ws_api \<Rightarrow> uuid_parser \<Rightarrow> string \<Rightarrow> string \<Rightarrow> jwt_claims \<Rightarrow> ('w, unit) prog" where
  "delete_workspace_source api parse workspace_id source_id claims =
     seqE (workspace_or_404 api parse workspace_id claims)
       (bindE (delete_workspace_source_row api parse workspace_id source_id) (\<lambda>deleted.
         whenE (\<not> deleted) (raise (http_error 404 ''NOT_FOUND'' ''Source not found in workspace''))))"

text \<open>\<open>page >= 1\<close> and \<open>1 <= per_page <= 200\<close> are checked by the framework.\<close>

definition list_workspace_files ::
  "'w ws_api \<Rightarrow> uuid_parser \<Rightarrow> string \<Rightarrow> int \<Rightarrow> int \<Rightarrow> jwt_claims \<Rightarrow> ('w, file_response list) prog" where
  "list_workspace_files api parse workspace_id page per_page claims =
     (if page < 1 \<or> per_page < 1 \<or> 200 < per_page then raise (http_exception 422 ''validation'')
      else seqE (workspace_or_404 api parse workspace_id claims)
        (bindE (get_workspace_files api parse workspace_id (cl_org_id claims) page per_page)
          (\<lambda>rows. ret (map file_response_of rows))))"

definition reindex_file :: "'w ws_api \<Rightarrow> uuid_parser \<Rightarrow> string \<Rightarrow> string \<Rightarrow> jwt_claims \<Rightarrow> ('w, json) prog" where
  "reindex_file api parse workspace_id file_id claims =
     seqE (workspace_or_404 api parse workspace_id claims)
       (ret (JObj [(''status'', JStr ''reindex_queued''), (''file_id'', JStr file_id)]))"

datatype workspace_request =
    Wq_List
  | Wq_Create string "string option"
  | Wq_Delete string
  | Wq_Sources string
  | Wq_Add string string string
  | Wq_Remove string string
  | Wq_Files string int int
  | Wq_Reindex string string

definition run_workspace_request :: "'w ws_api \<Rightarrow> uuid_parser \<Rightarrow> jwt_claims \<Rightarrow> workspace_request \<Rightarrow> ('w, unit) prog" where
  "run_workspace_request api parse claims req =
     (case req of
        Wq_List \<Rightarrow> seqE (list_workspaces api parse claims) (ret ())
      | Wq_Create n d \<Rightarrow> seqE (create_workspace api parse n d claims) (ret ())
      | Wq_Delete i \<Rightarrow> delete_workspace_endpoint api parse i claims
      | Wq_Sources i \<Rightarrow> seqE (list_workspace_sources api parse i claims) (ret ())
      | Wq_Add i c p \<Rightarrow> seqE (add_workspace_source api parse i c p claims) (ret ())
      | Wq_Remove i s \<Rightarrow> delete_workspace_source api parse i s claims
      | Wq_Files i p n \<Rightarrow> seqE (list_workspace_files api parse i p n claims) (ret ())
      | Wq_Reindex i f \<Rightarrow> seqE (reindex_file api parse i f claims) (ret ()))"

section \<open>The contract of the database\<close>

text \<open>
  A statement that answers has run on the tables; one that raises has failed on them, or the
  connection was lost, before or after it ran.
\<close>

definition ws_world :: "'w ws_api \<Rightarrow> ('w \<Rightarrow> ws_db) \<Rightarrow> bool" where
  "ws_world api tables \<longleftrightarrow>
     (\<forall>c w x w'. c \<notin> {Ws_Uuid, Ws_Now} \<longrightarrow> api c w = (Inr x, w') \<longrightarrow> ws_exec c (tables w) = Inr (x, tables w'))
   \<and> (\<forall>c w e w'. api c w = (Inl e, w') \<longrightarrow>
        tables w' = tables w \<or> (\<exists>x. c \<notin> {Ws_Uuid, Ws_Now} \<and> ws_exec c (tables w) = Inr (x, tables w')))
   \<and> (\<forall>c w x w'. c \<in> {Ws_Uuid, Ws_Now} \<longrightarrow> api c w = (Inr x, w') \<longrightarrow> tables w' = tables w)"

text \<open>Whatever happens, the tables are unchanged or the statement has run.\<close>

lemma ws_worldD:
  assumes "ws_world api tables" and "api c w = (r, w')"
  shows "tables w' = tables w \<or> (\<exists>x. c \<notin> {Ws_Uuid, Ws_Now} \<and> ws_exec c (tables w) = Inr (x, tables w'))"
proof (cases r)
  case (Inl e)
  then show ?thesis using assms(1) [unfolded ws_world_def, THEN conjunct2, THEN conjunct1, rule_format, of c w e w'] assms(2) by simp
next
  case (Inr x)
  show ?thesis
  proof (cases "c \<in> {Ws_Uuid, Ws_Now}")
    case True
    then show ?thesis
      using assms(1) [unfolded ws_world_def, THEN conjunct2, THEN conjunct2, rule_format, OF True] assms(2) Inr by simp
  next
    case False
    then show ?thesis
      using assms(1) [unfolded ws_world_def, THEN conjunct1, rule_format, OF False] assms(2) Inr by simp
  qed
qed

lemma ws_world_ok:
  assumes "ws_world api tables" and "c \<notin> {Ws_Uuid, Ws_Now}" and "api c w = (Inr x, w')"
  shows "ws_exec c (tables w) = Inr (x, tables w')"
  by (rule assms(1) [unfolded ws_world_def, THEN conjunct1, rule_format, OF assms(2,3)])

section \<open>Isolation\<close>

text \<open>What a tenant owns: its workspaces and their sources.\<close>

definition owned_workspaces :: "string \<Rightarrow> ws_db \<Rightarrow> workspace list" where
  "owned_workspaces t db = filter (\<lambda>w. ws_tenant_id w = t) (workspaces db)"

definition owned_sources :: "string \<Rightarrow> ws_db \<Rightarrow> workspace_source list" where
  "owned_sources t db = filter (\<lambda>s. wo_workspace_id s \<in> ws_id ` set (owned_workspaces t db)) (workspace_sources db)"

definition tenant_rows :: "string \<Rightarrow> ws_db \<Rightarrow> workspace list \<times> workspace_source list" where
  "tenant_rows t db = (owned_workspaces t db, owned_sources t db)"

text \<open>The keys: workspaces have distinct identifiers, and every source one of them.\<close>

definition ws_wf :: "ws_db \<Rightarrow> bool" where
  "ws_wf db \<longleftrightarrow> distinct (map ws_id (workspaces db))
     \<and> (\<forall>s \<in> set (workspace_sources db). wo_workspace_id s \<in> ws_id ` set (workspaces db))"

lemma ws_delete_run:
  assumes "ws_exec (Ws_Delete i t) db = Inr (x, db')"
  shows "db' = db\<lparr>workspaces := filter (\<lambda>w. \<not> (ws_id w = i \<and> ws_tenant_id w = t)) (workspaces db)\<rparr>"
    and "\<And>w. w \<in> set (workspaces db) \<Longrightarrow> ws_id w = i \<Longrightarrow> ws_tenant_id w = t \<Longrightarrow> i \<notin> wo_workspace_id ` set (workspace_sources db)"
  using assms by (auto simp: Let_def split: if_splits)

lemma ws_exec_wf: "ws_exec c db = Inr (x, db') \<Longrightarrow> ws_wf db \<Longrightarrow> ws_wf db'"
proof (induction c db rule: ws_exec.induct)
  case (4 i t db)
  have "wo_workspace_id s \<in> ws_id ` set (workspaces db')" if s: "s \<in> set (workspace_sources db)" for s
  proof -
    obtain w where w: "w \<in> set (workspaces db)" "ws_id w = wo_workspace_id s"
      using 4(2) s by (auto simp: ws_wf_def)
    moreover have "\<not> (ws_id w = i \<and> ws_tenant_id w = t)" using ws_delete_run(2) [OF 4(1) w(1)] w(2) s by auto
    ultimately show ?thesis unfolding ws_delete_run(1) [OF 4(1)] by force
  qed
  then show ?case using 4(2) unfolding ws_delete_run(1) [OF 4(1)]
    by (auto simp: ws_wf_def distinct_map_filter)
qed (auto simp: ws_wf_def Let_def split: if_splits sum.splits)

text \<open>The tenant a statement writes for.\<close>

definition acts_for :: "string \<Rightarrow> ws_cmd \<Rightarrow> ws_db \<Rightarrow> bool" where
  "acts_for u c db =
     (let own = (\<lambda>i. \<exists>w \<in> set (workspaces db). ws_id w = i \<and> ws_tenant_id w = u)
      in case c of Ws_Insert i t _ _ _ _ \<Rightarrow> t = u | Ws_Delete i t \<Rightarrow> t = u | Wo_Insert s i _ _ \<Rightarrow> own i | Wo_Delete s i \<Rightarrow> own i
         | _ \<Rightarrow> True)"

lemma own_id_unique:
  "ws_wf db \<Longrightarrow> w \<in> set (workspaces db) \<Longrightarrow> v \<in> set (workspaces db) \<Longrightarrow> ws_id w = ws_id v \<Longrightarrow> w = v"
  by (auto simp: ws_wf_def distinct_map inj_on_def)

lemma not_owned:
  assumes "ws_wf db" and "v \<in> set (workspaces db)" and "ws_tenant_id v \<noteq> t"
  shows "ws_id v \<notin> ws_id ` set (owned_workspaces t db)"
proof
  assume "ws_id v \<in> ws_id ` set (owned_workspaces t db)"
  then obtain v' where v': "v' \<in> set (workspaces db)" "ws_tenant_id v' = t" "ws_id v' = ws_id v"
    by (auto simp: owned_workspaces_def)
  have "v' = v" by (rule own_id_unique [OF assms(1) v'(1) assms(2) v'(3)])
  with v'(2) assms(3) show False by simp
qed

lemma exec_other_tenant:
  assumes "ws_exec c db = Inr (x, db')" and "ws_wf db" and "acts_for u c db" and "u \<noteq> t"
  shows "tenant_rows t db' = tenant_rows t db"
proof (cases c)
  case (Ws_Insert i t' ow n d now)
  then have "db' = db\<lparr>workspaces := workspaces db @ [\<lparr>ws_id = i, ws_tenant_id = u, ws_owner_id = ow, ws_name = n,
      ws_description = d, ws_created_at = now\<rparr>]\<rparr>"
    using assms(1,3) by (auto simp: acts_for_def Let_def split: if_splits)
  then show ?thesis using assms(4) by (simp add: tenant_rows_def owned_workspaces_def owned_sources_def)
next
  case (Ws_Delete i t')
  have "db' = db\<lparr>workspaces := filter (\<lambda>w. \<not> (ws_id w = i \<and> ws_tenant_id w = u)) (workspaces db)\<rparr>"
    by (rule ws_delete_run(1)) (use assms(1,3) Ws_Delete in \<open>simp only: acts_for_def Let_def ws_cmd.case\<close>)
  moreover from assms(4) have "filter (\<lambda>w. ws_tenant_id w = t) (filter (\<lambda>w. \<not> (ws_id w = i \<and> ws_tenant_id w = u)) ws)
      = filter (\<lambda>w. ws_tenant_id w = t) ws" for ws
    by (induction ws) auto
  ultimately have "owned_workspaces t db' = owned_workspaces t db" "workspace_sources db' = workspace_sources db"
    by (simp_all add: owned_workspaces_def del: filter_filter)
  then show ?thesis by (simp add: tenant_rows_def owned_sources_def)
next
  case (Wo_Insert s i cn p)
  then obtain v where v: "v \<in> set (workspaces db)" "ws_id v = i" "ws_tenant_id v = u"
    using assms(3) by (auto simp: acts_for_def)
  then have "i \<notin> ws_id ` set (owned_workspaces t db)" using not_owned [OF assms(2) v(1), of t] assms(4) by simp
  moreover have "db' = db\<lparr>workspace_sources := workspace_sources db @
      [\<lparr>wo_id = s, wo_workspace_id = i, wo_connector_id = cn, wo_path_prefix = p\<rparr>]\<rparr>"
    using assms(1) Wo_Insert by (simp add: Let_def split: if_splits)
  moreover have "owned_workspaces t (db\<lparr>workspace_sources := rs\<rparr>) = owned_workspaces t db" for rs
    by (simp add: owned_workspaces_def)
  ultimately show ?thesis by (simp add: tenant_rows_def owned_sources_def)
next
  case (Wo_Delete s i)
  then obtain v where v: "v \<in> set (workspaces db)" "ws_id v = i" "ws_tenant_id v = u"
    using assms(3) by (auto simp: acts_for_def)
  then have "i \<notin> ws_id ` set (owned_workspaces t db)" using not_owned [OF assms(2) v(1), of t] assms(4) by simp
  then have "filter (\<lambda>r. wo_workspace_id r \<in> ws_id ` set (owned_workspaces t db)) (filter (\<lambda>r. \<not> (wo_id r = s \<and> wo_workspace_id r = i)) rs)
      = filter (\<lambda>r. wo_workspace_id r \<in> ws_id ` set (owned_workspaces t db)) rs" for rs
    by (induction rs) auto
  moreover have "db' = db\<lparr>workspace_sources := filter (\<lambda>r. \<not> (wo_id r = s \<and> wo_workspace_id r = i)) (workspace_sources db)\<rparr>"
    using assms(1) Wo_Delete by simp
  moreover have "owned_workspaces t (db\<lparr>workspace_sources := rs\<rparr>) = owned_workspaces t db" for rs
    by (simp add: owned_workspaces_def)
  ultimately show ?thesis by (simp add: tenant_rows_def owned_sources_def del: filter_filter)
qed (use assms(1) in \<open>auto split: sum.splits\<close>)

section \<open>Requests of other tenants\<close>

definition untouched :: "('w \<Rightarrow> ws_db) \<Rightarrow> string \<Rightarrow> ws_db \<Rightarrow> 'w \<Rightarrow> bool" where
  "untouched tables t db0 w \<longleftrightarrow> ws_wf (tables w) \<and> tenant_rows t (tables w) = tenant_rows t db0"

text \<open>The same while the caller holds a workspace of its own.\<close>

definition holding :: "('w \<Rightarrow> ws_db) \<Rightarrow> string \<Rightarrow> ws_db \<Rightarrow> string \<Rightarrow> string \<Rightarrow> 'w \<Rightarrow> bool" where
  "holding tables t db0 u i w \<longleftrightarrow> untouched tables t db0 w
     \<and> (\<exists>v \<in> set (workspaces (tables w)). ws_id v = i \<and> ws_tenant_id v = u)"

lemma untouched_step:
  assumes "ws_world api tables" and "untouched tables t db0 w" and "api c w = (r, w')"
    and "acts_for u c (tables w)" and "u \<noteq> t"
  shows "untouched tables t db0 w'"
  using ws_worldD [OF assms(1,3)]
proof (elim disjE exE conjE)
  fix x assume run: "ws_exec c (tables w) = Inr (x, tables w')"
  have wf: "ws_wf (tables w)" using assms(2) by (simp add: untouched_def)
  show ?thesis
    using ws_exec_wf [OF run wf] exec_other_tenant [OF run wf assms(4,5)] assms(2) by (simp add: untouched_def)
qed (use assms(2) in \<open>simp add: untouched_def\<close>)

lemma keeps_acting:
  assumes "ws_world api tables" and "\<And>db. acts_for u c db" and "u \<noteq> t"
  shows "keeps (untouched tables t db0) (api c)"
  by (rule keepsI) (rule untouched_step [OF assms(1) _ _ assms(2,3)])

fun is_ws_write :: "ws_cmd \<Rightarrow> bool" where
  "is_ws_write (Ws_Insert _ _ _ _ _ _) = True"
| "is_ws_write (Ws_Delete _ _) = True"
| "is_ws_write (Wo_Insert _ _ _ _) = True"
| "is_ws_write (Wo_Delete _ _) = True"
| "is_ws_write _ = False"

lemma read_same:
  assumes "ws_world api tables" and "\<not> is_ws_write c" and "api c w = (r, w')"
  shows "tables w' = tables w"
  using ws_worldD [OF assms(1,3)] assms(2) by (cases c) (auto split: sum.splits)

lemma keeps_reading:
  assumes "ws_world api tables" and "\<not> is_ws_write c"
  shows "keeps (untouched tables t db0) (api c)" and "keeps (holding tables t db0 u i) (api c)"
  by (rule keepsI, simp add: untouched_def holding_def read_same [OF assms])+

lemma wp_holding:
  assumes "ws_world api tables" and "untouched tables t db0 w" and "parse (cl_org_id claims) \<noteq> Some t"
  shows "wp (workspace_or_404 api parse workspace_id claims)
    (\<lambda>_ w'. \<exists>u i. parse (cl_org_id claims) = Some u \<and> parse workspace_id = Some i \<and> u \<noteq> t \<and> holding tables t db0 u i w')
    (\<lambda>_. untouched tables t db0) w"
proof (cases "parse workspace_id"; cases "parse (cl_org_id claims)")
  fix i u assume p: "parse workspace_id = Some i" "parse (cl_org_id claims) = Some u"
  obtain r w' where run: "api (Ws_Get i u) w = (r, w')" by fastforce
  have same: "tables w' = tables w" by (rule read_same [OF assms(1) _ run]) simp
  have unt: "untouched tables t db0 w'" using assms(2) same by (simp add: untouched_def)
  show ?thesis
  proof (cases r)
    case (Inr x)
    have x: "x = Wr_Workspaces (filter (\<lambda>w. ws_id w = i \<and> ws_tenant_id w = u) (workspaces (tables w)))"
      using ws_world_ok [OF assms(1) _ run [unfolded Inr]] by auto
    have "first_workspace x = Some v \<Longrightarrow> holding tables t db0 u i w'" for v
      using unt same by (auto simp: first_workspace_def x holding_def filter_eq_Cons_iff split: list.splits)
    then show ?thesis using p run Inr unt assms(3)
      by (auto simp: workspace_or_404_def get_workspace_def as_uuid_def wp_def bindE_def split: option.split)
  qed (use p run unt in \<open>simp add: workspace_or_404_def get_workspace_def as_uuid_def wp_def bindE_def\<close>)
qed (use assms(2) in \<open>simp_all add: workspace_or_404_def get_workspace_def as_uuid_def wp_simps\<close>)

text \<open>A handler that checks its workspace and then keeps the tenant's rows while holding it.\<close>

lemma keeps_checked:
  assumes "ws_world api tables" and "parse (cl_org_id claims) \<noteq> Some t"
    and "\<And>u i w. parse (cl_org_id claims) = Some u \<Longrightarrow> parse workspace_id = Some i \<Longrightarrow> u \<noteq> t \<Longrightarrow> holding tables t db0 u i w \<Longrightarrow>
      wp p (\<lambda>_. untouched tables t db0) (\<lambda>_. untouched tables t db0) w"
  shows "keeps (untouched tables t db0) (seqE (workspace_or_404 api parse workspace_id claims) p)"
  unfolding keeps_def wp_seqE
proof (intro allI impI)
  fix w assume "untouched tables t db0 w"
  from wp_holding [where parse = parse and claims = claims, OF assms(1) this assms(2)]
  show "wp (workspace_or_404 api parse workspace_id claims)
      (\<lambda>_. wp p (\<lambda>_. untouched tables t db0) (\<lambda>_. untouched tables t db0)) (\<lambda>_. untouched tables t db0) w"
    by (rule wp_mono) (use assms(3) in auto)
qed

lemma held_untouched: "holding tables t db0 u i w \<Longrightarrow> untouched tables t db0 w"
  by (simp add: holding_def)

text \<open>Reading handlers, and the three writes.\<close>

lemma keeps_readers:
  assumes "ws_world api tables"
  shows "keeps (untouched tables t db0) (get_workspaces api parse tn)"
    and "keeps (untouched tables t db0) (get_workspace_sources api parse i)"
    and "keeps (untouched tables t db0) (get_workspace_files api parse i tn pg n)"
    and "keeps (untouched tables t db0) (fresh_uuid api)"
    and "keeps (holding tables t db0 u i) (fresh_uuid api)"
    and "keeps (untouched tables t db0) (api Ws_Now)"
  unfolding get_workspaces_def get_workspace_sources_def get_workspace_files_def fresh_uuid_def
  by (intro keeps_intros keeps_reading assms; simp)+

lemma wp_keeps: "keeps I p \<Longrightarrow> I w \<Longrightarrow> wp p (\<lambda>_. I) (\<lambda>_. I) w"
  by (simp add: keeps_def)

lemma keeps_create_row:
  assumes "ws_world api tables" and "parse (cl_org_id claims) \<noteq> Some t"
  shows "keeps (untouched tables t db0) (create_workspace_row api parse (cl_org_id claims) ow n d)"
proof -
  have "keeps (untouched tables t db0) (api (Ws_Insert i u ow' n d now))" if "u \<noteq> t" for i u ow' now
    by (rule keeps_acting [OF assms(1) _ that]) (simp add: acts_for_def)
  then show ?thesis using assms(2) unfolding create_workspace_row_def as_uuid_def
    by (cases "parse (cl_org_id claims)")
       (auto simp: bindE_lift_Inr bindE_lift_Inl intro!: keeps_intros keeps_readers [OF assms(1)])
qed

text \<open>The handlers that hold a checked workspace.\<close>

lemma held_delete:
  assumes "ws_world api tables" and "holding tables t db0 u i w" and "parse (cl_org_id claims) = Some u" and "u \<noteq> t"
  shows "wp (seqE (delete_workspace_row api parse workspace_id (cl_org_id claims)) (ret ()))
    (\<lambda>_. untouched tables t db0) (\<lambda>_. untouched tables t db0) w"
proof (rule wp_keeps [where I = "untouched tables t db0"])
  have "keeps (untouched tables t db0) (api (Ws_Delete j u))" for j
    by (rule keeps_acting [OF assms(1) _ assms(4)]) (simp add: acts_for_def)
  then show "keeps (untouched tables t db0) (seqE (delete_workspace_row api parse workspace_id (cl_org_id claims)) (ret ()))"
    unfolding delete_workspace_row_def as_uuid_def assms(3)
    by (cases "parse workspace_id") (auto simp: bindE_lift_Inr bindE_lift_Inl intro!: keeps_intros)
qed (rule held_untouched [OF assms(2)])

lemma wp_acting_held:
  assumes "ws_world api tables" and "holding tables t db0 u i w" and "u \<noteq> t"
    and "c \<in> {Wo_Insert s i cn p, Wo_Delete s i}"
  shows "wp (api c) (\<lambda>_. untouched tables t db0) (\<lambda>_. untouched tables t db0) w"
proof -
  obtain r w' where run: "api c w = (r, w')" by fastforce
  have "acts_for u c (tables w)" using assms(2,4) by (auto simp: holding_def acts_for_def)
  then have "untouched tables t db0 w'"
    by (rule untouched_step [OF assms(1) held_untouched [OF assms(2)] run _ assms(3)])
  then show ?thesis by (simp add: wp_def run split: sum.split)
qed

lemma held_add:
  assumes "ws_world api tables" and "holding tables t db0 u i w" and "parse workspace_id = Some i" and "u \<noteq> t"
  shows "wp (add_workspace_source_row api parse workspace_id cn p)
    (\<lambda>_. untouched tables t db0) (\<lambda>_. untouched tables t db0) w"
proof -
  have fresh: "wp (fresh_uuid api) (\<lambda>_. holding tables t db0 u i) (\<lambda>_. holding tables t db0 u i) w"
    by (rule wp_keeps [OF keeps_readers(5) [OF assms(1)] assms(2)])
  show ?thesis
    unfolding add_workspace_source_row_def as_uuid_def assms(3) option.case bindE_lift_Inr wp_simps
    by (rule wp_mono [OF fresh])
       (auto intro: held_untouched wp_mono [OF wp_acting_held [OF assms(1) _ assms(4)]] simp: wp_simps split: sum.split)
qed

lemma held_remove:
  assumes "ws_world api tables" and "holding tables t db0 u i w" and "parse workspace_id = Some i" and "u \<noteq> t"
  shows "wp (delete_workspace_source_row api parse workspace_id source_id)
    (\<lambda>_. untouched tables t db0) (\<lambda>_. untouched tables t db0) w"
proof (cases "parse source_id")
  case (Some s)
  then show ?thesis
    unfolding delete_workspace_source_row_def as_uuid_def assms(3) option.case bindE_lift_Inr Some wp_simps
    by (intro wp_acting_held [OF assms(1,2,4)]) simp
qed (use held_untouched [OF assms(2)] in \<open>simp add: delete_workspace_source_row_def as_uuid_def wp_simps\<close>)

lemma keeps_requests:
  assumes "ws_world api tables" and "parse (cl_org_id claims) \<noteq> Some t"
  shows "keeps (untouched tables t db0) (run_workspace_request api parse claims req)"
proof -
  note held = keeps_checked [where parse = parse and claims = claims, OF assms]
  have reader: "keeps (untouched tables t db0) (seqE (workspace_or_404 api parse i claims) q)"
    if "keeps (untouched tables t db0) q" for i and q :: "('a, 'b) prog"
    by (rule held) (rule wp_keeps [OF that held_untouched])
  show ?thesis
  proof (cases req)
    case (Wq_Delete i)
    show ?thesis unfolding run_workspace_request_def Wq_Delete workspace_request.case delete_workspace_endpoint_def
      by (rule held) (rule held_delete [where parse = parse and claims = claims, OF assms(1)])
  next
    case (Wq_Add i c p)
    have "keeps (untouched tables t db0) (add_workspace_source api parse i c p claims)"
      unfolding add_workspace_source_def by (rule held) (rule held_add [where parse = parse, OF assms(1)])
    then show ?thesis unfolding run_workspace_request_def Wq_Add workspace_request.case by (intro keeps_intros)
  next
    case (Wq_Remove i s)
    show ?thesis unfolding run_workspace_request_def Wq_Remove workspace_request.case delete_workspace_source_def
      by (rule held, unfold wp_bindE)
         (auto intro!: wp_mono [OF held_remove [where parse = parse, OF assms(1)]] simp: wp_simps)
  next
    case (Wq_Files i p n)
    show ?thesis unfolding run_workspace_request_def Wq_Files workspace_request.case list_workspace_files_def
      by (intro keeps_intros reader keeps_readers [OF assms(1)])
  qed (simp_all only: run_workspace_request_def workspace_request.case list_workspaces_def create_workspace_def
      list_workspace_sources_def reindex_file_def,
      (intro keeps_intros reader keeps_readers [OF assms(1)] keeps_create_row [where parse = parse and claims = claims, OF assms])+)
qed

definition serve_workspace ::
  "'w ws_api \<Rightarrow> uuid_parser \<Rightarrow> jwt_claims \<times> workspace_request \<Rightarrow> 'w \<Rightarrow> 'w" where
  "serve_workspace api parse cr w = snd (run_workspace_request api parse (fst cr) (snd cr) w)"

text \<open>The rows of a tenant; a caller whose organisation is no UUID has none.\<close>

definition rows_of :: "string option \<Rightarrow> ws_db \<Rightarrow> workspace list \<times> workspace_source list" where
  "rows_of t db = (case t of None \<Rightarrow> ([], []) | Some u \<Rightarrow> tenant_rows u db)"

lemma serve_wf:
  assumes "ws_world api tables" and "ws_wf (tables w)"
  shows "ws_wf (tables (serve_workspace api parse cr w))"
proof -
  obtain t where t: "parse (cl_org_id (fst cr)) \<noteq> Some t" by (cases "parse (cl_org_id (fst cr))") auto
  obtain r w' where run: "run_workspace_request api parse (fst cr) (snd cr) w = (r, w')" by fastforce
  have "untouched tables t (tables w) w'"
    by (rule keepsD [OF keeps_requests [where parse = parse, OF assms(1) t] _ run]) (simp add: untouched_def assms(2))
  then show ?thesis by (simp add: serve_workspace_def run untouched_def)
qed

lemma workspaces_tenant_scoped:
  assumes "ws_world api tables"
  shows "tenant_scoped (serve_workspace api parse) (\<lambda>cr. parse (cl_org_id (fst cr))) (\<lambda>t w. rows_of t (tables w))
    (\<lambda>w. ws_wf (tables w))"
proof
  fix w and cr :: "jwt_claims \<times> workspace_request" assume "ws_wf (tables w)"
  then show "ws_wf (tables (serve_workspace api parse cr w))" by (rule serve_wf [OF assms])
next
  fix w t and cr :: "jwt_claims \<times> workspace_request" assume wf: "ws_wf (tables w)" and t: "parse (cl_org_id (fst cr)) \<noteq> t"
  show "rows_of t (tables (serve_workspace api parse cr w)) = rows_of t (tables w)"
  proof (cases t)
    case (Some u)
    obtain r w' where run: "run_workspace_request api parse (fst cr) (snd cr) w = (r, w')" by fastforce
    have "untouched tables u (tables w) w'"
      by (rule keepsD [OF keeps_requests [where parse = parse, OF assms t [unfolded Some]] _ run]) (simp add: untouched_def wf)
    then show ?thesis by (simp add: serve_workspace_def run untouched_def rows_of_def Some)
  qed (simp add: rows_of_def)
qed

text \<open>A database that answers every statement, with a counter for its identifiers.\<close>

fun ws_server :: "(nat \<times> ws_db) ws_api" where
  "ws_server Ws_Uuid (n, db) = (Inr (Wr_Uuid (show_nat n)), (Suc n, db))"
| "ws_server Ws_Now (n, db) = (Inr (Wr_Now (of_nat n)), (n, db))"
| "ws_server c (n, db) = (case ws_exec c db of Inl e \<Rightarrow> (Inl e, (n, db)) | Inr (x, db') \<Rightarrow> (Inr x, (n, db')))"

lemma ws_server_exec:
  "c \<notin> {Ws_Uuid, Ws_Now} \<Longrightarrow>
     ws_server c (n, db) = (case ws_exec c db of Inl e \<Rightarrow> (Inl e, (n, db)) | Inr (x, db') \<Rightarrow> (Inr x, (n, db')))"
  by (cases c) simp_all

lemma ws_server_world: "ws_world ws_server snd"
  unfolding ws_world_def
proof (intro conjI allI impI)
  fix c and w :: "nat \<times> ws_db" and x w' assume c: "c \<notin> {Ws_Uuid, Ws_Now}" and run: "ws_server c w = (Inr x, w')"
  then show "ws_exec c (snd w) = Inr (x, snd w')"
    by (cases w) (auto simp: ws_server_exec split: sum.splits)
next
  fix c and w :: "nat \<times> ws_db" and e w' assume run: "ws_server c w = (Inl e, w')"
  then show "snd w' = snd w \<or> (\<exists>x. c \<notin> {Ws_Uuid, Ws_Now} \<and> ws_exec c (snd w) = Inr (x, snd w'))"
    by (cases w; cases "c \<in> {Ws_Uuid, Ws_Now}") (auto simp: ws_server_exec split: sum.splits)
next
  fix c and w :: "nat \<times> ws_db" and x w' assume "c \<in> {Ws_Uuid, Ws_Now}" and "ws_server c w = (Inr x, w')"
  then show "snd w' = snd w" by (cases w) auto
qed

interpretation workspace_rows: tenant_scoped "serve_workspace ws_server parse" "\<lambda>cr. parse (cl_org_id (fst cr))"
  "\<lambda>t w. rows_of t (snd w)" "\<lambda>w. ws_wf (snd w)" for parse
  by (rule workspaces_tenant_scoped [OF ws_server_world])

section \<open>Properties\<close>

lemma set_newest_first [simp]: "set (newest_first key rows) = set rows"
  by (auto simp: newest_first_def)

lemma list_workspaces_run:
  assumes "ws_world api tables" and "parse (cl_org_id claims) = Some u" and "list_workspaces api parse claims w = (Inr rs, w')"
  shows "set rs = workspace_response_of ` set (owned_workspaces u (tables w))"
proof -
  obtain x where run: "api (Ws_List u) w = (Inr x, w')" and rs: "rs = map workspace_response_of (case x of Wr_Workspaces ws \<Rightarrow> ws | _ \<Rightarrow> [])"
    using assms(3) unfolding list_workspaces_def get_workspaces_def as_uuid_def assms(2) option.case bindE_lift_Inr
    by (auto simp: bindE_def split: prod.splits sum.splits)
  show ?thesis using ws_world_ok [OF assms(1) _ run] by (auto simp: rs owned_workspaces_def)
qed

text \<open>
  C13. Workspaces are isolated. Whatever requests of other tenants are served, in any order and however
  the database answers or fails, the workspaces of a tenant and the sources attached to them stay as
  they are and the keys stay consistent; and what a caller lists are exactly the tenant's own.
\<close>

theorem workspaces_isolated:
  assumes "ws_world api tables" and "ws_wf (tables w)" and "Some u \<notin> (\<lambda>cr. parse (cl_org_id (fst cr))) ` set crs"
  shows "tenant_rows u (tables (fold (serve_workspace api parse) crs w)) = tenant_rows u (tables w)
    \<and> ws_wf (tables (fold (serve_workspace api parse) crs w))
    \<and> (parse (cl_org_id claims) = Some u \<longrightarrow>
        list_workspaces api parse claims (fold (serve_workspace api parse) crs w) = (Inr rs, w') \<longrightarrow>
        set rs = workspace_response_of ` set (owned_workspaces u (tables w)))"
proof -
  let ?w = "fold (serve_workspace api parse) crs w"
  note scoped = workspaces_tenant_scoped [OF assms(1), of parse]
  have rows: "tenant_rows u (tables ?w) = tenant_rows u (tables w)"
    using tenant_scoped.serve_others [OF scoped assms(2,3)] by (simp add: rows_of_def)
  then have "owned_workspaces u (tables ?w) = owned_workspaces u (tables w)" by (simp add: tenant_rows_def)
  with rows show ?thesis
    using tenant_scoped.serve_all_inv [OF scoped assms(2)] list_workspaces_run [where parse = parse, OF assms(1)] by simp
qed

definition sample_ws_db :: ws_db where
  "sample_ws_db =
     \<lparr>workspaces = [\<lparr>ws_id = ''w1'', ws_tenant_id = ''acme'', ws_owner_id = ''ann'', ws_name = ''main'', ws_description = None,
        ws_created_at = 1\<rparr>],
      workspace_sources = [\<lparr>wo_id = ''s1'', wo_workspace_id = ''w1'', wo_connector_id = ''c1'', wo_path_prefix = []\<rparr>],
      source_files = []\<rparr>"

definition sample_org_claims :: "string \<Rightarrow> jwt_claims" where
  "sample_org_claims org =
     \<lparr>cl_sub = ''ann'', cl_org_id = org, cl_email = [], cl_org_name = [], cl_license_type = ''free'', cl_quota_tier = ''free'',
      cl_roles = []\<rparr>"

lemma sample_ws_wf: "ws_wf sample_ws_db"
  by (simp add: ws_wf_def sample_ws_db_def)

theorem workspaces_isolated_witness:
  "tenant_rows ''acme'' (snd (fold (serve_workspace ws_server Some)
      [(sample_org_claims ''eve'', Wq_Delete ''w1''), (sample_org_claims ''eve'', Wq_Remove ''w1'' ''s1'')] (0, sample_ws_db)))
   = tenant_rows ''acme'' sample_ws_db"
  using workspaces_isolated [OF ws_server_world, of "(0, sample_ws_db)" "''acme''" Some
      "[(sample_org_claims ''eve'', Wq_Delete ''w1''), (sample_org_claims ''eve'', Wq_Remove ''w1'' ''s1'')]"]
  by (simp add: sample_ws_wf sample_org_claims_def)

lemma first_workspace_in: "first_workspace (Wr_Workspaces vs) = Some v \<Longrightarrow> v \<in> set vs"
  by (cases vs) (auto simp: first_workspace_def)

lemma workspace_or_404_run:
  assumes "ws_world api tables" and "parse workspace_id = Some i" and "parse (cl_org_id claims) = Some u"
    and "workspace_or_404 api parse workspace_id claims w = (Inr v, w')"
  shows "tables w' = tables w" and "v \<in> set (workspaces (tables w))" and "ws_id v = i" and "ws_tenant_id v = u"
proof -
  obtain x where run: "api (Ws_Get i u) w = (Inr x, w')" and v: "first_workspace x = Some v"
    using assms(4) unfolding workspace_or_404_def get_workspace_def as_uuid_def assms(2,3) option.case bindE_lift_Inr
    by (auto simp: bindE_def split: prod.splits sum.splits option.splits)
  show "tables w' = tables w" by (rule read_same [OF assms(1) _ run]) simp
  have x: "x = Wr_Workspaces (filter (\<lambda>w. ws_id w = i \<and> ws_tenant_id w = u) (workspaces (tables w)))"
    using ws_world_ok [OF assms(1) _ run] by auto
  from first_workspace_in [OF v [unfolded x]]
  show "v \<in> set (workspaces (tables w))" "ws_id v = i" "ws_tenant_id v = u" by simp_all
qed

lemma workspace_or_404_same:
  assumes "ws_world api tables" and "workspace_or_404 api parse workspace_id claims w = (r, w')"
  shows "tables w' = tables w"
proof (cases "parse workspace_id"; cases "parse (cl_org_id claims)")
  fix i u assume p: "parse workspace_id = Some i" "parse (cl_org_id claims) = Some u"
  obtain q w1 where a: "api (Ws_Get i u) w = (q, w1)" by fastforce
  have "w' = w1" using assms(2) a unfolding workspace_or_404_def get_workspace_def as_uuid_def p option.case bindE_lift_Inr
    by (auto simp: bindE_def split: prod.splits sum.splits option.splits)
  then show ?thesis using read_same [OF assms(1) _ a] by simp
qed (use assms(2) in \<open>simp_all add: workspace_or_404_def get_workspace_def as_uuid_def bindE_def\<close>)

lemma delete_row_run:
  assumes "ws_world api tables" and "parse workspace_id = Some i" and "parse org = Some u"
    and "delete_workspace_row api parse workspace_id org w = (r, w')"
  obtains q where "api (Ws_Delete i u) w = (q, w')" and "is_ok r = is_ok q"
  using assms(4) unfolding delete_workspace_row_def as_uuid_def assms(2,3) option.case bindE_lift_Inr
  by (auto simp: bindE_def split: prod.splits sum.splits)

text \<open>
  A workspace with sources cannot be deleted: nothing removes the sources first and the foreign
  key does not cascade, so the request raises (and is answered 500) and the tables stay as they are.
  A request that succeeds found the caller's workspace without a source and removed exactly it.
\<close>

theorem delete_workspace_spec:
  assumes "ws_world api tables" and "parse workspace_id = Some i" and "parse (cl_org_id claims) = Some u"
    and "delete_workspace_endpoint api parse workspace_id claims w = (r, w')"
  shows "if i \<in> wo_workspace_id ` set (workspace_sources (tables w))
    then r \<noteq> Inr () \<and> tables w' = tables w
    else r = Inr () \<longrightarrow>
      (\<exists>v \<in> set (workspaces (tables w)). ws_id v = i \<and> ws_tenant_id v = u)
      \<and> tables w' = (tables w)\<lparr>workspaces := filter (\<lambda>v. \<not> (ws_id v = i \<and> ws_tenant_id v = u)) (workspaces (tables w))\<rparr>"
proof -
  obtain f w1 where f: "workspace_or_404 api parse workspace_id claims w = (f, w1)" by fastforce
  have same: "tables w1 = tables w" by (rule workspace_or_404_same [OF assms(1) f])
  show ?thesis
  proof (cases f)
    case (Inl e)
    then have "r = Inl e" "w' = w1" using assms(4) f by (simp_all add: delete_workspace_endpoint_def run_prog seqE_def bindE_def)
    then show ?thesis using same by simp
  next
    case (Inr v)
    note v = workspace_or_404_run [OF assms(1-3) f [unfolded Inr]]
    obtain d where d: "delete_workspace_row api parse workspace_id (cl_org_id claims) w1 = (d, w')" "is_ok r = is_ok d"
      using assms(4) f Inr by (auto simp: delete_workspace_endpoint_def seqE_def bindE_def split: prod.splits sum.splits)
    obtain q where q: "api (Ws_Delete i u) w1 = (q, w')" "is_ok d = is_ok q"
      using delete_row_run [where parse = parse, OF assms(1-3) d(1)] by blast
    have run: "ws_exec (Ws_Delete i u) (tables w) = Inr (x, tables w')" if "q = Inr x" for x
      using ws_world_ok [OF assms(1) _ q(1) [unfolded that]] same by simp
    have refused: "ws_exec (Ws_Delete i u) (tables w) \<noteq> Inr x" if "i \<in> wo_workspace_id ` set (workspace_sources (tables w))" for x
      using ws_delete_run(2) [OF _ v(2-4), of _ _] that by (cases x) blast
    have ok: "is_ok r = is_ok q" using d(2) q(2) by simp
    show ?thesis
    proof (cases "i \<in> wo_workspace_id ` set (workspace_sources (tables w))")
      case True
      have "r \<noteq> Inr ()" using ok run refused [OF True] by (cases q) auto
      moreover have "tables w' = tables w" using ws_worldD [OF assms(1) q(1)] same refused [OF True] by auto
      ultimately show ?thesis using True by simp
    next
      case False
      have "tables w' = (tables w)\<lparr>workspaces := filter (\<lambda>v. \<not> (ws_id v = i \<and> ws_tenant_id v = u)) (workspaces (tables w))\<rparr>"
        if r: "r = Inr ()"
      proof -
        obtain x where "q = Inr x" using ok r by (cases q) auto
        from ws_delete_run(1) [OF run [OF this]] show ?thesis .
      qed
      then show ?thesis using False v by auto
    qed
  qed
qed

theorem delete_workspace_spec_witness:
  "fst (delete_workspace_endpoint ws_server Some ''w1'' (sample_org_claims ''acme'') (0, sample_ws_db)) = Inl foreign_key_violation
   \<and> snd (snd (delete_workspace_endpoint ws_server Some ''w1'' (sample_org_claims ''acme'') (0, sample_ws_db))) = sample_ws_db"
proof -
  obtain r w' where run: "delete_workspace_endpoint ws_server Some ''w1'' (sample_org_claims ''acme'') (0, sample_ws_db) = (r, w')"
    by (rule prod.exhaust)
  have "snd w' = sample_ws_db"
    using delete_workspace_spec [OF ws_server_world _ _ run, of "''w1''" "''acme''"]
    by (simp add: sample_org_claims_def sample_ws_db_def)
  moreover have "r = Inl foreign_key_violation"
    using run by (simp add: delete_workspace_endpoint_def workspace_or_404_def get_workspace_def delete_workspace_row_def
        as_uuid_def prog_defs first_workspace_def sample_org_claims_def sample_ws_db_def)
  ultimately show ?thesis by (simp add: run)
qed

end
