(* ===== verification/Bff_Tenants.thy ===== *)
theory Bff_Tenants
  imports Bff_Connectors
begin

text \<open>
  The tenant administration and the proxies of the management API: \<open>services/bff/src/keycloak_client.py\<close>,
  \<open>quota_client.py\<close>, \<open>tenant_endpoints.py\<close>, \<open>lineage_endpoints.py\<close> and the listing of the sources in
  \<open>user_endpoints.py\<close>. Keycloak, the quota service and the metadata service are HTTP servers behind
  the commands; pydantic's coercion of the quota figures is a parameter.
\<close>

section \<open>Keycloak\<close>

record kc_cfg =
  kc_url :: string
  kc_realm :: string
  kc_user :: string
  kc_password :: string
  kc_str :: "json \<Rightarrow> string"

text \<open>An answer whose status is a success, decoded.\<close>

definition answer_json :: "http_answer \<Rightarrow> exc + json" where
  "answer_json a = res_bind (raise_for_status a) (\<lambda>_. ha_json a)"

definition get_admin_token :: "'w bff_api \<Rightarrow> kc_cfg \<Rightarrow> ('w, json) prog" where
  "get_admin_token api cfg =
     bindE (http_call api (Http_Form (kc_url cfg @ ''/realms/master/protocol/openid-connect/token'')
              [(''client_id'', ''admin-cli''), (''username'', kc_user cfg), (''password'', kc_password cfg),
               (''grant_type'', ''password'')]))
       (\<lambda>a. lift_res (res_bind (answer_json a) (\<lambda>j. py_index j ''access_token'')))"

definition kc_headers :: "kc_cfg \<Rightarrow> json \<Rightarrow> string dict" where
  "kc_headers cfg tok = [(''Authorization'', ''Bearer '' @ kc_str cfg tok)]"

definition kc_organizations :: "kc_cfg \<Rightarrow> string" where
  "kc_organizations cfg = kc_url cfg @ ''/admin/realms/'' @ kc_realm cfg @ ''/organizations''"

text \<open>\<open>(org.get("attributes", {}).get("license_type") or ["free"])[0]\<close>\<close>

definition license_of :: "json \<Rightarrow> exc + json" where
  "license_of org =
     res_bind (dict_field org ''attributes'' (JObj [])) (\<lambda>attrs. res_bind (dict_field attrs ''license_type'' JNull) (\<lambda>v.
       py_first (if truthy v then v else JList [JStr ''free''])))"

record org_dict =
  od_id :: json
  od_name :: json
  od_license_type :: json

definition org_dict_of :: "json \<Rightarrow> exc + org_dict" where
  "org_dict_of org =
     res_bind (dict_field org ''id'' JNull) (\<lambda>i. res_bind (dict_field org ''name'' JNull) (\<lambda>n. res_bind (license_of org) (\<lambda>l.
       Inr \<lparr>od_id = i, od_name = n, od_license_type = l\<rparr>)))"

definition list_organizations :: "'w bff_api \<Rightarrow> kc_cfg \<Rightarrow> ('w, org_dict list) prog" where
  "list_organizations api cfg =
     bindE (get_admin_token api cfg) (\<lambda>tok.
       bindE (http_call api (Http_Get (kc_organizations cfg) (kc_headers cfg tok) [])) (\<lambda>a.
         lift_res (res_bind (res_bind (answer_json a) py_iter) (traverse org_dict_of))))"

definition create_organization :: "'w bff_api \<Rightarrow> kc_cfg \<Rightarrow> string \<Rightarrow> string \<Rightarrow> ('w, org_dict) prog" where
  "create_organization api cfg name license_type =
     bindE (get_admin_token api cfg) (\<lambda>tok.
       bindE (http_call api (Http_Post (kc_organizations cfg) (kc_headers cfg tok)
                (JObj [(''name'', JStr name), (''attributes'', JObj [(''license_type'', JList [JStr license_type])])])))
         (\<lambda>a. seqE (lift_res (raise_for_status a))
            (let location = (case ha_location a of None \<Rightarrow> [] | Some l \<Rightarrow> l);
                 org_id = last (split_on (CHR ''/'') (rstrip_char (CHR ''/'') location))
             in ret \<lparr>od_id = JStr org_id, od_name = JStr name, od_license_type = JStr license_type\<rparr>)))"

definition get_organization :: "'w bff_api \<Rightarrow> kc_cfg \<Rightarrow> string \<Rightarrow> ('w, org_dict option) prog" where
  "get_organization api cfg org_id =
     bindE (get_admin_token api cfg) (\<lambda>tok.
       bindE (http_call api (Http_Get (kc_organizations cfg @ ''/'' @ org_id) (kc_headers cfg tok) [])) (\<lambda>a.
         if ha_status a = 404 then ret None
         else lift_res (res_bind (res_bind (answer_json a) org_dict_of) (\<lambda>d. Inr (Some d)))))"

text \<open>The organisation with its licence type replaced: \<open>attrs["license_type"] = [...]\<close>.\<close>

definition with_license :: "json \<Rightarrow> string \<Rightarrow> exc + json" where
  "with_license org license_type =
     res_bind (dict_field org ''attributes'' (JObj [])) (\<lambda>attrs. case (org, attrs) of
         (JObj d, JObj ats) \<Rightarrow> Inr (JObj (dict_set ''attributes'' (JObj (dict_set ''license_type'' (JList [JStr license_type]) ats)) d))
       | _ \<Rightarrow> Inl (Exc ''TypeError'' ''item assignment''))"

definition update_organization_license :: "'w bff_api \<Rightarrow> kc_cfg \<Rightarrow> string \<Rightarrow> string \<Rightarrow> ('w, org_dict option) prog" where
  "update_organization_license api cfg org_id license_type =
     bindE (get_admin_token api cfg) (\<lambda>tok.
       bindE (http_call api (Http_Get (kc_organizations cfg @ ''/'' @ org_id) (kc_headers cfg tok) [])) (\<lambda>a.
         if ha_status a = 404 then ret None
         else bindE (lift_res (res_bind (answer_json a) (\<lambda>org. with_license org license_type))) (\<lambda>org.
           bindE (http_call api (Http_Put (kc_organizations cfg @ ''/'' @ org_id) (kc_headers cfg tok) org)) (\<lambda>b.
             seqE (lift_res (raise_for_status b))
               (bindE (lift_res (dict_field org ''name'' JNull)) (\<lambda>name.
                 ret (Some \<lparr>od_id = JStr org_id, od_name = name, od_license_type = JStr license_type\<rparr>)))))))"

record member_dict =
  md_id :: json
  md_email :: json
  md_username :: json

definition member_dict_of :: "json \<Rightarrow> exc + member_dict" where
  "member_dict_of j =
     res_bind (dict_field j ''id'' JNull) (\<lambda>i. res_bind (dict_field j ''email'' JNull) (\<lambda>e.
       res_bind (dict_field j ''username'' JNull) (\<lambda>u. Inr \<lparr>md_id = i, md_email = e, md_username = u\<rparr>)))"

definition list_organization_members :: "'w bff_api \<Rightarrow> kc_cfg \<Rightarrow> string \<Rightarrow> ('w, member_dict list) prog" where
  "list_organization_members api cfg org_id =
     bindE (get_admin_token api cfg) (\<lambda>tok.
       bindE (http_call api (Http_Get (kc_organizations cfg @ ''/'' @ org_id @ ''/members'') (kc_headers cfg tok) [])) (\<lambda>a.
         lift_res (res_bind (res_bind (answer_json a) py_iter) (traverse member_dict_of))))"

definition invite_organization_member :: "'w bff_api \<Rightarrow> kc_cfg \<Rightarrow> string \<Rightarrow> string \<Rightarrow> string list \<Rightarrow> ('w, json) prog" where
  "invite_organization_member api cfg org_id email roles =
     bindE (get_admin_token api cfg) (\<lambda>tok.
       bindE (http_call api (Http_Post (kc_organizations cfg @ ''/'' @ org_id @ ''/members/invite-user'') (kc_headers cfg tok)
                (JObj [(''email'', JStr email)])))
         (\<lambda>a. seqE (lift_res (raise_for_status a))
            (ret (JObj [(''email'', JStr email), (''org_id'', JStr org_id), (''roles'', JList (map JStr roles)),
               (''status'', JStr ''invited'')]))))"

section \<open>The quota service\<close>

text \<open>The answer of the check as the usage of a metric.\<close>

definition get_quota_usage :: "'w bff_api \<Rightarrow> bff_env \<Rightarrow> string \<Rightarrow> string \<Rightarrow> ('w, json) prog" where
  "get_quota_usage api env tenant_id metric =
     bindE (http_call api (Http_Post (be_quota_url env @ ''/v1/check-quota'') []
              (JObj [(''tenant_id'', JStr tenant_id), (''metric'', JStr metric), (''amount'', JInt 0),
                 (''increment_on_allow'', JBool False)])))
       (\<lambda>a. bindE (lift_res (res_bind (answer_json a) as_dict)) (\<lambda>d.
          ret (JObj [(''tenant_id'', JStr tenant_id), (''metric'', JStr metric),
            (''current'', obj_get d ''current_usage'' (JInt 0)), (''limit'', obj_get d ''limit'' (JInt 0)),
            (''unlimited'', JBool (obj_get d ''status'' JNull = JStr ''UNLIMITED''))])))"

definition get_all_usage :: "'w bff_api \<Rightarrow> bff_env \<Rightarrow> ('w, json) prog" where
  "get_all_usage api env =
     bindE (http_call api (Http_Get (be_quota_url env @ ''/v1/usage'') [] [])) (\<lambda>a. lift_res (answer_json a))"

definition set_override :: "'w bff_api \<Rightarrow> bff_env \<Rightarrow> string \<Rightarrow> string \<Rightarrow> int \<Rightarrow> ('w, json) prog" where
  "set_override api env tenant_id metric val =
     bindE (http_call api (Http_Put (be_quota_url env @ ''/v1/overrides/'' @ tenant_id @ ''/'' @ metric) []
              (JObj [(''value'', JInt val)])))
       (\<lambda>a. seqE (lift_res (raise_for_status a))
          (ret (JObj [(''tenant_id'', JStr tenant_id), (''metric'', JStr metric), (''override_value'', JInt val)])))"

section \<open>The endpoints\<close>

text \<open>A \<open>str\<close> field and an \<open>Optional[str]\<close> field of a response model.\<close>

definition str_field :: "json \<Rightarrow> exc + string" where
  "str_field j = (case j of JStr s \<Rightarrow> Inr s | _ \<Rightarrow> Inl validation_error)"

definition opt_str_field :: "json \<Rightarrow> exc + string option" where
  "opt_str_field j = (case j of JNull \<Rightarrow> Inr None | JStr s \<Rightarrow> Inr (Some s) | _ \<Rightarrow> Inl validation_error)"

record tenant_response =
  tr_id :: string
  tr_name :: string
  tr_license_type :: string

definition tenant_response_of :: "org_dict \<Rightarrow> exc + tenant_response" where
  "tenant_response_of d =
     res_bind (str_field (od_id d)) (\<lambda>i. res_bind (str_field (od_name d)) (\<lambda>n. res_bind (str_field (od_license_type d)) (\<lambda>l.
       Inr \<lparr>tr_id = i, tr_name = n, tr_license_type = l\<rparr>)))"

record user_response =
  us_id :: "string option"
  us_email :: "string option"
  us_username :: "string option"

definition user_response_of :: "member_dict \<Rightarrow> exc + user_response" where
  "user_response_of d =
     res_bind (opt_str_field (md_id d)) (\<lambda>i. res_bind (opt_str_field (md_email d)) (\<lambda>e.
       res_bind (opt_str_field (md_username d)) (\<lambda>u. Inr \<lparr>us_id = i, us_email = e, us_username = u\<rparr>)))"

record quota_usage =
  qu_tenant_id :: string
  qu_metric :: string
  qu_current :: int
  qu_limit :: int
  qu_unlimited :: bool

definition list_tenants :: "'w bff_api \<Rightarrow> kc_cfg \<Rightarrow> jwt_claims \<Rightarrow> ('w, tenant_response list) prog" where
  "list_tenants api cfg claims =
     seqE (lift_res (require_admin claims))
       (bindE (list_organizations api cfg) (\<lambda>orgs. lift_res (traverse tenant_response_of orgs)))"

definition create_tenant :: "'w bff_api \<Rightarrow> kc_cfg \<Rightarrow> string \<Rightarrow> string \<Rightarrow> jwt_claims \<Rightarrow> ('w, tenant_response) prog" where
  "create_tenant api cfg name license_type claims =
     seqE (lift_res (require_admin claims))
       (bindE (create_organization api cfg name license_type) (\<lambda>org. lift_res (tenant_response_of org)))"

definition update_tenant_license :: "'w bff_api \<Rightarrow> kc_cfg \<Rightarrow> string \<Rightarrow> string \<Rightarrow> jwt_claims \<Rightarrow> ('w, tenant_response) prog" where
  "update_tenant_license api cfg tenant_id license_type claims =
     seqE (lift_res (require_admin claims))
       (bindE (update_organization_license api cfg tenant_id license_type) (\<lambda>found. case found of
            None \<Rightarrow> raise (not_found ''Tenant not found'') | Some org \<Rightarrow> lift_res (tenant_response_of org)))"

definition list_tenant_users :: "'w bff_api \<Rightarrow> kc_cfg \<Rightarrow> string \<Rightarrow> jwt_claims \<Rightarrow> ('w, user_response list) prog" where
  "list_tenant_users api cfg tenant_id claims =
     seqE (lift_res (require_admin claims))
       (bindE (list_organization_members api cfg tenant_id) (\<lambda>ms. lift_res (traverse user_response_of ms)))"

definition invite_tenant_user ::
  "'w bff_api \<Rightarrow> kc_cfg \<Rightarrow> string \<Rightarrow> string \<Rightarrow> string list \<Rightarrow> jwt_claims \<Rightarrow> ('w, json) prog" where
  "invite_tenant_user api cfg tenant_id email roles claims =
     seqE (lift_res (require_admin claims)) (invite_organization_member api cfg tenant_id email roles)"

definition list_quota ::
  "'w bff_api \<Rightarrow> bff_env \<Rightarrow> (json \<Rightarrow> exc + quota_usage) \<Rightarrow> jwt_claims \<Rightarrow> ('w, quota_usage list) prog" where
  "list_quota api env usage_of claims =
     seqE (lift_res (require_admin claims))
       (bindE (get_all_usage api env) (\<lambda>j. lift_res (res_bind (py_iter j) (traverse usage_of))))"

definition set_quota_override ::
  "'w bff_api \<Rightarrow> bff_env \<Rightarrow> string \<Rightarrow> string \<Rightarrow> int \<Rightarrow> jwt_claims \<Rightarrow> ('w, json) prog" where
  "set_quota_override api env tenant_id metric val claims =
     seqE (lift_res (require_admin claims)) (set_override api env tenant_id metric val)"

section \<open>The metadata proxies\<close>

definition metadata_unavailable :: exc where
  "metadata_unavailable = http_exception 503 ''metadata service unavailable''"

text \<open>
  An answer that is no success is passed on with its status and text; whatever else fails is a 503.
  The answer itself has to be a list of objects, or the framework refuses to send it.
\<close>

definition object_list :: "json \<Rightarrow> exc + json list" where
  "object_list j =
     (case j of
        JList xs \<Rightarrow> if list_all (\<lambda>x. case x of JObj _ \<Rightarrow> True | _ \<Rightarrow> False) xs then Inr xs
          else Inl (Exc ''ResponseValidationError'' [])
      | _ \<Rightarrow> Inl (Exc ''ResponseValidationError'' []))"

definition metadata_get :: "'w bff_api \<Rightarrow> string \<Rightarrow> string dict \<Rightarrow> ('w, json list) prog" where
  "metadata_get api url params =
     bindE (bindE (catchE (http_call api (Http_Get url [] params)) (\<lambda>_. raise metadata_unavailable)) (\<lambda>a.
         case raise_for_status a of
           Inl _ \<Rightarrow> raise (http_exception (ha_status a) (ha_text a))
         | Inr _ \<Rightarrow> (case ha_json a of Inl _ \<Rightarrow> raise metadata_unavailable | Inr j \<Rightarrow> ret j)))
       (\<lambda>j. lift_res (object_list j))"

definition lineage_downstream_proxy :: "'w bff_api \<Rightarrow> string \<Rightarrow> string \<Rightarrow> jwt_claims \<Rightarrow> ('w, json list) prog" where
  "lineage_downstream_proxy api metadata_url source_path claims =
     metadata_get api (metadata_url @ ''/api/lineage/downstream/'' @ source_path) [(''tenant_id'', cl_org_id claims)]"

definition data_quality_proxy :: "'w bff_api \<Rightarrow> string \<Rightarrow> string option \<Rightarrow> jwt_claims \<Rightarrow> ('w, json list) prog" where
  "data_quality_proxy api metadata_url tenant_id claims =
     seqE (lift_res (require_admin claims))
       (metadata_get api (metadata_url @ ''/api/quality/''
           @ (case tenant_id of None \<Rightarrow> cl_org_id claims | Some t \<Rightarrow> if t = [] then cl_org_id claims else t)) [])"

section \<open>The sources of a user\<close>

record source_response =
  so_id :: string
  so_name :: string
  so_source_type :: string
  so_tenant_id :: string

definition list_sources :: "'w bff_api \<Rightarrow> jwt_claims \<Rightarrow> ('w, source_response list) prog" where
  "list_sources api claims =
     bindE (list_configmaps api bff_namespace (tenant_selector (cl_org_id claims))) (\<lambda>cms.
       ret (map (\<lambda>cm. \<lparr>so_id = get_or (cm_data cm) ''id'' [], so_name = get_or (cm_data cm) ''name'' [],
                       so_source_type = get_or (cm_data cm) ''source_type'' [],
                       so_tenant_id = get_or (cm_data cm) ''tenant_id'' []\<rparr>) cms))"

section \<open>Properties\<close>

text \<open>
  A licence survives its way through Keycloak: in the organisation that is put back, whatever its
  other fields and attributes, the licence reads as the new one, and every other field and every other
  attribute is as it was. An organisation without attributes gets them; one whose attributes are no
  object is refused.
\<close>

theorem license_roundtrip:
  assumes "with_license (JObj d) l = Inr org"
  shows "license_of org = Inr (JStr l)
    \<and> (\<exists>d' ats ats'. org = JObj d' \<and> obj_get d ''attributes'' (JObj []) = JObj ats \<and> map_of d' ''attributes'' = Some (JObj ats')
        \<and> (\<forall>k. k \<noteq> ''attributes'' \<longrightarrow> map_of d' k = map_of d k)
        \<and> (\<forall>k. k \<noteq> ''license_type'' \<longrightarrow> map_of ats' k = map_of ats k))"
proof -
  obtain ats where ats: "obj_get d ''attributes'' (JObj []) = JObj ats"
      and org: "org = JObj (dict_set ''attributes'' (JObj (dict_set ''license_type'' (JList [JStr l]) ats)) d)"
    using assms by (auto simp: with_license_def dict_field_def split: json.splits)
  have "license_of org = Inr (JStr l)"
    by (simp add: license_of_def org dict_field_def obj_get_def py_first_def)
  then show ?thesis by (auto simp: org ats)
qed

theorem license_roundtrip_witness:
  "\<exists>org. with_license (JObj [(''name'', JStr ''acme'')]) ''pro'' = Inr org \<and> license_of org = Inr (JStr ''pro'')"
proof -
  obtain org where org: "with_license (JObj [(''name'', JStr ''acme'')]) ''pro'' = Inr org"
    by (simp add: with_license_def dict_field_def obj_get_def get_or_def)
  with license_roundtrip [OF org] show ?thesis by blast
qed

definition proxied :: "exc + bff_reply \<Rightarrow> exc + json list" where
  "proxied r =
     (case r of
        Inl e \<Rightarrow> Inl metadata_unavailable
      | Inr x \<Rightarrow> (case x of
           B_Answer a \<Rightarrow>
             if \<not> (200 \<le> ha_status a \<and> ha_status a < 300) then Inl (http_exception (ha_status a) (ha_text a))
             else (case ha_json a of Inl e \<Rightarrow> Inl metadata_unavailable | Inr j \<Rightarrow> object_list j)
         | _ \<Rightarrow> Inl metadata_unavailable))"

lemma metadata_get_run: "api (Http_Get url [] params) w = (r, w') \<Longrightarrow> metadata_get api url params w = (proxied r, w')"
  by (cases r; simp add: metadata_get_def http_call_def proxied_def bindE_def catchE_def raise_for_status_def
      split: bff_reply.split sum.split)

text \<open>
  The metadata proxies hide no failure and invent none: when the metadata service cannot be
  reached or its body cannot be decoded the answer is 503, when it answers with an error status the
  same status with the same text, and otherwise its objects. The lineage proxy asks for the caller's
  tenant only; the quality proxy asks for whatever tenant the administrator names.
\<close>

theorem metadata_proxy_answers:
  assumes "api (Http_Get (url @ ''/api/lineage/downstream/'' @ path) [] [(''tenant_id'', cl_org_id claims)]) w = (r, w')"
    and "is_admin admin" and "t \<noteq> []" and "api (Http_Get (url @ ''/api/quality/'' @ t) [] []) w = (q, v')"
  shows "lineage_downstream_proxy api url path claims w = (proxied r, w')
    \<and> data_quality_proxy api url (Some t) admin w = (proxied q, v')
    \<and> (\<forall>e. proxied r = Inl e \<longrightarrow> exc_class e = ''HTTPException'' \<longrightarrow>
        http_status e = 503 \<or> (\<exists>a. r = Inr (B_Answer a) \<and> http_status e = ha_status a \<and> \<not> (200 \<le> ha_status a \<and> ha_status a < 300)))"
proof (intro conjI)
  show "lineage_downstream_proxy api url path claims w = (proxied r, w')"
    unfolding lineage_downstream_proxy_def by (rule metadata_get_run [where api = api, OF assms(1)])
  show "data_quality_proxy api url (Some t) admin w = (proxied q, v')"
    using metadata_get_run [where api = api, OF assms(4)] assms(2,3)
    by (simp add: data_quality_proxy_def require_admin_def seqE_def bindE_lift_Inr del: append_Cons append.simps)
  show "\<forall>e. proxied r = Inl e \<longrightarrow> exc_class e = ''HTTPException'' \<longrightarrow>
      http_status e = 503 \<or> (\<exists>a. r = Inr (B_Answer a) \<and> http_status e = ha_status a \<and> \<not> (200 \<le> ha_status a \<and> ha_status a < 300))"
    by (cases r) (auto simp: proxied_def metadata_unavailable_def object_list_def split: bff_reply.splits sum.splits json.splits if_splits)
qed

theorem metadata_proxy_answers_witness:
  "fst (lineage_downstream_proxy (\<lambda>c w. (Inl (Exc ''ConnectError'' []), w)) [] []
     \<lparr>cl_sub = [], cl_org_id = ''acme'', cl_email = [], cl_org_name = [], cl_license_type = [], cl_quota_tier = [],
      cl_roles = [''pipeline-admin'']\<rparr> ())
   = Inl (http_exception 503 ''metadata service unavailable'')"
  using metadata_proxy_answers [of "\<lambda>c w. (Inl (Exc ''ConnectError'' []), w)" "[]" "[]"
      "\<lparr>cl_sub = [], cl_org_id = ''acme'', cl_email = [], cl_org_name = [], cl_license_type = [], cl_quota_tier = [],
      cl_roles = [''pipeline-admin'']\<rparr>" "()" _ _
      "\<lparr>cl_sub = [], cl_org_id = ''acme'', cl_email = [], cl_org_name = [], cl_license_type = [], cl_quota_tier = [],
      cl_roles = [''pipeline-admin'']\<rparr>" "''other''"]
  by (simp add: is_admin_def proxied_def metadata_unavailable_def)

end
