(* ===== verification/Bff_Quota.thy ===== *)
theory Bff_Quota
  imports Bff_Tenants Quota_Server
begin

text \<open>
  The management API against the quota service: the HTTP client of \<open>services/bff/src/quota_client.py\<close>
  composed with the HTTP handler of \<open>services/quota-service/src/server.py\<close>, its limit resolver and
  the check on the counters.
\<close>

section \<open>The quota service behind the client\<close>

text \<open>
  What the client sees of an outcome of the handler: a body that is no JSON does not decode, and a
  handler that raises closes the connection without an answer.
\<close>

definition seen_by_client :: "http_outcome \<Rightarrow> exc + bff_reply" where
  "seen_by_client out =
     (case out of
        Response s b \<Rightarrow>
          Inr (B_Answer \<lparr>ha_status = int s, ha_location = None,
            ha_json = (case b of No_Body \<Rightarrow> Inl (Exc ''JSONDecodeError'' []) | Json_Body j \<Rightarrow> Inr j), ha_text = []\<rparr>)
      | Handler_Error _ \<Rightarrow> Inl (Exc ''RemoteProtocolError'' []))"

definition served ::
  "(string \<Rightarrow> json option) \<Rightarrow> 's redis_api \<Rightarrow> (string \<Rightarrow> string \<Rightarrow> int option) \<Rightarrow> string \<Rightarrow> http_request \<Rightarrow> 's qstate
     \<Rightarrow> (exc + bff_reply) \<times> 's qstate" where
  "served loads api get_limit verb rq q =
     (case quota_http loads api get_limit verb rq q of (out, q') \<Rightarrow> (seen_by_client out, q'))"

text \<open>
  The client's commands on a quota service listening at \<open>base\<close>: the path follows the base, a body is
  sent with its length. Nothing else listens.
\<close>

definition quota_request :: "string \<Rightarrow> string \<Rightarrow> string \<Rightarrow> http_request" where
  "quota_request base url body =
     \<lparr>hr_path = drop (length base) url, hr_content_length = Some (show_int (int (length body))), hr_body = body\<rparr>"

definition quota_backend ::
  "(string \<Rightarrow> json option) \<Rightarrow> 's redis_api \<Rightarrow> (string \<Rightarrow> string \<Rightarrow> int option) \<Rightarrow> (rat \<Rightarrow> string) \<Rightarrow> string \<Rightarrow> 's qstate bff_api" where
  "quota_backend loads api get_limit fl base c q =
     (case c of
        Http_Get url _ _ \<Rightarrow> served loads api get_limit ''GET'' \<lparr>hr_path = drop (length base) url, hr_content_length = None, hr_body = []\<rparr> q
      | Http_Post url _ j \<Rightarrow> served loads api get_limit ''POST'' (quota_request base url (dumps fl j)) q
      | Http_Put url _ j \<Rightarrow> served loads api get_limit ''PUT'' (quota_request base url (dumps fl j)) q
      | _ \<Rightarrow> (Inl (Exc ''ConnectError'' []), q))"

text \<open>A posted check arrives at the check of its tenant, metric and amount, and increments.\<close>

lemma posted_check:
  assumes "loads (dumps fl (JObj d)) = Some (JObj d)"
    and "map_of d ''tenant_id'' = Some (JStr t)" and "obj_get d ''metric'' (JStr ''API_CALLS_PER_DAY'') = JStr m"
    and "json_int (obj_get d ''amount'' (JInt 1)) = Some a"
    and "check_quota api get_limit t m a True q = (res, q')"
  shows "quota_backend loads api get_limit fl base (Http_Post (base @ ''/v1/check-quota'') hs (JObj d)) q
    = (Inr (B_Answer \<lparr>ha_status = 200, ha_location = None, ha_json = Inr (check_response res), ha_text = []\<rparr>), q')"
  using assms check_args_object [OF assms(2-4)]
  by (simp add: quota_backend_def served_def quota_http_def do_POST_def quota_request_def seen_by_client_def del: dumps.simps)

lemma unlimited_check:
  assumes "get_limit t m = None"
  shows "\<exists>q'. check_quota api get_limit t m a i q
      = (\<lparr>cr_status = UNLIMITED, cr_current_usage = 0, cr_limit = 0, cr_deny_reason = ''''\<rparr>, q') \<and> q_redis q' = q_redis q"
  by (simp add: check_quota_def assms)

section \<open>Properties\<close>

lemma check_connector_quota_run:
  assumes "api (Http_Post (be_quota_url env @ ''/v1/check-quota'') []
      (JObj [(''tenant_id'', JStr t), (''metric'', JStr m), (''amount'', JInt 1), (''increment_on_allow'', JBool True)])) w
    = (Inr (B_Answer \<lparr>ha_status = 200, ha_location = None, ha_json = Inr (JObj d), ha_text = []\<rparr>), w')"
  shows "check_connector_quota api env t m w = (Inr (obj_get d ''status'' (JStr ''DENIED'') \<in> {JStr ''ALLOWED'', JStr ''UNLIMITED''}), w')"
  unfolding check_connector_quota_def http_call_def bindE_def seqE_def assms
  by (simp add: raise_for_status_def as_dict_def)

text \<open>The body of the check; the decoder of the server is assumed to read it back.\<close>

definition connector_question :: "string \<Rightarrow> json" where
  "connector_question t =
     JObj [(''tenant_id'', JStr t), (''metric'', JStr ''CONNECTOR_COUNT''), (''amount'', JInt 1), (''increment_on_allow'', JBool True)]"

text \<open>
  C32. The connector quota refuses nobody. The management API asks the quota service for
  CONNECTOR_COUNT before a caller who is neither pro nor enterprise may create a connector; composed
  with the quota server, its limit resolver and the counters, the answer is always that it is allowed,
  for every tier (the two connectors of the free tier included) unless an administrator has stored an
  override row, and the counters stay as they are.
\<close>

theorem connector_quota_never_refuses:
  assumes "loads (dumps fl (connector_question t)) = Some (connector_question t)"
    and "dict_get static ''CONNECTOR_COUNT'' = None"
    and "\<forall>db. session = Inr db \<longrightarrow>
           (\<forall>ov \<in> set (quota_overrides db). \<not> (qo_tenant_id ov = t \<and> qo_metric ov = ''CONNECTOR_COUNT''))"
  shows "\<exists>q'. check_connector_quota (quota_backend loads api (get_limit_fn static session) fl (be_quota_url env)) env
        t ''CONNECTOR_COUNT'' q = (Inr True, q') \<and> q_redis q' = q_redis q"
proof -
  let ?limit = "get_limit_fn static session"
  let ?d = "[(''tenant_id'', JStr t), (''metric'', JStr ''CONNECTOR_COUNT''), (''amount'', JInt 1), (''increment_on_allow'', JBool True)]"
  have "?limit t ''CONNECTOR_COUNT'' = None" by (rule no_limit_for_uncolumned) (use assms(2,3) in auto)
  from unlimited_check [where api = api and get_limit = ?limit and a = 1 and i = True and q = q, OF this]
  obtain q' where c: "check_quota api ?limit t ''CONNECTOR_COUNT'' 1 True q
      = (\<lparr>cr_status = UNLIMITED, cr_current_usage = 0, cr_limit = 0, cr_deny_reason = ''''\<rparr>, q')"
    and q': "q_redis q' = q_redis q" by blast
  have "quota_backend loads api ?limit fl (be_quota_url env) (Http_Post (be_quota_url env @ ''/v1/check-quota'') [] (JObj ?d)) q
      = (Inr (B_Answer \<lparr>ha_status = 200, ha_location = None, ha_json = Inr (check_response
          \<lparr>cr_status = UNLIMITED, cr_current_usage = 0, cr_limit = 0, cr_deny_reason = ''''\<rparr>), ha_text = []\<rparr>), q')"
    by (rule posted_check [where loads = loads and d = ?d and fl = fl and m = "''CONNECTOR_COUNT''" and a = 1,
        OF assms(1) [unfolded connector_question_def] _ _ _ c]) (simp_all add: obj_get_def get_or_def)
  from check_connector_quota_run [where api = "quota_backend loads api ?limit fl (be_quota_url env)", OF this [unfolded check_response_def]] q' show ?thesis
    by (simp add: obj_get_def get_or_def status_name_def)
qed

theorem connector_quota_never_refuses_witness:
  "\<exists>q'. check_connector_quota (quota_backend (\<lambda>_. Some (connector_question ''acme'')) (ideal redis_run)
        (get_limit_fn [] (Inr demo_db)) (\<lambda>_. []) ''http://q'')
      \<lparr>be_loads = \<lambda>_. Inr JNull, be_float = \<lambda>_. [], be_quota_url = ''http://q'', be_bucket = []\<rparr> ''acme'' ''CONNECTOR_COUNT'' fresh
    = (Inr True, q') \<and> q_redis q' = q_redis fresh"
  using connector_quota_never_refuses [of "\<lambda>_. Some (connector_question ''acme'')" "\<lambda>_. []" "''acme''" "[]" "Inr demo_db"
      "ideal redis_run" "\<lparr>be_loads = \<lambda>_. Inr JNull, be_float = \<lambda>_. [], be_quota_url = ''http://q'', be_bucket = []\<rparr>" fresh]
  by (simp add: demo_db_def)

text \<open>
  The quota administration never works: the listing of the usage and the storing of an override
  call paths the quota service does not serve. Whatever the tenant, the metric and the value, an
  administrator is answered 500, and neither the counters nor the metrics change.
\<close>

theorem quota_administration_always_fails:
  assumes "is_admin claims"
  shows "\<exists>e e'. list_quota (quota_backend loads api get_limit fl (be_quota_url env)) env usage_of claims q = (Inl e, q) \<and> http_status e = 500
    \<and> set_quota_override (quota_backend loads api get_limit fl (be_quota_url env)) env t m v claims q = (Inl e', q)
    \<and> http_status e' = 500"
proof -
  let ?api = "quota_backend loads api get_limit fl (be_quota_url env)"
  have "list_quota ?api env usage_of claims q = (Inl (Exc ''HTTPStatusError'' (show_int 404 @ '': '')), q)"
    using assms by (simp add: list_quota_def require_admin_def get_all_usage_def http_call_def quota_backend_def served_def
        quota_http_def do_GET_def seen_by_client_def answer_json_def raise_for_status_def status_error_def prog_defs)
  moreover have "set_quota_override ?api env t m v claims q = (Inl (Exc ''HTTPStatusError'' (show_int 501 @ '': '')), q)"
    using assms by (simp add: set_quota_override_def require_admin_def set_override_def http_call_def quota_backend_def served_def
        quota_http_def seen_by_client_def raise_for_status_def status_error_def prog_defs)
  moreover have "http_status (Exc ''HTTPStatusError'' s) = 500" for s by (simp add: http_status_def)
  ultimately show ?thesis by blast
qed

theorem quota_administration_always_fails_witness:
  "\<exists>e. list_quota (quota_backend (\<lambda>_. None) (ideal redis_run) (\<lambda>_ _. None) (\<lambda>_. []) [])
      \<lparr>be_loads = \<lambda>_. Inr JNull, be_float = \<lambda>_. [], be_quota_url = [], be_bucket = []\<rparr> (\<lambda>_. Inl validation_error)
      \<lparr>cl_sub = [], cl_org_id = [], cl_email = [], cl_org_name = [], cl_license_type = [], cl_quota_tier = [],
       cl_roles = [''pipeline-admin'']\<rparr> fresh = (Inl e, fresh) \<and> http_status e = 500"
proof -
  let ?env = "\<lparr>be_loads = \<lambda>_. Inr JNull, be_float = \<lambda>_. [], be_quota_url = [], be_bucket = []\<rparr>"
  let ?claims = "\<lparr>cl_sub = [], cl_org_id = [], cl_email = [], cl_org_name = [], cl_license_type = [], cl_quota_tier = [],
       cl_roles = [''pipeline-admin'']\<rparr>"
  have "is_admin ?claims" by (simp add: is_admin_def)
  from quota_administration_always_fails [OF this, of "\<lambda>_. None" "ideal redis_run" "\<lambda>_ _. None" "\<lambda>_. []" ?env "\<lambda>_. Inl validation_error" fresh "[]" "[]" 0]
  show ?thesis by (elim exE conjE, intro exI conjI) simp_all
qed

end
