(* ===== verification/Pipeline.thy ===== *)
theory Pipeline
  imports Doc_Processor Embedding_Worker Rag_Api
begin

text \<open>
  The services of the ingestion path one after the other: what the document processor puts on the
  chunk topic, read by the embedding worker, stored in the collection of the tenant and answered by
  the retrieval API.
\<close>

section \<open>Chunks on the wire\<close>

text \<open>\<open>loads\<close> is the JSON decoder of the worker; it is assumed to read the body of the message back.\<close>

lemma decode_chunk_msg:
  assumes "loads (dumps (de_float denv) (chunk_to_dict (chunk_event_of ev df n ch))) = Inr (chunk_to_dict (chunk_event_of ev df n ch))"
  shows "decode_chunk ef (loads (km_value (chunk_msg denv ev df n ch))) = Inr (chunk_event_of ev df n ch)"
  by (simp add: chunk_msg_def assms decode_chunk_def chunk_codec.decode_encode)

section \<open>Rows\<close>

lemma tenant_rows_map_of:
  assumes "i < length rows" and "rw_tenant_id (rows ! i) = JStr t"
    and "\<forall>j. i < j \<longrightarrow> j < length rows \<longrightarrow> rw_chunk_id (rows ! j) \<noteq> rw_chunk_id (rows ! i)"
  shows "map_of (rev (map (\<lambda>r. (rw_chunk_id r, r)) (tenant_rows t rows))) (rw_chunk_id (rows ! i)) = Some (rows ! i)"
proof -
  have "rows = take i rows @ rows ! i # drop (Suc i) rows" by (rule id_take_nth_drop [OF assms(1)])
  then have "tenant_rows t rows = tenant_rows t (take i rows @ rows ! i # drop (Suc i) rows)" by simp
  also have "\<dots> = tenant_rows t (take i rows) @ rows ! i # tenant_rows t (drop (Suc i) rows)"
    using assms(2) by (simp add: tenant_rows_def)
  finally have split: "tenant_rows t rows = tenant_rows t (take i rows) @ rows ! i # tenant_rows t (drop (Suc i) rows)" .
  have "rw_chunk_id (rows ! i) \<notin> rw_chunk_id ` set (tenant_rows t (drop (Suc i) rows))"
  proof
    assume "rw_chunk_id (rows ! i) \<in> rw_chunk_id ` set (tenant_rows t (drop (Suc i) rows))"
    then obtain r where r: "r \<in> set (drop (Suc i) rows)" "rw_chunk_id r = rw_chunk_id (rows ! i)"
      by (auto simp: tenant_rows_def)
    from r(1) obtain k where k: "k < length rows - Suc i" "r = rows ! (Suc i + k)" by (auto simp: in_set_conv_nth)
    from assms(3) [rule_format, of "Suc i + k"] k r(2) show False by simp
  qed
  then have "map_of (rev (map (\<lambda>r. (rw_chunk_id r, r)) (tenant_rows t (drop (Suc i) rows)))) (rw_chunk_id (rows ! i)) = None"
    by (auto simp: map_of_eq_None_iff image_image)
  then show ?thesis by (simp add: split map_add_def)
qed

lemma row_of_chunk_id: "row_of (c, v) = Inr r \<Longrightarrow> rw_chunk_id r = cv_chunk_id c"
  by (auto simp: row_of_def split: option.splits json.splits)

lemma row_of_chunk_event:
  assumes "rv_metadata ev = JObj md"
  shows "\<exists>created. row_of (chunk_event_of ev df n ch, v) = Inr \<lparr>rw_doc_id = JStr (ch_doc_id ch), rw_chunk_id = JStr (ch_chunk_id ch),
      rw_source_type = rv_source_type ev, rw_text = JStr (ch_text ch), rw_embedding = v, rw_created_at = created,
      rw_metadata = JObj (AList.update ''tenant_id'' (rv_tenant_id ev) md), rw_tenant_id = rv_tenant_id ev\<rparr>"
  by (simp add: row_of_def chunk_event_of_def assms)

lemma embed_with_retry_length:
  assumes "\<And>ts w vs w'. api (Embed_Batch ts) w = (Inr (Ew_Vectors vs), w') \<Longrightarrow> length vs = length ts"
    and "embed_with_retry api ts w = (Inr (Vectors vs), w')"
  shows "length vs = length ts"
proof -
  have "length vs' = length ts" if "embed_attempt api ts w0 = (Inr (Got vs'), w1)" for vs' w0 w1
    using that assms(1) by (auto simp: embed_attempt_def catchE_def bindE_def split: prod.splits sum.splits ew_reply.splits)
  then show ?thesis using assms(2)
    by (auto simp: embed_with_retry_def bindE_def seqE_def split: prod.splits sum.splits attempt.splits)
qed

section \<open>Retrieval\<close>

text \<open>A hit of the search at a distance: the output fields of a stored row.\<close>

definition hit_of :: "rat \<Rightarrow> row \<Rightarrow> raw_hit" where
  "hit_of d r = \<lparr>rh_distance = d, rh_entity =
     [(''chunk_id'', rw_chunk_id r), (''text'', rw_text r), (''source_type'', rw_source_type r), (''doc_id'', rw_doc_id r),
      (''metadata'', rw_metadata r)]\<rparr>"

text \<open>
  C8. A document becomes retrievable. Take a chunk that the document processor published for a raw
  event of a tenant, in whatever batch the embedding worker reads it (other documents and tenants
  included), with an embedding backend that returns one vector per text. When the batch is
  committed, the collection the retrieval API searches for this tenant holds the chunk under its
  identifier, and a hit on it is answered, at the distance of the hit, with exactly the text, the
  identifiers and the source type the processor published and the document's metadata extended by
  the tenant; unless a later message of the same batch carries the same chunk identifier.
\<close>

theorem published_chunk_becomes_retrievable:
  assumes "milvus_world api stored committed"
    and "\<And>ts w vs w'. api (Embed_Batch ts) w = (Inr (Ew_Vectors vs), w') \<Longrightarrow> length vs = length ts"
    and "\<forall>it \<in> set batch. \<exists>t. cv_tenant_id (snd it) = JStr t"
    and "process_batch api env f batch (cs, w) = (Inr (), (cs', w'))" and "committed w' \<noteq> committed w"
    and "i < length batch"
    and "\<forall>j. i < j \<longrightarrow> j < length batch \<longrightarrow> cv_chunk_id (snd (batch ! j)) \<noteq> cv_chunk_id (snd (batch ! i))"
    and "decode_chunk ef (loads (km_value (chunk_msg denv ev df n ch))) = Inr (snd (batch ! i))"
    and "loads (dumps (de_float denv) (chunk_to_dict (chunk_event_of ev df n ch))) = Inr (chunk_to_dict (chunk_event_of ev df n ch))"
    and "rv_source_type ev = JStr st" and "rv_tenant_id ev = JStr t" and "rv_metadata ev = JObj md"
  shows "\<exists>row. get_row (stored w' (t @ ''_docs'')) (JStr (ch_chunk_id ch)) = Some row
    \<and> query_result_of (search_result_of (hit_of d row)) =
        Inr \<lparr>qr_chunk_id = ch_chunk_id ch, qr_text = ch_text ch, qr_score = d, qr_source_type = st, qr_doc_id = ch_doc_id ch,
             qr_metadata = AList.update ''tenant_id'' (JStr t) md\<rparr>"
proof -
  let ?e = "chunk_event_of ev df n ch"
  have item: "snd (batch ! i) = ?e" using decode_chunk_msg [where loads = loads, OF assms(9)] assms(8) by simp
  have ne: "batch \<noteq> []" using assms(6) by auto
  obtain vs rows w1 where e: "embed_with_retry api (map (cv_text \<circ> snd) batch) w = (Inr (Vectors vs), w1)"
    and rows: "traverse row_of (zip (map snd batch) vs) = Inr rows"
    and stored: "\<And>t k. get_row (stored w' (t @ ''_docs'')) k =
        (case map_of (rev (map (\<lambda>r. (rw_chunk_id r, r)) (tenant_rows t rows))) k of
           None \<Rightarrow> get_row (stored w (t @ ''_docs'')) k | Some r \<Rightarrow> Some r)"
    and "committed w' = committed w @ map fst batch"
    by (rule committed_batch_rows [OF assms(1) ne assms(3-5)]) (rule that)
  have len: "length vs = length batch" using embed_with_retry_length [OF assms(2) e] by simp
  have all: "list_all2 (\<lambda>x y. row_of x = Inr y) (zip (map snd batch) vs) rows"
    using rows by (simp add: traverse_Inr_iff)
  have nth: "row_of (snd (batch ! j), vs ! j) = Inr (rows ! j)" if "j < length batch" for j
    using list_all2_nthD [OF all, of j] that len by simp
  have lrows: "length rows = length batch" using list_all2_lengthD [OF all] len by simp
  have ids: "rw_chunk_id (rows ! j) = cv_chunk_id (snd (batch ! j))" if "j < length batch" for j
    by (rule row_of_chunk_id [OF nth [OF that]])
  have "Inr (rows ! i) = row_of (?e, vs ! i)" using nth [OF assms(6)] by (simp only: item)
  moreover obtain created where "row_of (?e, vs ! i) = Inr \<lparr>rw_doc_id = JStr (ch_doc_id ch), rw_chunk_id = JStr (ch_chunk_id ch),
      rw_source_type = JStr st, rw_text = JStr (ch_text ch), rw_embedding = vs ! i, rw_created_at = created,
      rw_metadata = JObj (AList.update ''tenant_id'' (JStr t) md), rw_tenant_id = JStr t\<rparr>"
    using row_of_chunk_event [OF assms(12)] unfolding assms(10,11) by blast
  ultimately have row: "rows ! i = \<lparr>rw_doc_id = JStr (ch_doc_id ch), rw_chunk_id = JStr (ch_chunk_id ch),
      rw_source_type = JStr st, rw_text = JStr (ch_text ch), rw_embedding = vs ! i, rw_created_at = created,
      rw_metadata = JObj (AList.update ''tenant_id'' (JStr t) md), rw_tenant_id = JStr t\<rparr>"
    by (simp only: sum.inject)
  have "map_of (rev (map (\<lambda>r. (rw_chunk_id r, r)) (tenant_rows t rows))) (rw_chunk_id (rows ! i)) = Some (rows ! i)"
  proof (rule tenant_rows_map_of)
    show "\<forall>j. i < j \<longrightarrow> j < length rows \<longrightarrow> rw_chunk_id (rows ! j) \<noteq> rw_chunk_id (rows ! i)"
      using assms(7) by (simp add: ids assms(6) lrows)
  qed (simp_all add: row lrows assms(6))
  then have "get_row (stored w' (t @ ''_docs'')) (JStr (ch_chunk_id ch)) = Some (rows ! i)" using stored row by simp
  moreover have "AList.update ''tenant_id'' (JStr t) md \<noteq> []" by (cases md) auto
  ultimately show ?thesis
    by (simp add: row hit_of_def search_result_of_def query_result_of_def obj_get_def get_or_def)
qed

definition wire_raw :: raw_event where
  "wire_raw = \<lparr>rv_source_type = JStr ''nfs'', rv_source_id = JStr ''s1'', rv_content_ref = JStr ''nfs://a'', rv_content_type = JStr ''text/plain'',
     rv_tenant_id = JStr ''acme'', rv_metadata = JObj [], rv_event_id = JStr ''e1'', rv_ingested_at = JFloat 1\<rparr>"

definition wire_chunk :: chunk where
  "wire_chunk = new_chunk ''hello'' 0 ''d1'' 1"

definition wire_event :: chunk_event where
  "wire_event = chunk_event_of wire_raw sample_fresh 1 wire_chunk"

theorem published_chunk_becomes_retrievable_witness:
  "\<exists>cs' w' row. process_batch small_api small_env small_fresh [(small_meta 1, wire_event)] ([], ((\<lambda>_. Map.empty), [], [])) = (Inr (), (cs', w'))
     \<and> get_row (fst w' ''acme_docs'') (JStr ''d1:0'') = Some row
     \<and> query_result_of (search_result_of (hit_of 0 row)) =
        Inr \<lparr>qr_chunk_id = ''d1:0'', qr_text = ''hello'', qr_score = 0, qr_source_type = ''nfs'', qr_doc_id = ''d1'',
             qr_metadata = [(''tenant_id'', JStr ''acme'')]\<rparr>"
proof -
  let ?batch = "[(small_meta 1, wire_event)]"
  let ?loads = "\<lambda>_. Inr (chunk_to_dict wire_event)"
  obtain cs' s' where run: "process_batch small_api small_env small_fresh ?batch ([], ((\<lambda>_. Map.empty), [], [])) =
      (Inr (), (cs', (s', [small_meta 1], [])))"
    by (simp add: process_batch_def wire_event_def wire_raw_def wire_chunk_def chunk_event_of_def new_chunk_def
        embed_with_retry_def embed_attempt_def row_of_def
        group_by_tenant_def hashable_def add_to_group_def upsert_def ensure_collection_by_name_def want_flag_def remember_def
        finish_batch_def announce_batch_def publish_usage_event_def publish_embedding_event_def need_str_def
        set_source_file_status_def tenant_sizes_def small_env_def prog_defs with_state_def collection_of_def Let_def)
  have dec: "decode_chunk small_fresh (Inr (chunk_to_dict wire_event)) = Inr wire_event"
    by (simp add: decode_chunk_def chunk_codec.decode_encode)
  have tenant: "cv_tenant_id wire_event = JStr ''acme''" by (simp add: wire_event_def chunk_event_of_def wire_raw_def)
  have ids: "ch_chunk_id wire_chunk = ''d1:0''" "ch_text wire_chunk = ''hello''" "ch_doc_id wire_chunk = ''d1''"
    by code_simp+
  have "\<exists>row. get_row (fst (s', [small_meta 1], ([]::kmsg list)) (''acme'' @ ''_docs'')) (JStr (ch_chunk_id wire_chunk)) = Some row
      \<and> query_result_of (search_result_of (hit_of 0 row)) = Inr \<lparr>qr_chunk_id = ch_chunk_id wire_chunk, qr_text = ch_text wire_chunk,
          qr_score = 0, qr_source_type = ''nfs'', qr_doc_id = ch_doc_id wire_chunk,
          qr_metadata = AList.update ''tenant_id'' (JStr ''acme'') []\<rparr>"
    by (rule published_chunk_becomes_retrievable [where i = 0 and loads = ?loads and ef = small_fresh and denv = sample_doc_env
          and n = 1 and ev = wire_raw and df = sample_fresh, OF small_milvus_world _ _ run])
       (simp_all add: dec tenant wire_event_def [symmetric], simp_all add: wire_raw_def)
  with run show ?thesis by (auto simp: ids)
qed

end
