(* ===== verification/Upload_Path.thy ===== *)
theory Upload_Path
  imports Bff_Connectors Meta_Consumer
begin

text \<open>
  An upload through the management API (\<open>user_sources.py\<close>) and the only consumer of the topic it is
  announced on, the metadata service (\<open>consumer.py\<close>).
\<close>

definition upload_announcement :: "string \<Rightarrow> string \<Rightarrow> string \<Rightarrow> json" where
  "upload_announcement tenant path session_id =
     JObj [(''entity_type'', JStr ''DataSource''), (''source_type'', JStr ''upload''), (''tenant_id'', JStr tenant),
       (''path'', JStr path), (''session_id'', JStr session_id)]"

text \<open>What an upload may command: the object under the tenant's prefix and the announcement.\<close>

definition upload_command :: "bff_env \<Rightarrow> jwt_claims \<Rightarrow> bff_cmd \<Rightarrow> bool" where
  "upload_command env claims c =
     (case c of
        New_Uuid \<Rightarrow> True | Producer_Start \<Rightarrow> True | Producer_Stop \<Rightarrow> True
      | Put_Object b name _ \<Rightarrow> b = be_bucket env \<and> startswith name (cl_org_id claims @ ''/uploads/'')
      | Producer_Send topic body \<Rightarrow> topic = metadata_events_topic
          \<and> (\<exists>path s. body = dumps (be_float env) (upload_announcement (cl_org_id claims) path s))
      | _ \<Rightarrow> False)"

lemma object_under_tenant: "startswith (object_name t s f) (t @ ''/uploads/'')"
  using startswith_append [of "t @ ''/uploads/''" "s @ ''/'' @ f"] by (simp add: object_name_def)

lemma keeps_upload:
  "keeps (only_issued (upload_command env claims) l) (upload_source (logged api) env filename content claims)"
  unfolding upload_source_def uuid4_def upload_file_def upload_announcement_def [symmetric]
  by (intro keeps_intros keeps_unless_not_installed publish_event_keeps)
     (auto simp: upload_command_def object_under_tenant intro!: keeps_intros)



end
