(* ===== verification/Sdk.thy ===== *)
theory Sdk
  imports Bff_World
begin

text \<open>
  The Python client library, \<open>sdk/python/ai_pipeline_sdk/client.py\<close> and \<open>rag.py\<close>: the retrying request,
  the search and the ingestion; and the routes of the management API (\<open>services/bff/src\<close>) they call.
  The HTTP client and pydantic's validation are parameters.
\<close>

section \<open>The client\<close>

datatype sdk_body = No_Kwargs | Json_Kwarg json | Files_Kwarg string string "string dict"

datatype sdk_cmd = Sdk_Send string string sdk_body | Sdk_Sleep rat

datatype sdk_reply = Sdk_Answer http_answer | Sdk_Done

type_synonym 'w sdk_api = "(sdk_cmd, exc, sdk_reply, 'w) api"

definition retry_delays :: "rat list" where "retry_delays = [1 / 2, 1, 2]"

definition pipeline_api_error :: "int \<Rightarrow> string \<Rightarrow> exc" where
  "pipeline_api_error status_code message = Exc ''PipelineAPIError'' (''HTTP '' @ show_int status_code @ '': '' @ message)"

definition pipeline_timeout_error :: "exc \<Rightarrow> exc" where
  "pipeline_timeout_error e = Exc ''PipelineTimeoutError'' (exc_msg e)"

text \<open>The subclasses of \<open>httpx.TimeoutException\<close>.\<close>

definition is_timeout :: "exc \<Rightarrow> bool" where
  "is_timeout e \<longleftrightarrow> exc_class e \<in> {''TimeoutException'', ''ConnectTimeout'', ''ReadTimeout'', ''WriteTimeout'', ''PoolTimeout''}"

definition sdk_send :: "'w sdk_api \<Rightarrow> string \<Rightarrow> string \<Rightarrow> sdk_body \<Rightarrow> ('w, http_answer) prog" where
  "sdk_send api meth path kwargs =
     catchE (bindE (api (Sdk_Send meth path kwargs)) (\<lambda>r. case r of Sdk_Answer a \<Rightarrow> ret a | _ \<Rightarrow> raise (Exc ''TypeError'' [])))
       (\<lambda>e. if is_timeout e then raise (pipeline_timeout_error e) else raise e)"

text \<open>The loop over the delays from an attempt on; \<open>raise None\<close> is a TypeError.\<close>

fun request_from ::
  "'w sdk_api \<Rightarrow> string \<Rightarrow> string \<Rightarrow> sdk_body \<Rightarrow> exc option \<Rightarrow> nat \<Rightarrow> rat list \<Rightarrow> ('w, http_answer) prog" where
  "request_from api meth path kwargs last_exc attempt [] =
     raise (case last_exc of Some e \<Rightarrow> e | None \<Rightarrow> Exc ''TypeError'' [])"
| "request_from api meth path kwargs last_exc attempt (delay # delays) =
     bindE (sdk_send api meth path kwargs) (\<lambda>a.
       if 500 \<le> ha_status a then
         seqE (if attempt < length retry_delays then do_cmd api (Sdk_Sleep delay) else ret ())
           (request_from api meth path kwargs (Some (pipeline_api_error (ha_status a) (ha_text a))) (Suc attempt) delays)
       else if 400 \<le> ha_status a then raise (pipeline_api_error (ha_status a) (ha_text a))
       else ret a)"

definition sdk_request :: "'w sdk_api \<Rightarrow> string \<Rightarrow> string \<Rightarrow> sdk_body \<Rightarrow> ('w, http_answer) prog" where
  "sdk_request api meth path kwargs = request_from api meth path kwargs None 1 retry_delays"

definition sdk_post :: "'w sdk_api \<Rightarrow> string \<Rightarrow> sdk_body \<Rightarrow> ('w, http_answer) prog" where
  "sdk_post api path kwargs = sdk_request api ''POST'' path kwargs"

section \<open>Search and ingestion\<close>

definition search_body :: "string \<Rightarrow> string option \<Rightarrow> int \<Rightarrow> string option \<Rightarrow> json" where
  "search_body q collection top_k tenant_id =
     JObj ([(''query'', JStr q), (''top_k'', JInt top_k)]
       @ (case collection of None \<Rightarrow> [] | Some c \<Rightarrow> [(''collection'', JStr c)])
       @ (case tenant_id of None \<Rightarrow> [] | Some t \<Rightarrow> [(''tenant_id'', JStr t)]))"

definition rag_search ::
  "'w sdk_api \<Rightarrow> (json \<Rightarrow> exc + 'a) \<Rightarrow> string \<Rightarrow> string option \<Rightarrow> int \<Rightarrow> string option \<Rightarrow> ('w, 'a list) prog" where
  "rag_search api validate q collection top_k tenant_id =
     bindE (sdk_post api ''/api/search'' (Json_Kwarg (search_body q collection top_k tenant_id))) (\<lambda>a.
       lift_res (res_bind (res_bind (ha_json a) py_iter) (traverse validate)))"

definition rag_ingest ::
  "'w sdk_api \<Rightarrow> (rat \<Rightarrow> string) \<Rightarrow> (json \<Rightarrow> exc + 'a) \<Rightarrow> string \<Rightarrow> string \<Rightarrow> string \<Rightarrow> json option \<Rightarrow> ('w, 'a) prog" where
  "rag_ingest api fl validate content filename source_type metadata =
     bindE (sdk_post api ''/api/sources/upload'' (Files_Kwarg filename content
              ((''source_type'', source_type) # (case metadata of None \<Rightarrow> [] | Some m \<Rightarrow> [(''metadata'', dumps fl m)]))))
       (\<lambda>a. lift_res (res_bind (ha_json a) validate))"

section \<open>The routes of the management API\<close>

datatype segment = Lit string | Param | Rest

text \<open>\<open>{x}\<close> matches one non-empty segment, \<open>{x:path}\<close> everything that is left.\<close>

fun route_matches :: "segment list \<Rightarrow> string list \<Rightarrow> bool" where
  "route_matches [] xs = (xs = [])"
| "route_matches (Rest # ps) xs = (ps = [] \<and> xs \<noteq> [])"
| "route_matches (Lit s # ps) xs = (case xs of [] \<Rightarrow> False | x # ys \<Rightarrow> x = s \<and> route_matches ps ys)"
| "route_matches (Param # ps) xs = (case xs of [] \<Rightarrow> False | x # ys \<Rightarrow> x \<noteq> [] \<and> route_matches ps ys)"

definition admin_routes :: "(string \<times> segment list) list" where
  "admin_routes = map (\<lambda>(v, ps). (v, Lit ''api'' # Lit ''admin'' # ps))
     [(''GET'', [Lit ''pipeline'', Lit ''status'']), (''GET'', [Lit ''connectors'']), (''POST'', [Lit ''connectors'']),
      (''PATCH'', [Lit ''connectors'', Param]), (''DELETE'', [Lit ''connectors'', Param]),
      (''GET'', [Lit ''pipeline'', Lit ''config'']), (''PUT'', [Lit ''pipeline'', Lit ''config''])]"

definition tenant_routes :: "(string \<times> segment list) list" where
  "tenant_routes = map (\<lambda>(v, ps). (v, Lit ''api'' # Lit ''admin'' # ps))
     [(''GET'', [Lit ''tenants'']), (''POST'', [Lit ''tenants'']), (''PATCH'', [Lit ''tenants'', Param, Lit ''license'']),
      (''GET'', [Lit ''tenants'', Param, Lit ''users'']), (''POST'', [Lit ''tenants'', Param, Lit ''users'']),
      (''GET'', [Lit ''quota'']), (''PUT'', [Lit ''quota'', Param, Param])]"

definition user_routes :: "(string \<times> segment list) list" where
  "user_routes = map (\<lambda>(v, ps). (v, Lit ''api'' # ps))
     [(''GET'', [Lit ''workspaces'']), (''POST'', [Lit ''workspaces'']), (''DELETE'', [Lit ''workspaces'', Param]),
      (''GET'', [Lit ''sources'']), (''GET'', [Lit ''workspaces'', Param, Lit ''sources'']),
      (''POST'', [Lit ''workspaces'', Param, Lit ''sources'']), (''DELETE'', [Lit ''workspaces'', Param, Lit ''sources'', Param]),
      (''GET'', [Lit ''workspaces'', Param, Lit ''files'']),
      (''POST'', [Lit ''workspaces'', Param, Lit ''files'', Param, Lit ''reindex''])]"

definition source_routes :: "(string \<times> segment list) list" where
  "source_routes = map (\<lambda>(v, ps). (v, Lit ''api'' # Lit ''sources'' # ps))
     [(''POST'', [Lit ''create'']), (''POST'', [Lit ''test'']), (''POST'', [Lit ''upload'']), (''POST'', [Param, Lit ''pause'']),
      (''POST'', [Param, Lit ''resume'']), (''DELETE'', [Param]), (''GET'', [Param, Lit ''browse'', Rest])]"

definition app_routes :: "(string \<times> segment list) list" where
  "app_routes =
     [(''GET'', [Lit ''api'', Lit ''lineage'', Lit ''downstream'', Rest]), (''GET'', [Lit ''api'', Lit ''quality'']),
      (''GET'', [Lit ''api'', Lit ''health'']), (''GET'', [Lit ''api'', Lit ''whoami'']), (''GET'', [Lit ''api'', Lit ''admin'', Lit ''health''])]"

definition bff_routes :: "(string \<times> segment list) list" where
  "bff_routes = admin_routes @ tenant_routes @ user_routes @ source_routes @ app_routes"

text \<open>Whether a path has a route at all, and whether it has one for the method.\<close>

definition path_known :: "string \<Rightarrow> bool" where
  "path_known path \<longleftrightarrow> list_ex (\<lambda>(_, ps). route_matches (Lit [] # ps) (split_on (CHR ''/'') path)) bff_routes"

definition routed :: "string \<Rightarrow> string \<Rightarrow> bool" where
  "routed meth path \<longleftrightarrow> list_ex (\<lambda>(v, ps). v = meth \<and> route_matches (Lit [] # ps) (split_on (CHR ''/'') path)) bff_routes"

text \<open>The body of an accepted upload (\<open>upload_source\<close> of \<open>user_sources.py\<close>).\<close>

definition upload_answer :: "string \<Rightarrow> string \<Rightarrow> string option \<Rightarrow> json" where
  "upload_answer session_id path workspace_id =
     JObj [(''status'', JStr ''uploaded''), (''session_id'', JStr session_id), (''path'', JStr path),
       (''workspace_id'', case workspace_id of None \<Rightarrow> JNull | Some i \<Rightarrow> JStr i)]"

section \<open>Properties\<close>

text \<open>The commands of a request that is never cut short.\<close>

fun attempts :: "sdk_cmd \<Rightarrow> nat \<Rightarrow> rat list \<Rightarrow> sdk_cmd list" where
  "attempts send k [] = []"
| "attempts send k (d # ds) = send # (if k < length retry_delays then [Sdk_Sleep d] else []) @ attempts send (Suc k) ds"

lemma sdk_send_logged:
  assumes "sdk_send (logged api) meth path kwargs wl = (r, wl')"
  shows "snd wl' = snd wl @ [Sdk_Send meth path kwargs]"
  using assms by (auto simp: sdk_send_def catchE_def bindE_def logged_def split: prod.splits sum.splits sdk_reply.splits if_splits)

lemma request_from_commands:
  assumes "request_from (logged api) meth path kwargs last_exc k ds wl = (r, wl')"
  shows "(\<exists>cs rest. snd wl' = snd wl @ cs \<and> cs @ rest = attempts (Sdk_Send meth path kwargs) k ds
    \<and> (ds \<noteq> [] \<longrightarrow> cs \<noteq> [])) \<and> (\<forall>a. r = Inr a \<longrightarrow> ha_status a < 400)"
  using assms
proof (induction ds arbitrary: last_exc k wl)
  case (Cons d ds)
  let ?send = "Sdk_Send meth path kwargs"
  obtain s wl1 where send: "sdk_send (logged api) meth path kwargs wl = (s, wl1)" by (rule prod.exhaust)
  have log1: "snd wl1 = snd wl @ [?send]" by (rule sdk_send_logged [OF send])
  show ?case
  proof (cases "\<exists>a. s = Inr a \<and> 500 \<le> ha_status a")
    case True
    then obtain a where a: "s = Inr a" "500 \<le> ha_status a" by blast
    let ?sleep = "if k < length retry_delays then do_cmd (logged api) (Sdk_Sleep d) else ret ()"
    let ?again = "request_from (logged api) meth path kwargs (Some (pipeline_api_error (ha_status a) (ha_text a))) (Suc k) ds"
    obtain q wl2 where sl: "?sleep wl1 = (q, wl2)" by (rule prod.exhaust)
    have log2: "snd wl2 = snd wl1 @ (if k < length retry_delays then [Sdk_Sleep d] else [])"
      using sl by (auto simp: do_cmd_def seqE_def bindE_def logged_def split: if_splits prod.splits sum.splits)
    have rest: "(case q of Inl e \<Rightarrow> (Inl e, wl2) | Inr _ \<Rightarrow> ?again wl2) = (r, wl')"
      using Cons.prems a send sl by (simp add: bindE_def seqE_def split: sum.splits)
    show ?thesis
    proof (cases q)
      case (Inl e)
      then show ?thesis using rest log1 log2 by auto
    next
      case (Inr u)
      from Cons.IH [of "Some (pipeline_api_error (ha_status a) (ha_text a))" "Suc k" wl2] rest Inr
      obtain cs rest' where "snd wl' = snd wl2 @ cs" "cs @ rest' = attempts ?send (Suc k) ds"
        and ok: "\<forall>a. r = Inr a \<longrightarrow> ha_status a < 400" by auto
      then show ?thesis using log1 log2
        by (intro conjI exI [of _ "?send # (if k < length retry_delays then [Sdk_Sleep d] else []) @ cs"] exI [of _ rest'] ok) simp_all
    qed
  next
    case False
    then have "wl' = wl1 \<and> (\<forall>a. r = Inr a \<longrightarrow> ha_status a < 400)"
      using Cons.prems send by (auto simp: bindE_def split: sum.splits if_splits)
    then show ?thesis using log1 by auto
  qed
qed auto

text \<open>
  C39. A request of the client library is sent at least once and at most three times, always the
  same, half a second and a second apart, and only answers of status 500 and more are tried again:
  whatever the server does, the commands are a prefix of send, sleep, send, sleep, send. What is
  returned has a status below 400. A POST is repeated like any other method, so one call can be
  executed three times by a server that fails after the work is done.
\<close>

theorem request_is_bounded:
  assumes "sdk_request (logged api) meth path kwargs (w, []) = (r, (w', cmds))"
  shows "\<exists>rest. cmds \<noteq> [] \<and> cmds @ rest = [Sdk_Send meth path kwargs, Sdk_Sleep (1 / 2), Sdk_Send meth path kwargs, Sdk_Sleep 1,
      Sdk_Send meth path kwargs]
    \<and> (case r of Inl _ \<Rightarrow> True | Inr a \<Rightarrow> ha_status a < 400)"
proof -
  have run: "request_from (logged api) meth path kwargs None 1 (1 / 2 # [1, 2]) (w, []) = (r, (w', cmds))"
    using assms by (simp only: sdk_request_def retry_delays_def)
  from request_from_commands [OF run] obtain rest
    where "cmds @ rest = attempts (Sdk_Send meth path kwargs) 1 [1 / 2, 1, 2]" and "cmds \<noteq> []"
      and "\<forall>a. r = Inr a \<longrightarrow> ha_status a < 400" by auto
  then show ?thesis by (auto simp: retry_delays_def split: sum.split)
qed

text \<open>What is assumed of the server: its routes, and the body of an accepted upload.\<close>

definition serves_routes :: "'w sdk_api \<Rightarrow> bool" where
  "serves_routes api \<longleftrightarrow>
     (\<forall>m p b w r w'. api (Sdk_Send m p b) w = (Inr r, w') \<longrightarrow>
        (\<exists>a. r = Sdk_Answer a \<and> (\<not> path_known p \<longrightarrow> ha_status a = 404)
           \<and> (m = ''POST'' \<and> p = ''/api/sources/upload'' \<and> ha_status a < 400 \<longrightarrow> (\<exists>s path i. ha_json a = Inr (upload_answer s path i)))))"

lemma search_unknown: "\<not> path_known ''/api/search''"
  by code_simp

lemma upload_routed: "routed ''POST'' ''/api/sources/upload''"
  by code_simp

text \<open>What a returned request says of its answer, through every retry.\<close>

lemma request_from_answer:
  assumes "request_from api meth path kwargs last_exc k ds w = (Inr a, w')"
  shows "\<exists>w0 w1. api (Sdk_Send meth path kwargs) w0 = (Inr (Sdk_Answer a), w1) \<and> ha_status a < 400"
  using assms
proof (induction ds arbitrary: last_exc k w)
  case (Cons d ds)
  then show ?case
    by (auto simp: sdk_send_def bindE_def seqE_def catchE_def split: prod.splits sum.splits sdk_reply.splits if_splits)
qed simp

text \<open>
  C40. The client library and the management API do not fit together. Against a server that answers
  404 on every path without a route, a search never returns a result, whatever its arguments, since
  \<open>/api/search\<close> has none; and against one whose accepted uploads are answered as the API answers
  them, an ingestion never returns either, although the upload is carried out, since the answer has
  no \<open>job_id\<close>, which the response model of the library requires.
\<close>

theorem sdk_calls_never_return:
  assumes "serves_routes api" and "\<And>d. map_of d ''job_id'' = None \<Longrightarrow> \<exists>e. ingest_response (JObj d) = Inl e"
  shows "\<not> is_ok (fst (rag_search api search_result q collection top_k tenant w))
    \<and> \<not> is_ok (fst (rag_ingest api fl ingest_response content filename source_type metadata w))
    \<and> routed ''POST'' ''/api/sources/upload''"
proof (intro conjI upload_routed)
  have answered: "\<exists>w0 w1. api (Sdk_Send ''POST'' p b) w0 = (Inr (Sdk_Answer a), w1) \<and> ha_status a < 400"
    if "sdk_post api p b w = (Inr a, w')" for p b a w'
    using that unfolding sdk_post_def sdk_request_def by (rule request_from_answer)
  have none: "fst (sdk_post api ''/api/search'' b w) \<noteq> Inr a" for b a
  proof
    assume "fst (sdk_post api ''/api/search'' b w) = Inr a"
    then obtain w' where "sdk_post api ''/api/search'' b w = (Inr a, w')" by (metis prod.collapse)
    from answered [OF this] obtain w0 w1 where "api (Sdk_Send ''POST'' ''/api/search'' b) w0 = (Inr (Sdk_Answer a), w1)" "ha_status a < 400"
      by blast
    with assms(1) [unfolded serves_routes_def, rule_format, of "''POST''" "''/api/search''"] search_unknown show False by fastforce
  qed
  show "\<not> is_ok (fst (rag_search api search_result q collection top_k tenant w))"
  proof -
    obtain r v where run: "sdk_post api ''/api/search'' (Json_Kwarg (search_body q collection top_k tenant)) w = (r, v)"
      by (rule prod.exhaust)
    then obtain e where "r = Inl e" using none [of "Json_Kwarg (search_body q collection top_k tenant)"] by (cases r) auto
    then show ?thesis by (simp add: rag_search_def bindE_def run)
  qed
  let ?files = "Files_Kwarg filename content ((''source_type'', source_type) # (case metadata of None \<Rightarrow> [] | Some m \<Rightarrow> [(''metadata'', dumps fl m)]))"
  have body: "\<exists>s path i. ha_json a = Inr (upload_answer s path i)" if "sdk_post api ''/api/sources/upload'' ?files w = (Inr a, w')" for a w'
  proof -
    from answered [OF that] obtain w0 w1
      where "api (Sdk_Send ''POST'' ''/api/sources/upload'' ?files) w0 = (Inr (Sdk_Answer a), w1)" "ha_status a < 400" by blast
    with assms(1) [unfolded serves_routes_def, rule_format, of "''POST''" "''/api/sources/upload''"] show ?thesis by fastforce
  qed
  have refused: "\<exists>e. ingest_response (upload_answer s path i) = Inl e" for s path i
    unfolding upload_answer_def by (rule assms(2)) simp
  obtain r w' where run: "sdk_post api ''/api/sources/upload'' ?files w = (r, w')" by (rule prod.exhaust)
  show "\<not> is_ok (fst (rag_ingest api fl ingest_response content filename source_type metadata w))"
  proof (cases r)
    case (Inr a)
    obtain s path i where "ha_json a = Inr (upload_answer s path i)" using body [OF run [unfolded Inr]] by blast
    then show ?thesis using refused [of s path i] run Inr by (auto simp: rag_ingest_def bindE_def)
  qed (simp add: rag_ingest_def bindE_def run)
qed

definition plain_answer :: "int \<Rightarrow> json \<Rightarrow> http_answer" where
  "plain_answer status j = \<lparr>ha_status = status, ha_location = None, ha_json = Inr j, ha_text = []\<rparr>"

fun sample_bff :: "unit sdk_api" where
  "sample_bff (Sdk_Send m p b) w =
     (Inr (Sdk_Answer (if p = ''/api/sources/upload'' then plain_answer 201 (upload_answer ''s'' ''p'' None)
        else if path_known p then plain_answer 500 JNull else plain_answer 404 JNull)), w)"
| "sample_bff (Sdk_Sleep d) w = (Inr Sdk_Done, w)"

definition sample_ingest_response :: "json \<Rightarrow> exc + string" where
  "sample_ingest_response j = res_bind (py_index j ''job_id'') (\<lambda>x. case x of JStr s \<Rightarrow> Inr s | _ \<Rightarrow> Inl (Exc ''ValidationError'' []))"

theorem request_is_bounded_witness:
  "\<exists>w' cmds rest. sdk_request (logged sample_bff) ''GET'' ''/api/health'' No_Kwargs ((), [])
      = (Inl (pipeline_api_error 500 []), (w', cmds))
    \<and> cmds @ rest = [Sdk_Send ''GET'' ''/api/health'' No_Kwargs, Sdk_Sleep (1 / 2), Sdk_Send ''GET'' ''/api/health'' No_Kwargs, Sdk_Sleep 1,
      Sdk_Send ''GET'' ''/api/health'' No_Kwargs]"
proof -
  have known: "path_known ''/api/health''" by code_simp
  obtain w' cmds where run: "sdk_request (logged sample_bff) ''GET'' ''/api/health'' No_Kwargs ((), [])
      = (Inl (pipeline_api_error 500 []), (w', cmds))"
    by (simp add: sdk_request_def retry_delays_def sdk_send_def logged_def prog_defs known plain_answer_def)
  from request_is_bounded [OF run] run show ?thesis by blast
qed

theorem sdk_calls_never_return_witness:
  "\<not> is_ok (fst (rag_search sample_bff (\<lambda>j. Inr j) ''q'' None 5 None ()))
    \<and> \<not> is_ok (fst (rag_ingest sample_bff (\<lambda>_. []) sample_ingest_response ''text'' ''a.txt'' ''upload'' None ()))"
proof -
  have known: "path_known ''/api/sources/upload''" by code_simp
  have serves: "serves_routes sample_bff"
    by (auto simp: serves_routes_def plain_answer_def known split: if_splits)
  have required: "\<exists>e. sample_ingest_response (JObj d) = Inl e" if "map_of d ''job_id'' = None" for d
    using that by (simp add: sample_ingest_response_def py_index_def)
  note refused = sdk_calls_never_return [where ingest_response = sample_ingest_response, OF serves required]
  show ?thesis by (intro conjI refused [THEN conjunct1] refused [THEN conjunct2, THEN conjunct1])
qed

end
