(* ===== verification/Migrations.thy ===== *)
theory Migrations
  imports Prelude
begin

text \<open>
  The schema migrations of \<open>db/alembic/versions/0001_initial_schema.py\<close> and
  \<open>db/alembic_metadata/versions/5001_metadata_schema.py\<close>: what \<open>upgrade\<close> and \<open>downgrade\<close> issue, for
  both dialects the scripts distinguish, as lists of DDL operations over a catalog. The effect of an
  operation and its errors are what PostgreSQL and SQLite document: relations share one namespace
  per schema, a foreign key needs a key of the same types to point at, a table others point at
  cannot be dropped, a schema that is not empty neither. SQLite checks no foreign key when a table
  is created or dropped.
\<close>

section \<open>Catalogs\<close>

datatype dialect = Postgresql | Sqlite

datatype sql_type = Uuid | Text | Varchar nat | Integer | Big_Integer | Boolean | Timestamp_Tz | Numeric | Json | Jsonb

text \<open>
  Server defaults. SQLite has no generator of UUIDs: the scripts assemble one from random blobs
  (\<open>Assembled_Uuid\<close>). \<open>Duration_Ms\<close> is the generated column
  \<open>EXTRACT(EPOCH FROM (finished_at - started_at)) * 1000\<close>.
\<close>

datatype sql_expr =
    Gen_Random_Uuid | Assembled_Uuid | Current_Timestamp | Now_Function
  | Number int | Bool_Literal bool | Text_Literal string | Duration_Ms

record column =
  col_name :: string
  col_type :: sql_type
  col_nullable :: bool
  col_default :: "sql_expr option"

text \<open>A table is named by its schema, if one is given, and its name.\<close>

type_synonym qname = "string option \<times> string"

datatype constr =
    Primary_Key "string list"
  | Unique_Key "string option" "string list"
  | Foreign_Key "string option" "string list" qname "string list"

record table =
  tb_name :: qname
  tb_columns :: "column list"
  tb_constraints :: "constr list"
  tb_indexes :: "(string \<times> string list) list"
  tb_parent :: "qname option"

record catalog =
  cat_schemas :: "string list"
  cat_tables :: "table list"

definition empty_catalog :: catalog where
  "empty_catalog = \<lparr>cat_schemas = [], cat_tables = []\<rparr>"

definition column_names :: "table \<Rightarrow> string list" where
  "column_names t = map col_name (tb_columns t)"

fun unique_name :: "constr \<Rightarrow> string list" where
  "unique_name (Unique_Key (Some n) _) = [n]"
| "unique_name _ = []"

text \<open>On PostgreSQL a named unique constraint is also the name of its index.\<close>

definition constraint_names :: "dialect \<Rightarrow> table \<Rightarrow> string list" where
  "constraint_names d t = (if d = Postgresql then concat (map unique_name (tb_constraints t)) else [])"

definition relation_names :: "dialect \<Rightarrow> table \<Rightarrow> qname list" where
  "relation_names d t = tb_name t # map (Pair (fst (tb_name t))) (constraint_names d t @ map fst (tb_indexes t))"

definition taken :: "dialect \<Rightarrow> catalog \<Rightarrow> qname list" where
  "taken d c = concat (map (relation_names d) (cat_tables c))"

definition find_table :: "catalog \<Rightarrow> qname \<Rightarrow> table option" where
  "find_table c q = find (\<lambda>t. tb_name t = q) (cat_tables c)"

fun references :: "constr \<Rightarrow> qname list" where
  "references (Foreign_Key _ _ q _) = [q]"
| "references _ = []"

text \<open>The other tables a table depends on: targets of its foreign keys and, for a partition, its parent.\<close>

definition depends_on :: "table \<Rightarrow> qname list" where
  "depends_on t = concat (map references (tb_constraints t)) @ (case tb_parent t of None \<Rightarrow> [] | Some q \<Rightarrow> [q])"

section \<open>Operations\<close>

datatype ddl =
    Create_Schema_If_Missing string
  | Drop_Schema_If_Exists string
  | Create_Table qname "column list" "constr list"
  | Create_Partition qname qname
  | Add_Column qname column
  | Create_Index string qname "string list"
  | Drop_Table qname
  | Drop_Table_If_Exists qname

datatype ddl_error =
    Undefined_Schema string | Undefined_Table qname | Undefined_Column | Duplicate_Relation qname
  | Duplicate_Column | Invalid_Foreign_Key | Datatype_Mismatch | Multiple_Primary_Keys | Dependent_Objects qname

definition schema_known :: "catalog \<Rightarrow> qname \<Rightarrow> bool" where
  "schema_known c q \<longleftrightarrow> (case fst q of None \<Rightarrow> True | Some s \<Rightarrow> s \<in> set (cat_schemas c))"

fun is_key :: "string list \<Rightarrow> constr \<Rightarrow> bool" where
  "is_key cols (Primary_Key ks) \<longleftrightarrow> ks = cols"
| "is_key cols (Unique_Key _ ks) \<longleftrightarrow> ks = cols"
| "is_key cols (Foreign_Key _ _ _ _) \<longleftrightarrow> False"

definition types_of :: "column list \<Rightarrow> string list \<Rightarrow> sql_type option list" where
  "types_of cs names = map (map_of (map (\<lambda>c. (col_name c, col_type c)) cs)) names"

text \<open>The check of one constraint of a new table: the error it raises, if any.\<close>

fun constraint_error :: "dialect \<Rightarrow> catalog \<Rightarrow> column list \<Rightarrow> constr \<Rightarrow> ddl_error option" where
  "constraint_error d c cs (Primary_Key ks) = (if set ks \<subseteq> set (map col_name cs) then None else Some Undefined_Column)"
| "constraint_error d c cs (Unique_Key _ ks) = (if set ks \<subseteq> set (map col_name cs) then None else Some Undefined_Column)"
| "constraint_error d c cs (Foreign_Key _ ks q target) =
     (if \<not> set ks \<subseteq> set (map col_name cs) then Some Undefined_Column
      else if d = Sqlite then None
      else case find_table c q of
        None \<Rightarrow> Some (Undefined_Table q)
      | Some t \<Rightarrow>
          if \<not> list_ex (is_key target) (tb_constraints t) then Some Invalid_Foreign_Key
          else if types_of cs ks \<noteq> types_of (tb_columns t) target then Some Datatype_Mismatch
          else None)"

fun is_primary :: "constr \<Rightarrow> bool" where
  "is_primary (Primary_Key _) = True"
| "is_primary _ = False"

definition table_error :: "dialect \<Rightarrow> catalog \<Rightarrow> table \<Rightarrow> ddl_error option" where
  "table_error d c t =
     (if \<not> schema_known c (tb_name t) then Some (Undefined_Schema (the (fst (tb_name t))))
      else case find (\<lambda>q. q \<in> set (taken d c)) (relation_names d t) of
        Some q \<Rightarrow> Some (Duplicate_Relation q)
      | None \<Rightarrow>
          if \<not> distinct (column_names t) then Some Duplicate_Column
          else if 1 < length (filter is_primary (tb_constraints t)) then Some Multiple_Primary_Keys
          else (case List.map_filter (constraint_error d c (tb_columns t)) (tb_constraints t) of
                  [] \<Rightarrow> None | e # _ \<Rightarrow> Some e))"

definition change_table :: "qname \<Rightarrow> (table \<Rightarrow> table) \<Rightarrow> catalog \<Rightarrow> catalog" where
  "change_table q f c = c\<lparr>cat_tables := map (\<lambda>t. if tb_name t = q then f t else t) (cat_tables c)\<rparr>"

text \<open>A dropped table takes its partitions along.\<close>

definition removed_with :: "qname \<Rightarrow> table \<Rightarrow> bool" where
  "removed_with q t \<longleftrightarrow> tb_name t = q \<or> tb_parent t = Some q"

definition drop_table :: "dialect \<Rightarrow> qname \<Rightarrow> catalog \<Rightarrow> ddl_error + catalog" where
  "drop_table d q c =
     (if d = Postgresql \<and> list_ex (\<lambda>t. tb_name t \<noteq> q \<and> q \<in> set (concat (map references (tb_constraints t)))) (cat_tables c)
      then Inl (Dependent_Objects q)
      else Inr (c\<lparr>cat_tables := filter (\<lambda>t. \<not> removed_with q t) (cat_tables c)\<rparr>))"

definition exists_table :: "catalog \<Rightarrow> qname \<Rightarrow> bool" where
  "exists_table c q \<longleftrightarrow> find_table c q \<noteq> None"

fun exec_ddl :: "dialect \<Rightarrow> ddl \<Rightarrow> catalog \<Rightarrow> ddl_error + catalog" where
  "exec_ddl d (Create_Schema_If_Missing s) c =
     Inr (if s \<in> set (cat_schemas c) then c else c\<lparr>cat_schemas := cat_schemas c @ [s]\<rparr>)"
| "exec_ddl d (Drop_Schema_If_Exists s) c =
     (if s \<notin> set (cat_schemas c) then Inr c
      else if list_ex (\<lambda>t. fst (tb_name t) = Some s) (cat_tables c) then Inl (Dependent_Objects (Some s, ''''))
      else Inr (c\<lparr>cat_schemas := removeAll s (cat_schemas c)\<rparr>))"
| "exec_ddl d (Create_Table q cs ks) c =
     (let t = \<lparr>tb_name = q, tb_columns = cs, tb_constraints = ks, tb_indexes = [], tb_parent = None\<rparr>
      in case table_error d c t of Some e \<Rightarrow> Inl e | None \<Rightarrow> Inr (c\<lparr>cat_tables := cat_tables c @ [t]\<rparr>))"
| "exec_ddl d (Create_Partition q parent) c =
     (case find_table c parent of
        None \<Rightarrow> Inl (Undefined_Table parent)
      | Some p \<Rightarrow>
          if q \<in> set (taken d c) then Inl (Duplicate_Relation q)
          else Inr (c\<lparr>cat_tables := cat_tables c @
                 [\<lparr>tb_name = q, tb_columns = tb_columns p, tb_constraints = [], tb_indexes = [], tb_parent = Some parent\<rparr>]\<rparr>))"
| "exec_ddl d (Add_Column q col) c =
     (case find_table c q of
        None \<Rightarrow> Inl (Undefined_Table q)
      | Some t \<Rightarrow>
          if col_name col \<in> set (column_names t) then Inl Duplicate_Column
          else Inr (change_table q (\<lambda>t. t\<lparr>tb_columns := tb_columns t @ [col]\<rparr>) c))"
| "exec_ddl d (Create_Index n q cols) c =
     (case find_table c q of
        None \<Rightarrow> Inl (Undefined_Table q)
      | Some t \<Rightarrow>
          if \<not> set cols \<subseteq> set (column_names t) then Inl Undefined_Column
          else if (fst q, n) \<in> set (taken d c) then Inl (Duplicate_Relation (fst q, n))
          else Inr (change_table q (\<lambda>t. t\<lparr>tb_indexes := tb_indexes t @ [(n, cols)]\<rparr>) c))"
| "exec_ddl d (Drop_Table q) c = (if exists_table c q then drop_table d q c else Inl (Undefined_Table q))"
| "exec_ddl d (Drop_Table_If_Exists q) c = (if exists_table c q then drop_table d q c else Inr c)"

text \<open>A migration runs in one transaction: the first error ends it.\<close>

primrec run_ddl :: "dialect \<Rightarrow> ddl list \<Rightarrow> catalog \<Rightarrow> ddl_error + catalog" where
  "run_ddl d [] c = Inr c"
| "run_ddl d (op # ops) c = res_bind (exec_ddl d op c) (run_ddl d ops)"

section \<open>The migrations of the quota and workspace tables\<close>

definition req :: "string \<Rightarrow> sql_type \<Rightarrow> column" where
  "req n t = \<lparr>col_name = n, col_type = t, col_nullable = False, col_default = None\<rparr>"

definition opt :: "string \<Rightarrow> sql_type \<Rightarrow> column" where
  "opt n t = \<lparr>col_name = n, col_type = t, col_nullable = True, col_default = None\<rparr>"

definition with_default :: "sql_expr \<Rightarrow> column \<Rightarrow> column" where
  "with_default e c = c\<lparr>col_default := Some e\<rparr>"

definition uuid_default :: "dialect \<Rightarrow> sql_expr" where
  "uuid_default d = (if d = Postgresql then Gen_Random_Uuid else Assembled_Uuid)"

definition public_table :: "string \<Rightarrow> qname" where
  "public_table n = (None, n)"

definition create_license_tiers :: "dialect \<Rightarrow> ddl" where
  "create_license_tiers d = Create_Table (public_table ''license_tiers'')
     [req ''tier_id'' Text,
      opt ''bytes_per_month'' Big_Integer,
      opt ''vectors_max'' Big_Integer,
      opt ''queries_per_day'' Integer,
      opt ''queries_per_min'' Integer,
      with_default (Bool_Literal False) (req ''gpu_enabled'' Boolean),
      opt ''workers_max'' Integer,
      opt ''users_max'' Integer]
     [Primary_Key [''tier_id'']]"

definition create_tenant_licenses :: "dialect \<Rightarrow> ddl" where
  "create_tenant_licenses d = Create_Table (public_table ''tenant_licenses'')
     [req ''tenant_id'' Uuid,
      opt ''tier_id'' Text,
      opt ''expires_at'' Timestamp_Tz,
      with_default (Bool_Literal True) (req ''is_active'' Boolean)]
     [Foreign_Key None [''tier_id''] (public_table ''license_tiers'') [''tier_id''],
      Primary_Key [''tenant_id'']]"

definition create_quota_overrides :: "dialect \<Rightarrow> ddl" where
  "create_quota_overrides d = Create_Table (public_table ''quota_overrides'')
     [req ''tenant_id'' Uuid,
      req ''metric'' Text,
      opt ''override_value'' Big_Integer]
     [Foreign_Key None [''tenant_id''] (public_table ''tenant_licenses'') [''tenant_id''],
      Primary_Key [''tenant_id'', ''metric'']]"

definition create_usage_history :: "dialect \<Rightarrow> ddl list" where
  "create_usage_history d =
     (if d = Postgresql then
        [Create_Table (public_table ''usage_history'')
           [req ''tenant_id'' Uuid, req ''metric'' Text, req ''value'' Big_Integer,
            with_default Now_Function (req ''recorded_at'' Timestamp_Tz)] [],
         Create_Partition (public_table ''usage_history_default'') (public_table ''usage_history'')]
      else
        [Create_Table (public_table ''usage_history'')
           [req ''tenant_id'' Uuid, req ''metric'' Text, req ''value'' Big_Integer,
            with_default Current_Timestamp (req ''recorded_at'' Timestamp_Tz)] []])"

definition create_workspaces :: "dialect \<Rightarrow> ddl" where
  "create_workspaces d = Create_Table (public_table ''workspaces'')
     [with_default (uuid_default d) (req ''id'' Uuid),
      req ''tenant_id'' Uuid,
      req ''owner_id'' Uuid,
      req ''name'' Text,
      opt ''description'' Text,
      with_default Current_Timestamp (req ''created_at'' Timestamp_Tz)]
     [Primary_Key [''id'']]"

definition create_workspace_sources :: "dialect \<Rightarrow> ddl" where
  "create_workspace_sources d = Create_Table (public_table ''workspace_sources'')
     [with_default (uuid_default d) (req ''id'' Uuid),
      req ''workspace_id'' Uuid,
      req ''connector_id'' Text,
      req ''path_prefix'' Text,
      with_default Current_Timestamp (req ''added_at'' Timestamp_Tz)]
     [Foreign_Key None [''workspace_id''] (public_table ''workspaces'') [''id''],
      Primary_Key [''id''],
      Unique_Key None [''workspace_id'', ''connector_id'', ''path_prefix'']]"

definition create_source_file_status :: "dialect \<Rightarrow> ddl" where
  "create_source_file_status d = Create_Table (public_table ''source_file_status'')
     [with_default (uuid_default d) (req ''id'' Uuid),
      req ''tenant_id'' Uuid,
      req ''connector_id'' Text,
      req ''file_path'' Text,
      opt ''file_size_bytes'' Big_Integer,
      opt ''content_type'' Text,
      opt ''last_modified'' Timestamp_Tz,
      with_default (Text_Literal ''pending'') (req ''ingest_status'' Text),
      opt ''error_message'' Text,
      opt ''chunk_count'' Integer,
      opt ''indexed_at'' Timestamp_Tz]
     [Primary_Key [''id''],
      Unique_Key None [''tenant_id'', ''connector_id'', ''file_path'']]"

definition upgrade_0001 :: "dialect \<Rightarrow> ddl list" where
  "upgrade_0001 d =
     [create_license_tiers d, create_tenant_licenses d, create_quota_overrides d] @ create_usage_history d
     @ [create_workspaces d, create_workspace_sources d, create_source_file_status d]"

definition downgrade_0001 :: "dialect \<Rightarrow> ddl list" where
  "downgrade_0001 d =
     [Drop_Table (public_table ''source_file_status''), Drop_Table (public_table ''workspace_sources''),
      Drop_Table (public_table ''workspaces'')]
     @ (if d = Postgresql
        then [Drop_Table_If_Exists (public_table ''usage_history_default''), Drop_Table_If_Exists (public_table ''usage_history'')]
        else [Drop_Table (public_table ''usage_history'')])
     @ [Drop_Table (public_table ''quota_overrides''), Drop_Table (public_table ''tenant_licenses''),
        Drop_Table (public_table ''license_tiers'')]"

section \<open>The migration of the lineage tables\<close>

definition meta_schema :: "dialect \<Rightarrow> string option" where
  "meta_schema d = (if d = Postgresql then Some ''metadata'' else None)"

definition meta_table :: "dialect \<Rightarrow> string \<Rightarrow> qname" where
  "meta_table d n = (meta_schema d, n)"

definition json_type :: "dialect \<Rightarrow> sql_type" where
  "json_type d = (if d = Postgresql then Jsonb else Json)"

definition true_default :: "dialect \<Rightarrow> sql_expr" where
  "true_default d = (if d = Postgresql then Bool_Literal True else Number 1)"

definition false_default :: "dialect \<Rightarrow> sql_expr" where
  "false_default d = (if d = Postgresql then Bool_Literal False else Number 0)"

definition insert_at :: "nat \<Rightarrow> 'a \<Rightarrow> 'a list \<Rightarrow> 'a list" where
  "insert_at n x xs = take n xs @ x # drop n xs"

definition index_on :: "dialect \<Rightarrow> string \<Rightarrow> string \<Rightarrow> string list \<Rightarrow> ddl" where
  "index_on d n t cols = Create_Index n (meta_table d t) cols"

definition create_schema_versions :: "dialect \<Rightarrow> ddl list" where
  "create_schema_versions d =
     [Create_Table (meta_table d ''schema_versions'')
        [with_default (uuid_default d) (req ''id'' Uuid),
         req ''tenant_id'' Uuid,
         req ''version_number'' Integer,
         with_default (Number 512) (req ''chunk_size'' Integer),
         with_default (Number 64) (req ''chunk_overlap'' Integer),
         with_default (Text_Literal ''fixed'') (req ''chunking_strategy'' Text),
         req ''embedding_model'' Text,
         opt ''embedding_model_version'' Text,
         req ''embedding_dimension'' Integer,
         req ''embedding_backend'' Text,
         with_default (Text_Literal ''IVF_FLAT'') (req ''index_type'' Text),
         with_default (true_default d) (req ''is_current'' Boolean),
         with_default Current_Timestamp (opt ''created_at'' Timestamp_Tz),
         opt ''created_by'' Text]
        [Primary_Key [''id''],
         Unique_Key (Some ''uq_schema_versions_tenant_version'') [''tenant_id'', ''version_number'']],
      index_on d ''ix_schema_versions_tenant_current'' ''schema_versions'' [''tenant_id'', ''is_current'']]"

definition run_columns :: "dialect \<Rightarrow> column list" where
  "run_columns d =
     [with_default (uuid_default d) (req ''id'' Uuid),
      req ''tenant_id'' Uuid,
      req ''pipeline_type'' Text,
      opt ''connector_id'' Text,
      opt ''schema_version_id'' Uuid,
      with_default (Text_Literal ''{}'') (req ''config_snapshot'' (json_type d)),
      with_default (Text_Literal ''running'') (req ''status'' Text),
      with_default Current_Timestamp (opt ''started_at'' Timestamp_Tz),
      opt ''finished_at'' Timestamp_Tz,
      with_default (Number 0) (req ''entities_processed'' Integer),
      with_default (Number 0) (req ''entities_failed'' Integer),
      with_default (Number 0) (req ''bytes_processed'' Big_Integer)]"

definition create_pipeline_runs :: "dialect \<Rightarrow> ddl list" where
  "create_pipeline_runs d =
     Create_Table (meta_table d ''pipeline_runs'')
        (if d = Postgresql then run_columns d
         else insert_at (length (run_columns d) - 3) (opt ''duration_ms'' Integer) (run_columns d))
        [Foreign_Key (Some ''fk_pipeline_runs_schema_version'') [''schema_version_id''] (meta_table d ''schema_versions'') [''id''],
         Primary_Key [''id'']]
     # (if d = Postgresql
        then [Add_Column (meta_table d ''pipeline_runs'') (with_default Duration_Ms (opt ''duration_ms'' Integer))] else [])
     @ [index_on d ''ix_pipeline_runs_tenant_type_started'' ''pipeline_runs'' [''tenant_id'', ''pipeline_type'', ''started_at''],
        index_on d ''ix_pipeline_runs_status'' ''pipeline_runs'' [''status'']]"

definition create_entities :: "dialect \<Rightarrow> ddl list" where
  "create_entities d =
     [Create_Table (meta_table d ''entities'')
        [with_default (uuid_default d) (req ''id'' Uuid),
         req ''entity_type'' Text,
         req ''entity_key'' Text,
         req ''tenant_id'' Uuid,
         opt ''pipeline_run_id'' Uuid,
         opt ''schema_version_id'' Uuid,
         with_default (Text_Literal ''{}'') (req ''attributes'' (json_type d)),
         with_default (true_default d) (req ''is_current'' Boolean),
         with_default Current_Timestamp (opt ''created_at'' Timestamp_Tz),
         with_default Current_Timestamp (opt ''updated_at'' Timestamp_Tz)]
        [Foreign_Key (Some ''fk_entities_pipeline_run'') [''pipeline_run_id''] (meta_table d ''pipeline_runs'') [''id''],
         Foreign_Key (Some ''fk_entities_schema_version'') [''schema_version_id''] (meta_table d ''schema_versions'') [''id''],
         Unique_Key (Some ''uq_entities_tenant_type_key'') [''tenant_id'', ''entity_type'', ''entity_key''],
         Primary_Key [''id'']],
      index_on d ''ix_entities_tenant_type'' ''entities'' [''tenant_id'', ''entity_type''],
      index_on d ''ix_entities_entity_key'' ''entities'' [''entity_key''],
      index_on d ''ix_entities_pipeline_run_id'' ''entities'' [''pipeline_run_id'']]
     @ (if d = Postgresql then [index_on d ''ix_entities_attributes_gin'' ''entities'' [''attributes'']] else [])"

definition create_lineage :: "dialect \<Rightarrow> ddl list" where
  "create_lineage d =
     [Create_Table (meta_table d ''lineage'')
        [with_default (uuid_default d) (req ''id'' Uuid),
         req ''upstream_id'' Uuid,
         req ''downstream_id'' Uuid,
         req ''relationship'' Text,
         opt ''pipeline_run_id'' Uuid,
         with_default Current_Timestamp (opt ''created_at'' Timestamp_Tz)]
        [Foreign_Key (Some ''fk_lineage_upstream'') [''upstream_id''] (meta_table d ''entities'') [''id''],
         Foreign_Key (Some ''fk_lineage_downstream'') [''downstream_id''] (meta_table d ''entities'') [''id''],
         Foreign_Key (Some ''fk_lineage_pipeline_run'') [''pipeline_run_id''] (meta_table d ''pipeline_runs'') [''id''],
         Unique_Key (Some ''uq_lineage_edge'') [''upstream_id'', ''downstream_id'', ''relationship''],
         Primary_Key [''id'']],
      index_on d ''ix_lineage_upstream_id'' ''lineage'' [''upstream_id''],
      index_on d ''ix_lineage_downstream_id'' ''lineage'' [''downstream_id''],
      index_on d ''ix_lineage_relationship'' ''lineage'' [''relationship'']]"

definition step_columns :: "dialect \<Rightarrow> column list" where
  "step_columns d =
     [with_default (uuid_default d) (req ''id'' Uuid),
      req ''entity_id'' Uuid,
      req ''pipeline_run_id'' Uuid,
      req ''step_type'' Text,
      with_default (Text_Literal ''pending'') (req ''status'' Text),
      with_default Current_Timestamp (opt ''started_at'' Timestamp_Tz),
      opt ''finished_at'' Timestamp_Tz,
      opt ''input_bytes'' Big_Integer,
      opt ''output_count'' Integer,
      opt ''config_used'' (json_type d),
      opt ''error_message'' Text,
      opt ''error_code'' Text]"

definition create_processing_steps :: "dialect \<Rightarrow> ddl list" where
  "create_processing_steps d =
     Create_Table (meta_table d ''processing_steps'')
        (if d = Postgresql then step_columns d else insert_at 7 (opt ''duration_ms'' Integer) (step_columns d))
        [Foreign_Key (Some ''fk_processing_steps_entity'') [''entity_id''] (meta_table d ''entities'') [''id''],
         Foreign_Key (Some ''fk_processing_steps_pipeline_run'') [''pipeline_run_id''] (meta_table d ''pipeline_runs'') [''id''],
         Primary_Key [''id'']]
     # (if d = Postgresql
        then [Add_Column (meta_table d ''processing_steps'') (with_default Duration_Ms (opt ''duration_ms'' Integer))] else [])
     @ [index_on d ''ix_processing_steps_entity_step'' ''processing_steps'' [''entity_id'', ''step_type''],
        index_on d ''ix_processing_steps_run_id'' ''processing_steps'' [''pipeline_run_id''],
        index_on d ''ix_processing_steps_status'' ''processing_steps'' [''status'']]"

definition create_data_quality :: "dialect \<Rightarrow> ddl list" where
  "create_data_quality d =
     [Create_Table (meta_table d ''data_quality'')
        [with_default (uuid_default d) (req ''id'' Uuid),
         req ''entity_id'' Uuid,
         opt ''run_id'' Uuid,
         req ''check_name'' Text,
         req ''status'' Text,
         opt ''value'' Numeric,
         opt ''threshold'' Numeric,
         opt ''message'' Text,
         with_default Current_Timestamp (opt ''checked_at'' Timestamp_Tz)]
        [Foreign_Key (Some ''fk_data_quality_entity'') [''entity_id''] (meta_table d ''entities'') [''id''],
         Foreign_Key (Some ''fk_data_quality_run'') [''run_id''] (meta_table d ''pipeline_runs'') [''id''],
         Primary_Key [''id'']],
      index_on d ''ix_data_quality_entity_check'' ''data_quality'' [''entity_id'', ''check_name''],
      index_on d ''ix_data_quality_status'' ''data_quality'' [''status'']]"

definition create_query_results :: "dialect \<Rightarrow> ddl list" where
  "create_query_results d =
     [Create_Table (meta_table d ''query_results'')
        [req ''query_id'' Uuid,
         req ''chunk_entity_id'' Uuid,
         req ''rank'' Integer,
         req ''score'' Numeric,
         with_default (false_default d) (req ''cached'' Boolean),
         opt ''feedback_score'' Integer]
        [Foreign_Key (Some ''fk_query_results_chunk_entity'') [''chunk_entity_id''] (meta_table d ''entities'') [''id''],
         Primary_Key [''query_id'', ''chunk_entity_id'']],
      index_on d ''ix_query_results_chunk_entity_id'' ''query_results'' [''chunk_entity_id''],
      index_on d ''ix_query_results_feedback_score'' ''query_results'' [''feedback_score'']]"

definition upgrade_5001 :: "dialect \<Rightarrow> ddl list" where
  "upgrade_5001 d =
     (if d = Postgresql then [Create_Schema_If_Missing ''metadata''] else [])
     @ create_schema_versions d @ create_pipeline_runs d @ create_entities d @ create_lineage d
     @ create_processing_steps d @ create_data_quality d @ create_query_results d"

definition downgrade_5001 :: "dialect \<Rightarrow> ddl list" where
  "downgrade_5001 d =
     map (\<lambda>n. Drop_Table (meta_table d n))
       [''query_results'', ''data_quality'', ''processing_steps'', ''lineage'', ''entities'', ''pipeline_runs'', ''schema_versions'']
     @ (if d = Postgresql then [Drop_Schema_If_Exists ''metadata''] else [])"

section \<open>Databases that hold other tables\<close>

text \<open>
  The two chains of migrations may run on one database (the URL of the lineage store falls back to
  that of the quota tables). \<open>beside rest c\<close> is the catalog \<open>c\<close> with the relations of \<open>rest\<close> in the
  same database; an operation that does not mention them does what it would do without them.
\<close>

definition beside :: "catalog \<Rightarrow> catalog \<Rightarrow> catalog" where
  "beside rest c = \<lparr>cat_schemas = cat_schemas rest @ cat_schemas c, cat_tables = cat_tables rest @ cat_tables c\<rparr>"

fun mentioned :: "dialect \<Rightarrow> ddl \<Rightarrow> qname list" where
  "mentioned d (Create_Schema_If_Missing s) = []"
| "mentioned d (Drop_Schema_If_Exists s) = []"
| "mentioned d (Create_Table q cs ks) =
     relation_names d \<lparr>tb_name = q, tb_columns = cs, tb_constraints = ks, tb_indexes = [], tb_parent = None\<rparr>
     @ concat (map references ks)"
| "mentioned d (Create_Partition q parent) = [q, parent]"
| "mentioned d (Add_Column q col) = [q]"
| "mentioned d (Create_Index n q cols) = [(fst q, n), q]"
| "mentioned d (Drop_Table q) = [q]"
| "mentioned d (Drop_Table_If_Exists q) = [q]"

fun mentioned_schemas :: "ddl \<Rightarrow> string list" where
  "mentioned_schemas (Create_Schema_If_Missing s) = [s]"
| "mentioned_schemas (Drop_Schema_If_Exists s) = [s]"
| "mentioned_schemas _ = []"

definition occupied :: "dialect \<Rightarrow> catalog \<Rightarrow> qname list" where
  "occupied d c = taken d c @ concat (map depends_on (cat_tables c))"

definition occupied_schemas :: "catalog \<Rightarrow> string list" where
  "occupied_schemas c = cat_schemas c @ concat (map (\<lambda>t. case fst (tb_name t) of None \<Rightarrow> [] | Some s \<Rightarrow> [s]) (cat_tables c))"

definition apart :: "dialect \<Rightarrow> ddl \<Rightarrow> catalog \<Rightarrow> bool" where
  "apart d op rest \<longleftrightarrow> list_all (\<lambda>q. q \<notin> set (occupied d rest)) (mentioned d op)
     \<and> list_all (\<lambda>s. s \<notin> set (occupied_schemas rest)) (mentioned_schemas op)"

lemma beside_sel [simp]:
  "cat_schemas (beside rest c) = cat_schemas rest @ cat_schemas c"
  "cat_tables (beside rest c) = cat_tables rest @ cat_tables c"
  "beside rest (c\<lparr>cat_tables := ts\<rparr>) = (beside rest c)\<lparr>cat_tables := cat_tables rest @ ts\<rparr>"
  "beside rest (c\<lparr>cat_schemas := ss\<rparr>) = (beside rest c)\<lparr>cat_schemas := cat_schemas rest @ ss\<rparr>"
  by (simp_all add: beside_def)

lemma beside_empty [simp]: "beside rest empty_catalog = rest"
  by (simp add: beside_def empty_catalog_def)

lemma taken_beside [simp]: "taken d (beside rest c) = taken d rest @ taken d c"
  by (simp add: taken_def)

lemma table_taken: "t \<in> set (cat_tables c) \<Longrightarrow> tb_name t \<in> set (taken d c)"
  by (auto simp: taken_def relation_names_def)

lemma find_append_None: "find P xs = None \<Longrightarrow> find P (xs @ ys) = find P ys"
  by (induction xs) (auto split: if_splits)

lemma find_table_beside:
  assumes "q \<notin> set (occupied d rest)"
  shows "find_table (beside rest c) q = find_table c q"
proof -
  have "find (\<lambda>t. tb_name t = q) (cat_tables rest) = None"
    using assms by (auto simp: find_None_iff occupied_def dest: table_taken [where d = d])
  then show ?thesis by (simp add: find_table_def find_append_None)
qed

lemma constraint_error_beside:
  assumes "list_all (\<lambda>q. q \<notin> set (occupied d rest)) (references k)"
  shows "constraint_error d (beside rest c) cs k = constraint_error d c cs k"
  using assms by (cases k) (simp_all add: find_table_beside)

lemma map_filter_cong: "(\<And>x. x \<in> set xs \<Longrightarrow> f x = g x) \<Longrightarrow> List.map_filter f xs = List.map_filter g xs"
  by (induction xs) (auto simp: map_filter_simps split: option.split)

lemma table_error_beside:
  assumes apart: "list_all (\<lambda>q. q \<notin> set (occupied d rest)) (relation_names d t @ concat (map references (tb_constraints t)))"
    and ok: "table_error d c t = None"
  shows "table_error d (beside rest c) t = None"
proof -
  have "List.map_filter (constraint_error d (beside rest c) (tb_columns t)) (tb_constraints t)
      = List.map_filter (constraint_error d c (tb_columns t)) (tb_constraints t)"
    by (rule map_filter_cong, rule constraint_error_beside) (use apart in \<open>auto simp: list_all_iff\<close>)
  moreover have "schema_known (beside rest c) (tb_name t)"
    using ok by (auto simp: table_error_def schema_known_def split: option.splits if_splits)
  moreover have "find (\<lambda>q. q \<in> set (taken d (beside rest c))) (relation_names d t) = None"
    using ok apart by (auto simp: table_error_def find_None_iff list_all_iff occupied_def split: option.splits if_splits)
  ultimately show ?thesis using ok
    by (simp add: table_error_def split: option.splits if_splits)
qed

lemma change_table_beside:
  assumes "q \<notin> set (occupied d rest)"
  shows "change_table q f (beside rest c) = beside rest (change_table q f c)"
proof -
  have "map (\<lambda>t. if tb_name t = q then f t else t) (cat_tables rest) = cat_tables rest"
    using assms by (auto simp: occupied_def intro!: map_idI dest: table_taken [where d = d])
  then show ?thesis by (simp add: change_table_def)
qed

lemma removed_with_cases: "removed_with q t \<Longrightarrow> tb_name t = q \<or> q \<in> set (depends_on t)"
  by (cases q) (auto simp: removed_with_def depends_on_def)

lemma drop_table_beside:
  assumes apart: "q \<notin> set (occupied d rest)" and ok: "drop_table d q c = Inr c'"
  shows "drop_table d q (beside rest c) = Inr (beside rest c')"
proof -
  have "\<not> list_ex (\<lambda>t. q \<in> set (concat (map references (tb_constraints t)))) (cat_tables rest)"
    using apart by (auto simp: occupied_def depends_on_def list_ex_iff)
  moreover have "\<not> removed_with q t" if "t \<in> set (cat_tables rest)" for t
    using apart that by (auto simp: occupied_def dest!: removed_with_cases dest: table_taken [where d = d])
  then have "filter (\<lambda>t. \<not> removed_with q t) (cat_tables rest) = cat_tables rest"
    by (rule filter_True [OF ballI])
  ultimately show ?thesis using ok
    by (auto simp: drop_table_def list_ex_iff split: if_splits)
qed

lemma exec_ddl_beside:
  assumes apart: "apart d op rest" and ok: "exec_ddl d op c = Inr c'"
  shows "exec_ddl d op (beside rest c) = Inr (beside rest c')"
proof (cases op)
  case (Create_Table q cs ks)
  let ?t = "\<lparr>tb_name = q, tb_columns = cs, tb_constraints = ks, tb_indexes = [], tb_parent = None\<rparr>"
  have none: "table_error d c ?t = None" using ok Create_Table by (simp add: Let_def split: option.splits)
  have "table_error d (beside rest c) ?t = None"
    by (rule table_error_beside [OF _ none]) (use apart Create_Table in \<open>simp add: apart_def\<close>)
  then show ?thesis using ok none Create_Table by (auto simp: Let_def)
next
  case (Create_Schema_If_Missing s)
  then show ?thesis using ok apart by (auto simp: apart_def occupied_schemas_def)
next
  case (Drop_Schema_If_Exists s)
  have "s \<notin> set (cat_schemas rest)" and "\<not> list_ex (\<lambda>t. fst (tb_name t) = Some s) (cat_tables rest)"
    using apart Drop_Schema_If_Exists by (force simp: apart_def occupied_schemas_def list_ex_iff)+
  then show ?thesis using ok Drop_Schema_If_Exists by (auto split: if_splits)
next
  case (Create_Partition q parent)
  then show ?thesis using ok apart
    by (auto simp: apart_def find_table_beside occupied_def split: option.splits if_splits)
next
  case (Add_Column q col)
  then show ?thesis using ok apart
    by (auto simp: apart_def find_table_beside change_table_beside split: option.splits if_splits)
next
  case (Create_Index n q cols)
  then show ?thesis using ok apart
    by (auto simp: apart_def find_table_beside change_table_beside occupied_def split: option.splits if_splits)
next
  case (Drop_Table q)
  then show ?thesis using ok apart
    by (auto simp: apart_def exists_table_def find_table_beside drop_table_beside split: if_splits)
next
  case (Drop_Table_If_Exists q)
  then show ?thesis using ok apart
    by (auto simp: apart_def exists_table_def find_table_beside drop_table_beside split: if_splits)
qed

lemma run_ddl_append: "run_ddl d (xs @ ys) c = res_bind (run_ddl d xs c) (run_ddl d ys)"
  by (induction xs arbitrary: c) (auto simp: res_bind_def split: sum.split)

lemma run_ddl_beside:
  assumes "list_all (\<lambda>op. apart d op rest) ops" and "run_ddl d ops c = Inr c'"
  shows "run_ddl d ops (beside rest c) = Inr (beside rest c')"
  using assms by (induction ops arbitrary: c) (auto simp: res_bind_Inr_iff dest: exec_ddl_beside)

section \<open>Upgrades and downgrades undo each other\<close>

definition created :: "dialect \<Rightarrow> ddl list \<Rightarrow> catalog" where
  "created d ops = (case run_ddl d ops empty_catalog of Inr c \<Rightarrow> c | Inl _ \<Rightarrow> empty_catalog)"

definition migrations :: "dialect \<Rightarrow> (ddl list \<times> ddl list) list" where
  "migrations d = [(upgrade_0001 d, downgrade_0001 d), (upgrade_5001 d, downgrade_5001 d)]"

definition room_for :: "dialect \<Rightarrow> ddl list \<Rightarrow> catalog \<Rightarrow> bool" where
  "room_for d ops rest = list_all (\<lambda>op. apart d op rest) ops"

definition reverts :: "dialect \<Rightarrow> ddl list \<times> ddl list \<Rightarrow> bool" where
  "reverts d m = (case run_ddl d (fst m) empty_catalog of Inl _ \<Rightarrow> False
     | Inr c \<Rightarrow> run_ddl d (snd m) c = Inr empty_catalog)"

lemma reverts_postgresql:
  "reverts Postgresql (upgrade_0001 Postgresql, downgrade_0001 Postgresql)"
  "reverts Postgresql (upgrade_5001 Postgresql, downgrade_5001 Postgresql)"
  by code_simp+

lemma reverts_sqlite:
  "reverts Sqlite (upgrade_0001 Sqlite, downgrade_0001 Sqlite)"
  "reverts Sqlite (upgrade_5001 Sqlite, downgrade_5001 Sqlite)"
  by code_simp+

lemma migrations_revert: "m \<in> set (migrations d) \<Longrightarrow> reverts d m"
  by (cases d) (auto simp: migrations_def reverts_postgresql reverts_sqlite)

text \<open>
  C24. On any database, of either dialect, whose relations stay clear of the names a migration
  mentions, the upgrade succeeds and adds exactly its tables, and the downgrade succeeds and leaves
  the database as it was before the upgrade.
\<close>

theorem migrations_undo_each_other:
  assumes "(up, down) \<in> set (migrations d)" and "room_for d (up @ down) rest"
  shows "run_ddl d up rest = Inr (beside rest (created d up))
    \<and> run_ddl d down (beside rest (created d up)) = Inr rest"
proof -
  have empty: "run_ddl d up empty_catalog = Inr (created d up)" "run_ddl d down (created d up) = Inr empty_catalog"
    using migrations_revert [OF assms(1)] by (auto simp: reverts_def created_def split: sum.splits)
  have apart: "list_all (\<lambda>op. apart d op rest) up" "list_all (\<lambda>op. apart d op rest) down"
    using assms(2) by (simp_all add: room_for_def)
  show ?thesis
    using run_ddl_beside [OF apart(1) empty(1)] run_ddl_beside [OF apart(2) empty(2)] by simp
qed

text \<open>The lineage tables come and go beside the quota tables of the same PostgreSQL database.\<close>

lemma room_beside_quota_tables:
  "room_for Postgresql (upgrade_5001 Postgresql @ downgrade_5001 Postgresql) (created Postgresql (upgrade_0001 Postgresql))"
  by code_simp

lemma migrations_undo_each_other_witness:
  "run_ddl Postgresql (upgrade_5001 Postgresql) (created Postgresql (upgrade_0001 Postgresql))
     = Inr (beside (created Postgresql (upgrade_0001 Postgresql)) (created Postgresql (upgrade_5001 Postgresql)))
   \<and> run_ddl Postgresql (downgrade_5001 Postgresql)
       (beside (created Postgresql (upgrade_0001 Postgresql)) (created Postgresql (upgrade_5001 Postgresql)))
     = Inr (created Postgresql (upgrade_0001 Postgresql))"
  by (rule migrations_undo_each_other [OF _ room_beside_quota_tables]) (simp add: migrations_def)

end
