(* ===== verification/Schema_Laws.thy ===== *)
theory Schema_Laws
  imports Migrations Meta_Store Quota_Limits Bff_Workspaces
begin

text \<open>
  What the migrated tables promise to the services. The rows of the three databases of the
  development (\<open>meta_db\<close>, \<open>quota_db\<close>, \<open>ws_db\<close>) are read as rows of the migrated catalog, so that
  the keys and foreign keys the migrations declare become statements about them; the invariants the
  components rely on follow. The statements of the services are recorded with the tables and columns
  they name, and checked against the catalog; so are the writers of \<open>source_file_status\<close>, against the
  migrated table and against the one \<open>k8s/pipeline/db-init.yaml\<close> creates.
\<close>

section \<open>Rows and constraints\<close>

text \<open>A cell is \<open>None\<close> where the column is NULL.\<close>

type_synonym sql_row = "(string \<times> json option) list"

definition cells :: "sql_row \<Rightarrow> string list \<Rightarrow> json option list" where
  "cells r cols = map (\<lambda>c. case map_of r c of None \<Rightarrow> None | Some v \<Rightarrow> v) cols"

text \<open>NULLs are distinct from each other in a unique constraint and satisfy a foreign key.\<close>

fun holds :: "(qname \<Rightarrow> sql_row list) \<Rightarrow> sql_row list \<Rightarrow> constr \<Rightarrow> bool" where
  "holds db rows (Primary_Key ks) \<longleftrightarrow>
     distinct (map (\<lambda>r. cells r ks) rows) \<and> list_all (\<lambda>r. None \<notin> set (cells r ks)) rows"
| "holds db rows (Unique_Key _ ks) \<longleftrightarrow> distinct (filter (\<lambda>k. None \<notin> set k) (map (\<lambda>r. cells r ks) rows))"
| "holds db rows (Foreign_Key _ ks q target) \<longleftrightarrow>
     list_all (\<lambda>r. None \<in> set (cells r ks) \<or> cells r ks \<in> set (map (\<lambda>s. cells s target) (db q))) rows"

fun key_columns :: "constr \<Rightarrow> string list" where
  "key_columns (Primary_Key ks) = ks"
| "key_columns (Unique_Key _ ks) = ks"
| "key_columns (Foreign_Key _ ks _ _) = ks"

text \<open>
  The constraints a catalog declares on a table, as far as the rows carry their columns: the rows of
  the components leave out columns no statement uses.
\<close>

definition table_constraints :: "catalog \<Rightarrow> (qname \<times> string list) \<Rightarrow> constr list" where
  "table_constraints c qc = (case find_table c (fst qc) of None \<Rightarrow> []
     | Some t \<Rightarrow> filter (\<lambda>k. set (key_columns k) \<subseteq> set (snd qc)) (tb_constraints t))"

definition satisfies :: "catalog \<Rightarrow> (qname \<Rightarrow> sql_row list) \<Rightarrow> (qname \<times> string list) \<Rightarrow> bool" where
  "satisfies c db qc = list_all (holds db (db (fst qc))) (table_constraints c qc)"

section \<open>The rows of the lineage store\<close>

definition sv_row :: "schema_version \<Rightarrow> sql_row" where
  "sv_row v =
     [(''id'', Some (JStr (sv_id v))), (''tenant_id'', Some (JStr (sv_tenant_id v))),
      (''version_number'', Some (JInt (sv_version_number v))), (''chunk_size'', Some (JInt (sv_chunk_size v))),
      (''chunk_overlap'', Some (JInt (sv_chunk_overlap v))), (''chunking_strategy'', Some (JStr (sv_chunking_strategy v))),
      (''embedding_model'', Some (JStr (sv_embedding_model v))),
      (''embedding_dimension'', Some (JInt (sv_embedding_dimension v))),
      (''embedding_backend'', Some (JStr (sv_embedding_backend v))), (''index_type'', Some (JStr (sv_index_type v))),
      (''is_current'', Some (JBool (sv_is_current v))), (''created_by'', map_option JStr (sv_created_by v))]"

definition pr_row :: "pipeline_run \<Rightarrow> sql_row" where
  "pr_row r =
     [(''id'', Some (JStr (pr_id r))), (''tenant_id'', Some (JStr (pr_tenant_id r))),
      (''pipeline_type'', Some (JStr (pr_pipeline_type r))), (''status'', Some (JStr (pr_status r))),
      (''started_at'', Some (JFloat (pr_started_at r)))]"

definition en_row :: "entity \<Rightarrow> sql_row" where
  "en_row e =
     [(''id'', Some (JStr (en_id e))), (''entity_type'', Some (JStr (en_type e))), (''entity_key'', Some (JStr (en_key e))),
      (''tenant_id'', Some (JStr (en_tenant_id e))), (''pipeline_run_id'', map_option JStr (en_pipeline_run_id e)),
      (''schema_version_id'', map_option JStr (en_schema_version_id e)), (''attributes'', Some (en_attributes e)),
      (''is_current'', Some (JBool (en_is_current e))), (''updated_at'', Some (JFloat (en_updated_at e)))]"

definition le_row :: "lineage_edge \<Rightarrow> sql_row" where
  "le_row l =
     [(''upstream_id'', Some (JStr (le_upstream_id l))), (''downstream_id'', Some (JStr (le_downstream_id l))),
      (''relationship'', Some (JStr (le_relationship l))), (''pipeline_run_id'', map_option JStr (le_pipeline_run_id l))]"

definition dq_row :: "quality_row \<Rightarrow> sql_row" where
  "dq_row q =
     [(''entity_id'', Some (JStr (dq_entity_id q))), (''run_id'', map_option JStr (dq_run_id q)),
      (''check_name'', Some (JStr (dq_check_name q))), (''status'', Some (JStr (dq_status q))),
      (''value'', map_option JFloat (dq_value q)), (''threshold'', map_option JFloat (dq_threshold q)),
      (''message'', map_option JStr (dq_message q)), (''checked_at'', Some (JFloat (dq_checked_at q)))]"

definition metadata_table :: "string \<Rightarrow> qname" where
  "metadata_table n = (Some ''metadata'', n)"

definition meta_rows :: "meta_db \<Rightarrow> qname \<Rightarrow> sql_row list" where
  "meta_rows db q =
     (if q = metadata_table ''schema_versions'' then map sv_row (schema_versions db)
      else if q = metadata_table ''pipeline_runs'' then map pr_row (pipeline_runs db)
      else if q = metadata_table ''entities'' then map en_row (entities db)
      else if q = metadata_table ''lineage'' then map le_row (lineage db)
      else if q = metadata_table ''data_quality'' then map dq_row (data_quality db)
      else [])"

text \<open>The tables the service writes, with the columns of their rows.\<close>

definition written_tables :: "(qname \<times> string list) list" where
  "written_tables =
     [(metadata_table ''schema_versions'', [''id'', ''tenant_id'', ''version_number'', ''chunk_size'', ''chunk_overlap'',
        ''chunking_strategy'', ''embedding_model'', ''embedding_dimension'', ''embedding_backend'', ''index_type'',
        ''is_current'', ''created_by'']),
      (metadata_table ''entities'', [''id'', ''entity_type'', ''entity_key'', ''tenant_id'', ''pipeline_run_id'',
        ''schema_version_id'', ''attributes'', ''is_current'', ''updated_at'']),
      (metadata_table ''lineage'', [''upstream_id'', ''downstream_id'', ''relationship'', ''pipeline_run_id'']),
      (metadata_table ''data_quality'', [''entity_id'', ''run_id'', ''check_name'', ''status'', ''value'', ''threshold'',
        ''message'', ''checked_at''])]"

definition lineage_catalog :: catalog where
  "lineage_catalog = created Postgresql (upgrade_5001 Postgresql)"

definition declared_constraints :: "constr list list" where
  "declared_constraints =
     [[Primary_Key [''id''], Unique_Key (Some ''uq_schema_versions_tenant_version'') [''tenant_id'', ''version_number'']],
      [Foreign_Key (Some ''fk_entities_pipeline_run'') [''pipeline_run_id''] (metadata_table ''pipeline_runs'') [''id''],
       Foreign_Key (Some ''fk_entities_schema_version'') [''schema_version_id''] (metadata_table ''schema_versions'') [''id''],
       Unique_Key (Some ''uq_entities_tenant_type_key'') [''tenant_id'', ''entity_type'', ''entity_key''],
       Primary_Key [''id'']],
      [Foreign_Key (Some ''fk_lineage_upstream'') [''upstream_id''] (metadata_table ''entities'') [''id''],
       Foreign_Key (Some ''fk_lineage_downstream'') [''downstream_id''] (metadata_table ''entities'') [''id''],
       Foreign_Key (Some ''fk_lineage_pipeline_run'') [''pipeline_run_id''] (metadata_table ''pipeline_runs'') [''id''],
       Unique_Key (Some ''uq_lineage_edge'') [''upstream_id'', ''downstream_id'', ''relationship'']],
      [Foreign_Key (Some ''fk_data_quality_entity'') [''entity_id''] (metadata_table ''entities'') [''id''],
       Foreign_Key (Some ''fk_data_quality_run'') [''run_id''] (metadata_table ''pipeline_runs'') [''id'']]]"

lemma lineage_constraints:
  "map (table_constraints lineage_catalog) written_tables = declared_constraints"
  by code_simp

lemma distinct_map_inj: "(\<And>x y. h x = h y \<longleftrightarrow> g x = g y) \<Longrightarrow> distinct (map h xs) = distinct (map g xs)"
  by (induction xs) auto

lemma filter_map_all: "(\<And>x. P (h x)) \<Longrightarrow> filter P (map h xs) = map h xs"
  by (induction xs) simp_all

lemmas row_simps = sv_row_def pr_row_def en_row_def le_row_def dq_row_def cells_def

lemma meta_rows_simps [simp]:
  "meta_rows db (metadata_table ''schema_versions'') = map sv_row (schema_versions db)"
  "meta_rows db (metadata_table ''pipeline_runs'') = map pr_row (pipeline_runs db)"
  "meta_rows db (metadata_table ''entities'') = map en_row (entities db)"
  "meta_rows db (metadata_table ''lineage'') = map le_row (lineage db)"
  "meta_rows db (metadata_table ''data_quality'') = map dq_row (data_quality db)"
  by (simp_all add: meta_rows_def metadata_table_def)

lemma satisfies_written:
  "list_all (satisfies lineage_catalog (meta_rows db)) written_tables \<longleftrightarrow>
     list_all (\<lambda>(qc, ks). list_all (holds (meta_rows db) (meta_rows db (fst qc))) ks)
       (zip written_tables declared_constraints)"
proof -
  have "list_all (\<lambda>qc. list_all (R (fst qc)) (f qc)) xs \<longleftrightarrow> list_all (\<lambda>(qc, ks). list_all (R (fst qc)) ks) (zip xs (map f xs))"
    for R :: "qname \<Rightarrow> constr \<Rightarrow> bool" and f :: "qname \<times> string list \<Rightarrow> constr list" and xs
    by (induction xs) simp_all
  from this [where R = "\<lambda>q. holds (meta_rows db) (meta_rows db q)" and f = "table_constraints lineage_catalog" and xs = written_tables]
  show ?thesis by (simp only: satisfies_def [abs_def] lineage_constraints)
qed

text \<open>The key columns of the rows.\<close>

lemma key_cells [simp]:
  "cells (sv_row v) [''id''] = [Some (JStr (sv_id v))]"
  "cells (sv_row v) [''tenant_id'', ''version_number''] = [Some (JStr (sv_tenant_id v)), Some (JInt (sv_version_number v))]"
  "cells (pr_row r) [''id''] = [Some (JStr (pr_id r))]"
  "cells (en_row e) [''id''] = [Some (JStr (en_id e))]"
  "cells (en_row e) [''tenant_id'', ''entity_type'', ''entity_key'']
     = [Some (JStr (en_tenant_id e)), Some (JStr (en_type e)), Some (JStr (en_key e))]"
  "cells (en_row e) [''pipeline_run_id''] = [map_option JStr (en_pipeline_run_id e)]"
  "cells (en_row e) [''schema_version_id''] = [map_option JStr (en_schema_version_id e)]"
  "cells (le_row l) [''upstream_id''] = [Some (JStr (le_upstream_id l))]"
  "cells (le_row l) [''downstream_id''] = [Some (JStr (le_downstream_id l))]"
  "cells (le_row l) [''pipeline_run_id''] = [map_option JStr (le_pipeline_run_id l)]"
  "cells (le_row l) [''upstream_id'', ''downstream_id'', ''relationship'']
     = [Some (JStr (le_upstream_id l)), Some (JStr (le_downstream_id l)), Some (JStr (le_relationship l))]"
  "cells (dq_row q) [''entity_id''] = [Some (JStr (dq_entity_id q))]"
  "cells (dq_row q) [''run_id''] = [map_option JStr (dq_run_id q)]"
  by (simp_all add: row_simps)

text \<open>A key or foreign key over cells that are read off fields is one over the fields.\<close>

lemma holds_primary:
  assumes "\<And>x. None \<notin> set (cells (f x) ks)" and "\<And>x y. cells (f x) ks = cells (f y) ks \<longleftrightarrow> g x = g y"
  shows "holds db (map f xs) (Primary_Key ks) \<longleftrightarrow> distinct (map g xs)"
proof -
  have "distinct (map (\<lambda>x. cells (f x) ks) xs) \<longleftrightarrow> distinct (map g xs)" by (rule distinct_map_inj) (rule assms(2))
  then show ?thesis using assms(1) by (simp add: comp_def list_all_iff)
qed

lemma holds_unique:
  assumes "\<And>x. None \<notin> set (cells (f x) ks)" and "\<And>x y. cells (f x) ks = cells (f y) ks \<longleftrightarrow> g x = g y"
  shows "holds db (map f xs) (Unique_Key n ks) \<longleftrightarrow> distinct (map g xs)"
proof -
  have "distinct (map (\<lambda>x. cells (f x) ks) xs) \<longleftrightarrow> distinct (map g xs)" by (rule distinct_map_inj) (rule assms(2))
  then show ?thesis using assms(1) by (simp add: comp_def filter_map_all)
qed

lemma holds_foreign:
  assumes "db q = map h ys" and "\<And>x. cells (f x) ks = [map_option JStr (g x)]" and "\<And>y. cells (h y) target = [Some (JStr (i y))]"
  shows "holds db (map f xs) (Foreign_Key n ks q target) \<longleftrightarrow> list_all (\<lambda>x. fk_ok (g x) (map i ys)) xs"
proof -
  have "(None \<in> set (cells (f x) ks) \<or> cells (f x) ks \<in> set (map (\<lambda>s. cells s target) (db q)))
      \<longleftrightarrow> fk_ok (g x) (map i ys)" for x
    using assms by (cases "g x") (auto simp: fk_ok_def)
  then show ?thesis by (simp add: comp_def list_all_iff)
qed

lemma holds_foreign_total:
  assumes "db q = map h ys" and "\<And>x. cells (f x) ks = [Some (JStr (g x))]" and "\<And>y. cells (h y) target = [Some (JStr (i y))]"
  shows "holds db (map f xs) (Foreign_Key n ks q target) \<longleftrightarrow> list_all (\<lambda>x. g x \<in> set (map i ys)) xs"
  using holds_foreign [of db q h ys f ks "\<lambda>x. Some (g x)" target i xs n] assms by (simp add: fk_ok_def)

lemma version_laws:
  "list_all (holds (meta_rows db) (map sv_row (schema_versions db))) (declared_constraints ! 0) \<longleftrightarrow>
     distinct (version_ids db) \<and> distinct (map (\<lambda>v. (sv_tenant_id v, sv_version_number v)) (schema_versions db))"
proof -
  have "holds (meta_rows db) (map sv_row (schema_versions db)) (Primary_Key [''id'']) \<longleftrightarrow> distinct (map sv_id (schema_versions db))"
    by (rule holds_primary) simp_all
  moreover have "holds (meta_rows db) (map sv_row (schema_versions db)) (Unique_Key n [''tenant_id'', ''version_number''])
      \<longleftrightarrow> distinct (map (\<lambda>v. (sv_tenant_id v, sv_version_number v)) (schema_versions db))" for n
    by (rule holds_unique) simp_all
  ultimately show ?thesis by (simp add: declared_constraints_def version_ids_def del: holds.simps)
qed

lemma entity_laws:
  "list_all (holds (meta_rows db) (map en_row (entities db))) (declared_constraints ! 1) \<longleftrightarrow>
     list_all (\<lambda>e. fk_ok (en_pipeline_run_id e) (run_ids db) \<and> fk_ok (en_schema_version_id e) (version_ids db)) (entities db)
     \<and> distinct (map entity_unique (entities db)) \<and> distinct (entity_ids db)"
proof -
  let ?H = "holds (meta_rows db) (map en_row (entities db))"
  have "?H (Primary_Key [''id'']) \<longleftrightarrow> distinct (map en_id (entities db))"
    by (rule holds_primary) simp_all
  moreover have "?H (Unique_Key n [''tenant_id'', ''entity_type'', ''entity_key'']) \<longleftrightarrow> distinct (map entity_unique (entities db))" for n
    by (rule holds_unique) (simp_all add: entity_unique_def)
  moreover have "?H (Foreign_Key n [''pipeline_run_id''] (metadata_table ''pipeline_runs'') [''id''])
      \<longleftrightarrow> list_all (\<lambda>e. fk_ok (en_pipeline_run_id e) (map pr_id (pipeline_runs db))) (entities db)" for n
    by (rule holds_foreign [where h = pr_row]) simp_all
  moreover have "?H (Foreign_Key n [''schema_version_id''] (metadata_table ''schema_versions'') [''id''])
      \<longleftrightarrow> list_all (\<lambda>e. fk_ok (en_schema_version_id e) (map sv_id (schema_versions db))) (entities db)" for n
    by (rule holds_foreign [where h = sv_row]) simp_all
  ultimately show ?thesis
    by (auto simp: declared_constraints_def entity_ids_def run_ids_def version_ids_def list_all_iff simp del: holds.simps)
qed

lemma edge_laws:
  "list_all (holds (meta_rows db) (map le_row (lineage db))) (declared_constraints ! 2) \<longleftrightarrow>
     list_all (\<lambda>l. le_upstream_id l \<in> set (entity_ids db) \<and> le_downstream_id l \<in> set (entity_ids db)
        \<and> fk_ok (le_pipeline_run_id l) (run_ids db)) (lineage db)
     \<and> distinct (map edge_key (lineage db))"
proof -
  let ?H = "holds (meta_rows db) (map le_row (lineage db))"
  have "?H (Unique_Key n [''upstream_id'', ''downstream_id'', ''relationship'']) \<longleftrightarrow> distinct (map edge_key (lineage db))" for n
    by (rule holds_unique) (simp_all add: edge_key_def)
  moreover have "?H (Foreign_Key n [''upstream_id''] (metadata_table ''entities'') [''id''])
      \<longleftrightarrow> list_all (\<lambda>l. le_upstream_id l \<in> set (map en_id (entities db))) (lineage db)" for n
    by (rule holds_foreign_total [where h = en_row]) simp_all
  moreover have "?H (Foreign_Key n [''downstream_id''] (metadata_table ''entities'') [''id''])
      \<longleftrightarrow> list_all (\<lambda>l. le_downstream_id l \<in> set (map en_id (entities db))) (lineage db)" for n
    by (rule holds_foreign_total [where h = en_row]) simp_all
  moreover have "?H (Foreign_Key n [''pipeline_run_id''] (metadata_table ''pipeline_runs'') [''id''])
      \<longleftrightarrow> list_all (\<lambda>l. fk_ok (le_pipeline_run_id l) (map pr_id (pipeline_runs db))) (lineage db)" for n
    by (rule holds_foreign [where h = pr_row]) simp_all
  ultimately show ?thesis
    by (auto simp: declared_constraints_def entity_ids_def run_ids_def list_all_iff simp del: holds.simps)
qed

lemma quality_laws:
  "list_all (holds (meta_rows db) (map dq_row (data_quality db))) (declared_constraints ! 3) \<longleftrightarrow>
     list_all (\<lambda>q. dq_entity_id q \<in> set (entity_ids db) \<and> fk_ok (dq_run_id q) (run_ids db)) (data_quality db)"
proof -
  let ?H = "holds (meta_rows db) (map dq_row (data_quality db))"
  have "?H (Foreign_Key n [''entity_id''] (metadata_table ''entities'') [''id''])
      \<longleftrightarrow> list_all (\<lambda>q. dq_entity_id q \<in> set (map en_id (entities db))) (data_quality db)" for n
    by (rule holds_foreign_total [where h = en_row]) simp_all
  moreover have "?H (Foreign_Key n [''run_id''] (metadata_table ''pipeline_runs'') [''id''])
      \<longleftrightarrow> list_all (\<lambda>q. fk_ok (dq_run_id q) (map pr_id (pipeline_runs db))) (data_quality db)" for n
    by (rule holds_foreign [where h = pr_row]) simp_all
  ultimately show ?thesis
    by (auto simp: declared_constraints_def entity_ids_def run_ids_def list_all_iff simp del: holds.simps)
qed

text \<open>
  C23. The well-formedness the lineage store keeps is exactly what the migration declares: the rows of
  the four tables the service writes satisfy the primary keys, unique constraints and foreign keys of
  the migrated catalog that their columns carry, if and only if the store is well-formed.
\<close>

theorem store_invariant_is_declared:
  "meta_wf db \<longleftrightarrow> list_all (satisfies lineage_catalog (meta_rows db)) written_tables"
proof -
  have parts: "zip written_tables declared_constraints
      = zip written_tables (map ((!) declared_constraints) [0, 1, 2, 3])"
    by (simp add: declared_constraints_def)
  show ?thesis
    unfolding satisfies_written parts
    by (simp add: written_tables_def version_laws entity_laws [unfolded One_nat_def] edge_laws quality_laws meta_wf_def conj_ac)
qed

section \<open>The quota and workspace tables\<close>

definition quota_catalog :: catalog where
  "quota_catalog = created Postgresql (upgrade_0001 Postgresql)"

definition tier_row :: "tier \<Rightarrow> sql_row" where
  "tier_row t =
     [(''tier_id'', Some (JStr (lt_tier_id t))), (''bytes_per_month'', map_option JInt (lt_bytes_per_month t)),
      (''vectors_max'', map_option JInt (lt_vectors_max t)), (''queries_per_day'', map_option JInt (lt_queries_per_day t)),
      (''queries_per_min'', map_option JInt (lt_queries_per_min t)), (''gpu_enabled'', Some (JBool (lt_gpu_enabled t))),
      (''workers_max'', map_option JInt (lt_workers_max t)), (''users_max'', map_option JInt (lt_users_max t))]"

definition license_row :: "license \<Rightarrow> sql_row" where
  "license_row l =
     [(''tenant_id'', Some (JStr (tl_tenant_id l))), (''tier_id'', map_option JStr (tl_tier_id l)),
      (''expires_at'', map_option (\<lambda>n. JInt (int n)) (tl_expires_at l)), (''is_active'', Some (JBool (tl_is_active l)))]"

definition override_row :: "quota_override \<Rightarrow> sql_row" where
  "override_row ov =
     [(''tenant_id'', Some (JStr (qo_tenant_id ov))), (''metric'', Some (JStr (qo_metric ov))),
      (''override_value'', map_option JInt (qo_value ov))]"

definition workspace_row :: "workspace \<Rightarrow> sql_row" where
  "workspace_row w =
     [(''id'', Some (JStr (ws_id w))), (''tenant_id'', Some (JStr (ws_tenant_id w))), (''owner_id'', Some (JStr (ws_owner_id w))),
      (''name'', Some (JStr (ws_name w))), (''description'', map_option JStr (ws_description w)),
      (''created_at'', Some (JFloat (ws_created_at w)))]"

definition source_row :: "workspace_source \<Rightarrow> sql_row" where
  "source_row s =
     [(''id'', Some (JStr (wo_id s))), (''workspace_id'', Some (JStr (wo_workspace_id s))),
      (''connector_id'', Some (JStr (wo_connector_id s))), (''path_prefix'', Some (JStr (wo_path_prefix s)))]"

definition quota_rows :: "quota_db \<Rightarrow> ws_db \<Rightarrow> qname \<Rightarrow> sql_row list" where
  "quota_rows db ws q =
     (if q = public_table ''license_tiers'' then map tier_row (license_tiers db)
      else if q = public_table ''tenant_licenses'' then map license_row (tenant_licenses db)
      else if q = public_table ''quota_overrides'' then map override_row (quota_overrides db)
      else if q = public_table ''workspaces'' then map workspace_row (workspaces ws)
      else if q = public_table ''workspace_sources'' then map source_row (workspace_sources ws)
      else [])"

definition quota_tables :: "(qname \<times> string list) list" where
  "quota_tables =
     [(public_table ''license_tiers'', [''tier_id'', ''bytes_per_month'', ''vectors_max'', ''queries_per_day'',
        ''queries_per_min'', ''gpu_enabled'', ''workers_max'', ''users_max'']),
      (public_table ''tenant_licenses'', [''tenant_id'', ''tier_id'', ''expires_at'', ''is_active'']),
      (public_table ''quota_overrides'', [''tenant_id'', ''metric'', ''override_value'']),
      (public_table ''workspaces'', [''id'', ''tenant_id'', ''owner_id'', ''name'', ''description'', ''created_at'']),
      (public_table ''workspace_sources'', [''id'', ''workspace_id'', ''connector_id'', ''path_prefix''])]"

lemma quota_constraints:
  "map (table_constraints quota_catalog) quota_tables =
     [[Primary_Key [''tier_id'']],
      [Foreign_Key None [''tier_id''] (public_table ''license_tiers'') [''tier_id''], Primary_Key [''tenant_id'']],
      [Foreign_Key None [''tenant_id''] (public_table ''tenant_licenses'') [''tenant_id''], Primary_Key [''tenant_id'', ''metric'']],
      [Primary_Key [''id'']],
      [Foreign_Key None [''workspace_id''] (public_table ''workspaces'') [''id''], Primary_Key [''id''],
       Unique_Key None [''workspace_id'', ''connector_id'', ''path_prefix'']]]"
  by code_simp

lemma quota_cells [simp]:
  "cells (tier_row t) [''tier_id''] = [Some (JStr (lt_tier_id t))]"
  "cells (license_row l) [''tenant_id''] = [Some (JStr (tl_tenant_id l))]"
  "cells (override_row ov) [''tenant_id'', ''metric''] = [Some (JStr (qo_tenant_id ov)), Some (JStr (qo_metric ov))]"
  "cells (workspace_row w) [''id''] = [Some (JStr (ws_id w))]"
  "cells (source_row s) [''workspace_id''] = [Some (JStr (wo_workspace_id s))]"
  by (simp_all add: tier_row_def license_row_def override_row_def workspace_row_def source_row_def cells_def)

lemma quota_rows_simps [simp]:
  "quota_rows db ws (public_table ''license_tiers'') = map tier_row (license_tiers db)"
  "quota_rows db ws (public_table ''tenant_licenses'') = map license_row (tenant_licenses db)"
  "quota_rows db ws (public_table ''quota_overrides'') = map override_row (quota_overrides db)"
  "quota_rows db ws (public_table ''workspaces'') = map workspace_row (workspaces ws)"
  "quota_rows db ws (public_table ''workspace_sources'') = map source_row (workspace_sources ws)"
  by (simp_all add: quota_rows_def public_table_def)

text \<open>The invariants the quota service and the workspace endpoints assume follow from the declared constraints.\<close>

lemma declared_gives_invariants:
  assumes "list_all (satisfies quota_catalog (quota_rows db ws)) quota_tables"
  shows "quota_db_wf db" and "ws_wf ws"
proof -
  let ?H = "\<lambda>q. holds (quota_rows db ws) (quota_rows db ws (public_table q))"
  have "?H ''license_tiers'' (Primary_Key [''tier_id''])" "?H ''tenant_licenses'' (Primary_Key [''tenant_id''])"
    "?H ''quota_overrides'' (Primary_Key [''tenant_id'', ''metric''])" "?H ''workspaces'' (Primary_Key [''id''])"
    and source: "?H ''workspace_sources'' (Foreign_Key None [''workspace_id''] (public_table ''workspaces'') [''id''])"
    using assms quota_constraints
    by (simp_all add: quota_tables_def satisfies_def del: holds.simps)
  then have keys: "distinct (map lt_tier_id (license_tiers db))" "distinct (map tl_tenant_id (tenant_licenses db))"
    "distinct (map (\<lambda>ov. (qo_tenant_id ov, qo_metric ov)) (quota_overrides db))" "distinct (map ws_id (workspaces ws))"
    by (simp_all add: holds_primary [where g = lt_tier_id] holds_primary [where g = tl_tenant_id]
        holds_primary [where g = "\<lambda>ov. (qo_tenant_id ov, qo_metric ov)"] holds_primary [where g = ws_id] del: holds.simps)
  have "list_all (\<lambda>s. wo_workspace_id s \<in> set (map ws_id (workspaces ws))) (workspace_sources ws)"
    using source holds_foreign_total [of "quota_rows db ws" "public_table ''workspaces''" workspace_row "workspaces ws"
        source_row "[''workspace_id'']" wo_workspace_id "[''id'']" ws_id "workspace_sources ws" None]
    by (simp del: holds.simps)
  with keys show "quota_db_wf db" "ws_wf ws" by (auto simp: quota_db_wf_def ws_wf_def list_all_iff)
qed

section \<open>The seed rows\<close>

text \<open>\<open>0002_seed_license_tiers.py\<close>: a bulk insert of the three tiers, and their deletion, which a licence
  of one of them prevents.\<close>

definition unique_violation :: exc where "unique_violation = Exc ''UniqueViolation'' ''''"

definition upgrade_0002 :: "quota_db \<Rightarrow> exc + quota_db" where
  "upgrade_0002 db =
     (if distinct (map lt_tier_id (license_tiers db @ seed_tiers))
      then Inr (db\<lparr>license_tiers := license_tiers db @ seed_tiers\<rparr>) else Inl unique_violation)"

definition downgrade_0002 :: "quota_db \<Rightarrow> exc + quota_db" where
  "downgrade_0002 db =
     (if list_ex (\<lambda>l. case tl_tier_id l of None \<Rightarrow> False | Some t \<Rightarrow> t \<in> {''free'', ''pro'', ''enterprise''}) (tenant_licenses db)
      then Inl fk_violation
      else Inr (db\<lparr>license_tiers := filter (\<lambda>t. lt_tier_id t \<notin> {''free'', ''pro'', ''enterprise''}) (license_tiers db)\<rparr>))"

lemma seed_tier_ids: "map lt_tier_id seed_tiers = [''free'', ''pro'', ''enterprise'']"
  by (simp add: seed_tiers_def)

lemma seeds_undone:
  assumes "upgrade_0002 db = Inr db'" and "downgrade_0002 db' = Inr db''"
  shows "db'' = db"
proof -
  have db': "db' = db\<lparr>license_tiers := license_tiers db @ seed_tiers\<rparr>"
    and fresh: "set (map lt_tier_id (license_tiers db)) \<inter> set (map lt_tier_id seed_tiers) = {}"
    using assms(1) by (auto simp: upgrade_0002_def split: if_splits)
  have "filter (\<lambda>t. lt_tier_id t \<notin> set (map lt_tier_id seed_tiers)) (license_tiers db @ seed_tiers) = license_tiers db"
    using fresh by (auto simp: filter_id_conv filter_empty_conv)
  then show ?thesis
    using assms(2) unfolding db' by (auto simp: downgrade_0002_def seed_tier_ids split: if_splits)
qed

section \<open>The statements of the services\<close>

text \<open>
  How a statement uses a table: an insertion with its column list and conflict target, or the columns
  it reads, sets, compares or returns.
\<close>

datatype sql_use =
    Insert_Into qname "string list" "string list option"
  | Uses qname "string list"

fun used_table :: "sql_use \<Rightarrow> qname" where
  "used_table (Insert_Into q cols target) = q"
| "used_table (Uses q cols) = q"

text \<open>
  The checks PostgreSQL documents for them: table and columns exist, a column left out of an
  insertion is nullable or has a default, and a conflict target is a key of the table.
\<close>

fun fits_table :: "table \<Rightarrow> sql_use \<Rightarrow> bool" where
  "fits_table t (Insert_Into q cols target) \<longleftrightarrow>
     list_all (\<lambda>c. c \<in> set (column_names t)) cols
   \<and> list_all (\<lambda>c. col_name c \<in> set cols \<or> col_nullable c \<or> col_default c \<noteq> None) (tb_columns t)
   \<and> (case target of None \<Rightarrow> True | Some ks \<Rightarrow> list_ex (is_key ks) (tb_constraints t))"
| "fits_table t (Uses q cols) \<longleftrightarrow> list_all (\<lambda>c. c \<in> set (column_names t)) cols"

definition fits :: "catalog \<Rightarrow> sql_use \<Rightarrow> bool" where
  "fits c u = (case find_table c (used_table u) of None \<Rightarrow> False | Some t \<Rightarrow> fits_table t u)"

definition lineage_statements :: "(string \<times> sql_use list) list" where
  "lineage_statements =
     [(''upsert_entity'',
        [Insert_Into (metadata_table ''entities'')
           [''entity_type'', ''entity_key'', ''tenant_id'', ''attributes'', ''pipeline_run_id'', ''schema_version_id'']
           (Some [''tenant_id'', ''entity_type'', ''entity_key'']),
         Uses (metadata_table ''entities'') [''attributes'', ''updated_at'', ''is_current'', ''id'']]),
      (''insert_lineage_edge'',
        [Uses (metadata_table ''entities'') [''id'', ''tenant_id'', ''entity_type'', ''entity_key''],
         Insert_Into (metadata_table ''lineage'') [''upstream_id'', ''downstream_id'', ''relationship'', ''pipeline_run_id'']
           (Some [''upstream_id'', ''downstream_id'', ''relationship''])]),
      (''insert_quality_checks'',
        [Insert_Into (metadata_table ''data_quality'')
           [''entity_id'', ''run_id'', ''check_name'', ''status'', ''value'', ''threshold'', ''message''] None]),
      (''update_entity_quality_failed'',
        [Uses (metadata_table ''entities'') [''attributes'', ''updated_at'', ''id'']]),
      (''query_upstream'',
        [Uses (metadata_table ''entities'') [''id'', ''entity_type'', ''entity_key'', ''attributes''],
         Uses (metadata_table ''lineage'') [''relationship'', ''upstream_id'', ''downstream_id'']]),
      (''query_downstream'',
        [Uses (metadata_table ''entities'') [''id'', ''entity_type'', ''entity_key'', ''attributes'', ''tenant_id''],
         Uses (metadata_table ''lineage'') [''downstream_id'', ''upstream_id'']]),
      (''query_stale'',
        [Uses (metadata_table ''entities'') [''entity_key'', ''attributes'', ''schema_version_id'', ''entity_type'', ''tenant_id''],
         Uses (metadata_table ''schema_versions'') [''version_number'', ''embedding_model'', ''id'', ''tenant_id'', ''is_current'']]),
      (''query_provenance'',
        [Uses (metadata_table ''query_results'') [''rank'', ''score'', ''chunk_entity_id'', ''query_id''],
         Uses (metadata_table ''entities'') [''entity_key'', ''attributes'', ''id'', ''schema_version_id'', ''pipeline_run_id''],
         Uses (metadata_table ''lineage'') [''downstream_id'', ''relationship'', ''upstream_id''],
         Uses (metadata_table ''schema_versions'') [''embedding_model'', ''chunk_size'', ''id''],
         Uses (metadata_table ''pipeline_runs'') [''started_at'', ''id'']]),
      (''query_runs'',
        [Uses (metadata_table ''pipeline_runs'') [''id'', ''tenant_id'', ''pipeline_type'', ''connector_id'', ''status'',
           ''started_at'', ''finished_at'', ''entities_processed'', ''entities_failed'', ''bytes_processed'']]),
      (''create_schema_version'',
        [Uses (metadata_table ''schema_versions'') [''is_current'', ''tenant_id''],
         Insert_Into (metadata_table ''schema_versions'')
           [''tenant_id'', ''version_number'', ''chunk_size'', ''chunk_overlap'', ''chunking_strategy'', ''embedding_model'',
            ''embedding_dimension'', ''embedding_backend'', ''index_type'', ''is_current'', ''created_by''] None,
         Uses (metadata_table ''schema_versions'') [''id'', ''version_number'', ''embedding_model'', ''embedding_dimension'', ''is_current'']]),
      (''query_quality'',
        [Uses (metadata_table ''data_quality'') [''id'', ''entity_id'', ''check_name'', ''status'', ''value'', ''threshold'',
           ''message'', ''checked_at''],
         Uses (metadata_table ''entities'') [''entity_type'', ''entity_key'', ''id'', ''tenant_id'']])]"

definition quota_statements :: "(string \<times> sql_use list) list" where
  "quota_statements =
     [(''_SELECT_OVERRIDE'', [Uses (public_table ''quota_overrides'') [''override_value'', ''tenant_id'', ''metric'']]),
      (''_SELECT_TIER_LIMIT'',
        [Uses (public_table ''tenant_licenses'') [''tier_id'', ''tenant_id'', ''is_active''],
         Uses (public_table ''license_tiers'') (''tier_id'' # map snd metric_to_column)]),
      (''_INSERT_HISTORY'', [Insert_Into (public_table ''usage_history'') [''tenant_id'', ''metric'', ''value''] None])]"

definition listed_files :: sql_use where
  "listed_files = Uses (public_table ''source_file_status'')
     [''id'', ''connector_id'', ''file_path'', ''file_size_bytes'', ''content_type'', ''last_modified'', ''ingest_status'',
      ''error_message'', ''chunk_count'', ''indexed_at'', ''tenant_id'']"

definition workspace_statements :: "(string \<times> sql_use list) list" where
  "workspace_statements =
     [(''get_workspaces'',
        [Uses (public_table ''workspaces'') [''id'', ''tenant_id'', ''owner_id'', ''name'', ''description'', ''created_at'']]),
      (''create_workspace'',
        [Insert_Into (public_table ''workspaces'') [''id'', ''tenant_id'', ''owner_id'', ''name'', ''description''] None]),
      (''get_workspace'',
        [Uses (public_table ''workspaces'') [''id'', ''tenant_id'', ''owner_id'', ''name'', ''description'', ''created_at'']]),
      (''delete_workspace'', [Uses (public_table ''workspaces'') [''id'', ''tenant_id'']]),
      (''get_workspace_sources'',
        [Uses (public_table ''workspace_sources'') [''id'', ''workspace_id'', ''connector_id'', ''path_prefix'', ''added_at'']]),
      (''add_workspace_source'',
        [Insert_Into (public_table ''workspace_sources'') [''id'', ''workspace_id'', ''connector_id'', ''path_prefix''] None]),
      (''delete_workspace_source'', [Uses (public_table ''workspace_sources'') [''id'', ''workspace_id'']]),
      (''get_workspace_files'',
        [listed_files, Uses (public_table ''workspace_sources'') [''connector_id'', ''workspace_id'']])]"

lemma fits_beside:
  assumes "used_table u \<notin> set (occupied d rest)" and "fits c u"
  shows "fits (beside rest c) u"
  using assms by (simp add: fits_def find_table_beside)

definition migrated :: catalog where
  "migrated = created Postgresql (upgrade_0001 Postgresql @ upgrade_5001 Postgresql)"

lemma upgrades_from_empty:
  "run_ddl Postgresql (upgrade_0001 Postgresql @ upgrade_5001 Postgresql) empty_catalog = Inr migrated"
proof -
  have "is_ok (run_ddl Postgresql (upgrade_0001 Postgresql @ upgrade_5001 Postgresql) empty_catalog)" by code_simp
  then show ?thesis by (simp add: migrated_def created_def is_ok_def split: sum.splits)
qed

definition all_uses :: "sql_use list" where
  "all_uses = concat (map snd (lineage_statements @ quota_statements @ workspace_statements))"

definition mentioned_tables :: "qname list" where
  "mentioned_tables = concat (map (mentioned Postgresql) (upgrade_0001 Postgresql @ upgrade_5001 Postgresql))"

lemma statements_fit_migrated:
  "list_all (fits migrated) all_uses" "list_all (\<lambda>u. used_table u \<in> set mentioned_tables) all_uses"
  by code_simp+

text \<open>
  C25. After the two upgrades, on whatever database has room for their tables, every statement of the
  metadata service, of the quota service and of the workspace endpoints fits: the tables and columns
  it names exist, its conflict target is a declared key, and what it leaves out has a default or may
  be NULL.
\<close>

theorem statements_fit_schema:
  assumes "room_for Postgresql (upgrade_0001 Postgresql @ upgrade_5001 Postgresql) rest"
    and "run_ddl Postgresql (upgrade_0001 Postgresql @ upgrade_5001 Postgresql) rest = Inr c"
    and "(name, uses) \<in> set (lineage_statements @ quota_statements @ workspace_statements)"
  shows "list_all (fits c) uses"
proof -
  have "run_ddl Postgresql (upgrade_0001 Postgresql @ upgrade_5001 Postgresql) (beside rest empty_catalog) = Inr (beside rest migrated)"
    by (rule run_ddl_beside [OF _ upgrades_from_empty]) (use assms(1) in \<open>simp add: room_for_def\<close>)
  then have c: "c = beside rest migrated" using assms(2) by simp
  have "fits c u" if "u \<in> set all_uses" for u
  proof -
    have "used_table u \<in> set mentioned_tables" using statements_fit_migrated(2) that by (simp add: list_all_iff)
    then obtain op where "op \<in> set (upgrade_0001 Postgresql @ upgrade_5001 Postgresql)" "used_table u \<in> set (mentioned Postgresql op)"
      unfolding mentioned_tables_def by auto
    then have "used_table u \<notin> set (occupied Postgresql rest)"
      using assms(1) by (auto simp: room_for_def apart_def list_all_iff)
    then show ?thesis unfolding c by (rule fits_beside) (use statements_fit_migrated(1) that in \<open>simp add: list_all_iff\<close>)
  qed
  then show ?thesis using assms(3) by (force simp: list_all_iff all_uses_def)
qed

lemma statements_fit_schema_witness:
  "list_all (fits migrated)
     [Uses (public_table ''tenant_licenses'') [''tier_id'', ''tenant_id'', ''is_active''],
      Uses (public_table ''license_tiers'') (''tier_id'' # map snd metric_to_column)]"
  by (rule statements_fit_schema [where rest = empty_catalog and name = "''_SELECT_TIER_LIMIT''", OF _ upgrades_from_empty])
    (simp_all add: room_for_def apart_def occupied_def taken_def occupied_schemas_def empty_catalog_def quota_statements_def list_all_iff)

section \<open>The status of the source files\<close>

text \<open>The table of \<open>k8s/pipeline/db-init.yaml\<close>.\<close>

definition db_init_catalog :: catalog where
  "db_init_catalog = created Postgresql
     [Create_Table (public_table ''source_file_status'')
        [req ''connector_id'' (Varchar 256), req ''source_id'' (Varchar 256), opt ''event_id'' (Varchar 256),
         with_default (Text_Literal ''pending'') (req ''ingest_status'' (Varchar 64)), opt ''chunk_count'' Integer,
         opt ''error_message'' Text, with_default Now_Function (req ''created_at'' Timestamp_Tz),
         with_default Now_Function (req ''updated_at'' Timestamp_Tz)]
        [Primary_Key [''connector_id'', ''source_id'']]]"

definition connector_status_write :: "sql_use list" where
  "connector_status_write =
     [Insert_Into (public_table ''source_file_status'')
        [''connector_id'', ''source_id'', ''event_id'', ''ingest_status'', ''error_message'', ''created_at'', ''updated_at'']
        (Some [''connector_id'', ''source_id'']),
      Uses (public_table ''source_file_status'') [''event_id'', ''ingest_status'', ''error_message'', ''updated_at'']]"

definition processor_status_write :: "sql_use list" where
  "processor_status_write = [Uses (public_table ''source_file_status'') [''ingest_status'', ''source_id'']]"

definition worker_status_write :: "sql_use list" where
  "worker_status_write =
     [Uses (public_table ''source_file_status'') [''ingest_status'', ''chunk_count'', ''updated_at'', ''source_id'']]"

text \<open>
  The status table has two definitions, and neither serves the whole program: the one the
  migration creates serves the file listing of the management API and refuses every writer
  (connectors, document processor and embedding worker), the one of the deployment serves every
  writer and refuses the listing.
\<close>

theorem status_table_never_fits_all:
  "fits migrated listed_files
   \<and> list_all (\<lambda>write. \<not> list_all (fits migrated) write) [connector_status_write, processor_status_write, worker_status_write]
   \<and> list_all (list_all (fits db_init_catalog)) [connector_status_write, processor_status_write, worker_status_write]
   \<and> \<not> fits db_init_catalog listed_files"
proof -
  have "fits migrated listed_files"
    "list_all (\<lambda>write. \<not> list_all (fits migrated) write) [connector_status_write, processor_status_write, worker_status_write]"
    "list_all (list_all (fits db_init_catalog)) [connector_status_write, processor_status_write, worker_status_write]"
    "\<not> fits db_init_catalog listed_files"
    by code_simp+
  then show ?thesis by blast
qed

end
