(* ===== verification/Log_Context.thy ===== *)
theory Log_Context
  imports Http
begin

text \<open>
  What every request of the HTTP services passes through: the middleware that takes the tenant and
  the trace identifiers from the headers (\<open>services/bff/src/app.py\<close>, the same in
  \<open>services/rag-api/src/app.py\<close>), the logging context it binds (\<open>logging_config.py\<close>, the same in every
  service), and the bodies of the exception handlers of the management API. A logging context is the
  dictionary of structlog's context variables.
\<close>

section \<open>The logging context\<close>

type_synonym log_context = "json dict"

definition bind_request_context :: "string \<Rightarrow> string \<Rightarrow> string \<Rightarrow> log_context \<Rightarrow> log_context" where
  "bind_request_context tenant_id trace_id span_id ctx =
     dict_set ''span_id'' (JStr span_id) (dict_set ''trace_id'' (JStr trace_id) (dict_set ''tenant_id'' (JStr tenant_id) ctx))"

definition clear_request_context :: "log_context \<Rightarrow> log_context" where
  "clear_request_context ctx = []"

text \<open>\<open>merge_contextvars\<close>: the fields of the event take precedence.\<close>

definition merge_contextvars :: "log_context \<Rightarrow> json dict \<Rightarrow> json dict" where
  "merge_contextvars ctx event = fold (\<lambda>(k, v). dict_set k v) event ctx"

definition add_service :: "string \<Rightarrow> json dict \<Rightarrow> json dict" where
  "add_service service event =
     (case dict_get event ''service'' of None \<Rightarrow> dict_set ''service'' (JStr service) event | Some v \<Rightarrow> event)"

definition log_line :: "string \<Rightarrow> log_context \<Rightarrow> json dict \<Rightarrow> json dict" where
  "log_line service ctx event = add_service service (merge_contextvars ctx event)"

section \<open>The middleware\<close>

text \<open>\<open>header\<close> is the lookup in the request headers with the empty string as default.\<close>

definition trace_ids :: "string \<Rightarrow> string \<times> string" where
  "trace_ids traceparent =
     (case split_on (CHR ''-'') traceparent of
        [version, trace_id, span_id, flags] \<Rightarrow> (trace_id, span_id)
      | _ \<Rightarrow> ([], []))"

definition request_context_middleware :: "(string \<Rightarrow> string) \<Rightarrow> log_context \<Rightarrow> log_context" where
  "request_context_middleware header ctx =
     (let traceparent = header ''traceparent'';
          (trace_id, span_id) = (if traceparent \<noteq> [] then trace_ids traceparent else ([], []))
      in bind_request_context (header ''X-Tenant-ID'') trace_id span_id (clear_request_context ctx))"

section \<open>Exception handlers\<close>

text \<open>The detail of an \<open>HTTPException\<close> is a dictionary or is rendered with \<open>str\<close>.\<close>

definition http_exception_body :: "(json \<Rightarrow> string) \<Rightarrow> json \<Rightarrow> json \<Rightarrow> json" where
  "http_exception_body py_str detail request_id =
     (case detail of
        JObj d \<Rightarrow> JObj (dict_set ''request_id'' request_id d)
      | _ \<Rightarrow> JObj [(''error'', JStr ''HTTP_ERROR''), (''message'', JStr (py_str detail)), (''request_id'', request_id)])"

definition unhandled_exception_body :: "json \<Rightarrow> json" where
  "unhandled_exception_body request_id =
     JObj [(''error'', JStr ''INTERNAL_ERROR''), (''message'', JStr ''An unexpected error occurred''), (''request_id'', request_id)]"

section \<open>Properties\<close>

text \<open>A trace parent of four parts is taken apart; anything else yields empty identifiers.\<close>

lemma trace_ids_join:
  assumes "list_all (\<lambda>x. CHR ''-'' \<notin> set x) [version, trace_id, span_id, flags]"
  shows "trace_ids (join ''-'' [version, trace_id, span_id, flags]) = (trace_id, span_id)"
  using split_on_join [of "[version, trace_id, span_id, flags]" "CHR ''-''"] assms
  by (simp add: trace_ids_def list_all_iff)

lemma trace_ids_malformed: "length (split_on (CHR ''-'') s) \<noteq> 4 \<Longrightarrow> trace_ids s = ([], [])"
  by (auto simp: trace_ids_def split: list.split)

text \<open>The context of a request holds its own identifiers only, whatever the one before it bound.\<close>

lemma request_context_fresh:
  "request_context_middleware header ctx = request_context_middleware header ctx'"
  "map fst (request_context_middleware header ctx) = [''tenant_id'', ''trace_id'', ''span_id'']"
  by (simp_all add: request_context_middleware_def bind_request_context_def clear_request_context_def Let_def split: prod.split)

lemma merge_contextvars_get:
  "dict_get (merge_contextvars ctx event) k = (case dict_get (rev event) k of None \<Rightarrow> dict_get ctx k | Some v \<Rightarrow> Some v)"
proof (induction event arbitrary: ctx)
  case (Cons kv event)
  obtain k' v where "kv = (k', v)" by (rule prod.exhaust)
  then show ?case using Cons by (auto simp: merge_contextvars_def map_add_def split: option.split)
qed (simp add: merge_contextvars_def)

text \<open>A line logged while a request is served carries its tenant and the service, unless the event sets
  the fields itself.\<close>

lemma log_line_identified:
  assumes "''tenant_id'' \<notin> fst ` set event" and "''service'' \<notin> fst ` set event"
  shows "dict_get (log_line service (request_context_middleware header ctx) event) ''tenant_id'' = Some (JStr (header ''X-Tenant-ID''))
    \<and> dict_get (log_line service (request_context_middleware header ctx) event) ''service'' = Some (JStr service)"
proof -
  let ?c = "request_context_middleware header ctx"
  have "dict_get ?c ''tenant_id'' = Some (JStr (header ''X-Tenant-ID''))" "dict_get ?c ''service'' = None"
    by (cases "trace_ids (header ''traceparent'')";
        simp add: request_context_middleware_def bind_request_context_def clear_request_context_def Let_def)+
  moreover have "dict_get (rev event) ''tenant_id'' = None" "dict_get (rev event) ''service'' = None"
    using assms by (simp_all add: map_of_eq_None_iff)
  ultimately show ?thesis by (simp add: log_line_def add_service_def merge_contextvars_get)
qed

end
