(* ===== verification/Redelivery.thy ===== *)
theory Redelivery
  imports Pipeline
begin

text \<open>
  Kafka delivers at least once: what a second delivery of a document does to the collection of its
  tenant, and what a new version of the document does. The identifier of a document is taken from its
  source and its event, the identifiers of its chunks from the document and their position.
\<close>

definition doc_chunks :: "doc_env \<Rightarrow> raw_event \<Rightarrow> string \<Rightarrow> chunk list" where
  "doc_chunks env ev txt = chunk_text (de_chunker env) (de_enc env) (de_dec env) txt (make_doc_id env ev)"

text \<open>The chunk events of one handling of a document, with the fresh values of that handling.\<close>

definition doc_events :: "doc_env \<Rightarrow> raw_event \<Rightarrow> string \<Rightarrow> doc_fresh \<Rightarrow> chunk_event list" where
  "doc_events env ev txt f =
     map (chunk_event_of ev f (int (length (doc_chunks env ev txt)))) (doc_chunks env ev txt)"

lemma doc_chunk_ids:
  "ch \<in> set (doc_chunks env ev txt) \<Longrightarrow>
     ch_chunk_id ch = make_doc_id env ev @ '':'' @ show_int (ch_index ch) \<and> ch_doc_id ch = make_doc_id env ev"
  by (auto simp: doc_chunks_def chunk_text_def Let_def split: if_splits dest: chunk_loop_ids)

lemma doc_chunks_distinct: "distinct (map ch_chunk_id (doc_chunks env ev txt))"
  by (simp add: doc_chunks_def chunk_text_def Let_def chunk_loop_distinct)

lemma chunk_event_fields:
  "cv_tenant_id (chunk_event_of ev f n ch) = rv_tenant_id ev"
  "cv_chunk_id (chunk_event_of ev f n ch) = JStr (ch_chunk_id ch)"
  by (simp_all add: chunk_event_of_def)

lemma list_all2_right: "list_all2 P xs ys \<Longrightarrow> y \<in> set ys \<Longrightarrow> \<exists>x \<in> set xs. P x y"
  by (induction rule: list_all2_induct) auto

section \<open>What a committed batch of one tenant leaves\<close>

definition newest_row :: "string \<Rightarrow> row list \<Rightarrow> json \<Rightarrow> row option" where
  "newest_row t rows = map_of (rev (map (\<lambda>r. (rw_chunk_id r, r)) (tenant_rows t rows)))"

lemma row_of_tenant: "row_of (c, v) = Inr r \<Longrightarrow> rw_tenant_id r = cv_tenant_id c"
  by (auto simp: row_of_def split: option.splits json.splits)

lemma newest_row_of_tenant:
  assumes "traverse row_of (zip chunks vs) = Inr rows" and "length vs = length chunks"
    and tenant: "\<forall>c \<in> set chunks. cv_tenant_id c = JStr t"
  shows "newest_row t' rows k = Some r \<Longrightarrow> t' = t \<and> (\<exists>c v. c \<in> set chunks \<and> cv_chunk_id c = k \<and> row_of (c, v) = Inr r)"
    and "c \<in> set chunks \<Longrightarrow> \<exists>r. newest_row t rows (cv_chunk_id c) = Some r"
proof -
  have all: "list_all2 (\<lambda>x y. row_of x = Inr y) (zip chunks vs) rows" using assms(1) by (simp add: traverse_Inr_iff)
  show "t' = t \<and> (\<exists>c v. c \<in> set chunks \<and> cv_chunk_id c = k \<and> row_of (c, v) = Inr r)" if "newest_row t' rows k = Some r"
  proof -
    have r: "r \<in> set rows" "rw_chunk_id r = k" "rw_tenant_id r = JStr t'"
      using map_of_SomeD [OF that [unfolded newest_row_def]] by (auto simp: tenant_rows_def)
    obtain c v where "(c, v) \<in> set (zip chunks vs)" "row_of (c, v) = Inr r" using list_all2_right [OF all r(1)] by auto
    moreover from this(1) have "c \<in> set chunks" by (rule set_zip_leftD)
    ultimately show ?thesis using r(2,3) row_of_chunk_id [of c v r] row_of_tenant [of c v r] tenant by auto
  qed
  show "\<exists>r. newest_row t rows (cv_chunk_id c) = Some r" if c: "c \<in> set chunks"
  proof -
    obtain i where i: "i < length chunks" "c = chunks ! i" using c by (auto simp: in_set_conv_nth)
    have row: "row_of (c, vs ! i) = Inr (rows ! i)" and "rows ! i \<in> set rows"
      using list_all2_nthD [OF all, of i] list_all2_lengthD [OF all] assms(2) i by auto
    with row_of_chunk_id [OF row] row_of_tenant [OF row] tenant c
    have "cv_chunk_id c \<in> rw_chunk_id ` set (tenant_rows t rows)" by (auto simp: tenant_rows_def image_iff)
    then have "newest_row t rows (cv_chunk_id c) \<noteq> None" by (simp add: newest_row_def map_of_eq_None_iff image_image)
    then show ?thesis by simp
  qed
qed

definition one_vector_per_text :: "'w ew_api \<Rightarrow> bool" where
  "one_vector_per_text api \<longleftrightarrow>
     (\<forall>ts w vs w'. api (Embed_Batch ts) w = (Inr (Ew_Vectors vs), w') \<longrightarrow> length vs = length ts)"

text \<open>The rows a batch does not name stay; those of its tenant that it names come from it.\<close>

lemma committed_batch_of_tenant:
  assumes "milvus_world api stored committed"
    and "one_vector_per_text api"
    and "batch \<noteq> []" and tenant: "\<forall>c \<in> set (map snd batch). cv_tenant_id c = JStr t"
    and "process_batch api env f batch (cs, w) = (Inr (), (cs', w'))" and "committed w' \<noteq> committed w"
  shows "k \<in> cv_chunk_id ` set (map snd batch) \<Longrightarrow>
      \<exists>c v r. c \<in> set (map snd batch) \<and> cv_chunk_id c = k \<and> row_of (c, v) = Inr r
        \<and> get_row (stored w' (t @ ''_docs'')) k = Some r"
    and "t' \<noteq> t \<or> k \<notin> cv_chunk_id ` set (map snd batch) \<Longrightarrow>
      get_row (stored w' (t' @ ''_docs'')) k = get_row (stored w (t' @ ''_docs'')) k"
proof -
  have str: "\<forall>it \<in> set batch. \<exists>t. cv_tenant_id (snd it) = JStr t" using tenant by auto
  obtain vs rows w1 where e: "embed_with_retry api (map (cv_text \<circ> snd) batch) w = (Inr (Vectors vs), w1)"
    and rows: "traverse row_of (zip (map snd batch) vs) = Inr rows"
    and stored: "\<And>t k. get_row (stored w' (t @ ''_docs'')) k =
        (case newest_row t rows k of None \<Rightarrow> get_row (stored w (t @ ''_docs'')) k | Some r \<Rightarrow> Some r)"
    by (rule committed_batch_rows [OF assms(1,3) str assms(5,6), folded newest_row_def]) (rule that)
  have len: "length vs = length (map snd batch)" using embed_with_retry_length [OF _ e] assms(2) by (auto simp: one_vector_per_text_def)
  note newest = newest_row_of_tenant [OF rows len tenant]
  show "\<exists>c v r. c \<in> set (map snd batch) \<and> cv_chunk_id c = k \<and> row_of (c, v) = Inr r
      \<and> get_row (stored w' (t @ ''_docs'')) k = Some r" if k: "k \<in> cv_chunk_id ` set (map snd batch)"
  proof -
    obtain r where r: "newest_row t rows k = Some r" using k newest(2) by (auto simp del: set_map)
    then show ?thesis using newest(1) [OF r] by (auto simp: stored simp del: set_map)
  qed
  show "get_row (stored w' (t' @ ''_docs'')) k = get_row (stored w (t' @ ''_docs'')) k"
    if "t' \<noteq> t \<or> k \<notin> cv_chunk_id ` set (map snd batch)"
    using that newest(1) [of t' k] by (auto simp: stored simp del: set_map split: option.split)
qed

section \<open>The same event again\<close>

text \<open>Everything but the vector and the time of the chunk.\<close>

definition same_content :: "row \<Rightarrow> row \<Rightarrow> bool" where
  "same_content r r' \<longleftrightarrow> rw_chunk_id r = rw_chunk_id r' \<and> rw_doc_id r = rw_doc_id r' \<and> rw_source_type r = rw_source_type r'
     \<and> rw_text r = rw_text r' \<and> rw_metadata r = rw_metadata r' \<and> rw_tenant_id r = rw_tenant_id r'"

lemma same_content_of_chunk:
  "row_of (chunk_event_of ev f n ch, v) = Inr r \<Longrightarrow> row_of (chunk_event_of ev f' n ch, v') = Inr r' \<Longrightarrow> same_content r r'"
  by (auto simp: row_of_def chunk_event_of_def same_content_def split: option.splits json.splits)

lemma doc_events_id:
  assumes "c \<in> set (doc_events env ev txt f)"
  obtains ch where "ch \<in> set (doc_chunks env ev txt)" "c = chunk_event_of ev f (int (length (doc_chunks env ev txt))) ch"
    "cv_chunk_id c = JStr (ch_chunk_id ch)"
  using assms by (auto simp: doc_events_def chunk_event_fields)

lemma doc_chunk_unique:
  "ch \<in> set (doc_chunks env ev txt) \<Longrightarrow> ch' \<in> set (doc_chunks env ev txt) \<Longrightarrow> ch_chunk_id ch = ch_chunk_id ch' \<Longrightarrow> ch = ch'"
  using doc_chunks_distinct [of env ev "txt"] by (auto simp: distinct_map dest: inj_onD)

lemma doc_events_tenant: "rv_tenant_id ev = JStr t \<Longrightarrow> c \<in> set (doc_events env ev txt f) \<Longrightarrow> cv_tenant_id c = JStr t"
  by (auto simp: doc_events_def chunk_event_fields)

text \<open>
  C11. Delivering a document again changes nothing a query sees. Once the chunks of an event have been
  committed by the embedding worker, any batch made of the chunks of a second handling of the same
  event (redelivered because its offset was not committed, or dead-lettered and replayed) leaves the
  collections of every tenant with the same keys and the same contents; only vectors and times are new.
\<close>

theorem redelivery_is_idempotent:
  assumes "milvus_world api stored committed"
    and "one_vector_per_text api"
    and "rv_tenant_id ev = JStr t"
    and "batch \<noteq> []" and "map snd batch = doc_events env ev txt df"
    and "process_batch api wenv f batch (cs, w) = (Inr (), (cs', w'))" and "committed w' \<noteq> committed w"
    and "again \<noteq> []" and "set (map snd again) \<subseteq> set (doc_events env ev txt df')"
    and "stored v = stored w'"
    and "process_batch api wenv f' again (cs2, v) = (Inr (), (cs2', v'))" and "committed v' \<noteq> committed v"
  shows "rel_option same_content (get_row (stored w' (t' @ ''_docs'')) k) (get_row (stored v' (t' @ ''_docs'')) k)"
proof (cases "t' = t \<and> k \<in> cv_chunk_id ` set (map snd again)")
  case False
  have tn: "\<forall>c \<in> set (map snd again). cv_tenant_id c = JStr t" using assms(9) doc_events_tenant [OF assms(3)] by blast
  have "get_row (stored v' (t' @ ''_docs'')) k = get_row (stored w' (t' @ ''_docs'')) k"
    using committed_batch_of_tenant(2) [OF assms(1,2,8) tn assms(11,12)] False assms(10) by auto
  then show ?thesis by (simp add: option.rel_refl same_content_def)
next
  case True
  have tn: "\<forall>c \<in> set (map snd again). cv_tenant_id c = JStr t" "\<forall>c \<in> set (map snd batch). cv_tenant_id c = JStr t"
    using assms(5,9) doc_events_tenant [OF assms(3)] by auto
  obtain c2 v2 r2 where two: "c2 \<in> set (map snd again)" "cv_chunk_id c2 = k" "row_of (c2, v2) = Inr r2"
      "get_row (stored v' (t @ ''_docs'')) k = Some r2"
    using committed_batch_of_tenant(1) [OF assms(1,2,8) tn(1) assms(11,12)] True by blast
  obtain ch where ch: "ch \<in> set (doc_chunks env ev txt)"
      "c2 = chunk_event_of ev df' (int (length (doc_chunks env ev txt))) ch" "k = JStr (ch_chunk_id ch)"
    using two(1,2) assms(9) doc_events_id by (metis subsetD)
  have "k \<in> cv_chunk_id ` set (map snd batch)"
    using ch(1,3) by (auto simp: assms(5) doc_events_def image_image chunk_event_fields)
  then obtain c1 v1 r1 where one: "c1 \<in> set (map snd batch)" "cv_chunk_id c1 = k" "row_of (c1, v1) = Inr r1"
      "get_row (stored w' (t @ ''_docs'')) k = Some r1"
    using committed_batch_of_tenant(1) [OF assms(1,2,4) tn(2) assms(6,7)] by blast
  obtain ch1 where ch1: "ch1 \<in> set (doc_chunks env ev txt)"
      "c1 = chunk_event_of ev df (int (length (doc_chunks env ev txt))) ch1" "k = JStr (ch_chunk_id ch1)"
    using one(1,2) assms(5) doc_events_id by metis
  have "ch1 = ch" by (rule doc_chunk_unique [OF ch1(1) ch(1)]) (use ch(3) ch1(3) in simp)
  then show ?thesis
    using True one(3,4) two(3,4) ch(2) ch1(2) same_content_of_chunk by simp
qed

lemma sample_doc_events:
  "doc_events sample_doc_env sample_event ''hello'' f =
     map (chunk_event_of sample_event f 2)
       [new_chunk ''x'' 0 (make_doc_id sample_doc_env sample_event) 3, new_chunk ''x'' 1 (make_doc_id sample_doc_env sample_event) 3]"
  by (simp add: doc_events_def doc_chunks_def sample_chunks)

definition sample_batch :: "doc_fresh \<Rightarrow> ew_item list" where
  "sample_batch f = zip [small_meta 1, small_meta 2] (doc_events sample_doc_env sample_event ''hello'' f)"

lemma sample_batch_run:
  "\<exists>cs' s'. process_batch small_api small_env small_fresh (sample_batch f) ([], (s, k, d)) =
     (Inr (), (cs', (s', k @ [small_meta 1, small_meta 2], d)))"
  unfolding sample_batch_def sample_doc_events
  by (simp add: process_batch_def sample_event_def chunk_event_of_def new_chunk_def
      embed_with_retry_def embed_attempt_def row_of_def
      group_by_tenant_def hashable_def add_to_group_def upsert_def ensure_collection_by_name_def want_flag_def remember_def
      finish_batch_def announce_batch_def publish_usage_event_def publish_embedding_event_def need_str_def
      set_source_file_status_def tenant_sizes_def small_env_def prog_defs with_state_def collection_of_def Let_def)

lemma sample_tenant: "rv_tenant_id sample_event = JStr ''acme''"
  by (simp add: sample_event_def)

theorem redelivery_is_idempotent_witness:
  "\<exists>cs' w' cs2' v'. process_batch small_api small_env small_fresh (sample_batch sample_fresh) ([], ((\<lambda>_. Map.empty), [], [])) = (Inr (), (cs', w'))
     \<and> process_batch small_api small_env small_fresh (sample_batch (sample_fresh\<lparr>df_now := 2\<rparr>)) ([], w') = (Inr (), (cs2', v'))
     \<and> (\<forall>k. rel_option same_content (get_row (fst w' (''acme'' @ ''_docs'')) k) (get_row (fst v' (''acme'' @ ''_docs'')) k))"
proof -
  obtain cs' s1 where one: "process_batch small_api small_env small_fresh (sample_batch sample_fresh) ([], ((\<lambda>_. Map.empty), [], []))
      = (Inr (), (cs', (s1, [] @ [small_meta 1, small_meta 2], [])))" using sample_batch_run by blast
  obtain cs2' s2 where two: "process_batch small_api small_env small_fresh (sample_batch (sample_fresh\<lparr>df_now := 2\<rparr>))
      ([], (s1, [] @ [small_meta 1, small_meta 2], [])) = (Inr (), (cs2', (s2, ([] @ [small_meta 1, small_meta 2]) @ [small_meta 1, small_meta 2], [])))"
    using sample_batch_run by blast
  have events: "map snd (sample_batch f) = doc_events sample_doc_env sample_event ''hello'' f" "sample_batch f \<noteq> []" for f
    by (simp_all add: sample_batch_def sample_doc_events)
  have "rel_option same_content (get_row (fst (s1, [] @ [small_meta 1, small_meta 2], []::kmsg list) (''acme'' @ ''_docs'')) k)
      (get_row (fst (s2, ([] @ [small_meta 1, small_meta 2]) @ [small_meta 1, small_meta 2], []::kmsg list) (''acme'' @ ''_docs'')) k)" for k
    by (rule redelivery_is_idempotent [where df' = "sample_fresh\<lparr>df_now := 2\<rparr>",
          OF small_milvus_world _ sample_tenant events(2,1) one _ events(2) _ _ two])
      (simp_all add: events one_vector_per_text_def)
  then show ?thesis using one two by auto
qed

section \<open>A new version\<close>

text \<open>
  A changed document arrives under a new event, hence, unless the hash collides, under a new document
  identifier: what its chunks are committed as leaves every chunk of the old version in the collection,
  where queries go on finding it. Nothing in the services deletes rows.
\<close>

lemma new_version_keeps_old_chunks:
  assumes "milvus_world api stored committed" and "one_vector_per_text api"
    and "rv_tenant_id ev' = JStr t" and "make_doc_id env ev' \<noteq> make_doc_id env ev"
    and "batch \<noteq> []" and "set (map snd batch) \<subseteq> set (doc_events env ev' txt' df)"
    and "process_batch api wenv f batch (cs, w) = (Inr (), (cs', w'))" and "committed w' \<noteq> committed w"
    and "ch \<in> set (doc_chunks env ev txt)"
  shows "get_row (stored w' (t' @ ''_docs'')) (JStr (ch_chunk_id ch)) = get_row (stored w (t' @ ''_docs'')) (JStr (ch_chunk_id ch))"
proof -
  have tn: "\<forall>c \<in> set (map snd batch). cv_tenant_id c = JStr t" using assms(6) doc_events_tenant [OF assms(3)] by blast
  have "JStr (ch_chunk_id ch) \<notin> cv_chunk_id ` set (map snd batch)"
  proof
    assume "JStr (ch_chunk_id ch) \<in> cv_chunk_id ` set (map snd batch)"
    then obtain ch' where "ch' \<in> set (doc_chunks env ev' txt')" "ch_chunk_id ch' = ch_chunk_id ch"
      using assms(6) by (auto elim!: doc_events_id simp del: set_map)
    then have "make_doc_id env ev' @ '':'' @ show_int (ch_index ch') = make_doc_id env ev @ '':'' @ show_int (ch_index ch)"
      using doc_chunk_ids [OF assms(9)] doc_chunk_ids [of ch' env ev' txt'] by simp
    then show False using assms(4) unfolding chunk_id_inj by blast
  qed
  then show ?thesis using committed_batch_of_tenant(2) [OF assms(1,2,5) tn assms(7,8)] by blast
qed

end
