(* ===== verification/Isolation.thy ===== *)
theory Isolation
  imports Redelivery
begin

text \<open>
  Tenant isolation from the chunk topic to the answer: the embedding worker and the retrieval API on
  one vector store and one cache, taking turns in any order. What holds of every state is that each
  row lies in the collection of its tenant and each readable cache entry holds results of the tenant of
  its key; so every answered result belongs to the tenant that asked.
\<close>

section \<open>Rows and results of a tenant\<close>

definition of_tenant :: "string \<Rightarrow> (string \<times> json) list \<Rightarrow> bool" where
  "of_tenant t md \<longleftrightarrow> map_of md ''tenant_id'' = Some (JStr t)"

definition own_result :: "string \<Rightarrow> query_result \<Rightarrow> bool" where
  "own_result t r \<longleftrightarrow> of_tenant t (qr_metadata r)"

definition at_home :: "string \<Rightarrow> row \<Rightarrow> bool" where
  "at_home c row \<longleftrightarrow> (\<exists>t md. rw_tenant_id row = JStr t \<and> c = t @ ''_docs'' \<and> rw_metadata row = JObj md \<and> of_tenant t md)"

definition rows_at_home :: "(string \<Rightarrow> row_store) \<Rightarrow> bool" where
  "rows_at_home st \<longleftrightarrow> (\<forall>c k row. st c k = Some row \<longrightarrow> at_home c row)"

definition own_entries :: "rag_env \<Rightarrow> (string \<Rightarrow> string option) \<Rightarrow> bool" where
  "own_entries env e \<longleftrightarrow>
     (\<forall>t q n sf raw j rid resp. e (make_cache_key env q n sf (t @ ''_docs'')) = Some raw \<longrightarrow> re_loads env raw = Some j \<longrightarrow>
        response_of_cache j rid = Inr resp \<longrightarrow> list_all (own_result t) (qp_results resp))"

text \<open>Entries may only disappear (they expire).\<close>

definition expires_to :: "(string \<Rightarrow> string option) \<Rightarrow> (string \<Rightarrow> string option) \<Rightarrow> bool" where
  "expires_to e e' \<longleftrightarrow> (\<forall>k. e' k = e k \<or> e' k = None)"

lemma own_entries_expire: "own_entries env e \<Longrightarrow> expires_to e e' \<Longrightarrow> own_entries env e'"
  unfolding own_entries_def expires_to_def by (metis option.distinct(1))

section \<open>The contracts\<close>

text \<open>
  The worker's calls: an upsert, whether it returns or fails half-way, leaves each key as it was or with
  one of its rows, in its collection; no other call touches rows, and none writes the cache.
\<close>

definition worker_world :: "'w ew_api \<Rightarrow> ('w \<Rightarrow> string \<Rightarrow> row_store) \<Rightarrow> ('w \<Rightarrow> string \<Rightarrow> string option) \<Rightarrow> bool" where
  "worker_world api stored entry \<longleftrightarrow>
     (\<forall>c rs w r w'. api (Upsert_Rows c rs) w = (r, w') \<longrightarrow>
        (\<forall>c' k. stored w' c' k = stored w c' k \<or> (c' = c \<and> (\<exists>row \<in> set rs. stored w' c' k = Some row))))
   \<and> (\<forall>cmd w r w'. \<not> is_upsert cmd \<longrightarrow> api cmd w = (r, w') \<longrightarrow> stored w' = stored w)
   \<and> (\<forall>cmd w r w'. api cmd w = (r, w') \<longrightarrow> expires_to (entry w) (entry w'))"

text \<open>
  The calls of the retrieval API: no call writes rows; a search returns entities of rows of its
  collection; a read of the cache returns the entry, and a write sets it (or not) and no other.
\<close>

definition retrieval_world :: "'w rag_api \<Rightarrow> ('w \<Rightarrow> string \<Rightarrow> row_store) \<Rightarrow> ('w \<Rightarrow> string \<Rightarrow> string option) \<Rightarrow> bool" where
  "retrieval_world api stored entry \<longleftrightarrow>
     (\<forall>cmd w r w'. api cmd w = (r, w') \<longrightarrow> stored w' = stored w)
   \<and> (\<forall>c v n ex w hs w' h. api (Milvus_Search c v n ex) w = (Inr (R_Hits hs), w') \<longrightarrow> h \<in> set hs \<longrightarrow>
        (\<exists>k row d. stored w c k = Some row \<and> h = hit_of d row))
   \<and> (\<forall>k raw w w'. api (Cache_Get k) w = (Inr (R_Text (Some raw)), w') \<longrightarrow> entry w k = Some raw)
   \<and> (\<forall>k ttl s w r w'. api (Cache_Setex k ttl s) w = (r, w') \<longrightarrow>
        expires_to (entry w) (entry w') \<or> expires_to ((entry w)(k := Some s)) (entry w'))
   \<and> (\<forall>cmd w r w'. (\<forall>k ttl s. cmd \<noteq> Cache_Setex k ttl s) \<longrightarrow> api cmd w = (r, w') \<longrightarrow> expires_to (entry w) (entry w'))"

text \<open>Decoding what was encoded for the cache yields no result that was not in it.\<close>

definition cache_decodes :: "rag_env \<Rightarrow> bool" where
  "cache_decodes env \<longleftrightarrow>
     (\<forall>rs j rid resp. re_loads env (dumps (re_repr env) (JList (map result_json rs))) = Some j \<longrightarrow>
        response_of_cache j rid = Inr resp \<longrightarrow> set (qp_results resp) \<subseteq> set rs)"

definition isolated :: "rag_env \<Rightarrow> ('w \<Rightarrow> string \<Rightarrow> row_store) \<Rightarrow> ('w \<Rightarrow> string \<Rightarrow> string option) \<Rightarrow> 'w \<Rightarrow> bool" where
  "isolated env stored entry w \<longleftrightarrow> rows_at_home (stored w) \<and> own_entries env (entry w)"

section \<open>The worker\<close>

definition string_tenant :: "json \<Rightarrow> bool" where
  "string_tenant j = (case j of JStr _ \<Rightarrow> True | _ \<Rightarrow> False)"

definition poll_ok :: "ew_fresh \<Rightarrow> ew_poll \<Rightarrow> bool" where
  "poll_ok f p = (case p of Ew_Polled mt payload \<Rightarrow> (case decode_chunk f payload of Inl _ \<Rightarrow> True | Inr c \<Rightarrow> string_tenant (cv_tenant_id c))
     | _ \<Rightarrow> True)"

lemma collect_batch_tenants:
  "list_all (poll_ok f) ps \<Longrightarrow> list_all (\<lambda>it. string_tenant (cv_tenant_id (snd it))) batch \<Longrightarrow>
     list_all (\<lambda>it. string_tenant (cv_tenant_id (snd it))) (collect_batch n f batch ps)"
  by (induction ps arbitrary: batch) (auto simp: poll_ok_def split: ew_poll.splits sum.splits)

lemma worker_keeps:
  assumes "worker_world api stored entry"
  shows "\<not> is_upsert cmd \<Longrightarrow> keeps (isolated env stored entry) (api cmd)"
    and "\<forall>row \<in> set rs. at_home c row \<Longrightarrow> keeps (isolated env stored entry) (api (Upsert_Rows c rs))"
proof -
  have e: "own_entries env (entry w) \<Longrightarrow> api cmd w = (r, w') \<Longrightarrow> own_entries env (entry w')" for cmd w r w'
    using assms own_entries_expire unfolding worker_world_def by blast
  show "\<not> is_upsert cmd \<Longrightarrow> keeps (isolated env stored entry) (api cmd)"
    using assms e by (intro keepsI) (auto simp: isolated_def worker_world_def)
  assume home: "\<forall>row \<in> set rs. at_home c row"
  show "keeps (isolated env stored entry) (api (Upsert_Rows c rs))"
  proof (rule keepsI)
    fix w r w' assume I: "isolated env stored entry w" and run: "api (Upsert_Rows c rs) w = (r, w')"
    have "at_home c' row" if "stored w' c' k = Some row" for c' k row
    proof -
      have "stored w' c' k = stored w c' k \<or> (c' = c \<and> (\<exists>row \<in> set rs. stored w' c' k = Some row))"
        using assms run unfolding worker_world_def by blast
      then show ?thesis using that home I by (auto simp: isolated_def rows_at_home_def)
    qed
    then show "isolated env stored entry w'" using e [OF _ run] I by (auto simp: isolated_def rows_at_home_def)
  qed
qed

lemma row_of_home: "row_of (c, v) = Inr r \<Longrightarrow> string_tenant (cv_tenant_id c) \<Longrightarrow> at_home (py_str rp (rw_tenant_id r) @ ''_docs'') r"
  by (auto simp: row_of_def string_tenant_def at_home_def of_tenant_def split: option.splits json.splits)

lemma keeps_lift_bind: "(\<And>x. r = Inr x \<Longrightarrow> keeps I (f x)) \<Longrightarrow> keeps I (bindE (lift_res r) f)"
  by (cases r) (simp_all add: bindE_lift_Inr bindE_lift_Inl keeps_ret)

lemma group_members:
  assumes "(t, rs) \<in> set (fold add_to_group rows [])" and "r \<in> set rs"
  shows "r \<in> set rows \<and> rw_tenant_id r = t"
proof -
  have "distinct (map fst (fold add_to_group rows []))" by (rule distinct_group) simp
  then have "map_of (fold add_to_group rows []) t = Some rs" using assms(1) by simp
  then have "rs = filter (\<lambda>r. rw_tenant_id r = t) rows" by (simp add: map_of_group split: if_splits)
  then show ?thesis using assms(2) by auto
qed

lemma keeps_upsert_homed:
  assumes "worker_world api stored entry" and "\<forall>row \<in> set rs. at_home (collection_of wenv t) row"
  shows "keeps (\<lambda>cw. isolated env stored entry (snd cw)) (upsert api wenv rs (Some (collection_of wenv t)))"
proof -
  note k = worker_keeps [OF assms(1)]
  have "collection_of wenv t \<noteq> []" by (simp add: collection_of_def)
  then show ?thesis
    unfolding upsert_def Let_def
    by (auto intro!: keeps_intros keeps_ensure k assms(2) keeps_with_state [where I = "isolated env stored entry"])
qed

lemma keeps_upsert_groups_homed:
  assumes "worker_world api stored entry"
  shows "\<forall>(t, rs) \<in> set gs. \<forall>row \<in> set rs. at_home (collection_of wenv t) row \<Longrightarrow>
    keeps (\<lambda>cw. isolated env stored entry (snd cw)) (upsert_groups api wenv gs)"
proof (induction gs)
  case (Cons g gs)
  obtain t rs where g: "g = (t, rs)" by (rule prod.exhaust)
  have "keeps (\<lambda>cw. isolated env stored entry (snd cw)) (upsert api wenv rs (Some (collection_of wenv t)))"
    by (rule keeps_upsert_homed [OF assms]) (use Cons.prems g in auto)
  then show ?case using Cons g by (auto intro!: keeps_intros split: option.split)
qed (simp add: keeps_intros)

lemma keeps_process_batch:
  assumes w: "worker_world api stored entry" and "list_all (\<lambda>it. string_tenant (cv_tenant_id (snd it))) batch"
  shows "keeps (\<lambda>cw. isolated env stored entry (snd cw)) (process_batch api wenv f batch)"
proof -
  note k = worker_keeps(1) [OF w]
  let ?I = "isolated env stored entry"
  have e: "keeps ?I (embed_with_retry api ts)" for ts by (intro keeps_embed k) simp_all
  have d: "keeps ?I (eachE (send_to_dlq api wenv f reason detail) batch)" for reason detail
    by (intro keeps_intros keeps_send_to_dlq k) simp_all
  have fin: "keeps ?I (finish_batch api wenv f batch vs)" for vs
    unfolding finish_batch_def by (intro keeps_intros keeps_announce k) simp_all
  have home: "at_home (collection_of wenv t) r"
    if rows: "traverse row_of (zip (map snd batch) vs) = Inr rows" and gs: "group_by_tenant rows = Inr gs"
      and m: "(t, rs) \<in> set gs" "r \<in> set rs" for vs rows gs t rs r
  proof -
    from m have r: "r \<in> set rows" "rw_tenant_id r = t"
      using group_members gs by (auto simp: group_by_tenant_def split: if_splits)
    then obtain c v where "(c, v) \<in> set (zip (map snd batch) vs)" "row_of (c, v) = Inr r"
      using list_all2_right [OF rows [unfolded traverse_Inr_iff] r(1)] by auto
    moreover from set_zip_leftD [OF this(1)] have "string_tenant (cv_tenant_id c)" using assms(2) by (auto simp: list_all_iff)
    ultimately have "at_home (py_str (ee_repr wenv) (rw_tenant_id r) @ ''_docs'') r" by (blast intro: row_of_home)
    then show "at_home (collection_of wenv t) r" using r(2) by (simp add: collection_of_def)
  qed
  show ?thesis
    unfolding process_batch_def
    by (auto intro!: keeps_intros keeps_lift_bind keeps_upsert_groups_homed [OF w] e d fin intro: home
        split: embed_result.split option.split)
qed

lemma keeps_run_worker:
  assumes w: "worker_world api stored entry" and "list_all (\<lambda>(f, polls). list_all (poll_ok f) polls) rounds"
  shows "keeps (\<lambda>cw. isolated env stored entry (snd cw)) (run_worker api wenv rounds)"
proof -
  have "keeps (\<lambda>cw. isolated env stored entry (snd cw)) (process_batch api wenv f (collect_batch (ee_batch_size wenv) f [] polls))"
    if "(f, polls) \<in> set rounds" for f polls
  proof (rule keeps_process_batch [OF w], rule collect_batch_tenants)
    show "list_all (poll_ok f) polls" using assms(2) that by (auto simp: list_all_iff)
  qed simp
  then show ?thesis
    unfolding run_worker_def Let_def by (intro keeps_eachE) (auto simp: keeps_ret split: prod.split)
qed

section \<open>The retrieval\<close>

definition own_hit :: "string \<Rightarrow> search_result \<Rightarrow> bool" where
  "own_hit t h \<longleftrightarrow> (\<exists>md. sr_metadata h = JObj md \<and> of_tenant t md)"

lemma retrieval_worldD:
  assumes "retrieval_world api stored entry"
  shows "api cmd w = (r, w') \<Longrightarrow> stored w' = stored w"
    and "api (Milvus_Search c v n ex) w = (Inr (R_Hits hs), w') \<Longrightarrow> h \<in> set hs \<Longrightarrow> \<exists>k row d. stored w c k = Some row \<and> h = hit_of d row"
    and "api (Cache_Get k) w = (Inr (R_Text (Some raw)), w') \<Longrightarrow> entry w k = Some raw"
    and "api (Cache_Setex k ttl s) w = (r, w') \<Longrightarrow>
           expires_to (entry w) (entry w') \<or> expires_to ((entry w)(k := Some s)) (entry w')"
    and "\<forall>k ttl s. cmd \<noteq> Cache_Setex k ttl s \<Longrightarrow> api cmd w = (r, w') \<Longrightarrow> expires_to (entry w) (entry w')"
  using assms unfolding retrieval_world_def by - (elim conjE, metis)+

lemma retrieval_keeps:
  assumes "retrieval_world api stored entry"
  shows "\<forall>k ttl s. cmd \<noteq> Cache_Setex k ttl s \<Longrightarrow> keeps (isolated env stored entry) (api cmd)"
  using retrieval_worldD(1,5) [OF assms] own_entries_expire
  by (intro keepsI) (metis isolated_def)

lemma hit_of_home: "at_home (t @ ''_docs'') row \<Longrightarrow> own_hit t (search_result_of (hit_of d row))"
  by (auto simp: at_home_def own_hit_def of_tenant_def hit_of_def search_result_of_def obj_get_def get_or_def Let_def)

text \<open>The search in the collection of a tenant finds rows of the tenant.\<close>

lemma search_own:
  assumes "retrieval_world api stored entry" and "isolated env stored entry w"
    and "search api (t @ ''_docs'') v n sf w = (r, w')"
  shows "isolated env stored entry w' \<and> (case r of Inl _ \<Rightarrow> True | Inr hs \<Rightarrow> list_all (own_hit t) hs)"
proof -
  let ?I = "isolated env stored entry"
  note k = retrieval_keeps [OF assms(1), where env = env]
  have search: "wp (api (Milvus_Search (t @ ''_docs'') v n (filter_expr sf)))
      (\<lambda>x w'. ?I w' \<and> (case x of R_Hits hs \<Rightarrow> list_all (own_hit t) (map search_result_of hs) | _ \<Rightarrow> True)) (\<lambda>_. ?I) w" if "?I w" for w
  proof -
    obtain r w' where run: "api (Milvus_Search (t @ ''_docs'') v n (filter_expr sf)) w = (r, w')" by (rule prod.exhaust)
    have "?I w'" using keepsD [OF k that run] by simp
    moreover have "own_hit t (search_result_of h)" if hs: "r = Inr (R_Hits hs)" and "h \<in> set hs" for hs h
    proof -
      obtain k row d where "stored w (t @ ''_docs'') k = Some row" "h = hit_of d row"
        using retrieval_worldD(2) [OF assms(1) run [unfolded hs] \<open>h \<in> set hs\<close>] by blast
      then show ?thesis using \<open>?I w\<close> hit_of_home by (auto simp: isolated_def rows_at_home_def)
    qed
    ultimately show ?thesis using run by (auto simp: wp_def list_all_iff split: sum.split rag_reply.split)
  qed
  have "wp (search api (t @ ''_docs'') v n sf) (\<lambda>hs w'. ?I w' \<and> list_all (own_hit t) hs) (\<lambda>_. ?I) w"
    unfolding search_def wp_simps
    apply (rule wp_of_keeps [OF k assms(2)])
      apply simp
     apply (auto simp: want_bool_def wp_simps split: rag_reply.split)
    apply (rule wp_of_keeps [OF k], simp_all add: wp_simps)
    apply (rule wp_mono [OF search], assumption)
     apply (auto simp: want_hits_def wp_simps split: rag_reply.split rag_reply.split_asm)
    done
  then show ?thesis using assms(3) by (auto simp: wp_def split: sum.splits)
qed


lemma guarded_search_own:
  assumes "retrieval_world api stored entry" and "isolated env stored entry w"
  shows "wp (guarded_search api (t @ ''_docs'') v rq cf)
    (\<lambda>hs bw. isolated env stored entry (snd bw) \<and> list_all (own_hit t) hs) (\<lambda>_ bw. isolated env stored entry (snd bw)) (b, w)"
proof -
  let ?search = "search api (t @ ''_docs'') v (rq_top_k rq) (rq_source_filter rq)"
  let ?f = "\<lambda>w. case ?search w of (Inl e, w') \<Rightarrow> (Inl (Call_Raised e), w') | (Inr hs, w') \<Rightarrow> (Inr hs, w')"
  obtain r b' w' where c: "call (cf_now cf) (cf_later cf) ?f (b, w) = (r, (b', w'))" by (rule triple_cases)
  have s: "isolated env stored entry w2 \<and> (case x of Inl _ \<Rightarrow> True | Inr hs \<Rightarrow> list_all (own_hit t) hs)" if run: "?f w = (x, w2)" for x w2
  proof -
    obtain y where "?search w = (y, w2)" using run by (auto split: prod.splits sum.splits)
    with search_own [OF assms this] run show ?thesis by (auto split: sum.splits)
  qed
  show ?thesis
    using c
  proof (cases rule: call_cases)
    case refused
    then show ?thesis using c assms(2) by (auto simp: wp_def guarded_search_def)
  next
    case (returned x)
    then show ?thesis using c s [OF returned(2)] by (auto simp: wp_def guarded_search_def)
  next
    case passed
    then show ?thesis using c s [OF passed(2)] by (auto simp: wp_def guarded_search_def)
  next
    case (failed e)
    then show ?thesis using c s [OF failed(2)] by (auto simp: wp_def guarded_search_def)
  qed
qed

lemma query_result_own: "query_result_of h = Inr r \<Longrightarrow> own_hit t h \<Longrightarrow> own_result t r"
  by (auto simp: query_result_of_def own_hit_def own_result_def split: json.splits)

lemma select_results_own:
  assumes "select_results rq hits = Inr rs" and "list_all (own_hit t) hits"
  shows "list_all (own_result t) rs"
proof -
  have "own_result t r" if mem: "r \<in> set rs" for r
  proof -
    obtain h where h: "h \<in> set (py_slice hits 0 (rq_top_k rq))" "query_result_of h = Inr r"
      using list_all2_right [OF assms(1) [unfolded select_results_def traverse_Inr_iff] mem] by auto
    have "h \<in> set hits" using h(1) by (auto simp: py_slice_def Let_def dest: in_set_dropD in_set_takeD)
    then show ?thesis using query_result_own [OF h(2)] assms(2) by (auto simp: list_all_iff)
  qed
  then show ?thesis by (simp add: list_all_iff)
qed

text \<open>Filling the cache with own results keeps every entry its tenant's.\<close>

lemma store_own:
  assumes "own_entries env e" and "inj (re_sha env)" and "cache_decodes env" and "list_all (own_result t) rs"
  shows "own_entries env (e(make_cache_key env q n sf (t @ ''_docs'') := Some (dumps (re_repr env) (JList (map result_json rs)))))"
  unfolding own_entries_def
proof (intro allI impI)
  fix t' q' n' sf' raw j rid resp
  assume g: "(e(make_cache_key env q n sf (t @ ''_docs'') := Some (dumps (re_repr env) (JList (map result_json rs)))))
      (make_cache_key env q' n' sf' (t' @ ''_docs'')) = Some raw"
    and j: "re_loads env raw = Some j" and r: "response_of_cache j rid = Inr resp"
  show "list_all (own_result t') (qp_results resp)"
  proof (cases "make_cache_key env q' n' sf' (t' @ ''_docs'') = make_cache_key env q n sf (t @ ''_docs'')")
    case True
    then have "t' = t" using make_cache_key_inj [OF assms(2)] by auto
    moreover have "set (qp_results resp) \<subseteq> set rs" using assms(3) g j r True unfolding cache_decodes_def by auto
    ultimately show ?thesis using assms(4) by (auto simp: list_all_iff)
  next
    case False
    then have "e (make_cache_key env q' n' sf' (t' @ ''_docs'')) = Some raw" using g by simp
    then show ?thesis using assms(1) j r unfolding own_entries_def by blast
  qed
qed

lemma keeps_store_cache_own:
  assumes w: "retrieval_world api stored entry" and "inj (re_sha env)" and "cache_decodes env" and "list_all (own_result t) rs"
  shows "keeps (isolated env stored entry) (store_cache api env (make_cache_key env q n sf (t @ ''_docs'')) rs)"
proof -
  let ?k = "make_cache_key env q n sf (t @ ''_docs'')" and ?v = "dumps (re_repr env) (JList (map result_json rs))"
  have "keeps (isolated env stored entry) (api (Cache_Setex ?k (re_ttl env) ?v))"
  proof (rule keepsI)
    fix x r x' assume I: "isolated env stored entry x" and run: "api (Cache_Setex ?k (re_ttl env) ?v) x = (r, x')"
    from I have "own_entries env (entry x)" by (simp add: isolated_def)
    with store_own [OF this assms(2-4)] have "own_entries env (entry x')"
      using retrieval_worldD(4) [OF w run] own_entries_expire by blast
    then show "isolated env stored entry x'" using retrieval_worldD(1) [OF w run] I by (simp add: isolated_def)
  qed
  then show ?thesis unfolding store_cache_def by (auto intro!: keeps_intros)
qed

lemma lookup_own:
  assumes w: "retrieval_world api stored entry" and I: "isolated env stored entry w"
  shows "wp (cache_lookup api env rq t col (make_cache_key env q n sf (t @ ''_docs'')) cf)
    (\<lambda>x w'. isolated env stored entry w' \<and> (case x of None \<Rightarrow> True | Some resp \<Rightarrow> list_all (own_result t) (qp_results resp)))
    (\<lambda>_. isolated env stored entry) w"
proof -
  let ?I = "isolated env stored entry" and ?k = "make_cache_key env q n sf (t @ ''_docs'')"
  note k = retrieval_keeps [OF w, where env = env]
  have u: "keeps ?I (publish_usage_if api env t' c ch cf)" for t' c ch by (intro keeps_publish_usage_if k) simp
  have m: "keeps ?I (publish_meta_if api env t' rq col ch cs cf)" for t' ch cs by (intro keeps_publish_meta_if k) simp_all
  obtain r w1 where g: "api (Cache_Get ?k) w = (r, w1)" by (rule prod.exhaust)
  have I1: "?I w1" using keepsD [OF k I g] by simp
  have "wp (answer_from_cache api env rq t col cf raw) (\<lambda>resp w'. ?I w' \<and> list_all (own_result t) (qp_results resp)) (\<lambda>_. ?I) w1"
    if raw: "r = Inr (R_Text (Some raw))" for raw
  proof -
    have own: "list_all (own_result t) (qp_results resp)" if "re_loads env raw = Some j" "response_of_cache j rid = Inr resp" for j rid resp
      using I that retrieval_worldD(3) [OF w g [unfolded raw]] unfolding isolated_def own_entries_def by blast
    show ?thesis
      unfolding answer_from_cache_def
      by (auto simp: wp_simps own I1 split: option.split sum.split intro!: wp_of_keeps [OF u] wp_of_keeps [OF m])
  qed
  then show ?thesis
    unfolding cache_lookup_def using g I1
    by (auto simp: wp_simps wp_def [of "api (Cache_Get ?k)"] want_text_def split: sum.split rag_reply.split option.split intro!: wp_mono)
qed


text \<open>The end of an uncached query: filling the cache, publishing, answering.\<close>

definition finish_query ::
  "'w rag_api \<Rightarrow> rag_env \<Rightarrow> query_request \<Rightarrow> string \<Rightarrow> string \<Rightarrow> bool \<Rightarrow> call_facts \<Rightarrow> query_result list \<Rightarrow> ('w rag, query_response) prog" where
  "finish_query api env rq tenant key cache_available cf results =
     seqE (whenE cache_available (with_state (store_cache api env key results)))
       (seqE (with_state (publish_usage_if api env tenant (Inr (int (length results))) False cf))
         (seqE (with_state (publish_meta_if api env tenant rq (tenant @ ''_docs'') False (Inr (result_chunks results)) cf))
           (ret \<lparr>qp_results = results, qp_cached = False, qp_request_id = cf_request_id cf\<rparr>)))"

lemma finish_own:
  assumes w: "retrieval_world api stored entry" and "inj (re_sha env)" and "cache_decodes env"
    and "isolated env stored entry (snd bw)" and own: "list_all (own_result t) rs"
  shows "wp (finish_query api env rq t (make_cache_key env q n sf (t @ ''_docs'')) avail cf rs)
    (\<lambda>resp bw. isolated env stored entry (snd bw) \<and> list_all (own_result t) (qp_results resp)) (\<lambda>_ bw. isolated env stored entry (snd bw)) bw"
proof -
  let ?J = "\<lambda>bw. isolated env stored entry (snd bw)"
  note k = retrieval_keeps [OF w, where env = env]
  have u: "keeps ?J (with_state (publish_usage_if api env t' c ch cf))" for t' c ch
    by (intro keeps_with_state keeps_publish_usage_if k) simp
  have m: "keeps ?J (with_state (publish_meta_if api env t' rq (t @ ''_docs'') ch cs cf))" for t' ch cs
    by (intro keeps_with_state keeps_publish_meta_if k) simp_all
  have s: "keeps ?J (whenE avail (with_state (store_cache api env (make_cache_key env q n sf (t @ ''_docs'')) rs)))"
    by (intro keeps_intros keeps_store_cache_own [OF w assms(2,3) own])
  show ?thesis
    unfolding finish_query_def wp_seqE
    by (rule wp_of_keeps [OF s assms(4)], rule wp_of_keeps [OF u], assumption, rule wp_of_keeps [OF m], assumption)
       (simp_all add: wp_ret own)
qed

lemma uncached_own:
  assumes w: "retrieval_world api stored entry" and "inj (re_sha env)" and "cache_decodes env" and I: "isolated env stored entry w"
  shows "wp (uncached_query api env rq t (t @ ''_docs'') (make_cache_key env q n sf (t @ ''_docs'')) avail cf)
    (\<lambda>resp bw. isolated env stored entry (snd bw) \<and> list_all (own_result t) (qp_results resp)) (\<lambda>_ bw. isolated env stored entry (snd bw)) (b, w)"
proof -
  let ?J = "\<lambda>bw. isolated env stored entry (snd bw)"
  let ?Q = "\<lambda>resp bw. ?J bw \<and> list_all (own_result t) (qp_results resp)"
  let ?fin = "finish_query api env rq t (make_cache_key env q n sf (t @ ''_docs'')) avail cf"
  have e: "keeps ?J (with_state (bindE (api (Embed (rq_query rq))) want_vector))"
    by (intro keeps_with_state keeps_intros retrieval_keeps [OF w]) simp
  have hits: "wp (bindE (lift_res (select_results rq hits)) ?fin) ?Q (\<lambda>_. ?J) bw" if "?J bw" and "list_all (own_hit t) hits" for hits bw
    using that by (cases "select_results rq hits") (simp_all add: wp_bindE wp_lift_res finish_own [OF w assms(2,3)] select_results_own)
  have search: "wp (bindE (guarded_search api (t @ ''_docs'') v rq cf) (\<lambda>hits. bindE (lift_res (select_results rq hits)) ?fin)) ?Q (\<lambda>_. ?J) bw"
    if "?J bw" for v bw
    using guarded_search_own [OF w, of env "snd bw" t v rq cf "fst bw"] that hits
    unfolding wp_bindE [of "guarded_search _ _ _ _ _"] by (auto elim!: wp_mono)
  have "uncached_query api env rq t (t @ ''_docs'') (make_cache_key env q n sf (t @ ''_docs'')) avail cf =
      bindE (with_state (bindE (api (Embed (rq_query rq))) want_vector))
        (\<lambda>v. bindE (guarded_search api (t @ ''_docs'') v rq cf) (\<lambda>hits. bindE (lift_res (select_results rq hits)) ?fin))"
    unfolding uncached_query_def finish_query_def ..
  then show ?thesis
    using search I by (simp only: wp_bindE [of "with_state _"]) (rule wp_of_keeps [OF e], simp_all)
qed

lemma query_own:
  assumes w: "retrieval_world api stored entry" and "inj (re_sha env)" and "cache_decodes env" and I: "isolated env stored entry w"
  shows "wp (query api env rq t cf)
    (\<lambda>resp bw. isolated env stored entry (snd bw) \<and> list_all (own_result t) (qp_results resp)) (\<lambda>_ bw. isolated env stored entry (snd bw)) (b, w)"
proof -
  let ?J = "\<lambda>bw. isolated env stored entry (snd bw)"
  let ?key = "make_cache_key env (rq_query rq) (rq_top_k rq) (rq_source_filter rq) (t @ ''_docs'')"
  have lookup: "wp (with_state (cache_lookup api env rq t (t @ ''_docs'') ?key cf))
      (\<lambda>x bw. ?J bw \<and> (case x of None \<Rightarrow> True | Some resp \<Rightarrow> list_all (own_result t) (qp_results resp))) (\<lambda>_. ?J) (b, w)"
    by (rule wp_lift_state) (use lookup_own [OF w I] in simp)
  show ?thesis
    unfolding query_def Let_def wp_bindE wp_catchE
    by (rule wp_mono [OF lookup])
       (auto simp: wp_simps split: option.split intro!: uncached_own [OF w assms(2,3)])
qed


section \<open>The services together\<close>

text \<open>
  The worker reads some rounds of polls, or a query arrives with its tenant header. The worker keeps
  the collections it knows, the retrieval API its breaker; a worker stopped by an exception starts
  again with an empty list of collections.
\<close>

datatype turn =
    Index "(ew_fresh \<times> ew_poll list) list"
  | Ask query_request "string option" call_facts

type_synonym 'w shared = "string list \<times> breaker \<times> 'w"

definition asking :: "string option \<Rightarrow> string" where
  "asking header = (case header of None \<Rightarrow> ''default'' | Some t \<Rightarrow> t)"

fun take_turn ::
  "'w ew_api \<Rightarrow> ew_env \<Rightarrow> 'w rag_api \<Rightarrow> rag_env \<Rightarrow> turn \<Rightarrow> 'w shared \<Rightarrow> (string \<times> http_answer) list \<times> 'w shared" where
  "take_turn wapi wenv rapi renv (Index rounds) (cs, b, w) =
     (case run_worker wapi wenv rounds (cs, w) of (r, (cs', w')) \<Rightarrow> ([], (if is_ok r then cs' else [], b, w')))"
| "take_turn wapi wenv rapi renv (Ask rq header cf) (cs, b, w) =
     (case query_endpoint rapi renv rq header cf (b, w) of (a, (b', w')) \<Rightarrow> ([(asking header, a)], (cs, b', w')))"

fun take_turns ::
  "'w ew_api \<Rightarrow> ew_env \<Rightarrow> 'w rag_api \<Rightarrow> rag_env \<Rightarrow> turn list \<Rightarrow> 'w shared \<Rightarrow> (string \<times> http_answer) list \<times> 'w shared" where
  "take_turns wapi wenv rapi renv [] s = ([], s)"
| "take_turns wapi wenv rapi renv (t # ts) s =
     (case take_turn wapi wenv rapi renv t s of (as, s') \<Rightarrow>
        (case take_turns wapi wenv rapi renv ts s' of (bs, s'') \<Rightarrow> (as @ bs, s'')))"

text \<open>The chunks on the topic name their tenant by a string.\<close>

definition turn_ok :: "turn \<Rightarrow> bool" where
  "turn_ok t = (case t of Index rounds \<Rightarrow> list_all (\<lambda>(f, polls). list_all (poll_ok f) polls) rounds | Ask _ _ _ \<Rightarrow> True)"

definition own_answer :: "string \<times> http_answer \<Rightarrow> bool" where
  "own_answer ta = (case snd ta of Answered resp \<Rightarrow> list_all (own_result (fst ta)) (qp_results resp) | _ \<Rightarrow> True)"

lemma endpoint_own:
  assumes "retrieval_world api stored entry" and "inj (re_sha env)" and "cache_decodes env" and "isolated env stored entry w"
    and "query_endpoint api env rq header cf (b, w) = (a, (b', w'))"
  shows "isolated env stored entry w' \<and> own_answer (asking header, a)"
proof -
  obtain r bw where q: "query api env rq (asking header) cf (b, w) = (r, bw)" by (rule prod.exhaust)
  note own = wp_runD [OF query_own [OF assms(1-4), where t = "asking header" and rq = rq and cf = cf and b = b]]
  show ?thesis
  proof (cases r)
    case (Inl e)
    with own(2) [of e bw] q assms(5) show ?thesis
      by (auto simp: query_endpoint_def asking_def [symmetric] own_answer_def split: if_splits)
  next
    case (Inr resp)
    with own(1) [of resp bw] q assms(5) show ?thesis
      by (auto simp: query_endpoint_def asking_def [symmetric] own_answer_def)
  qed
qed

lemma turn_own:
  assumes "worker_world wapi stored entry" and "retrieval_world rapi stored entry" and "inj (re_sha renv)" and "cache_decodes renv"
    and "turn_ok t" and "isolated renv stored entry w" and "take_turn wapi wenv rapi renv t (cs, b, w) = (as, (cs', b', w'))"
  shows "isolated renv stored entry w' \<and> list_all own_answer as"
proof (cases t)
  case (Index rounds)
  obtain r cs1 w1 where run: "run_worker wapi wenv rounds (cs, w) = (r, (cs1, w1))" by (rule triple_cases)
  have "list_all (\<lambda>(f, polls). list_all (poll_ok f) polls) rounds" using assms(5) Index by (simp add: turn_ok_def)
  from keepsD [OF keeps_run_worker [OF assms(1) this] _ run, of renv] assms(6) have "isolated renv stored entry w1" by simp
  then show ?thesis using assms(7) run Index by auto
next
  case (Ask rq header cf)
  obtain a b1 w1 where q: "query_endpoint rapi renv rq header cf (b, w) = (a, (b1, w1))" by (rule triple_cases)
  then show ?thesis using endpoint_own [OF assms(2,3,4,6) q] assms(7) Ask by auto
qed

text \<open>
  C1. No tenant ever sees another tenant's documents. Let the embedding worker, reading any batches of
  chunks of any tenants, and the retrieval API, answering any queries of any tenants, take turns in
  any order on one vector store and one cache: calls may fail, upserts half-way, cache entries expire.
  With a collision-free hash for the cache keys, every result of every answer, searched or from the
  cache, carries the tenant that asked, and the store and the cache remain separated.
\<close>

theorem tenants_see_only_their_documents:
  assumes "worker_world wapi stored entry" and "retrieval_world rapi stored entry"
    and "inj (re_sha renv)" and "cache_decodes renv" and "list_all turn_ok ts"
    and "isolated renv stored entry w" and "take_turns wapi wenv rapi renv ts (cs, b, w) = (as, (cs', b', w'))"
  shows "isolated renv stored entry w' \<and> list_all own_answer as"
  using assms(5-7)
proof (induction ts arbitrary: cs b w as)
  case (Cons t ts)
  obtain as1 cs1 b1 w1 where one: "take_turn wapi wenv rapi renv t (cs, b, w) = (as1, (cs1, b1, w1))" by (rule prod_cases4)
  obtain as2 s2 where rest: "take_turns wapi wenv rapi renv ts (cs1, b1, w1) = (as2, s2)" by (rule prod.exhaust)
  have "isolated renv stored entry w1 \<and> list_all own_answer as1"
    using turn_own [OF assms(1-4) _ _ one] Cons.prems(1,2) by simp
  then show ?case using Cons one rest by auto
qed simp

section \<open>An example\<close>

text \<open>A store and a cache for both services.\<close>

type_synonym small_store = "(string \<Rightarrow> row_store) \<times> (string \<Rightarrow> string option)"

fun index_api :: "small_store ew_api" where
  "index_api (Embed_Batch ts) w = (Inr (Ew_Vectors (map (\<lambda>_. [1]) ts)), w)"
| "index_api (Col_Exists c) w = (Inr (Ew_Bool True), w)"
| "index_api (Upsert_Rows c rs) (s, e) = (Inr Ew_Done, (s(c := upsert_spec rs (s c)), e))"
| "index_api c w = (Inr Ew_Done, w)"

fun ask_api :: "small_store rag_api" where
  "ask_api (Cache_Get k) (s, e) = (Inr (R_Text (e k)), (s, e))"
| "ask_api (Cache_Setex k ttl v) (s, e) = (Inr R_Done, (s, e(k := Some v)))"
| "ask_api (Embed q) w = (Inr (R_Vector [1]), w)"
| "ask_api (Has_Collection c) w = (Inr (R_Bool True), w)"
| "ask_api (Milvus_Search c v n ex) (s, e) =
     (Inr (R_Hits (case s c (JStr ''d1:0'') of None \<Rightarrow> [] | Some row \<Rightarrow> [hit_of 1 row])), (s, e))"
| "ask_api c w = (Inr R_Done, w)"

lemma upsert_spec_cases: "upsert_spec rs s k = s k \<or> (\<exists>row \<in> set rs. upsert_spec rs s k = Some row)"
proof (induction rs arbitrary: s)
  case (Cons r rs)
  have "upsert_spec (r # rs) s = upsert_spec rs (put_row (rw_chunk_id r) r s)" by (simp add: upsert_spec_def)
  with Cons [of "put_row (rw_chunk_id r) r s"] show ?case by (auto simp: put_row_def simp del: fun_upd_apply) (auto split: if_splits)
qed (simp add: upsert_spec_def)

lemma index_worker_world: "worker_world index_api fst snd"
proof -
  have a: "stored' = fst w" if "\<not> is_upsert c" "index_api c w = (r, w')" "stored' = fst w'" for c w r w' stored'
    using that by (cases c; cases w) auto
  have b: "snd w' = snd w" if "index_api c w = (r, w')" for c w r w'
    using that by (cases c; cases w) auto
  show ?thesis using a b upsert_spec_cases by (auto simp: worker_world_def expires_to_def)
qed

lemma ask_retrieval_world: "retrieval_world ask_api fst snd"
proof -
  have a: "fst w' = fst w" if "ask_api c w = (r, w')" for c w r w'
    using that by (cases c; cases w) auto
  have b: "snd w' = snd w" if "\<forall>k ttl s. c \<noteq> Cache_Setex k ttl s" "ask_api c w = (r, w')" for c w r w'
    using that by (cases c; cases w) auto
  show ?thesis unfolding retrieval_world_def
    using a b by (auto simp: expires_to_def split: option.splits dest!: sym [of "Some _"])
qed


lemma sample_env_decodes: "cache_decodes sample_env" "inj (re_sha sample_env)"
  by (auto simp: cache_decodes_def sample_env_def response_of_cache_def)

lemma empty_isolated: "isolated env fst snd (\<lambda>_. Map.empty, Map.empty)"
  by (simp add: isolated_def rows_at_home_def own_entries_def)

definition sample_turns :: "turn list" where
  "sample_turns = [Index [(small_fresh, [Ew_Polled (small_meta 1) (Inr (chunk_to_dict wire_event))])],
     Ask (sample_request\<lparr>rq_min_score := 0\<rparr>) (Some ''acme'') sample_facts]"

lemma wire_event_decoded: "decode_chunk small_fresh (Inr (chunk_to_dict wire_event)) = Inr wire_event"
  by (simp add: decode_chunk_def chunk_codec.decode_encode)

lemma sample_index:
  "\<exists>cs' s'. run_worker index_api small_env [(small_fresh, [Ew_Polled (small_meta 1) (Inr (chunk_to_dict wire_event))])] ([], ((\<lambda>_. Map.empty), Map.empty))
     = (Inr (), (cs', (s', Map.empty))) \<and> (\<exists>row. s' ''acme_docs'' (JStr ''d1:0'') = Some row
        \<and> query_result_of (search_result_of (hit_of 1 row)) = Inr \<lparr>qr_chunk_id = ''d1:0'', qr_text = ''hello'', qr_score = 1,
            qr_source_type = ''nfs'', qr_doc_id = ''d1'', qr_metadata = [(''tenant_id'', JStr ''acme'')]\<rparr>)"
proof -
  have zero: "show_int 0 = ''0''" by code_simp
  show ?thesis
    by (simp add: run_worker_def wire_event_decoded,
        simp add: process_batch_def wire_event_def wire_raw_def wire_chunk_def chunk_event_of_def new_chunk_def
        embed_with_retry_def embed_attempt_def row_of_def zero put_row_def upsert_spec_def
        hit_of_def search_result_of_def query_result_of_def obj_get_def get_or_def
        group_by_tenant_def hashable_def add_to_group_def upsert_def ensure_collection_by_name_def want_flag_def remember_def
        finish_batch_def announce_batch_def publish_usage_event_def publish_embedding_event_def need_str_def
        set_source_file_status_def tenant_sizes_def small_env_def prog_defs with_state_def collection_of_def Let_def)
qed

lemma sample_ask:
  assumes "s ''acme_docs'' (JStr ''d1:0'') = Some row" and "query_result_of (search_result_of (hit_of 1 row)) = Inr r"
  obtains b' e' where "query_endpoint ask_api sample_env (sample_request\<lparr>rq_min_score := 0\<rparr>) (Some ''acme'') sample_facts
      (new_breaker 5 30, (s, Map.empty)) = (Answered \<lparr>qp_results = [r], qp_cached = False, qp_request_id = ''r1''\<rparr>, (b', (s, e')))"
proof -
  have "sr_score (search_result_of (hit_of 1 row)) = 1" by (simp add: search_result_of_def hit_of_def Let_def)
  then have "select_results (sample_request\<lparr>rq_min_score := 0\<rparr>) [search_result_of (hit_of 1 row)] = Inr [r]"
    using assms(2) by (simp add: select_results_def sample_request_def py_slice_def clamp_index_def Let_def)
  then show thesis
    using that assms(1)
    by (simp add: query_endpoint_def query_def cache_lookup_def uncached_query_def guarded_search_def call_def search_def
        store_cache_def publish_usage_if_def publish_usage_query_def publish_meta_if_def sample_env_def
        sample_request_def sample_facts_def want_text_def want_vector_def want_bool_def want_hits_def prog_defs with_state_def Let_def
        new_breaker_def refresh_def)
qed


theorem tenants_see_only_their_documents_witness:
  "\<exists>resp s'. take_turns index_api small_env ask_api sample_env sample_turns ([], (new_breaker 5 30, ((\<lambda>_. Map.empty), Map.empty)))
       = ([(''acme'', Answered resp)], s')
     \<and> length (qp_results resp) = 1 \<and> list_all (own_result ''acme'') (qp_results resp)"
proof -
  obtain cs' s' row where run: "run_worker index_api small_env [(small_fresh, [Ew_Polled (small_meta 1) (Inr (chunk_to_dict wire_event))])]
      ([], ((\<lambda>_. Map.empty), Map.empty)) = (Inr (), (cs', (s', Map.empty)))"
    and row: "s' ''acme_docs'' (JStr ''d1:0'') = Some row"
      "query_result_of (search_result_of (hit_of 1 row)) = Inr \<lparr>qr_chunk_id = ''d1:0'', qr_text = ''hello'', qr_score = 1,
            qr_source_type = ''nfs'', qr_doc_id = ''d1'', qr_metadata = [(''tenant_id'', JStr ''acme'')]\<rparr>"
    using sample_index by blast
  obtain b' e' where ask: "query_endpoint ask_api sample_env (sample_request\<lparr>rq_min_score := 0\<rparr>) (Some ''acme'') sample_facts
      (new_breaker 5 30, (s', Map.empty)) = (Answered \<lparr>qp_results = [\<lparr>qr_chunk_id = ''d1:0'', qr_text = ''hello'', qr_score = 1,
            qr_source_type = ''nfs'', qr_doc_id = ''d1'', qr_metadata = [(''tenant_id'', JStr ''acme'')]\<rparr>],
          qp_cached = False, qp_request_id = ''r1''\<rparr>, (b', (s', e')))"
    by (rule sample_ask [where s = s', OF row]) (rule that)
  have turns: "take_turns index_api small_env ask_api sample_env sample_turns ([], (new_breaker 5 30, ((\<lambda>_. Map.empty), Map.empty))) =
      ([(''acme'', Answered \<lparr>qp_results = [\<lparr>qr_chunk_id = ''d1:0'', qr_text = ''hello'', qr_score = 1,
            qr_source_type = ''nfs'', qr_doc_id = ''d1'', qr_metadata = [(''tenant_id'', JStr ''acme'')]\<rparr>],
          qp_cached = False, qp_request_id = ''r1''\<rparr>)], (cs', (b', (s', e'))))"
    by (simp add: sample_turns_def run ask asking_def)
  have ok: "list_all turn_ok sample_turns"
    by (simp add: sample_turns_def turn_ok_def poll_ok_def wire_event_decoded string_tenant_def, simp add: wire_event_def chunk_event_of_def wire_raw_def)
  from tenants_see_only_their_documents [OF index_worker_world ask_retrieval_world sample_env_decodes(2,1) ok empty_isolated turns] turns
  show ?thesis by (simp add: own_answer_def)
qed

end
