(* ===== verification/Whole_Document.thy ===== *)
theory Whole_Document
  imports Redelivery
begin

text \<open>
  A document in the store. Its chunks reach the embedding worker in several batches, mixed with chunks
  of other documents and tenants and possibly delivered more than once; once all of them are committed,
  hits on them give back the text of the document.
\<close>

section \<open>Any committed batch\<close>

lemma newest_row_in:
  assumes "traverse row_of (zip chunks vs) = Inr rows" and "length vs = length chunks"
  shows "newest_row t rows k = Some r \<Longrightarrow> \<exists>c v. c \<in> set chunks \<and> cv_tenant_id c = JStr t \<and> cv_chunk_id c = k \<and> row_of (c, v) = Inr r"
    and "c \<in> set chunks \<Longrightarrow> cv_tenant_id c = JStr t \<Longrightarrow> \<exists>r. newest_row t rows (cv_chunk_id c) = Some r"
proof -
  have all: "list_all2 (\<lambda>x y. row_of x = Inr y) (zip chunks vs) rows" using assms(1) by (simp add: traverse_Inr_iff)
  show "\<exists>c v. c \<in> set chunks \<and> cv_tenant_id c = JStr t \<and> cv_chunk_id c = k \<and> row_of (c, v) = Inr r" if n: "newest_row t rows k = Some r"
  proof -
    have r: "r \<in> set rows" "rw_chunk_id r = k" "rw_tenant_id r = JStr t"
      using map_of_SomeD [OF n [unfolded newest_row_def]] by (auto simp: tenant_rows_def)
    obtain c v where "(c, v) \<in> set (zip chunks vs)" "row_of (c, v) = Inr r" using list_all2_right [OF all r(1)] by auto
    moreover from this(1) have "c \<in> set chunks" by (rule set_zip_leftD)
    ultimately show ?thesis using r(2,3) row_of_chunk_id [of c v r] row_of_tenant [of c v r] by auto
  qed
  show "\<exists>r. newest_row t rows (cv_chunk_id c) = Some r" if c: "c \<in> set chunks" "cv_tenant_id c = JStr t"
  proof -
    obtain i where i: "i < length chunks" "c = chunks ! i" using c(1) by (auto simp: in_set_conv_nth)
    have row: "row_of (c, vs ! i) = Inr (rows ! i)" and "rows ! i \<in> set rows"
      using list_all2_nthD [OF all, of i] list_all2_lengthD [OF all] assms(2) i by auto
    with row_of_chunk_id [OF row] row_of_tenant [OF row] c(2)
    have "cv_chunk_id c \<in> rw_chunk_id ` set (tenant_rows t rows)" by (auto simp: tenant_rows_def image_iff)
    then have "newest_row t rows (cv_chunk_id c) \<noteq> None" by (simp add: newest_row_def map_of_eq_None_iff image_image)
    then show ?thesis by simp
  qed
qed

text \<open>The chunks of a batch that concern a key of a tenant.\<close>

definition naming :: "string \<Rightarrow> json \<Rightarrow> ew_item list \<Rightarrow> chunk_event set" where
  "naming t k batch = {c \<in> set (map snd batch). cv_tenant_id c = JStr t \<and> cv_chunk_id c = k}"

definition string_tenants :: "ew_item list \<Rightarrow> bool" where
  "string_tenants batch \<longleftrightarrow> (\<forall>it \<in> set batch. \<exists>t. cv_tenant_id (snd it) = JStr t)"

lemma committed_batch_key:
  assumes "milvus_world api stored committed" and "one_vector_per_text api" and "string_tenants batch" and "batch \<noteq> []"
    and "process_batch api env f batch (cs, w) = (Inr (), (cs', w'))" and "committed w' \<noteq> committed w"
  shows "naming t k batch = {} \<Longrightarrow> get_row (stored w' (t @ ''_docs'')) k = get_row (stored w (t @ ''_docs'')) k"
    and "naming t k batch \<noteq> {} \<Longrightarrow>
      \<exists>c v r. c \<in> naming t k batch \<and> row_of (c, v) = Inr r \<and> get_row (stored w' (t @ ''_docs'')) k = Some r"
proof -
  obtain vs rows w1 where e: "embed_with_retry api (map (cv_text \<circ> snd) batch) w = (Inr (Vectors vs), w1)"
    and rows: "traverse row_of (zip (map snd batch) vs) = Inr rows"
    and stored: "\<And>t k. get_row (stored w' (t @ ''_docs'')) k =
        (case newest_row t rows k of None \<Rightarrow> get_row (stored w (t @ ''_docs'')) k | Some r \<Rightarrow> Some r)"
    by (rule committed_batch_rows [OF assms(1,4) assms(3) [unfolded string_tenants_def] assms(5,6), folded newest_row_def]) (rule that)
  have len: "length vs = length (map snd batch)" using embed_with_retry_length [OF _ e] assms(2) by (auto simp: one_vector_per_text_def)
  note newest = newest_row_in [OF rows len]
  show "get_row (stored w' (t @ ''_docs'')) k = get_row (stored w (t @ ''_docs'')) k" if "naming t k batch = {}"
  proof -
    have "newest_row t rows k = None" using that newest(1) [of t k] by (cases "newest_row t rows k") (auto simp: naming_def)
    then show ?thesis by (simp add: stored)
  qed
  show "\<exists>c v r. c \<in> naming t k batch \<and> row_of (c, v) = Inr r \<and> get_row (stored w' (t @ ''_docs'')) k = Some r"
    if named: "naming t k batch \<noteq> {}"
  proof -
    obtain r where r: "newest_row t rows k = Some r" using named newest(2) by (auto simp: naming_def)
    then show ?thesis using newest(1) [OF r] by (auto simp: stored naming_def)
  qed
qed

section \<open>A run of committed batches\<close>

fun commits_all ::
  "'w ew_api \<Rightarrow> ew_env \<Rightarrow> ('w \<Rightarrow> kmeta list) \<Rightarrow> (ew_fresh \<times> ew_item list) list \<Rightarrow> 'w ew \<Rightarrow> 'w ew \<Rightarrow> bool" where
  "commits_all api env committed [] s s' \<longleftrightarrow> s' = s"
| "commits_all api env committed ((f, batch) # bs) s s' \<longleftrightarrow>
     (case process_batch api env f batch s of
        (Inl e, s1) \<Rightarrow> False
      | (Inr _, s1) \<Rightarrow> committed (snd s1) \<noteq> committed (snd s) \<and> commits_all api env committed bs s1 s')"

definition run_naming :: "string \<Rightarrow> json \<Rightarrow> (ew_fresh \<times> ew_item list) list \<Rightarrow> chunk_event set" where
  "run_naming t k bs = (\<Union>fb \<in> set bs. naming t k (snd fb))"

text \<open>The last batch that names a key decides its row.\<close>

lemma commits_all_key:
  assumes "milvus_world api stored committed" and "one_vector_per_text api"
  shows "commits_all api env committed bs (cs, w) (cs', w') \<Longrightarrow> list_all (\<lambda>fb. string_tenants (snd fb) \<and> snd fb \<noteq> []) bs \<Longrightarrow>
    (run_naming t k bs = {} \<longrightarrow> get_row (stored w' (t @ ''_docs'')) k = get_row (stored w (t @ ''_docs'')) k)
    \<and> (run_naming t k bs \<noteq> {} \<longrightarrow>
        (\<exists>c v r. c \<in> run_naming t k bs \<and> row_of (c, v) = Inr r \<and> get_row (stored w' (t @ ''_docs'')) k = Some r))"
proof (induction bs arbitrary: cs w)
  case Nil
  then show ?case by (simp add: run_naming_def)
next
  case (Cons fb bs)
  obtain f b where fb: "fb = (f, b)" by (rule prod.exhaust)
  obtain cs1 w1 where run: "process_batch api env f b (cs, w) = (Inr (), (cs1, w1))" "committed w1 \<noteq> committed w"
      and rest: "commits_all api env committed bs (cs1, w1) (cs', w')"
    using Cons.prems(1) unfolding fb by (auto split: prod.splits sum.splits)
  have b: "string_tenants b" "b \<noteq> []" and bs: "list_all (\<lambda>fb. string_tenants (snd fb) \<and> snd fb \<noteq> []) bs"
    using Cons.prems(2) fb by auto
  have all: "run_naming t k (fb # bs) = naming t k b \<union> run_naming t k bs" by (simp add: run_naming_def fb)
  note first = committed_batch_key [OF assms b run, of t k] and later = Cons.IH [OF rest bs]
  show ?case
  proof (cases "run_naming t k bs = {}")
    case True
    then have same: "get_row (stored w' (t @ ''_docs'')) k = get_row (stored w1 (t @ ''_docs'')) k" using later by blast
    then show ?thesis unfolding all same using first True by (cases "naming t k b = {}") auto
  next
    case False
    then show ?thesis using later unfolding all by blast
  qed
qed

section \<open>The document\<close>

text \<open>Every chunk of the document is in some batch, and a chunk of the tenant with one of its
  identifiers is one the document processor published for it, in this or another handling.\<close>

definition delivered_in :: "doc_env \<Rightarrow> raw_event \<Rightarrow> string \<Rightarrow> string \<Rightarrow> (ew_fresh \<times> ew_item list) list \<Rightarrow> bool" where
  "delivered_in env ev txt t bs \<longleftrightarrow>
     (\<forall>ch \<in> set (doc_chunks env ev txt). run_naming t (JStr (ch_chunk_id ch)) bs \<noteq> {}
        \<and> (\<forall>c \<in> run_naming t (JStr (ch_chunk_id ch)) bs. \<exists>df. c \<in> set (doc_events env ev txt df)))"

lemma delivered_chunk_answered:
  assumes "milvus_world api stored committed" and "one_vector_per_text api"
    and "commits_all api wenv committed bs (cs, w) (cs', w')" and "list_all (\<lambda>fb. string_tenants (snd fb) \<and> snd fb \<noteq> []) bs"
    and "delivered_in env ev txt t bs" and "rv_tenant_id ev = JStr t" and "rv_source_type ev = JStr st" and "rv_metadata ev = JObj md"
    and "ch \<in> set (doc_chunks env ev txt)"
  shows "\<exists>row. get_row (stored w' (t @ ''_docs'')) (JStr (ch_chunk_id ch)) = Some row
    \<and> query_result_of (search_result_of (hit_of d row)) =
        Inr \<lparr>qr_chunk_id = ch_chunk_id ch, qr_text = ch_text ch, qr_score = d, qr_source_type = st, qr_doc_id = ch_doc_id ch,
             qr_metadata = AList.update ''tenant_id'' (JStr t) md\<rparr>"
proof -
  let ?k = "JStr (ch_chunk_id ch)"
  obtain c v r where c: "c \<in> run_naming t ?k bs" "row_of (c, v) = Inr r" "get_row (stored w' (t @ ''_docs'')) ?k = Some r"
    using commits_all_key [OF assms(1-4), of t ?k] assms(5,9) unfolding delivered_in_def by blast
  obtain df where "c \<in> set (doc_events env ev txt df)" using assms(5,9) c(1) unfolding delivered_in_def by blast
  then obtain ch' where ch': "ch' \<in> set (doc_chunks env ev txt)"
      "c = chunk_event_of ev df (int (length (doc_chunks env ev txt))) ch'" "cv_chunk_id c = JStr (ch_chunk_id ch')"
    by (rule doc_events_id)
  have "cv_chunk_id c = ?k" using c(1) by (auto simp: run_naming_def naming_def)
  then have same: "ch' = ch" using doc_chunk_unique [OF ch'(1) assms(9)] ch'(3) by simp
  obtain created where "row_of (c, v) = Inr \<lparr>rw_doc_id = JStr (ch_doc_id ch), rw_chunk_id = JStr (ch_chunk_id ch),
      rw_source_type = JStr st, rw_text = JStr (ch_text ch), rw_embedding = v, rw_created_at = created,
      rw_metadata = JObj (AList.update ''tenant_id'' (JStr t) md), rw_tenant_id = JStr t\<rparr>"
    using row_of_chunk_event [OF assms(8)] unfolding ch'(2) same assms(6,7) by blast
  moreover have "AList.update ''tenant_id'' (JStr t) md \<noteq> []" by (cases md) auto
  ultimately show ?thesis
    using c(2,3) by (auto simp: hit_of_def search_result_of_def query_result_of_def obj_get_def get_or_def)
qed

text \<open>
  C4. A document is retrievable as a whole. Whatever batches its chunks reach the worker in, with other
  documents and tenants or repeated deliveries between them: once all batches are committed, there is a
  sequence of token windows that stitches back to exactly the tokens of the document, and for each window
  the collection of the tenant holds, under the identifier of its position, a row whose hit is answered
  with the decoded window as text and with the document's identifier, source and metadata.
\<close>

theorem document_retrievable_whole:
  assumes "milvus_world api stored committed" and "one_vector_per_text api"
    and "commits_all api wenv committed bs (cs, w) (cs', w')" and "list_all (\<lambda>fb. string_tenants (snd fb) \<and> snd fb \<noteq> []) bs"
    and "delivered_in env ev txt t bs" and "rv_tenant_id ev = JStr t" and "rv_source_type ev = JStr st" and "rv_metadata ev = JObj md"
    and "0 \<le> overlap (de_chunker env)" and "overlap (de_chunker env) < chunk_size (de_chunker env)"
  shows "\<exists>ws. stitch (nat (step_of (de_chunker env))) ws = de_enc env txt
    \<and> (\<forall>i < length ws. \<exists>row. get_row (stored w' (t @ ''_docs'')) (JStr (make_doc_id env ev @ '':'' @ show_int (int i))) = Some row
        \<and> query_result_of (search_result_of (hit_of d row)) =
            Inr \<lparr>qr_chunk_id = make_doc_id env ev @ '':'' @ show_int (int i), qr_text = de_dec env (ws ! i), qr_score = d,
                 qr_source_type = st, qr_doc_id = make_doc_id env ev, qr_metadata = AList.update ''tenant_id'' (JStr t) md\<rparr>)"
proof (cases "de_enc env txt = []")
  case True
  then show ?thesis by (intro exI [of _ "[]"]) simp
next
  case False
  let ?c = "de_chunker env"
  let ?ws = "windows (nat (chunk_size ?c)) (nat (step_of ?c)) (de_enc env txt)"
  have ws: "doc_chunks env ev txt =
        map (\<lambda>(i, w). new_chunk (de_dec env w) (int i) (make_doc_id env ev) (int (length w))) (enumerate 0 ?ws)"
    unfolding doc_chunks_def using assms(9,10) False by (intro chunk_text_windows)
  have stitched: "stitch (nat (step_of ?c)) ?ws = de_enc env txt"
    by (rule stitch_windows) (use assms(9,10) in \<open>auto simp: step_of_def\<close>)
  show ?thesis
  proof (intro exI [of _ ?ws] conjI allI impI)
    fix i assume i: "i < length ?ws"
    let ?ch = "new_chunk (de_dec env (?ws ! i)) (int i) (make_doc_id env ev) (int (length (?ws ! i)))"
    have "?ch \<in> set (doc_chunks env ev txt)"
      unfolding ws set_map by (rule image_eqI [of _ _ "(i, ?ws ! i)"]) (use i in \<open>auto simp: in_set_enumerate_eq\<close>)
    from delivered_chunk_answered [OF assms(1-8) this, of d]
    show "\<exists>row. get_row (stored w' (t @ ''_docs'')) (JStr (make_doc_id env ev @ '':'' @ show_int (int i))) = Some row
        \<and> query_result_of (search_result_of (hit_of d row)) =
            Inr \<lparr>qr_chunk_id = make_doc_id env ev @ '':'' @ show_int (int i), qr_text = de_dec env (?ws ! i), qr_score = d,
                 qr_source_type = st, qr_doc_id = make_doc_id env ev, qr_metadata = AList.update ''tenant_id'' (JStr t) md\<rparr>"
      by (simp add: new_chunk_def)
  qed (rule stitched)
qed

subsection \<open>A concrete run\<close>

text \<open>Two chunks in one batch, and the same document delivered again in the next.\<close>

lemma sample_batch_again:
  "\<exists>cs' s'. process_batch small_api small_env small_fresh (sample_batch f) (cs, (s, k, d)) =
     (Inr (), (cs', (s', k @ [small_meta 1, small_meta 2], d)))"
  unfolding sample_batch_def sample_doc_events
  by (cases "''acme_docs'' \<in> set cs")
     (simp_all add: process_batch_def sample_event_def chunk_event_of_def new_chunk_def
      embed_with_retry_def embed_attempt_def row_of_def
      group_by_tenant_def hashable_def add_to_group_def upsert_def ensure_collection_by_name_def want_flag_def remember_def
      finish_batch_def announce_batch_def publish_usage_event_def publish_embedding_event_def need_str_def
      set_source_file_status_def tenant_sizes_def small_env_def prog_defs with_state_def collection_of_def Let_def)

definition twice_delivered :: "(ew_fresh \<times> ew_item list) list" where
  "twice_delivered = [(small_fresh, sample_batch sample_fresh), (small_fresh, sample_batch (sample_fresh\<lparr>df_now := 2\<rparr>))]"

lemma sample_batch_items: "map snd (sample_batch f) = doc_events sample_doc_env sample_event ''hello'' f" "sample_batch f \<noteq> []"
  by (simp_all add: sample_batch_def sample_doc_events)

lemma sample_batch_string_tenants: "string_tenants (sample_batch f)"
proof -
  have "\<forall>c \<in> set (map snd (sample_batch f)). cv_tenant_id c = JStr ''acme''"
    unfolding sample_batch_items using doc_events_tenant [OF sample_tenant] by blast
  then show ?thesis by (auto simp: string_tenants_def)
qed

lemma twice_delivered_commits:
  "\<exists>cs' w'. commits_all small_api small_env (fst \<circ> snd) twice_delivered ([], ((\<lambda>_. Map.empty), [], [])) (cs', w')"
proof -
  obtain cs1 s1 where one: "process_batch small_api small_env small_fresh (sample_batch sample_fresh) ([], ((\<lambda>_. Map.empty), [], []))
      = (Inr (), (cs1, (s1, [] @ [small_meta 1, small_meta 2], [])))" using sample_batch_run by blast
  obtain cs2 s2 where "process_batch small_api small_env small_fresh (sample_batch (sample_fresh\<lparr>df_now := 2\<rparr>))
      (cs1, (s1, [] @ [small_meta 1, small_meta 2], []))
      = (Inr (), (cs2, (s2, ([] @ [small_meta 1, small_meta 2]) @ [small_meta 1, small_meta 2], [])))"
    using sample_batch_again by blast
  with one show ?thesis by (simp add: twice_delivered_def)
qed

lemma sample_batch_names:
  "naming ''acme'' k (sample_batch f) = {c \<in> set (doc_events sample_doc_env sample_event ''hello'' f). cv_chunk_id c = k}"
  unfolding naming_def sample_batch_items using doc_events_tenant [OF sample_tenant] by blast

lemma twice_delivered_names:
  "run_naming ''acme'' k twice_delivered =
     {c \<in> set (doc_events sample_doc_env sample_event ''hello'' sample_fresh) \<union>
          set (doc_events sample_doc_env sample_event ''hello'' (sample_fresh\<lparr>df_now := 2\<rparr>)). cv_chunk_id c = k}"
  by (auto simp: run_naming_def twice_delivered_def sample_batch_names)

lemma twice_delivered_covers: "delivered_in sample_doc_env sample_event ''hello'' ''acme'' twice_delivered"
  unfolding delivered_in_def twice_delivered_names
  by (auto simp: doc_events_def chunk_event_fields)

theorem document_retrievable_whole_witness:
  "\<exists>cs' w' ws. commits_all small_api small_env (fst \<circ> snd) twice_delivered ([], ((\<lambda>_. Map.empty), [], [])) (cs', w')
     \<and> stitch 2 ws = [0 :: nat, 1, 2, 3, 4]
     \<and> (\<forall>i < length ws. \<exists>row.
           get_row (fst w' (''acme'' @ ''_docs'')) (JStr (make_doc_id sample_doc_env sample_event @ '':'' @ show_int (int i))) = Some row
         \<and> query_result_of (search_result_of (hit_of 0 row)) =
             Inr \<lparr>qr_chunk_id = make_doc_id sample_doc_env sample_event @ '':'' @ show_int (int i), qr_text = ''x'', qr_score = 0,
                  qr_source_type = ''nfs'', qr_doc_id = make_doc_id sample_doc_env sample_event,
                  qr_metadata = [(''tenant_id'', JStr ''acme'')]\<rparr>)"
proof -
  obtain cs' w' where all: "commits_all small_api small_env (fst \<circ> snd) twice_delivered ([], ((\<lambda>_. Map.empty), [], [])) (cs', w')"
    using twice_delivered_commits by blast
  have items: "list_all (\<lambda>fb. string_tenants (snd fb) \<and> snd fb \<noteq> []) twice_delivered"
    by (simp add: twice_delivered_def sample_batch_string_tenants sample_batch_items)
  have event: "rv_source_type sample_event = JStr ''nfs''" "rv_metadata sample_event = JObj []"
    by (simp_all add: sample_event_def)
  have one: "one_vector_per_text small_api" by (simp add: one_vector_per_text_def)
  have windows: "0 \<le> overlap (de_chunker sample_doc_env)" "overlap (de_chunker sample_doc_env) < chunk_size (de_chunker sample_doc_env)"
    by (simp_all add: sample_doc_env_def)
  have lib: "de_enc sample_doc_env ''hello'' = [0, 1, 2, 3, 4]" "de_dec sample_doc_env ts = ''x''"
      "step_of (de_chunker sample_doc_env) = 2" for ts
    by (simp_all add: sample_doc_env_def step_of_def)
  show ?thesis
    using document_retrievable_whole
        [OF small_milvus_world one all items twice_delivered_covers sample_tenant event windows, of 0]
    unfolding lib nat_numeral AList.update.simps using all by blast
qed

end
