(* ===== verification/Backends.thy ===== *)
theory Backends
  imports Embedding_Worker
begin

text \<open>
  The embedding backends: \<open>backends.py\<close> of \<open>services/embedding-worker/src\<close> and of
  \<open>services/rag-api/src\<close>, the choice \<open>main.py\<close> of the worker makes, and what the choice means for the
  stored vectors. The sentence-transformers model is a parameter: how it is loaded by name and what it
  makes of texts.
\<close>

section \<open>The backends\<close>

datatype backend = Local_CPU string | Open_AI string nat

record 'm model_lib =
  load_model :: "string \<Rightarrow> exc + 'm"
  encode :: "'m \<Rightarrow> json list \<Rightarrow> exc + rat list list"

definition backend_dim :: "backend \<Rightarrow> nat" where
  "backend_dim b = (case b of Local_CPU name \<Rightarrow> 384 | Open_AI name d \<Rightarrow> d)"

text \<open>The model is loaded on first use and kept.\<close>

definition load_once :: "'m model_lib \<Rightarrow> string \<Rightarrow> ('m option, 'm) prog" where
  "load_once lib name st =
     (case st of Some m \<Rightarrow> (Inr m, st)
      | None \<Rightarrow> (case load_model lib name of Inl e \<Rightarrow> (Inl e, None) | Inr m \<Rightarrow> (Inr m, Some m)))"

definition embed_batch :: "'m model_lib \<Rightarrow> backend \<Rightarrow> json list \<Rightarrow> ('m option, rat list list) prog" where
  "embed_batch lib b texts st =
     (case b of
        Local_CPU name \<Rightarrow> (case load_once lib name st of (Inl e, st') \<Rightarrow> (Inl e, st') | (Inr m, st') \<Rightarrow> (encode lib m texts, st'))
      | Open_AI name d \<Rightarrow> (Inr (map (\<lambda>_. replicate d 0) texts), st))"

text \<open>The query side embeds one text with the local model.\<close>

definition embed_query :: "'m model_lib \<Rightarrow> string \<Rightarrow> json \<Rightarrow> ('m option, rat list) prog" where
  "embed_query lib name txt st =
     (case load_once lib name st of
        (Inl e, st') \<Rightarrow> (Inl e, st')
      | (Inr m, st') \<Rightarrow> (case encode lib m [txt] of
            Inl e \<Rightarrow> (Inl e, st')
          | Inr [] \<Rightarrow> (Inl (Exc ''IndexError'' ''''), st')
          | Inr (v # vs) \<Rightarrow> (Inr v, st')))"

record backend_cfg =
  bc_backend :: string
  bc_model :: string
  bc_openai_model :: string
  bc_openai_dim :: nat

text \<open>\<open>make_backend\<close> refuses an unknown name; \<open>main.py\<close> does not call it and takes the local model then.\<close>

definition make_backend :: "(string \<Rightarrow> string) \<Rightarrow> string \<Rightarrow> backend_cfg \<Rightarrow> exc + backend" where
  "make_backend py_repr kind cfg =
     (if kind = ''local-cpu'' then Inr (Local_CPU (bc_model cfg))
      else if kind = ''openai'' then Inr (Open_AI (bc_openai_model cfg) (bc_openai_dim cfg))
      else Inl (Exc ''ValueError'' (''Unknown embedding backend: '' @ py_repr kind)))"

definition main_backend :: "backend_cfg \<Rightarrow> backend" where
  "main_backend cfg =
     (if bc_backend cfg = ''openai'' then Open_AI (bc_openai_model cfg) (bc_openai_dim cfg) else Local_CPU (bc_model cfg))"

lemma make_backend_main:
  "make_backend r (bc_backend cfg) cfg = Inr b \<Longrightarrow> main_backend cfg = b"
  by (auto simp: make_backend_def main_backend_def split: if_splits)

section \<open>The worker over a backend\<close>

text \<open>The embedding command of the worker is the call of its backend, whose model is part of the world.\<close>

definition backed_by :: "'m model_lib \<Rightarrow> backend \<Rightarrow> ('w \<Rightarrow> 'm option) \<Rightarrow> 'w ew_api \<Rightarrow> bool" where
  "backed_by lib b model api \<longleftrightarrow>
     (\<forall>ts w r w'. api (Embed_Batch ts) w = (r, w') \<longrightarrow>
        (case embed_batch lib b ts (model w) of (r', st) \<Rightarrow> r = map_sum id Ew_Vectors r' \<and> model w' = st))"

lemma stub_vectors:
  assumes "backed_by lib (Open_AI name d) model api" and "embed_with_retry api ts w = (Inr (Vectors vs), w')"
  shows "vs = map (\<lambda>_. replicate d 0) ts"
proof -
  have reply: "fst (api (Embed_Batch ts) v) = Inr (Ew_Vectors (map (\<lambda>_. replicate d 0) ts))" for v
    using assms(1) by (cases "api (Embed_Batch ts) v") (auto simp: backed_by_def embed_batch_def)
  obtain v where "embed_attempt api ts w = (Inr (Got (map (\<lambda>_. replicate d 0) ts)), v)"
    using reply [of w] by (cases "api (Embed_Batch ts) w") (simp add: embed_attempt_def prog_defs)
  then show ?thesis
    using assms(2) by (simp add: embed_with_retry_def prog_defs)
qed

lemma traverse_row_embedding:
  "traverse row_of ces = Inr rows \<Longrightarrow> r \<in> set rows \<Longrightarrow> \<exists>ce \<in> set ces. rw_embedding r = snd ce"
proof (induction ces arbitrary: rows)
  case (Cons ce ces)
  have "rw_embedding r = snd ce" if "row_of ce = Inr r"
    using that by (auto simp: row_of_def split: prod.splits option.splits json.splits)
  then show ?case using Cons by (auto split: sum.splits)
qed simp

text \<open>
  With the OpenAI backend, which is a stub, every row a committed batch stores has the same vector,
  all zeros: the distance of a query to any two stored chunks is the same.
\<close>

lemma stub_backend_stores_one_vector:
  assumes "milvus_world api stored committed" and "batch \<noteq> []"
    and "\<forall>it \<in> set batch. \<exists>t. cv_tenant_id (snd it) = JStr t"
    and "process_batch api env f batch (cs, w) = (Inr (), (cs', w'))" and "committed w' \<noteq> committed w"
    and "backed_by lib (Open_AI name d) model api"
  shows "get_row (stored w' (t @ ''_docs'')) k = get_row (stored w (t @ ''_docs'')) k
    \<or> map_option rw_embedding (get_row (stored w' (t @ ''_docs'')) k) = Some (replicate d 0)"
proof -
  obtain vs rows w1 where e: "embed_with_retry api (map (cv_text \<circ> snd) batch) w = (Inr (Vectors vs), w1)"
    and rows: "traverse row_of (zip (map snd batch) vs) = Inr rows"
    and got: "\<And>t k. get_row (stored w' (t @ ''_docs'')) k =
        (case map_of (rev (map (\<lambda>r. (rw_chunk_id r, r)) (tenant_rows t rows))) k of
           None \<Rightarrow> get_row (stored w (t @ ''_docs'')) k | Some r \<Rightarrow> Some r)"
    by (rule committed_batch_rows [OF assms(1-5)]) (rule that)
  have zero: "rw_embedding r = replicate d 0" if "r \<in> set rows" for r
  proof -
    obtain ce where "(fst ce, snd ce) \<in> set (zip (map snd batch) vs)" and "rw_embedding r = snd ce"
      using traverse_row_embedding [OF rows \<open>r \<in> set rows\<close>] by auto
    moreover from this(1) have "snd ce \<in> set vs" by (rule set_zip_rightD)
    ultimately show ?thesis using stub_vectors [OF assms(6) e] by auto
  qed
  show ?thesis
    using zero by (auto simp: got tenant_rows_def split: option.split dest!: map_of_SomeD)
qed

section \<open>The connection of the writer\<close>

text \<open>
  The rest of \<open>milvus_writer.py\<close>: \<open>connect\<close> prepares the default collection and remembers it, without
  which \<open>query\<close> and \<open>count\<close> answer empty; \<open>close\<close> swallows every error. The calls of the client
  library are parameters; a URI takes precedence over host and port.
\<close>

datatype milvus_address = Uri string | Host_Port string string

record 'w milvus_client =
  mc_connect :: "milvus_address \<Rightarrow> ('w, unit) prog"
  mc_query :: "string \<Rightarrow> string \<Rightarrow> string list \<Rightarrow> ('w, json list) prog"
  mc_num_entities :: "string \<Rightarrow> ('w, int) prog"
  mc_disconnect :: "('w, unit) prog"

record writer_cfg =
  wc_uri :: "string option"
  wc_host :: string
  wc_port :: int
  wc_collection :: string

text \<open>The state: the remembered collection, and the cache of collections with the world.\<close>

type_synonym 'w writer = "string option \<times> 'w ew"

definition writer_address :: "writer_cfg \<Rightarrow> milvus_address" where
  "writer_address cfg = (case wc_uri cfg of
     Some u \<Rightarrow> if u \<noteq> [] then Uri u else Host_Port (wc_host cfg) (show_int (wc_port cfg))
   | None \<Rightarrow> Host_Port (wc_host cfg) (show_int (wc_port cfg)))"

definition connect :: "'w milvus_client \<Rightarrow> 'w ew_api \<Rightarrow> writer_cfg \<Rightarrow> ('w writer, unit) prog" where
  "connect client api cfg wr =
     (case seqE (with_state (mc_connect client (writer_address cfg))) (ensure_collection_by_name api (wc_collection cfg)) (snd wr) of
        (Inl e, cw) \<Rightarrow> (Inl e, (fst wr, cw))
      | (Inr _, cw) \<Rightarrow> (Inr (), (Some (wc_collection cfg), cw)))"

definition query_rows :: "'w milvus_client \<Rightarrow> string \<Rightarrow> string list option \<Rightarrow> ('w writer, json list) prog" where
  "query_rows client expr output_fields wr =
     (case fst wr of None \<Rightarrow> (Inr [], wr)
      | Some col \<Rightarrow> (case with_state (mc_query client col expr (case output_fields of None \<Rightarrow> [] | Some fs \<Rightarrow> fs)) (snd wr) of
          (r, cw) \<Rightarrow> (r, (fst wr, cw))))"

definition count_rows :: "'w milvus_client \<Rightarrow> ('w writer, int) prog" where
  "count_rows client wr =
     (case fst wr of None \<Rightarrow> (Inr 0, wr)
      | Some col \<Rightarrow> (case with_state (mc_num_entities client col) (snd wr) of (r, cw) \<Rightarrow> (r, (fst wr, cw))))"

definition close_writer :: "'w milvus_client \<Rightarrow> ('w writer, unit) prog" where
  "close_writer client wr = (case with_state (mc_disconnect client) (snd wr) of (r, cw) \<Rightarrow> (Inr (), (fst wr, cw)))"

text \<open>A connected writer has its default collection in the cache, so that the first batch of it
  creates nothing.\<close>

lemma wp_bind_last:
  "(\<And>x v. wp (f x) Q E v) \<Longrightarrow> (\<And>e v. E e v) \<Longrightarrow> wp (bindE p f) Q E w"
  unfolding wp_bindE by (simp add: wp_def split: prod.split sum.split)

lemma wp_seq_last: "(\<And>v. wp q Q E v) \<Longrightarrow> (\<And>e v. E e v) \<Longrightarrow> wp (seqE p q) Q E w"
  unfolding seqE_def by (rule wp_bind_last)

lemma ensure_cached:
  assumes "ensure_collection_by_name api n cw = (Inr u, cw')"
  shows "n \<in> set (fst cw')"
proof (cases "n \<in> set (fst cw)")
  case True
  then show ?thesis using assms by (simp add: ensure_collection_by_name_def)
next
  case False
  let ?Q = "\<lambda>_ cw. n \<in> set (fst cw)" and ?E = "\<lambda>_ _. True"
  have last: "wp (remember n) ?Q ?E v" for v by (simp add: wp_def remember_def)
  have "wp (if found then seqE (with_state (api (Col_Load n))) (remember n)
       else seqE (with_state (api (Col_Create n)))
              (seqE (with_state (api (Col_Index n))) (seqE (with_state (api (Col_Load n))) (remember n)))) ?Q ?E v" for found v
    by (cases found) (simp_all add: wp_seq_last last)
  then have "wp (bindE p (\<lambda>found. if found then seqE (with_state (api (Col_Load n))) (remember n)
       else seqE (with_state (api (Col_Create n)))
              (seqE (with_state (api (Col_Index n))) (seqE (with_state (api (Col_Load n))) (remember n))))) ?Q ?E cw" for p
    by (rule wp_bind_last) simp
  from wp_runD(1) [OF this] show ?thesis using assms False unfolding ensure_collection_by_name_def by simp
qed

lemma connect_ready:
  assumes "connect client api cfg wr = (Inr u, (col, cw))"
  shows "col = Some (wc_collection cfg) \<and> ensure_collection_by_name api (wc_collection cfg) cw = (Inr (), cw)"
proof -
  let ?n = "wc_collection cfg"
  obtain r cw1 where c: "with_state (mc_connect client (writer_address cfg)) (snd wr) = (r, cw1)" by (rule prod.exhaust)
  obtain r' cw2 where e: "ensure_collection_by_name api ?n cw1 = (r', cw2)" by (rule prod.exhaust)
  have "r' = Inr ()" "cw2 = cw" "col = Some ?n"
    using assms c e by (cases r; cases r'; simp add: connect_def seqE_def bindE_def)+
  then show ?thesis using ensure_cached [OF e [unfolded \<open>r' = Inr ()\<close>]] by (simp add: ensure_collection_by_name_def)
qed

end
