(* ===== verification/Startup.thy ===== *)
theory Startup
  imports Configuration Backends S3_Connector Nfs_Connector Rag_Api Doc_Processor Meta_Lineage
begin

text \<open>
  The \<open>main.py\<close> of the services and the start-up hook of the metadata service: what they connect to, in
  which order, which collaborators they hand to the components and which they leave out, and the main
  loop of the connectors with its reconnection. The component models leave these choices open; here
  they are the ones the processes make.
\<close>

section \<open>Connecting\<close>

datatype boot_cmd =
    Boot_Metrics int
  | Boot_Consumer string string
  | Boot_Subscribe string
  | Boot_Producer string
  | Boot_Minio string bool
  | Boot_Redis string
  | Boot_Milvus string int
  | Boot_Db string
  | Boot_Thread
  | Boot_Close_Consumer
  | Boot_Close_Milvus
  | Boot_Close_Db
  | Boot_Sleep rat

type_synonym 'w boot_api = "(boot_cmd, exc, unit, 'w) api"

text \<open>\<open>try: p finally: q\<close>.\<close>

definition ensuring :: "('w, 'a) prog \<Rightarrow> ('w, unit) prog \<Rightarrow> ('w, 'a) prog" where
  "ensuring p q = (\<lambda>w. case p w of (r, w1) \<Rightarrow> (case q w1 of (Inl e, w2) \<Rightarrow> (Inl e, w2) | (Inr _, w2) \<Rightarrow> (r, w2)))"

text \<open>A finite setting; a loop with an infinite interval or time-out is not modelled.\<close>

definition rat_of :: "config \<Rightarrow> string \<Rightarrow> rat" where
  "rat_of cfg name = (case cfg_float cfg name of Finite q \<Rightarrow> q | _ \<Rightarrow> 0)"

section \<open>The retrieval API\<close>

text \<open>\<open>startup\<close> swallows a failed connection and builds the service without the two publishers.\<close>

definition rag_main_env :: "rag_env \<Rightarrow> config \<Rightarrow> rag_env" where
  "rag_main_env lib cfg =
     lib\<lparr>re_ttl := cfg_int cfg ''redis_ttl_seconds'', re_usage_topic := None, re_meta_topic := None,
         re_model_name := cfg_text cfg ''embedding_model''\<rparr>"

definition rag_startup :: "'w boot_api \<Rightarrow> config \<Rightarrow> ('w, breaker) prog" where
  "rag_startup boot cfg =
     seqE (ignoring (boot (Boot_Milvus (cfg_text cfg ''milvus_host'') (cfg_int cfg ''milvus_port''))))
       (ret (new_breaker (cfg_int cfg ''circuit_failure_threshold'') (rat_of cfg ''circuit_recovery_timeout'')))"

definition get_service :: "'s option \<Rightarrow> 's option \<Rightarrow> exc + 's" where
  "get_service of_app of_module =
     (case of_app of Some s \<Rightarrow> Inr s
      | None \<Rightarrow> (case of_module of Some s \<Rightarrow> Inr s | None \<Rightarrow> Inl (Exc ''RuntimeError'' ''RagService not initialised'')))"

section \<open>The embedding worker\<close>

definition worker_main_env :: "ew_env \<Rightarrow> config \<Rightarrow> ew_env" where
  "worker_main_env lib cfg =
     lib\<lparr>ee_dlq_topic := cfg_text cfg ''kafka_dlq_topic'', ee_event_topic := cfg_text cfg ''kafka_event_topic'',
         ee_usage_topic := None, ee_meta_topic := None,
         ee_timeout_s := of_int (cfg_int cfg ''kafka_produce_timeout_ms'') / 1000,
         ee_model := cfg_text cfg ''embedding_model'', ee_dim := cfg_int cfg ''embedding_dim'',
         ee_backend := cfg_text cfg ''embedding_backend'', ee_default_collection := cfg_text cfg ''milvus_collection'',
         ee_batch_size := nat (cfg_int cfg ''embedding_batch_size'')\<rparr>"

definition worker_backend :: "config \<Rightarrow> backend" where
  "worker_backend cfg =
     main_backend \<lparr>bc_backend = cfg_text cfg ''embedding_backend'', bc_model = cfg_text cfg ''embedding_model'',
       bc_openai_model = cfg_text cfg ''openai_embedding_model'', bc_openai_dim = nat (cfg_int cfg ''openai_embedding_dim'')\<rparr>"

text \<open>\<open>main\<close>: what is opened before the \<open>try\<close> is not closed when a later connection fails.\<close>

definition worker_main :: "'w boot_api \<Rightarrow> ('w, unit) prog \<Rightarrow> config \<Rightarrow> ('w, unit) prog" where
  "worker_main boot work cfg =
     (let kafka = cfg_text cfg ''kafka_bootstrap'' in
      seqE (boot (Boot_Metrics 9090))
        (seqE (boot (Boot_Consumer kafka (cfg_text cfg ''kafka_consumer_group'')))
          (seqE (boot (Boot_Subscribe (cfg_text cfg ''kafka_input_topic'')))
            (seqE (boot (Boot_Producer kafka))
              (seqE (boot (Boot_Producer kafka))
                (seqE (boot (Boot_Milvus (cfg_text cfg ''milvus_host'') (cfg_int cfg ''milvus_port'')))
                  (seqE (boot (Boot_Db (cfg_text cfg ''postgres_dsn'')))
                    (ensuring (catchE work (\<lambda>e. if e = keyboard_interrupt then ret () else raise e))
                      (seqE (boot Boot_Close_Consumer) (seqE (boot Boot_Close_Milvus) (boot Boot_Close_Db)))))))))))"

section \<open>The document processor\<close>

text \<open>\<open>main\<close> passes neither a database connection nor a lineage producer.\<close>

definition doc_main_env :: "doc_env \<Rightarrow> config \<Rightarrow> doc_env" where
  "doc_main_env lib cfg =
     lib\<lparr>de_input_topic := cfg_text cfg ''kafka_input_topic'', de_output_topic := cfg_text cfg ''kafka_output_topic'',
         de_dlq_topic := cfg_text cfg ''kafka_dlq_topic'', de_meta_topic := None,
         de_timeout_s := of_int (cfg_int cfg ''kafka_produce_timeout_ms'') / 1000, de_has_db := False,
         de_chunker := \<lparr>chunk_size = cfg_int cfg ''chunk_size_tokens'', overlap = cfg_int cfg ''chunk_overlap_tokens''\<rparr>\<rparr>"

definition doc_main :: "'w boot_api \<Rightarrow> ('w, unit) prog \<Rightarrow> config \<Rightarrow> ('w, unit) prog" where
  "doc_main boot work cfg =
     (let kafka = cfg_text cfg ''kafka_bootstrap'' in
      seqE (boot (Boot_Metrics 9090))
        (seqE (boot (Boot_Minio (cfg_text cfg ''minio_endpoint'') (cfg_flag cfg ''minio_secure'')))
          (seqE (boot (Boot_Consumer kafka (cfg_text cfg ''kafka_consumer_group'')))
            (seqE (boot (Boot_Producer kafka))
              (seqE (boot (Boot_Producer kafka))
                (catchE work (\<lambda>e. if e = keyboard_interrupt then ret () else raise e)))))))"

section \<open>The connectors\<close>

text \<open>Both \<open>main\<close> functions build the connector without a lineage producer.\<close>

definition conn_main_env :: "conn_env \<Rightarrow> config \<Rightarrow> conn_env" where
  "conn_main_env lib cfg =
     lib\<lparr>ce_connector_id := cfg_text cfg ''connector_id'', ce_tenant_id := cfg_text cfg ''tenant_id'',
         ce_topic := cfg_text cfg ''kafka_topic'', ce_timeout_s := of_int (cfg_int cfg ''kafka_produce_timeout_ms'') / 1000,
         ce_meta_topic := None\<rparr>"

definition s3_main_env :: "s3_env \<Rightarrow> host \<Rightarrow> config \<Rightarrow> s3_env" where
  "s3_main_env lib h cfg =
     lib\<lparr>se_conn := conn_main_env (se_conn lib) cfg, se_bucket := cfg_text cfg ''minio_bucket'', se_file_types := file_types h\<rparr>"

definition nfs_main_env :: "nfs_env \<Rightarrow> host \<Rightarrow> config \<Rightarrow> nfs_env" where
  "nfs_main_env lib h cfg =
     lib\<lparr>ne_conn := conn_main_env (ne_conn lib) cfg, ne_mount_path := cfg_text cfg ''nfs_mount_path'',
         ne_extensions := allowed_extensions (extensions_text h)\<rparr>"

definition is_db_lost :: "exc \<Rightarrow> bool" where
  "is_db_lost e \<longleftrightarrow> exc_class e \<in> {''psycopg2.OperationalError'', ''psycopg2.InterfaceError''}"

text \<open>One round of the loop: the new multiplier, with the connection replaced when it was lost.\<close>

definition poll_round :: "'w boot_api \<Rightarrow> config \<Rightarrow> ('w, 'a) prog \<Rightarrow> rat \<Rightarrow> ('w, rat) prog" where
  "poll_round boot cfg poll multiplier =
     catchE (seqE poll (ret 1))
       (\<lambda>e. if is_db_lost e
            then seqE (ignoring (boot Boot_Close_Db))
                   (catchE (seqE (boot (Boot_Db (cfg_text cfg ''postgres_dsn''))) (ret multiplier))
                     (\<lambda>_. ret (min (multiplier * 2) 10)))
            else ret (min (multiplier * 2) 10))"

text \<open>The endless loop over the polls it makes.\<close>

fun connector_loop :: "'w boot_api \<Rightarrow> config \<Rightarrow> ('w, 'a) prog list \<Rightarrow> rat \<Rightarrow> ('w, unit) prog" where
  "connector_loop boot cfg [] multiplier = ret ()"
| "connector_loop boot cfg (poll # polls) multiplier =
     bindE (poll_round boot cfg poll multiplier) (\<lambda>m.
       seqE (boot (Boot_Sleep (rat_of cfg ''poll_interval_seconds'' * m))) (connector_loop boot cfg polls m))"

definition s3_main :: "'w boot_api \<Rightarrow> 'w conn_api \<Rightarrow> s3_env \<Rightarrow> host \<Rightarrow> config \<Rightarrow> s3_fresh list \<Rightarrow> ('w, unit) prog" where
  "s3_main boot api lib h cfg rounds =
     (let env = s3_main_env lib h cfg in
      seqE (boot (Boot_Metrics 9090))
        (seqE (boot (Boot_Minio (cfg_text cfg ''minio_endpoint'') (cfg_flag cfg ''minio_secure'')))
          (seqE (boot (Boot_Producer (cfg_text cfg ''kafka_bootstrap'')))
            (seqE (boot (Boot_Redis (cfg_text cfg ''redis_url'')))
              (seqE (boot (Boot_Db (cfg_text cfg ''postgres_dsn'')))
                (connector_loop boot cfg (map (s3_poll api env) rounds) 1))))))"

section \<open>The metadata service\<close>

text \<open>
  \<open>startup_event\<close> starts the consumer thread when both addresses are set and everything could be
  connected; otherwise the service answers reports without one. The result tells whether it runs.
\<close>

definition meta_startup :: "'w boot_api \<Rightarrow> config \<Rightarrow> ('w, bool) prog" where
  "meta_startup boot cfg =
     (if cfg_text cfg ''kafka_bootstrap'' = [] \<or> cfg_text cfg ''database_url'' = [] then ret False
      else catchE
        (seqE (boot (Boot_Db (cfg_text cfg ''database_url'')))
          (seqE (boot (Boot_Producer (cfg_text cfg ''kafka_bootstrap'')))
            (seqE (boot (Boot_Consumer (cfg_text cfg ''kafka_bootstrap'') (cfg_text cfg ''kafka_consumer_group'')))
              (seqE (boot Boot_Thread) (ret True)))))
        (\<lambda>_. ret False))"

text \<open>The NFS connector keeps its watcher's queue as state.\<close>

definition nfs_main :: "'w boot_api \<Rightarrow> 'w conn_api \<Rightarrow> nfs_env \<Rightarrow> host \<Rightarrow> config \<Rightarrow> nfs_fresh list \<Rightarrow> ('w nfs, unit) prog" where
  "nfs_main boot api lib h cfg rounds =
     (let env = nfs_main_env lib h cfg; outside = (\<lambda>c. with_state (boot c)) in
      seqE (outside (Boot_Metrics 9090))
        (seqE (outside (Boot_Producer (cfg_text cfg ''kafka_bootstrap'')))
          (seqE (outside (Boot_Redis (cfg_text cfg ''redis_url'')))
            (seqE (outside (Boot_Db (cfg_text cfg ''postgres_dsn'')))
              (connector_loop outside cfg (map (nfs_poll api env) rounds) 1)))))"

section \<open>What the processes announce\<close>

text \<open>The usage and lineage commands, and the status updates of the document processor.\<close>

fun rag_announces :: "rag_cmd \<Rightarrow> bool" where
  "rag_announces (Usage_Produce _) = True"
| "rag_announces (Meta_Produce _) = True"
| "rag_announces (Meta_Flush _) = True"
| "rag_announces _ = False"

fun doc_announces :: "doc_cmd \<Rightarrow> bool" where
  "doc_announces (Produce_Meta _) = True"
| "doc_announces (Flush_Meta _) = True"
| "doc_announces (Sql_Set_Status _ _) = True"
| "doc_announces Sql_Commit = True"
| "doc_announces _ = False"

fun worker_announces :: "ew_cmd \<Rightarrow> bool" where
  "worker_announces (Publish_Usage _) = True"
| "worker_announces (Ew_Meta_Produce _) = True"
| "worker_announces (Ew_Meta_Flush _) = True"
| "worker_announces _ = False"

fun conn_announces :: "conn_cmd \<Rightarrow> bool" where
  "conn_announces (Lineage_Produce _) = True"
| "conn_announces (Lineage_Flush _) = True"
| "conn_announces _ = False"

lemma rag_silent:
  assumes "\<And>c. \<not> rag_announces c \<Longrightarrow> keeps I (api c)"
  shows "keeps (\<lambda>bw. I (snd bw)) (query api (rag_main_env lib cfg) rq t cf)"
proof -
  let ?env = "rag_main_env lib cfg"
  have off: "publish_usage_if api ?env t' n c cf = ret ()" "publish_meta_if api ?env t' rq col c cs cf = ret ()" for t' n c col cs
    by (simp_all add: publish_usage_if_def publish_meta_if_def rag_main_env_def)
  have a: "keeps I (answer_from_cache api ?env rq t col cf raw)" for col raw
    unfolding answer_from_cache_def off by (auto intro!: keeps_intros split: option.split)
  have l: "keeps I (cache_lookup api ?env rq t col k cf)" for col k
    unfolding cache_lookup_def by (intro keeps_intros assms) (auto intro!: keeps_intros a split: option.split)
  have g: "keeps (\<lambda>bw. I (snd bw)) (guarded_search api col v rq cf)" for col v
    by (intro keeps_guarded_search keeps_search assms) simp_all
  have s: "keeps I (store_cache api ?env k rs)" for k rs
    unfolding store_cache_def by (auto intro!: keeps_intros assms)
  have e: "keeps I (bindE (api (Embed (rq_query rq))) want_vector)"
    by (intro keeps_intros assms) simp
  show ?thesis
    unfolding query_def uncached_query_def Let_def off
    by (intro keeps_intros) (auto intro!: keeps_intros l g s e split: option.split)
qed

lemma doc_silent:
  assumes k: "\<And>c. \<not> doc_announces c \<Longrightarrow> keeps I (api c)"
  shows "keeps I (Doc_Processor.run api (doc_main_env lib cfg) polls)"
proof -
  let ?env = "doc_main_env lib cfg"
  have st: "keeps I (update_source_file_status api ?env s t)" for s t
    by (simp add: update_source_file_status_def doc_main_env_def keeps_intros)
  have d: "keeps I (route_to_dlq api ?env f mt ev r x)" for f mt ev r x
    by (intro keeps_route_to_dlq k) simp_all
  have pe: "keeps I (publish_each api ms)" for ms
    by (induction ms) (auto simp: produce_with_retry_def intro!: keeps_intros k)
  have p: "keeps I (publish_chunks api ?env ev f cs)" for ev f cs
    unfolding publish_chunks_def by (auto intro!: keeps_intros k pe)
  have f: "keeps I (fetch_content_with_retry b (fetch_via api) ref)" for b ref
    by (intro keeps_fetch k) simp
  have h: "keeps I (handle_text api ?env f mt ev i t)" for f mt ev i t
    unfolding handle_text_def Let_def
    by (intro keeps_intros k d p) (simp_all add: doc_main_env_def keeps_intros)
  have m: "keeps I (process_message api ?env f msg)" for f msg
    unfolding process_message_def
    by (auto intro!: keeps_intros k d f h st split: sum.split)
  have x: "keeps I (handle_polled api ?env p)" for p
    unfolding handle_polled_def by (auto intro!: keeps_intros m split: polled.split)
  show ?thesis
    unfolding Doc_Processor.run_def by (intro keeps_seqE keeps_finally keeps_eachE x k) simp_all
qed

lemma worker_silent:
  assumes k: "\<And>c. \<not> worker_announces c \<Longrightarrow> keeps I (api c)"
  shows "keeps (\<lambda>cw. I (snd cw)) (run_worker api (worker_main_env lib cfg) rounds)"
proof -
  let ?env = "worker_main_env lib cfg"
  have u: "publish_usage_event api ?env f = (\<lambda>tn. ret ())" for f
    by (rule ext) (simp add: publish_usage_event_def worker_main_env_def)
  have e: "keeps I (publish_embedding_event api ?env f c n)" for f c n
    unfolding publish_embedding_event_def by (intro keeps_intros k) simp
  have s: "keeps I (set_source_file_status api x y n)" for x y n
    unfolding set_source_file_status_def by (intro keeps_intros k) simp_all
  have mo: "(case ee_meta_topic ?env of None \<Rightarrow> ret ()
      | Some topic \<Rightarrow> eachE (publish_embedding api ?env f topic) xs) = ret ()" for f xs
    by (simp add: worker_main_env_def)
  have fin: "keeps I (finish_batch api ?env f batch vs)" for f batch vs
    unfolding finish_batch_def announce_batch_def Let_def u mo by (intro keeps_intros e s k) simp_all
  have d: "keeps I (eachE (send_to_dlq api ?env f reason detail) batch)" for f reason detail batch
    by (intro keeps_intros keeps_send_to_dlq k) simp_all
  have em: "keeps I (embed_with_retry api ts)" for ts by (intro keeps_embed k) simp_all
  have up: "keeps (\<lambda>cw. I (snd cw)) (upsert api ?env rs c)" for rs c
    unfolding upsert_def Let_def by (intro keeps_intros keeps_ensure k) auto
  have ug: "keeps (\<lambda>cw. I (snd cw)) (upsert_groups api ?env gs)" for gs
    by (induction gs) (auto intro!: keeps_intros up split: option.split)
  have b: "keeps (\<lambda>cw. I (snd cw)) (process_batch api ?env f batch)" for f batch
    unfolding process_batch_def
    by (auto intro!: keeps_intros em d fin ug split: embed_result.split option.split)
  show ?thesis
    unfolding run_worker_def Let_def by (intro keeps_eachE) (auto simp: keeps_ret b split: prod.split)
qed

lemma conn_silent:
  assumes k: "\<And>c. \<not> conn_announces c \<Longrightarrow> keeps I (api c)"
  shows "keeps I (publish_with_retry api env m)" and "keeps I (write_source_file_status api a b c d e)"
  unfolding publish_with_retry_def publish_attempt_def write_source_file_status_def
  by (auto intro!: keeps_intros k)

lemma s3_silent:
  assumes k: "\<And>c. \<not> conn_announces c \<Longrightarrow> keeps I (api c)"
  shows "keeps I (s3_poll api (s3_main_env lib h cfg) f)"
proof -
  let ?env = "s3_main_env lib h cfg"
  have off: "publish_s3_lineage api ?env f i obj = ret ()" for i obj
    by (simp add: publish_s3_lineage_def s3_main_env_def conn_main_env_def)
  have o: "keeps I (poll_object api ?env f wm i obj nw)" for wm i obj nw
    unfolding poll_object_def Let_def off by (intro keeps_intros conn_silent k) simp_all
  have os: "keeps I (poll_objects api ?env f wm i objs nw)" for wm i objs nw
    by (induction objs arbitrary: i nw) (auto intro!: keeps_intros o split: prod.split)
  have g: "keeps I (get_watermark api ?env)" "keeps I (set_watermark api ?env t)" for t
    unfolding get_watermark_def set_watermark_def Connectors.want_text_def
    by (auto intro!: keeps_intros k split: option.split conn_reply.split)
  show "keeps I (s3_poll api ?env f)"
    unfolding s3_poll_def want_objects_def
    by (auto intro!: keeps_intros os g k split: option.split conn_reply.split prod.split)
qed

lemma nfs_silent:
  assumes k: "\<And>c. \<not> conn_announces c \<Longrightarrow> keeps I (api c)"
  shows "keeps (\<lambda>qw. I (snd qw)) (nfs_poll api (nfs_main_env lib h cfg) f)"
proof -
  let ?env = "nfs_main_env lib h cfg"
  have off: "publish_nfs_lineage api ?env f p ev = ret ()" for p ev
    by (simp add: publish_nfs_lineage_def nfs_main_env_def conn_main_env_def)
  have w: "keeps I (Connectors.want_bool r)" "keeps I (want_paths r)" for r
    by (simp_all add: Connectors.want_bool_def want_paths_def keeps_intros split: conn_reply.split)
  have e: "keeps I (make_event api ?env f p)" for p
    unfolding make_event_def Let_def by (intro keeps_intros k w) simp
  have p: "keeps I (poll_path api ?env f p)" for p
    unfolding poll_path_def off by (auto intro!: keeps_intros e conn_silent k split: option.split)
  have ps: "keeps I (poll_paths api ?env f xs)" for xs
    by (induction xs) (auto intro!: keeps_intros p)
  have t: "keeps I (tree_diff api ?env)" unfolding tree_diff_def by (intro keeps_intros k w) simp_all
  have q: "keeps (\<lambda>qw. I (snd qw)) drain_queue" by (rule keepsI) (simp add: drain_queue_def)
  show "keeps (\<lambda>qw. I (snd qw)) (nfs_poll api ?env f)"
    unfolding nfs_poll_def by (auto intro!: keeps_intros k w q t ps)
qed

lemma init_silent:
  "s3_init api (s3_main_env slib h cfg) sf = ret ()" "nfs_init api (nfs_main_env nlib h cfg) nf = ret ()"
  by (simp_all add: s3_init_def s3_main_env_def nfs_init_def nfs_main_env_def conn_main_env_def)


section \<open>A retrieval API that starts before Milvus\<close>

text \<open>
  The client library of Milvus: a connection that fails leaves the client as it was, no other call of
  the service connects, and on a client that is not connected the first call of a search raises.
\<close>

definition client_world :: "'w boot_api \<Rightarrow> 'w rag_api \<Rightarrow> ('w \<Rightarrow> bool) \<Rightarrow> bool" where
  "client_world boot api linked \<longleftrightarrow>
     (\<forall>h p w e w'. boot (Boot_Milvus h p) w = (Inl e, w') \<longrightarrow> linked w' = linked w)
   \<and> (\<forall>c w r w'. api c w = (r, w') \<longrightarrow> linked w' = linked w)
   \<and> (\<forall>c w r w'. api (Has_Collection c) w = (r, w') \<longrightarrow> \<not> linked w \<longrightarrow> (\<exists>m. r = Inl (Exc ''ConnectionNotExistException'' m)))"

lemma client_worldD:
  assumes "client_world boot api linked"
  shows "boot (Boot_Milvus h p) w = (Inl e, w') \<Longrightarrow> linked w' = linked w"
    and "api c w = (r, w') \<Longrightarrow> linked w' = linked w"
    and "api (Has_Collection col) w = (r, w') \<Longrightarrow> \<not> linked w \<Longrightarrow> \<exists>m. r = Inl (Exc ''ConnectionNotExistException'' m)"
  using assms unfolding client_world_def by (elim conjE, metis)+

fun serve_queries ::
  "'w rag_api \<Rightarrow> rag_env \<Rightarrow> (query_request \<times> string option \<times> call_facts) list \<Rightarrow> 'w rag \<Rightarrow> http_answer list \<times> 'w rag" where
  "serve_queries api env [] s = ([], s)"
| "serve_queries api env ((rq, header, cf) # qs) s =
     (case query_endpoint api env rq header cf s of (a, s') \<Rightarrow>
        (case serve_queries api env qs s' of (as, s'') \<Rightarrow> (a # as, s'')))"

definition searched :: "http_answer \<Rightarrow> bool" where
  "searched a = (case a of Answered resp \<Rightarrow> \<not> qp_cached resp | _ \<Rightarrow> False)"

lemma wp_both: "wp p Q E w \<Longrightarrow> wp p Q' E' w \<Longrightarrow> wp p (\<lambda>x w. Q x w \<and> Q' x w) (\<lambda>e w. E e w \<and> E' e w) w"
  by (auto simp: wp_def split: prod.splits sum.splits)

lemma lookup_cached:
  "wp (cache_lookup api env rq t col key cf) (\<lambda>x _. case x of None \<Rightarrow> True | Some r \<Rightarrow> qp_cached r) (\<lambda>_ _. True) w"
proof -
  have "wp (answer_from_cache api env rq t col cf raw) (\<lambda>r _. qp_cached r) (\<lambda>_ _. True) w1" for raw w1
    by (auto simp: answer_from_cache_def wp_simps intro!: wp_publish split: option.split sum.splits)
       (metis sum.case(2) response_of_cache_cases)
  then have "wp (case raw of None \<Rightarrow> ret None
        | Some r \<Rightarrow> bindE (answer_from_cache api env rq t col cf r) (\<lambda>resp. ret (Some resp)))
      (\<lambda>x _. case x of None \<Rightarrow> True | Some r \<Rightarrow> qp_cached r) (\<lambda>_ _. True) w1" for raw w1
    by (simp add: wp_simps split: option.split)
  then show ?thesis
    unfolding cache_lookup_def
    by (simp add: wp_simps wp_def [of "api _"] want_text_def split: prod.split sum.split rag_reply.split)
qed

lemma unconnected_keeps: "client_world boot api linked \<Longrightarrow> keeps (\<lambda>w. \<not> linked w) (api c)"
  by (rule keepsI) (metis client_worldD(2))

lemma unconnected_search:
  assumes "client_world boot api linked" and "\<not> linked w"
  shows "wp (guarded_search api col v rq cf) (\<lambda>_ _. False) (\<lambda>_ bw. \<not> linked (snd bw)) (b, w)"
proof -
  let ?f = "\<lambda>w. case search api col v (rq_top_k rq) (rq_source_filter rq) w of
      (Inl e, w') \<Rightarrow> (Inl (Call_Raised e), w') | (Inr hs, w') \<Rightarrow> (Inr hs, w')"
  obtain r b' w' where c: "call (cf_now cf) (cf_later cf) ?f (b, w) = (r, (b', w'))" by (rule triple_cases)
  obtain x w1 where h: "api (Has_Collection col) w = (x, w1)" by (rule prod.exhaust)
  obtain m where x: "x = Inl (Exc ''ConnectionNotExistException'' m)" using client_worldD(3) [OF assms(1) h assms(2)] by blast
  have f: "?f w = (Inl (Call_Raised (Exc ''ConnectionNotExistException'' m)), w1)"
    using h x by (simp add: search_def prog_defs)
  have "\<not> linked w1" using client_worldD(2) [OF assms(1) h] assms(2) by simp
  with c show ?thesis
    by (cases rule: call_cases) (use c f assms(2) in \<open>auto simp: wp_def guarded_search_def\<close>)
qed

lemma unconnected_query:
  assumes w: "client_world boot api linked" and "\<not> linked w"
  shows "wp (query api env rq t cf) (\<lambda>resp bw. \<not> linked (snd bw) \<and> qp_cached resp) (\<lambda>_ bw. \<not> linked (snd bw)) (b, w)"
proof -
  let ?J = "\<lambda>bw. \<not> linked (snd bw)"
  let ?key = "make_cache_key env (rq_query rq) (rq_top_k rq) (rq_source_filter rq) (t @ ''_docs'')"
  have kc: "keeps (\<lambda>w. \<not> linked w) (cache_lookup api env rq t (t @ ''_docs'') ?key cf)"
    unfolding cache_lookup_def answer_from_cache_def
    by (auto intro!: keeps_intros keeps_publish_usage_if keeps_publish_meta_if unconnected_keeps [OF w] split: option.split)
  have lookup: "wp (with_state (cache_lookup api env rq t (t @ ''_docs'') ?key cf))
      (\<lambda>x bw. ?J bw \<and> (case x of None \<Rightarrow> True | Some r \<Rightarrow> qp_cached r)) (\<lambda>_. ?J) (b, w)"
    by (rule wp_lift_state, rule wp_mono [OF wp_both [OF wp_of_keeps [OF kc assms(2)] lookup_cached]]) auto
  have e: "keeps ?J (with_state (bindE (api (Embed (rq_query rq))) want_vector))"
    by (intro keeps_with_state keeps_intros unconnected_keeps [OF w])
  have "wp (uncached_query api env rq t (t @ ''_docs'') ?key avail cf) (\<lambda>resp bw. ?J bw \<and> qp_cached resp) (\<lambda>_. ?J) bw" if "?J bw" for avail bw
    unfolding uncached_query_def wp_bindE [of "with_state _"]
  proof (rule wp_of_keeps [OF e that])
    fix v and cw :: "breaker \<times> 'a" assume cw: "?J cw"
    show "wp (bindE (guarded_search api (t @ ''_docs'') v rq cf) f) (\<lambda>resp bw. ?J bw \<and> qp_cached resp) (\<lambda>_. ?J) cw" for f
      unfolding wp_bindE by (rule wp_mono [OF unconnected_search [OF w, of "snd cw" _ _ _ _ "fst cw", simplified]]) (use cw in auto)
  qed
  then show ?thesis
    unfolding query_def Let_def wp_bindE wp_catchE
    by (intro wp_mono [OF lookup]) (auto simp: wp_simps split: option.split)
qed

lemma unconnected_serve:
  assumes w: "client_world boot api linked"
  shows "\<not> linked (snd s) \<Longrightarrow> serve_queries api env qs s = (as, s') \<Longrightarrow> list_all (\<lambda>a. \<not> searched a) as"
proof (induction qs arbitrary: s as)
  case (Cons q qs)
  obtain rq header cf where q: "q = (rq, header, cf)" by (rule prod_cases3)
  obtain a s1 where one: "query_endpoint api env rq header cf s = (a, s1)" by (rule prod.exhaust)
  obtain as1 where rest: "serve_queries api env qs s1 = (as1, s')" and as: "as = a # as1"
    using Cons.prems(2) q one by (auto split: prod.splits)
  obtain r s2 where run: "query api env rq (case header of None \<Rightarrow> ''default'' | Some t \<Rightarrow> t) cf (fst s, snd s) = (r, s2)"
    by (rule prod.exhaust)
  have "\<not> searched a \<and> \<not> linked (snd s1)"
    using one run unconnected_query [OF w Cons.prems(1), of env rq "case header of None \<Rightarrow> ''default'' | Some t \<Rightarrow> t" cf "fst s"]
    by (auto simp: query_endpoint_def wp_def searched_def split: sum.splits if_splits)
  then show ?case using Cons.IH [OF _ rest] as by simp
qed simp

text \<open>
  C10. A retrieval API that starts while Milvus is unreachable never searches. The start-up swallows the
  failed connection, announcing that queries will retry it; none does. For whatever configuration,
  requests and time-outs of the breaker, every later answer comes from the cache or is an error, also
  when Milvus is back, until the process is restarted.
\<close>

theorem failed_start_never_searches:
  assumes "client_world boot api linked" and "\<not> linked w"
    and "boot (Boot_Milvus (cfg_text cfg ''milvus_host'') (cfg_int cfg ''milvus_port'')) w = (Inl e, w1)"
    and "rag_startup boot cfg w = (Inr b, w2)"
    and "serve_queries api (rag_main_env lib cfg) qs (b, w2) = (as, s)"
  shows "list_all (\<lambda>a. \<not> searched a) as"
proof -
  have "w2 = w1" using assms(3,4) by (simp add: rag_startup_def prog_defs)
  then have "\<not> linked w2" using client_worldD(1) [OF assms(1,3)] assms(2) by simp
  then show ?thesis using unconnected_serve [OF assms(1), of "(b, w2)"] assms(5) by simp
qed

section \<open>The defaults\<close>

text \<open>A setting of a loaded configuration is what its line of the class reads.\<close>

lemma loaded_setting:
  "load_config table h = Inr cfg \<Longrightarrow> map_of table name = Some s \<Longrightarrow> \<exists>v. read_setting h s = Inr v \<and> map_of cfg name = Some v"
  unfolding load_config_def by (induction table arbitrary: cfg) (auto split: sum.splits if_splits)

lemma loaded_text:
  assumes "load_config table h = Inr cfg" and "map_of table name = Some (Text var d)"
  shows "cfg_text cfg name = getenv h var d"
  using loaded_setting [OF assms] by (auto simp: cfg_text_def read_setting_def)

lemma loaded_int:
  assumes "load_config table h = Inr cfg" and "map_of table name = Some (Integer var d)"
  shows "py_int (getenv h var d) = Some (cfg_int cfg name)"
  using loaded_setting [OF assms] by (auto simp: cfg_int_def read_setting_def split: option.splits)

text \<open>A host on which a service's variables are unset: every service loads there.\<close>

definition unset :: "host \<Rightarrow> settings \<Rightarrow> bool" where
  "unset h table \<longleftrightarrow> (\<forall>(name, s) \<in> set table. map_of (ho_env h) (variable_of s) = None)"

lemma unset_getenv: "unset h table \<Longrightarrow> map_of table name = Some s \<Longrightarrow> getenv h (variable_of s) d = d"
  by (auto simp: unset_def getenv_def get_or_def dest!: map_of_SomeD)

lemma default_text:
  assumes "unset h table" and "load_config table h = Inr cfg" and "map_of table name = Some (Text var d)"
  shows "cfg_text cfg name = d"
  using loaded_text [OF assms(2,3)] unset_getenv [OF assms(1,3), of d] by simp

lemma numbers_read:
  "py_int ''6379'' = Some 6379" "py_int ''300'' = Some 300" "py_int ''19530'' = Some 19530" "py_int ''384'' = Some 384"
  "py_int ''5'' = Some 5" "py_int ''5000'' = Some 5000" "py_int ''32'' = Some 32" "py_int ''500'' = Some 500"
  "py_int ''1536'' = Some 1536" "py_int ''300000'' = Some 300000" "py_int ''45000'' = Some 45000" "py_int ''512'' = Some 512"
  "py_int ''64'' = Some 64" "py_int ''200'' = Some 200" "py_int ''0'' = Some 0" "py_int ''50051'' = Some 50051"
  "py_int ''4'' = Some 4" "py_int ''8080'' = Some 8080" "py_int ''60'' = Some 60"
  by (simp_all add: str_eval)

lemma decimals_read: "py_float_of ''30'' = Some (Finite 30)" "py_float_of ''1.0'' = Some (Finite 1)"
  by (simp_all add: py_float_of_def py_number_def py_mantissa_def signed_def split_once_def digits_value_def str_eval)

definition all_settings :: "settings list" where
  "all_settings = [rag_settings, worker_settings, doc_settings, s3_settings, nfs_settings, quota_settings, bff_settings, meta_settings]"

lemma defaults_readable: "table \<in> set all_settings \<Longrightarrow> unset h table \<Longrightarrow> list_all (\<lambda>(name, s). readable h s) table"
  by (auto simp: all_settings_def unset_def rag_settings_def worker_settings_def doc_settings_def s3_settings_def nfs_settings_def
      quota_settings_def bff_settings_def meta_settings_def postgres_secret_def readable_def getenv_def get_or_def numbers_read decimals_read)

lemma unset_loads: "table \<in> set all_settings \<Longrightarrow> unset h table \<Longrightarrow> \<exists>cfg. load_config table h = Inr cfg"
  using load_config_iff [of table h] defaults_readable by (cases "load_config table h") auto

text \<open>
  Unconfigured services find each other: the connectors write the topic the document processor reads,
  the document processor the topic the worker reads, and all name one lineage topic.
\<close>

lemma default_topics_connect:
  assumes "load_config s3_settings h1 = Inr s3" "unset h1 s3_settings" and "load_config nfs_settings h2 = Inr nfs" "unset h2 nfs_settings"
    and "load_config doc_settings h3 = Inr doc" "unset h3 doc_settings" and "load_config worker_settings h4 = Inr wk" "unset h4 worker_settings"
    and "load_config meta_settings h5 = Inr meta" "unset h5 meta_settings"
  shows "cfg_text s3 ''kafka_topic'' = cfg_text doc ''kafka_input_topic''" and "cfg_text nfs ''kafka_topic'' = cfg_text doc ''kafka_input_topic''"
    and "cfg_text doc ''kafka_output_topic'' = cfg_text wk ''kafka_input_topic''"
    and "cfg_text doc ''metadata_events_topic'' = cfg_text meta ''metadata_events_topic''"
    and "cfg_text wk ''metadata_events_topic'' = cfg_text meta ''metadata_events_topic''"
  using assms
  by (simp_all add: default_text s3_settings_def nfs_settings_def doc_settings_def worker_settings_def meta_settings_def)

text \<open>But the API asks the quota service at a port it does not serve, and the metadata service does not
  start its consumer.\<close>

lemma default_quota_port_differs:
  assumes "load_config quota_settings h1 = Inr quota" "unset h1 quota_settings" and "load_config bff_settings h2 = Inr bff" "unset h2 bff_settings"
  shows "cfg_int quota ''http_port'' = 8080" and "cfg_text bff ''quota_service_url'' = ''http://quota-service.ai-pipeline.svc:8081''"
proof -
  have "map_of quota_settings ''http_port'' = Some (Integer ''HTTP_PORT'' ''8080'')" by (simp add: quota_settings_def)
  from loaded_int [OF assms(1) this] unset_getenv [OF assms(2) this, of "''8080''"]
  show "cfg_int quota ''http_port'' = 8080" by (simp add: numbers_read)
  have "map_of bff_settings ''quota_service_url'' = Some (Text ''QUOTA_SERVICE_URL'' ''http://quota-service.ai-pipeline.svc:8081'')"
    by (simp add: bff_settings_def)
  from default_text [OF assms(4,3) this] show "cfg_text bff ''quota_service_url'' = ''http://quota-service.ai-pipeline.svc:8081''" .
qed

lemma default_meta_idle:
  assumes "load_config meta_settings h = Inr cfg" "unset h meta_settings"
  shows "meta_startup boot cfg = ret False"
proof -
  have "map_of meta_settings ''kafka_bootstrap'' = Some (Text ''KAFKA_BOOTSTRAP'' '''')" by (simp add: meta_settings_def)
  from default_text [OF assms(2,1) this] show ?thesis by (simp add: meta_startup_def)
qed

text \<open>
  A worker set to the OpenAI backend stores vectors of another length than the retrieval API, which
  always embeds with the local model, searches with.
\<close>

lemma openai_dimension_differs:
  assumes "load_config worker_settings h = Inr cfg" and "getenv h ''EMBEDDING_BACKEND'' ''local-cpu'' = ''openai''"
    and "map_of (ho_env h) ''OPENAI_EMBEDDING_DIM'' = None"
  shows "backend_dim (worker_backend cfg) = 1536" and "backend_dim (Local_CPU name) = 384"
proof -
  have "map_of worker_settings ''embedding_backend'' = Some (Text ''EMBEDDING_BACKEND'' ''local-cpu'')"
    "map_of worker_settings ''openai_embedding_dim'' = Some (Integer ''OPENAI_EMBEDDING_DIM'' ''1536'')"
    by (simp_all add: worker_settings_def)
  from loaded_text [OF assms(1) this(1)] loaded_int [OF assms(1) this(2)] assms(2,3)
  show "backend_dim (worker_backend cfg) = 1536"
    by (simp add: worker_backend_def main_backend_def backend_dim_def getenv_def get_or_def numbers_read)
qed (simp add: backend_dim_def)

definition bare_host :: host where
  "bare_host = \<lparr>ho_env = [], ho_files = \<lambda>_. None\<rparr>"

lemma bare_unset: "unset bare_host table"
  by (simp add: unset_def bare_host_def case_prod_beta)

fun refused_boot :: "bool boot_api" where
  "refused_boot (Boot_Milvus h p) w = (Inl (Exc ''MilvusException'' ''connection refused''), w)"
| "refused_boot c w = (Inr (), w)"

fun unlinked_api :: "bool rag_api" where
  "unlinked_api (Cache_Get k) w = (Inr (R_Text None), w)"
| "unlinked_api (Embed q) w = (Inr (R_Vector [1]), w)"
| "unlinked_api (Has_Collection c) w = (if w then Inr (R_Bool True) else Inl (Exc ''ConnectionNotExistException'' c), w)"
| "unlinked_api c w = (Inr R_Done, w)"

lemma unlinked_world: "client_world refused_boot unlinked_api (\<lambda>w. w)"
proof -
  have "w' = w" if "unlinked_api c w = (r, w')" for c w r w' using that by (cases c) auto
  then show ?thesis by (auto simp: client_world_def)
qed

lemma length_serve_queries: "serve_queries api env qs s = (as, s') \<Longrightarrow> length as = length qs"
  by (induction qs arbitrary: s as) (auto split: prod.splits)

theorem failed_start_never_searches_witness:
  "\<exists>cfg b as s. load_config rag_settings bare_host = Inr cfg \<and> rag_startup refused_boot cfg False = (Inr b, False)
     \<and> serve_queries unlinked_api (rag_main_env sample_env cfg) [(sample_request, None, sample_facts), (sample_request, Some ''acme'', sample_facts)]
         (b, False) = (as, s) \<and> length as = 2 \<and> list_all (\<lambda>a. \<not> searched a) as"
proof -
  obtain cfg where cfg: "load_config rag_settings bare_host = Inr cfg"
    using unset_loads [OF _ bare_unset] by (auto simp: all_settings_def)
  let ?qs = "[(sample_request, None, sample_facts), (sample_request, Some ''acme'', sample_facts)]"
  obtain b where b: "rag_startup refused_boot cfg False = (Inr b, False)"
    by (simp add: rag_startup_def prog_defs)
  obtain as s where run: "serve_queries unlinked_api (rag_main_env sample_env cfg) ?qs (b, False) = (as, s)"
    by (rule prod.exhaust)
  have "list_all (\<lambda>a. \<not> searched a) as"
    by (rule failed_start_never_searches [OF unlinked_world _ refused_boot.simps(1) b run]) simp
  then show ?thesis using cfg b run length_serve_queries [OF run] by auto
qed

section \<open>The loop of a connector\<close>

definition is_sleep :: "boot_cmd \<Rightarrow> bool" where
  "is_sleep c = (case c of Boot_Sleep _ \<Rightarrow> True | _ \<Rightarrow> False)"

definition sleep_within :: "rat \<Rightarrow> boot_cmd \<Rightarrow> bool" where
  "sleep_within interval c = (case c of Boot_Sleep q \<Rightarrow> interval \<le> q \<and> q \<le> 10 * interval | _ \<Rightarrow> True)"

text \<open>A round asks for no sleep itself, never raises, and keeps the multiplier within bounds.\<close>

lemma wp_poll_round:
  assumes "\<And>l. keeps (\<lambda>wl. snd wl = l) poll" and "1 \<le> m" and "m \<le> 10"
  shows "wp (poll_round (logged boot) cfg poll m)
    (\<lambda>m' wl. 1 \<le> m' \<and> m' \<le> 10 \<and> (\<exists>cs. snd wl = l @ cs \<and> list_all (\<lambda>c. \<not> is_sleep c) cs)) (\<lambda>_ _. False) (w, l)"
proof -
  let ?I = "only_issued (\<lambda>c. \<not> is_sleep c) l"
  have k: "keeps ?I (logged boot c)" if "\<not> is_sleep c" for c using that by (intro keeps_logged)
  have m2: "1 \<le> min (m * 2) 10" "min (m * 2) 10 \<le> 10" using assms(2) by (auto simp: min_def)
  have p: "wp poll (\<lambda>_ wl. snd wl = l) (\<lambda>_ wl. snd wl = l) (w, l)"
    by (rule wp_of_keeps [OF assms(1) [of l]]) simp_all
  have start: "?I wl" if "snd wl = l" for wl using that by (simp add: only_issued_def)
  have db: "wp (logged boot (Boot_Db x)) (\<lambda>_. ?I) (\<lambda>_. ?I) wl" if "?I wl" for x wl
    by (rule wp_of_keeps [OF k that]) (simp_all add: is_sleep_def)
  have close: "wp (logged boot Boot_Close_Db) (\<lambda>_. ?I) (\<lambda>_. ?I) wl" if "?I wl" for wl
    by (rule wp_of_keeps [OF k that]) (simp_all add: is_sleep_def)
  have lost: "wp (ignoring (logged boot Boot_Close_Db)) (\<lambda>_. wp (catchE (seqE (logged boot (Boot_Db x)) (ret m)) (\<lambda>_. ret (min (m * 2) 10)))
      (\<lambda>m' wl. 1 \<le> m' \<and> m' \<le> 10 \<and> ?I wl) (\<lambda>_ _. False)) (\<lambda>_ _. False) wl" if "snd wl = l" for x wl
    unfolding wp_ignoring wp_catchE wp_seqE wp_ret
    by (rule wp_mono [OF close [OF start [OF that]]]; rule wp_mono [OF db]) (use assms(2,3) m2 in auto)
  show ?thesis
    unfolding poll_round_def wp_catchE wp_seqE only_issued_def [symmetric]
    by (rule wp_mono [OF p]) (use lost start m2 in \<open>auto simp: wp_simps wp_seqE [of "ignoring _"]\<close>)
qed

definition loop_log :: "rat \<Rightarrow> nat \<Rightarrow> boot_cmd list \<Rightarrow> bool" where
  "loop_log interval n cs \<longleftrightarrow> length (filter is_sleep cs) = n \<and> list_all (sleep_within interval) cs"

lemma loop_log_step:
  assumes "list_all (\<lambda>c. \<not> is_sleep c) cs" and "loop_log i n ds" and "1 \<le> m" and "m \<le> 10" and "0 \<le> i"
  shows "loop_log i (Suc n) (cs @ Boot_Sleep (i * m) # ds)"
proof -
  have "filter is_sleep cs = []" "list_all (sleep_within i) cs"
    using assms(1) by (auto simp: list_all_iff filter_empty_conv is_sleep_def sleep_within_def split: boot_cmd.splits)
  moreover have "i \<le> i * m" "i * m \<le> 10 * i"
    using assms(3-5) mult_left_mono [of 1 m i] mult_left_mono [of m 10 i] by simp_all
  ultimately show ?thesis using assms(2) by (simp add: loop_log_def is_sleep_def sleep_within_def)
qed

text \<open>\<open>time.sleep\<close> returns; the polls issue no command of the main function.\<close>

definition sleeps_return :: "'w boot_api \<Rightarrow> bool" where
  "sleeps_return boot \<longleftrightarrow> (\<forall>q w. \<exists>w'. boot (Boot_Sleep q) w = (Inr (), w'))"

definition polls_apart :: "('w \<times> boot_cmd list, 'a) prog list \<Rightarrow> bool" where
  "polls_apart polls \<longleftrightarrow> (\<forall>poll \<in> set polls. \<forall>l. keeps (\<lambda>wl. snd wl = l) poll)"

lemma wp_connector_loop:
  assumes sleep: "sleeps_return boot" and i: "0 \<le> rat_of cfg ''poll_interval_seconds''"
  shows "1 \<le> m \<Longrightarrow> m \<le> 10 \<Longrightarrow> polls_apart polls \<Longrightarrow>
    wp (connector_loop (logged boot) cfg polls m)
      (\<lambda>_ wl. \<exists>cs. snd wl = l @ cs \<and> loop_log (rat_of cfg ''poll_interval_seconds'') (length polls) cs) (\<lambda>_ _. False) (w, l)"
proof (induction polls arbitrary: m w l)
  case Nil
  then show ?case by (simp add: wp_def loop_log_def)
next
  case (Cons p ps)
  let ?i = "rat_of cfg ''poll_interval_seconds''"
  let ?Q = "\<lambda>_ wl. \<exists>cs. snd wl = l @ cs \<and> loop_log ?i (length (p # ps)) cs"
  have sleeps: "wp (logged boot (Boot_Sleep (?i * m'))) (\<lambda>_. wp (connector_loop (logged boot) cfg ps m') ?Q (\<lambda>_ _. False))
      (\<lambda>_ _. False) (w1, l @ cs)"
    if m': "1 \<le> m'" "m' \<le> 10" and quiet: "list_all (\<lambda>c. \<not> is_sleep c) cs" for m' w1 cs
  proof -
    obtain w2 where "boot (Boot_Sleep (?i * m')) w1 = (Inr (), w2)" using sleep unfolding sleeps_return_def by blast
    moreover have "wp (connector_loop (logged boot) cfg ps m') ?Q (\<lambda>_ _. False) (w2, (l @ cs) @ [Boot_Sleep (?i * m')])"
      by (rule wp_mono [OF Cons.IH [OF m']]) (use Cons.prems(3) loop_log_step [OF quiet _ m' i] in \<open>fastforce simp: polls_apart_def\<close>)+
    ultimately show ?thesis by (simp add: wp_def [of "logged _ _"] logged_def)
  qed
  have "wp (poll_round (logged boot) cfg p m)
      (\<lambda>m' wl. 1 \<le> m' \<and> m' \<le> 10 \<and> (\<exists>cs. snd wl = l @ cs \<and> list_all (\<lambda>c. \<not> is_sleep c) cs)) (\<lambda>_ _. False) (w, l)"
    by (rule wp_poll_round [OF _ Cons.prems(1,2)]) (use Cons.prems(3) in \<open>simp add: polls_apart_def\<close>)
  then show ?case
    unfolding connector_loop.simps wp_bindE wp_seqE using sleeps by (auto elim!: wp_mono)
qed


text \<open>The polls of a connector as its main function makes them, beside the log.\<close>

definition aside :: "('c, exc, 'r, 'w) api \<Rightarrow> ('c, exc, 'r, 'w \<times> 'l) api" where
  "aside api c = (\<lambda>(w, l). case api c w of (r, w') \<Rightarrow> (r, (w', l)))"

lemma keeps_aside: "keeps (\<lambda>wl. snd wl = l) (aside api c)"
  by (rule keepsI) (auto simp: aside_def split: prod.splits)

lemma s3_polls_apart: "polls_apart (map (s3_poll (aside api) (s3_main_env lib h cfg)) fs)"
  unfolding polls_apart_def by (auto intro!: s3_silent keeps_aside)

definition sample_s3_lib :: s3_env where
  "sample_s3_lib = \<lparr>se_conn = sample_conn_env, se_bucket = [], se_file_types = [], se_iso = (\<lambda>_. []), se_from_iso = (\<lambda>_. None)\<rparr>"

definition sample_s3_fresh :: s3_fresh where
  "sample_s3_fresh = \<lparr>sf_event_id = show_nat, sf_now = 1, sf_meta_id = show_nat, sf_meta_time = ''t''\<rparr>"

definition broken_boot :: "unit boot_api" where
  "broken_boot c w = (case c of Boot_Db _ \<Rightarrow> (Inl (Exc ''psycopg2.OperationalError'' ''down''), w) | _ \<Rightarrow> (Inr (), w))"

definition broken_conn :: "unit conn_api" where
  "broken_conn c w = (Inl (Exc ''psycopg2.InterfaceError'' ''closed''), w)"


section \<open>The end of a worker\<close>

text \<open>Once everything is open, the worker's main function closes the consumer, the store and the
  database in this order, however the work ends.\<close>

lemma worker_main_releases:
  assumes "\<And>c w. \<exists>w'. boot c w = (Inr (), w')" and "worker_main (logged boot) work cfg (w, []) = (r, (w', l))"
    and "\<And>l. keeps (\<lambda>wl. snd wl = l) work"
  shows "\<exists>opened. l = opened @ [Boot_Close_Consumer, Boot_Close_Milvus, Boot_Close_Db] \<and> length opened = 7"
proof -
  have step: "wp (logged boot c) Q E (v, k)" if "\<And>v'. Q () (v', k @ [c])" for c Q E v k
  proof -
    obtain v' where "boot c v = (Inr (), v')" using assms(1) by blast
    then show ?thesis using that by (simp add: wp_def logged_def)
  qed
  let ?close = "seqE (logged boot Boot_Close_Consumer) (seqE (logged boot Boot_Close_Milvus) (logged boot Boot_Close_Db))"
  have close: "\<exists>v'. ?close (v, k) = (Inr (), (v', k @ [Boot_Close_Consumer, Boot_Close_Milvus, Boot_Close_Db]))" for v k
  proof -
    obtain v1 where 1: "boot Boot_Close_Consumer v = (Inr (), v1)" using assms(1) by blast
    obtain v2 where 2: "boot Boot_Close_Milvus v1 = (Inr (), v2)" using assms(1) by blast
    obtain v3 where "boot Boot_Close_Db v2 = (Inr (), v3)" using assms(1) by blast
    with 1 2 show ?thesis by (simp add: logged_def prog_defs)
  qed
  have work: "wp (ensuring (catchE work (\<lambda>e. if e = keyboard_interrupt then ret () else raise e)) ?close)
      (\<lambda>_ wl. snd wl = k @ [Boot_Close_Consumer, Boot_Close_Milvus, Boot_Close_Db])
      (\<lambda>_ wl. snd wl = k @ [Boot_Close_Consumer, Boot_Close_Milvus, Boot_Close_Db]) (v, k)" for v k
  proof -
    let ?p = "catchE work (\<lambda>e. if e = keyboard_interrupt then ret () else raise e)"
    have kp: "keeps (\<lambda>wl. snd wl = k) ?p" by (intro keeps_intros assms(3))
    obtain x v1 k1 where p: "?p (v, k) = (x, (v1, k1))" by (rule triple_cases)
    have "k1 = k" using keepsD [OF kp _ p] by simp
    then show ?thesis using p close [of v1 k] by (auto simp: wp_def ensuring_def split: sum.split)
  qed
  have "wp (worker_main (logged boot) work cfg)
      (\<lambda>_ wl. \<exists>opened. snd wl = opened @ [Boot_Close_Consumer, Boot_Close_Milvus, Boot_Close_Db] \<and> length opened = 7)
      (\<lambda>_ wl. \<exists>opened. snd wl = opened @ [Boot_Close_Consumer, Boot_Close_Milvus, Boot_Close_Db] \<and> length opened = 7) (w, [])"
    unfolding worker_main_def Let_def wp_seqE
    by (intro step) (rule wp_mono [OF work], auto)
  then show ?thesis using assms(2) by (auto simp: wp_def split: sum.splits)
qed

end
