(* ===== verification/Quota_Main.thy ===== *)
theory Quota_Main
  imports Startup Quota_Server
begin

text \<open>
  \<open>serve\<close> of \<open>services/quota-service/src/server.py\<close>: the connections and servers of the quota service in
  the order they are made, with and without the generated gRPC stubs, the handlers of its signals, and
  the requests the process can then be asked. The wiring of the limits is \<open>get_limit_fn\<close>
  (\<open>Quota_Limits\<close>), which the closure in \<open>serve\<close> is.
\<close>

section \<open>Starting the servers\<close>

datatype serve_cmd =
    Redis_Client string int int
  | Db_Engine string
  | Http_Bind int
  | Http_Thread
  | Http_Shutdown
  | Http_Join
  | Grpc_Server int
  | Grpc_Bind int
  | Grpc_Start
  | Grpc_Stop int
  | Grpc_Wait
  | Metrics_Bind int
  | Signal_Handlers

type_synonym 'w serve_api = "(serve_cmd, exc, unit, 'w) api"

text \<open>The metrics of the service: all of them, or none where \<open>prometheus_client\<close> is not installed.\<close>

definition service_metrics :: "bool \<Rightarrow> qmetrics" where
  "service_metrics enabled =
     (if enabled
      then \<lparr>qm_skip = Some 0, qm_checks = Some (\<lambda>_. 0), qm_exceeded = Some (\<lambda>_. 0), qm_ratio = Some Map.empty\<rparr>
      else \<lparr>qm_skip = None, qm_checks = None, qm_exceeded = None, qm_ratio = None\<rparr>)"

text \<open>Everything up to the HTTP server, which both modes have.\<close>

definition serve_http :: "'w serve_api \<Rightarrow> config \<Rightarrow> ('w, unit) prog" where
  "serve_http api cfg =
     seqE (api (Redis_Client (cfg_text cfg ''redis_host'') (cfg_int cfg ''redis_port'') (cfg_int cfg ''redis_db'')))
       (seqE (api (Db_Engine (cfg_text cfg ''quota_db_url'')))
         (seqE (api (Http_Bind (cfg_int cfg ''http_port'')))
           (api Http_Thread)))"

definition serve_grpc :: "'w serve_api \<Rightarrow> config \<Rightarrow> ('w, unit) prog" where
  "serve_grpc api cfg =
     seqE (api (Grpc_Server (cfg_int cfg ''grpc_workers'')))
       (seqE (api (Grpc_Bind (cfg_int cfg ''grpc_port''))) (api Grpc_Start))"

definition serve :: "'w serve_api \<Rightarrow> bool \<Rightarrow> bool \<Rightarrow> config \<Rightarrow> ('w, unit) prog" where
  "serve api proto metrics cfg =
     seqE (serve_http api cfg)
       (if \<not> proto
        then seqE (whenE metrics (api (Metrics_Bind 9090))) (seqE (api Signal_Handlers) (api Http_Join))
        else seqE (serve_grpc api cfg)
               (seqE (whenE metrics (api (Metrics_Bind 9090))) (seqE (api Signal_Handlers) (api Grpc_Wait))))"

text \<open>The handlers of SIGTERM and SIGINT; \<open>sys.exit\<close> raises.\<close>

definition stop_http :: "'w serve_api \<Rightarrow> ('w, unit) prog" where
  "stop_http api = seqE (api Http_Shutdown) (raise (Exc ''SystemExit'' ''0''))"

definition stop_both :: "'w serve_api \<Rightarrow> ('w, unit) prog" where
  "stop_both api = seqE (api (Grpc_Stop 5)) (seqE (api Http_Shutdown) (raise (Exc ''SystemExit'' ''0'')))"

section \<open>What can be asked\<close>

datatype serving_status = STATUS_UNKNOWN | SERVING | NOT_SERVING

definition Check :: serving_status where
  "Check = SERVING"

datatype quota_call =
    Http_Request string http_request
  | Grpc_Check check_quota_request
  | Grpc_Record record_usage_request
  | Grpc_Usage string int
  | Grpc_Health

text \<open>The state after a request: without the stubs nothing listens for the last four.\<close>

definition after_request ::
  "bool \<Rightarrow> (check_quota_request \<Rightarrow> string \<Rightarrow> (string, bool) res) \<Rightarrow> (string \<Rightarrow> json option) \<Rightarrow> 's redis_api
     \<Rightarrow> (string \<Rightarrow> string \<Rightarrow> int option) \<Rightarrow> quota_call \<Rightarrow> 's qstate \<Rightarrow> 's qstate" where
  "after_request proto has_field loads api limits rq q =
     (case rq of
        Http_Request verb h \<Rightarrow> snd (quota_http loads api limits verb h q)
      | Grpc_Check c \<Rightarrow> if proto then snd (CheckQuota has_field api limits c q) else q
      | Grpc_Record r \<Rightarrow> if proto then q\<lparr>q_redis := snd (RecordUsage api r (q_redis q))\<rparr> else q
      | Grpc_Usage t m \<Rightarrow> if proto then q\<lparr>q_redis := snd (GetUsage api limits t m (q_redis q))\<rparr> else q
      | Grpc_Health \<Rightarrow> q)"

section \<open>Lemmas\<close>

definition is_grpc :: "serve_cmd \<Rightarrow> bool" where
  "is_grpc c = (case c of Grpc_Server _ \<Rightarrow> True | Grpc_Bind _ \<Rightarrow> True | Grpc_Start \<Rightarrow> True | Grpc_Stop _ \<Rightarrow> True
                | Grpc_Wait \<Rightarrow> True | _ \<Rightarrow> False)"

text \<open>Without the stubs no gRPC server is ever made, whatever succeeds or fails.\<close>

lemma serve_without_stubs:
  assumes "\<And>c. \<not> is_grpc c \<Longrightarrow> keeps I (api c)"
  shows "keeps I (serve api False metrics cfg)"
  unfolding serve_def serve_http_def by (auto intro!: keeps_intros assms simp: is_grpc_def)

text \<open>A gRPC port that cannot be bound ends the start with the HTTP server already accepting.\<close>

lemma bound_grpc_port_stops_start:
  assumes "serve_http api cfg w = (Inr (), w1)" and "api (Grpc_Server (cfg_int cfg ''grpc_workers'')) w1 = (Inr (), w2)"
    and "api (Grpc_Bind (cfg_int cfg ''grpc_port'')) w2 = (Inl e, w3)"
  shows "serve api True metrics cfg w = (Inl e, w3)"
  using assms by (simp add: serve_def serve_grpc_def seqE_def bindE_def)

text \<open>
  The transactions of a check: a counter of a tenant, never the mark of a recorded event.
\<close>

definition of_check :: "rcmd list \<Rightarrow> bool" where
  "of_check cmds \<longleftrightarrow>
     (\<exists>t m a. cmds \<in> {[IncrBy (quota_key t m) a, Expire (quota_key t m) (ttl m)], [DecrBy (quota_key t m) a], [Get (quota_key t m)]})"

definition checks_keep :: "'s redis_api \<Rightarrow> ('s \<Rightarrow> bool) \<Rightarrow> bool" where
  "checks_keep api P \<longleftrightarrow> (\<forall>cmds s r s'. of_check cmds \<longrightarrow> api cmds s = (r, s') \<longrightarrow> P s \<longrightarrow> P s')"

lemma of_check_simps [simp]:
  "of_check [IncrBy (quota_key t m) a, Expire (quota_key t m) (ttl m)]"
  "of_check [DecrBy (quota_key t m) a]" "of_check [Get (quota_key t m)]"
  by (auto simp: of_check_def)

lemma checks_keepD: "checks_keep api P \<Longrightarrow> api cmds s = (r, s') \<Longrightarrow> of_check cmds \<Longrightarrow> P s \<Longrightarrow> P s'"
  by (auto simp: checks_keep_def)

lemma check_body_keeps:
  assumes "checks_keep api P" and "P s" and "check_body api t m a i l s = (r, s')"
  shows "P s'"
  using assms(2,3)
  by (auto simp: check_body_def reserve_def settle_def read_check_def Let_def
      split: if_splits prod.splits sum.splits list.splits reply.splits
      dest!: checks_keepD [OF assms(1)])


lemma check_quota_keeps:
  assumes "checks_keep api P" and "P (q_redis q)"
  shows "P (q_redis (snd (check_quota api limits t m a i q)))"
  using check_body_keeps [OF assms] assms(2)
  by (auto simp: check_quota_def split: option.splits prod.splits sum.splits)

lemma quota_http_keeps:
  assumes "checks_keep api P" and "P (q_redis q)"
  shows "P (q_redis (snd (quota_http loads api limits verb rq q)))"
  using assms(2) check_quota_keeps [OF assms]
  by (simp add: quota_http_def do_POST_def case_prod_unfold split: option.split sum.split)

text \<open>
  Usage is recorded over gRPC only: the HTTP server has no route for it. A process without the stubs,
  as the image of the service is built, keeps what no check changes, whatever it is asked and however
  its Redis answers; a mark of a recorded event is such a thing.
\<close>

lemma http_only_records_no_usage:
  assumes "checks_keep api P"
  shows "P (q_redis q) \<Longrightarrow> P (q_redis (fold (after_request False has_field loads api limits) rqs q))"
proof (induction rqs arbitrary: q)
  case (Cons rq rqs)
  from Cons.prems have "P (q_redis (after_request False has_field loads api limits rq q))"
    by (cases rq) (simp_all add: after_request_def quota_http_keeps [OF assms])
  then show ?case using Cons.IH by simp
qed simp

lemma unmarked_kept: "checks_keep (ideal redis_run) (\<lambda>s. rs_db s (dedup_key e) = None)"
  unfolding checks_keep_def of_check_def
  by (auto simp: ideal_def add_counter_def set_deadline_def dedup_neq_quota split: option.split)

lemma never_marked:
  "rs_db (q_redis q) (dedup_key e) = None \<Longrightarrow>
   rs_db (q_redis (fold (after_request False has_field loads (ideal redis_run) limits) rqs q)) (dedup_key e) = None"
  by (rule http_only_records_no_usage [OF unmarked_kept])

end
