(* ===== verification/Spec2Isabelle.thy ===== *)
theory Spec2Isabelle
  imports Quota_Server Rag_Api Doc_Processor Embedding_Worker S3_Connector Nfs_Connector Operator Meta_Compose
    Bff_Tenancy Bff_Workspaces Bff_Quota Pipeline Upload_Path Sdk Schema_Laws Log_Context Isolation Whole_Document Startup Quota_Main
begin

text \<open>
  A model of the multi-tenant document pipeline of this repository: documents are picked up by
  connectors, cut into chunks, embedded and stored per tenant, and answered by a retrieval API, under
  quotas, with their lineage recorded, administered through a management API and a Kubernetes operator.

  \<^bold>\<open>How the parts interact.\<close> A connector (S3 or NFS) publishes raw document events on a Kafka topic and
  keeps a watermark. The document processor consumes them, fetches and parses the content, cuts it into
  chunks and publishes chunk events, committing the offset of the document afterwards. The embedding
  worker collects chunk events into batches, embeds them and upserts the rows into the Milvus collection
  of their tenant, then commits. The retrieval API answers queries of a tenant from its collection
  through a cache, behind a circuit breaker, and publishes usage. All of them announce entities on the
  metadata topic, which the metadata service consumes into the lineage tables and reports on. The quota
  service counts usage in Redis against limits from PostgreSQL; the management API (BFF) asks it before a
  connector is created. The BFF keeps connectors as config maps, from which the operator reconciles the
  Kubernetes objects of a connector and runs coordinated upgrades.

  \<^bold>\<open>Conventions.\<close> A service that talks to other systems is a program \<open>('w, 'a) prog\<close> over a world \<open>'w\<close>
  (\<open>Effects\<close>): it returns a value or an exception and the world after it. The calls it makes to Redis,
  Kafka, Milvus, PostgreSQL, MinIO, Kubernetes, Keycloak or another service are commands of a datatype,
  carried out by a parameter \<open>api\<close>; whatever is said about them is a named hypothesis stating their
  documented behaviour (\<open>implements\<close>, \<open>available\<close>, \<open>doc_world\<close>, \<open>milvus_world\<close>, \<open>dlq_world\<close>, \<open>mark_world\<close>,
  \<open>kube_world\<close>, \<open>clock_world\<close>, \<open>meta_world\<close>, \<open>cluster_world\<close>, \<open>ws_world\<close>, \<open>serves_routes\<close>,
  \<open>worker_world\<close>, \<open>retrieval_world\<close>, \<open>client_world\<close>), and a
  witness next to each property instantiates it with a concrete server. An exception is a class name and a
  message (\<open>exc\<close>); every \<open>raise\<close>, early return and \<open>except\<close> of the source is a branch. Fresh identifiers
  and clock readings are parameters. The parts of Python's library the behaviour depends on are written
  out: string, slice and integer operations, dictionaries, \<open>json.dumps\<close>, \<open>os.path.normpath\<close>, \<open>urlsplit\<close>,
  the parsers of \<open>ipaddress\<close> (with addresses as machine words), dynamic indexing of decoded JSON
  (\<open>Dynamic\<close>). Floating point values are rationals; strings are ASCII.

  \<^bold>\<open>The theories.\<close>

  \<^item> \<open>Prelude\<close>, \<open>Effects\<close>, \<open>Json\<close>, \<open>Dynamic\<close>, \<open>Redis\<close>, \<open>Kafka\<close>, \<open>Http\<close>: what the components share; the
    program logic is \<open>wp\<close> (weakest preconditions), \<open>keeps\<close> (invariance under every outcome) and \<open>logged\<close>
    (the commands issued). \<open>Events\<close>: the event classes, with their round trips.
  \<^item> \<open>Quota_Service\<close>, \<open>Quota_Limits\<close>, \<open>Quota_Server\<close> (\<open>services/quota-service/src\<close>): check, record and
    usage over Redis; the resolution of limits with its tables; the HTTP and gRPC handlers. The check
    refines an abstract counter; under any interleaving of reservations and rollbacks the admitted
    amounts stay within the limit; a recorded event counts once; a Redis error fails open.
  \<^item> \<open>Rag_Api\<close>, \<open>Circuit_Breaker\<close> (\<open>services/rag-api/src\<close>): cache keys, cache, guarded search, score filter
    and usage. No command of a query touches another tenant's entries; the breaker's state machine keeps
    its invariant and refuses, probes and closes as intended.
  \<^item> \<open>Chunker\<close>, \<open>Doc_Content\<close>, \<open>Doc_Processor\<close> (\<open>services/doc-processor/src\<close>): windows that cover the
    document, fetching with retries and parsers, one consumed message from decoding to commit. The offset
    is committed only after every chunk was handed to the producer, once and in order.
  \<^item> \<open>Embedding_Worker\<close>, \<open>Backends\<close> (\<open>services/embedding-worker/src\<close>, and \<open>backends.py\<close> of both
    services): batches, rows, the writer, dead letters. What is committed is stored; a batch is committed
    whole or dead-lettered whole.
  \<^item> \<open>Connectors\<close>, \<open>S3_Connector\<close>, \<open>Nfs_Connector\<close> (\<open>services/connector-s3/src\<close>, \<open>connector-nfs/src\<close>):
    publication with bounded retries, status rows, back-off, watermark and polls.
  \<^item> \<open>Meta_Store\<close>, \<open>Meta_Consumer\<close>, \<open>Meta_Lineage\<close>, \<open>Meta_Queries\<close>, \<open>Meta_Compose\<close>
    (\<open>services/metadata-service/src\<close>): the lineage tables and every SQL statement as functions on them, the
    consumer with its transactions, reports and schema versions. No run of the consumer breaks a
    constraint or joins two tenants; the recursive query is a walk of bounded length.
  \<^item> \<open>Kube_Client\<close>, \<open>Rbac\<close>, \<open>Operator\<close> (\<open>services/pipeline-operator\<close>): the in-cluster client, manifests,
    least privilege and the handlers. A reconcile and a delete change exactly the objects of the connector;
    an upgrade restarts nothing before the topic is drained, and the wait for it ends.
  \<^item> \<open>Bff_Auth\<close>, \<open>Bff_World\<close>, \<open>Ssrf\<close>, \<open>Browse_Path\<close>, \<open>Bff_Connectors\<close>, \<open>Bff_Tenancy\<close>, \<open>Bff_Workspaces\<close>,
    \<open>Bff_Tenants\<close>, \<open>Log_Context\<close> (\<open>services/bff/src\<close>): authentication, the outside of the API, the address
    and path checks, the endpoints of connectors, workspaces and tenants, the middleware. However many
    requests of other tenants are served, a tenant keeps its connectors and workspaces; the address check
    refuses exactly the internal blocks among dotted addresses, the path check admits exactly the paths
    below the prefix.
  \<^item> \<open>Migrations\<close>, \<open>Schema_Laws\<close> (\<open>db/alembic\<close>, \<open>db/alembic_metadata\<close>): the schema scripts as DDL over
    catalogs of both dialects. An upgrade adds exactly its tables beside whatever else is there and a
    downgrade restores the database; the invariants of the stores are the declared constraints; the
    services' statements fit the tables.
  \<^item> \<open>Configuration\<close>, \<open>Startup\<close>, \<open>Quota_Main\<close> (the \<open>config.py\<close> and \<open>main.py\<close> of the services): the tables of settings,
    secret files, Python's number parsing, and what each main function connects and hands to its loop.
    As wired, the services announce nothing on the metadata topic; a retrieval service that could not
    connect at its start never searches; a connector goes on polling whatever a poll raises; the quota
    service without its generated stubs, as its image is built, records no usage.
  \<^item> \<open>Bff_Quota\<close>, \<open>Upload_Path\<close>, \<open>Sdk\<close>: compositions around the BFF. Its quota check against the quota
    server; an upload and its only consumer; the client library against its routes (\<open>sdk/python\<close>).
  \<^item> \<open>Pipeline\<close>, \<open>Redelivery\<close>, \<open>Whole_Document\<close>, \<open>Isolation\<close>: compositions along the data path. A chunk from
    the document processor through Kafka, worker and collection to the answer of the retrieval API; what
    delivering a document again changes; a whole document given back by the rows its chunks were committed
    as, in whatever batches; worker batches and queries of all tenants interleaved on one store and one
    cache, where every answered result belongs to the tenant that asked.

  \<^bold>\<open>Interfaces.\<close> Contracts several components rely on are locales, interpreted on the models: \<open>admission\<close>
  (a checked counter, by the spaced quota checks), \<open>keyed_store\<close> (by the collections of the worker and the
  status table), \<open>codec\<close> (by the raw document and chunk events), \<open>tenant_scoped\<close> (requests of one
  tenant leave the view of another, by the connector and the workspace endpoints).

  \<^bold>\<open>Bounds and fuel.\<close> Only the operator's wait for a drained topic runs with fuel: it sleeps five seconds a
  pass, so \<open>drain_fuel\<close> (the passes that fit into the time-out, and two more) is never used up when time
  passes as asked (\<open>drain_terminates\<close>). The other loops are recursions over lists, over a counted number
  of retries (publication five, fetch, embedding and client library as in the source) or, in the chunker,
  terminate because the step is positive. The recursive queries stop at depth five upstream and four
  downstream. A consumer loop is modelled over the finite list of what it polls.

  \<^bold>\<open>Not modelled.\<close> Of process start-up, uvicorn's and kopf's own loops and the operator's start-up hook, which
  installs the in-cluster client; the alembic environments, which hold no logic beyond passing values on.
  Metrics, spans and log texts are left out, except for the counters the
  quota service exports and the fields of a log line. The sentence-transformers model, pydantic, python-jose
  and the clients of the services are parameters. The frontend (TypeScript), the Kong plugins (Lua), the OPA
  policy (Rego) and the Kubernetes manifests are other languages; of them only the status table of
  \<open>k8s/pipeline/db-init.yaml\<close> is modelled, because the connectors write it. The smoke tests and test
  suites were read for the intended behaviour.
\<close>

end
